(* ===== verification/Rounding.thy ===== *)
theory Rounding
  imports Complex_Main
begin

text \<open>
  Correct rounding of exact rationals to a floating-point format, written once for any base,
  precision and least exponent. Python's \<open>float\<close> (base 2, 53 digits, least exponent
  -1074) and its default \<open>decimal\<close> context (base 10, 28 digits) are both instances of
  the function \<open>fl_round\<close>, which rounds half to even. The locale \<open>rounding\<close>
  states the four laws every client proof uses (monotone, idempotent, odd, zero to zero), and
  \<open>rounding_error\<close> adds the error bound.
\<close>

section \<open>Exponents\<close>

function ilog :: "int \<Rightarrow> int \<Rightarrow> int" where
  "ilog b n = (if b \<le> 1 \<or> n < b then 0 else 1 + ilog b (n div b))"
  by pat_completeness auto
termination
  by (relation "measure (\<lambda>(b, n). nat n)") (auto simp: nat_less_iff int_div_less_self)

declare ilog.simps [simp del]

lemma ilog_nonneg: "0 \<le> ilog b n"
  by (induction b n rule: ilog.induct) (subst ilog.simps, auto)

lemma ilog_bounds:
  assumes "2 \<le> b" "1 \<le> n"
  shows "b ^ nat (ilog b n) \<le> n \<and> n < b ^ (nat (ilog b n) + 1)"
  using assms
proof (induction b n rule: ilog.induct)
  case (1 b n)
  show ?case
  proof (cases "n < b")
    case True
    with "1.prems" show ?thesis by (simp add: ilog.simps [of b n])
  next
    case False
    let ?k = "nat (ilog b (n div b))"
    have "1 \<le> n div b" using False "1.prems" by (simp add: pos_imp_zdiv_pos_iff int_one_le_iff_zero_less)
    with False "1.IH" "1.prems"
    have lo: "b ^ ?k \<le> n div b" and hi: "n div b < b ^ (?k + 1)" by auto
    have log: "nat (ilog b n) = ?k + 1"
      using False "1.prems" ilog_nonneg [of b "n div b"]
      by (subst ilog.simps) (simp add: nat_add_distrib)
    have "b * b ^ ?k \<le> b * (n div b)" using lo "1.prems" by (intro mult_left_mono) auto
    also have "\<dots> \<le> n" using "1.prems" by (simp add: mult.commute [of b] minus_mod_eq_div_mult [symmetric])
    finally have 1: "b * b ^ ?k \<le> n" .
    have "n mod b < b" using "1.prems" by simp
    then have "n < b * (n div b + 1)"
      using mult_div_mod_eq [of b n] unfolding distrib_left by linarith
    also have "\<dots> \<le> b * b ^ (?k + 1)" using hi "1.prems" by (intro mult_left_mono) auto
    finally show ?thesis using 1 log by simp
  qed
qed

definition expo :: "int \<Rightarrow> rat \<Rightarrow> int" where
  "expo b q =
     (let (n, d) = quotient_of \<bar>q\<bar>; k = ilog b n - ilog b d
      in if of_int b powi k \<le> \<bar>q\<bar> then k else k - 1)"

lemma powi_nat_int: "0 \<le> k \<Longrightarrow> (x :: rat) powi k = x ^ nat k"
  by (simp add: power_int_def)

lemma expo_bounds:
  assumes b: "2 \<le> b" and q: "q \<noteq> 0"
  shows "of_int b powi expo b q \<le> \<bar>q\<bar> \<and> \<bar>q\<bar> < of_int b powi (expo b q + 1)"
proof -
  obtain n d where nd: "quotient_of \<bar>q\<bar> = (n, d)" by (metis surj_pair)
  have d: "1 \<le> d" using quotient_of_denom_pos [OF nd] by simp
  have qe: "\<bar>q\<bar> = of_int n / of_int d" by (rule quotient_of_div [OF nd])
  have "0 < (of_int n :: rat) / of_int d" using q qe by (metis zero_less_abs_iff)
  then have n: "1 \<le> n" using d by (simp add: zero_less_divide_iff)
  let ?i = "ilog b n" and ?j = "ilog b d" and ?B = "of_int b :: rat"
  have B: "1 < ?B" "0 < ?B" using b by auto
  have lo_n: "?B powi ?i \<le> of_int n" and hi_n: "of_int n < ?B powi (?i + 1)"
    using ilog_bounds [OF b n] ilog_nonneg [of b n]
    by (auto simp: powi_nat_int nat_add_distrib simp flip: of_int_power of_int_mult)
  have lo_d: "?B powi ?j \<le> of_int d" and hi_d: "of_int d < ?B powi (?j + 1)"
    using ilog_bounds [OF b d] ilog_nonneg [of b d]
    by (auto simp: powi_nat_int nat_add_distrib simp flip: of_int_power of_int_mult)
  have "?B powi (?i - ?j - 1) = ?B powi ?i / ?B powi (?j + 1)"
    using B by (simp add: power_int_diff power_int_add field_simps)
  also have "\<dots> \<le> \<bar>q\<bar>" unfolding qe
    using lo_n hi_d n d B by (intro frac_le) auto
  finally have 1: "?B powi (?i - ?j - 1) \<le> \<bar>q\<bar>" .
  have "\<bar>q\<bar> < ?B powi (?i + 1) / ?B powi ?j" unfolding qe
    using hi_n lo_d d n B by (intro frac_less) auto
  also have "\<dots> = ?B powi (?i - ?j + 1)"
    using B by (simp add: power_int_diff power_int_add field_simps)
  finally have 2: "\<bar>q\<bar> < ?B powi (?i - ?j + 1)" .
  show ?thesis using 1 2 by (auto simp: expo_def nd Let_def)
qed

lemma expo_less:
  assumes "2 \<le> b" "q \<noteq> 0" "\<bar>q\<bar> < of_int b powi k"
  shows "expo b q < k"
proof -
  have less: "of_int b powi expo b q < (of_int b powi k :: rat)"
    using expo_bounds [OF assms(1,2)] assms(3) by linarith
  have "\<not> k \<le> expo b q"
    using less assms(1) power_int_increasing [of k "expo b q" "of_int b :: rat"] by auto
  then show ?thesis by simp
qed

lemma expo_mono:
  assumes "2 \<le> b" "x \<noteq> 0" "\<bar>x\<bar> \<le> \<bar>y\<bar>"
  shows "expo b x \<le> expo b y"
proof -
  have "y \<noteq> 0" using assms by auto
  then have "\<bar>x\<bar> < of_int b powi (expo b y + 1)" using expo_bounds [OF assms(1)] assms(3) by fastforce
  then show ?thesis using expo_less [OF assms(1,2)] by fastforce
qed

lemma expo_minus [simp]: "expo b (- q) = expo b q"
  by (simp add: expo_def)

section \<open>Rounding half to even\<close>

definition round_half_even :: "rat \<Rightarrow> int" where
  "round_half_even x =
     (let n = \<lfloor>x\<rfloor>; r = x - of_int n
      in if r < 1/2 then n else if 1/2 < r then n + 1 else if even n then n else n + 1)"

lemma round_half_even_of_int [simp]: "round_half_even (of_int n) = n"
  by (simp add: round_half_even_def)

lemma round_half_even_error: "\<bar>of_int (round_half_even x) - x\<bar> \<le> 1/2"
  by (simp add: round_half_even_def Let_def abs_if) linarith

lemma round_half_even_cases:
  "round_half_even x = \<lfloor>x\<rfloor> \<or> round_half_even x = \<lfloor>x\<rfloor> + 1"
  by (auto simp: round_half_even_def Let_def)

lemma round_half_even_mono:
  assumes "x \<le> y"
  shows "round_half_even x \<le> round_half_even y"
proof (cases "\<lfloor>x\<rfloor> = \<lfloor>y\<rfloor>")
  case True
  with assms show ?thesis by (auto simp: round_half_even_def Let_def)
next
  case False
  then have "\<lfloor>x\<rfloor> + 1 \<le> \<lfloor>y\<rfloor>" using floor_mono [OF assms] by simp
  then show ?thesis using round_half_even_cases [of x] round_half_even_cases [of y] by auto
qed

lemma round_half_even_minus: "round_half_even (- x) = - round_half_even x"
proof (cases "x = of_int \<lfloor>x\<rfloor>")
  case True
  then show ?thesis by (metis of_int_minus round_half_even_of_int)
next
  case False
  then have "\<lceil>x\<rceil> = \<lfloor>x\<rfloor> + 1" by (metis ceiling_altdef)
  then have "\<lfloor>- x\<rfloor> = - \<lfloor>x\<rfloor> - 1" by (simp add: floor_minus)
  then show ?thesis by (auto simp: round_half_even_def Let_def)
qed

section \<open>Rounding to a format\<close>

text \<open>
  \<open>quantum b p e q\<close> is the unit in the last place of \<open>q\<close> in the format with base
  \<open>b\<close>, \<open>p\<close> digits and least exponent \<open>e\<close>; below it a subnormal keeps the
  least exponent.
\<close>

definition quantum :: "int \<Rightarrow> int \<Rightarrow> int \<Rightarrow> rat \<Rightarrow> rat" where
  "quantum b p e q = of_int b powi (max (expo b q - p + 1) e)"

definition fl_round :: "int \<Rightarrow> int \<Rightarrow> int \<Rightarrow> rat \<Rightarrow> rat" where
  "fl_round b p e q =
     (if q = 0 then 0
      else let u = quantum b p e q in of_int (round_half_even (q / u)) * u)"

lemma quantum_pos: "2 \<le> b \<Longrightarrow> 0 < quantum b p e q"
  by (simp add: quantum_def)

lemma fl_round_zero [simp]: "fl_round b p e 0 = 0"
  by (simp add: fl_round_def)

lemma fl_round_minus: "fl_round b p e (- q) = - fl_round b p e q"
  by (simp add: fl_round_def quantum_def Let_def round_half_even_minus)

lemma fl_round_nonneg:
  assumes "2 \<le> b" "0 \<le> q"
  shows "0 \<le> fl_round b p e q"
proof -
  have "round_half_even 0 \<le> round_half_even (q / quantum b p e q)"
    using assms quantum_pos [OF assms(1), of p e q] by (intro round_half_even_mono) simp
  then show ?thesis
    using round_half_even_of_int [of 0] quantum_pos [OF assms(1), of p e q]
    by (simp add: fl_round_def Let_def)
qed

text \<open>An integral multiple of the quantum that bounds \<open>q\<close> bounds its rounding.\<close>

lemma fl_round_le_multiple:
  assumes "2 \<le> b" "q \<le> of_int k * quantum b p e q" "q \<noteq> 0"
  shows "fl_round b p e q \<le> of_int k * quantum b p e q"
proof -
  let ?u = "quantum b p e q"
  have u: "0 < ?u" by (rule quantum_pos [OF assms(1)])
  then have "q / ?u \<le> of_int k" using assms(2) by (simp add: pos_divide_le_eq)
  then have "round_half_even (q / ?u) \<le> k" using round_half_even_mono by fastforce
  then show ?thesis using u assms(3) by (simp add: fl_round_def Let_def mult_right_mono)
qed

lemma fl_round_ge_multiple:
  assumes "2 \<le> b" "of_int k * quantum b p e q \<le> q" "q \<noteq> 0"
  shows "of_int k * quantum b p e q \<le> fl_round b p e q"
proof -
  let ?u = "quantum b p e q"
  have u: "0 < ?u" by (rule quantum_pos [OF assms(1)])
  then have "of_int k \<le> q / ?u" using assms(2) by (simp add: pos_le_divide_eq)
  then have "k \<le> round_half_even (q / ?u)" using round_half_even_mono by fastforce
  then show ?thesis using u assms(3) by (simp add: fl_round_def Let_def mult_right_mono)
qed

lemma fl_round_mono_pos:
  assumes b: "2 \<le> b" and p: "1 \<le> p" and x: "0 < x" and le: "x \<le> y"
  shows "fl_round b p e x \<le> fl_round b p e y"
proof (cases "quantum b p e x = quantum b p e y")
  case True
  have "x / quantum b p e y \<le> y / quantum b p e y"
    using le quantum_pos [OF b, of p e y] by (simp add: divide_right_mono)
  then show ?thesis
    using True x le quantum_pos [OF b, of p e y]
    by (auto simp: fl_round_def Let_def intro!: mult_right_mono round_half_even_mono)
next
  case False
  let ?B = "of_int b :: rat"
  let ?ex = "max (expo b x - p + 1) e" and ?ey = "expo b y - p + 1"
  have B: "1 < ?B" using b by simp
  have exy: "expo b x \<le> expo b y" using expo_mono [OF b, of x y] x le by simp
  have "expo b x \<noteq> expo b y" using False by (auto simp: quantum_def)
  then have lt: "?ex < ?ey" "expo b x < expo b y" "e < ?ey"
    using False exy by (auto simp: quantum_def max_def split: if_splits)
  define m where "m = max (expo b x + 1) e"
  have m: "?ex \<le> m" "m \<le> expo b y" using lt p by (auto simp: m_def)
  have "x \<le> ?B powi m"
    using expo_bounds [OF b, of x] x power_int_increasing [of "expo b x + 1" m ?B] B
    by (auto simp: m_def)
  also have "?B powi m = of_int (b ^ nat (m - ?ex)) * quantum b p e x"
    using m B by (simp add: quantum_def powi_nat_int [symmetric] power_int_add [symmetric])
  finally have "fl_round b p e x \<le> of_int (b ^ nat (m - ?ex)) * quantum b p e x"
    using fl_round_le_multiple [OF b] x by blast
  also have "\<dots> = ?B powi m"
    using m B by (simp add: quantum_def powi_nat_int [symmetric] power_int_add [symmetric])
  also have "\<dots> \<le> ?B powi expo b y" using m B by (simp add: power_int_increasing)
  also have "\<dots> = of_int (b ^ nat (p - 1)) * quantum b p e y"
    using lt p B
    by (simp add: quantum_def powi_nat_int [symmetric] power_int_add [symmetric] max_def)
  also have "\<dots> \<le> fl_round b p e y"
  proof (rule fl_round_ge_multiple [OF b])
    have "of_int (b ^ nat (p - 1)) * quantum b p e y = ?B powi expo b y"
      using lt p B
      by (simp add: quantum_def powi_nat_int [symmetric] power_int_add [symmetric] max_def)
    then show "of_int (b ^ nat (p - 1)) * quantum b p e y \<le> y"
      using expo_bounds [OF b, of y] x le by simp
  qed (use x le in simp)
  finally show ?thesis .
qed

lemma fl_round_mono:
  assumes b: "2 \<le> b" and p: "1 \<le> p" and le: "x \<le> y"
  shows "fl_round b p e x \<le> fl_round b p e y"
proof -
  consider "0 < x" | "x \<le> 0" "0 \<le> y" | "y < 0" by linarith
  then show ?thesis
  proof cases
    case 1
    then show ?thesis using fl_round_mono_pos [OF b p] le by blast
  next
    case 2
    then show ?thesis
      using fl_round_nonneg [OF b, of y p e] fl_round_nonneg [OF b, of "- x" p e]
      by (simp add: fl_round_minus)
  next
    case 3
    then show ?thesis
      using fl_round_mono_pos [OF b p, of "- y" "- x" e] le by (simp add: fl_round_minus)
  qed
qed

section \<open>Representable numbers\<close>

definition representable :: "int \<Rightarrow> int \<Rightarrow> int \<Rightarrow> rat \<Rightarrow> bool" where
  "representable b p e q \<longleftrightarrow>
     (\<exists>m k. q = of_int m * of_int b powi k \<and> \<bar>m\<bar> < b ^ nat p \<and> e \<le> k)"

lemma representableI:
  "q = of_int m * of_int b powi k \<Longrightarrow> \<bar>m\<bar> < b ^ nat p \<Longrightarrow> e \<le> k \<Longrightarrow> representable b p e q"
  unfolding representable_def by blast

lemma fl_round_representable:
  assumes b: "2 \<le> b" and p: "1 \<le> p" and r: "representable b p e q"
  shows "fl_round b p e q = q"
proof (cases "q = 0")
  case False
  let ?B = "of_int b :: rat"
  obtain m k where q: "q = of_int m * ?B powi k" and m: "\<bar>m\<bar> < b ^ nat p" and k: "e \<le> k"
    using r by (auto simp: representable_def)
  have B: "1 < ?B" using b by simp
  have "\<bar>q\<bar> = of_int \<bar>m\<bar> * ?B powi k" using q B by (simp add: abs_mult)
  also have "\<dots> < ?B ^ nat p * ?B powi k"
    using m B by (intro mult_strict_right_mono) (auto simp flip: of_int_power)
  also have "\<dots> = ?B powi (p + k)" using p B by (simp add: powi_nat_int [symmetric] power_int_add)
  finally have "expo b q < p + k" by (rule expo_less [OF b False])
  then have j: "max (expo b q - p + 1) e \<le> k" (is "?j \<le> k") using k by simp
  define u where "u = quantum b p e q"
  have "?B powi k = of_int (b ^ nat (k - ?j)) * u"
    using j B by (simp add: u_def quantum_def powi_nat_int [symmetric] power_int_add [symmetric])
  then have "q = of_int (m * b ^ nat (k - ?j)) * u" using q by simp
  moreover have "u \<noteq> 0" using quantum_pos [OF b, of p e q] by (simp add: u_def)
  ultimately have "q / u = of_int (m * b ^ nat (k - ?j))" and "u \<noteq> 0"
    by (metis nonzero_mult_div_cancel_right)+
  then have "of_int (round_half_even (q / u)) * u = q"
    by (metis nonzero_eq_divide_eq round_half_even_of_int)
  then show ?thesis using False by (simp add: fl_round_def u_def Let_def)
qed simp

lemma representable_fl_round:
  assumes b: "2 \<le> b" and p: "1 \<le> p"
  shows "representable b p e (fl_round b p e q)"
proof (cases "q = 0")
  case True
  then show ?thesis using b by (auto intro!: representableI [of _ 0 _ e])
next
  case False
  let ?B = "of_int b :: rat" and ?j = "max (expo b q - p + 1) e"
  define n where "n = round_half_even (q / quantum b p e q)"
  have B: "1 < ?B" using b by simp
  have fl: "fl_round b p e q = of_int n * ?B powi ?j"
    using False by (simp add: fl_round_def n_def Let_def quantum_def)
  have u: "0 < quantum b p e q" by (rule quantum_pos [OF b])
  have "expo b q + 1 \<le> p + ?j" by simp
  then have "?B powi (expo b q + 1) \<le> ?B powi (p + ?j)" using B by (simp only: power_int_increasing)
  then have "\<bar>q\<bar> \<le> ?B powi (p + ?j)" using expo_bounds [OF b False] by linarith
  also have "\<dots> = of_int (b ^ nat p) * quantum b p e q"
    using p B by (simp add: quantum_def powi_nat_int [symmetric] power_int_add)
  finally have "\<bar>q / quantum b p e q\<bar> \<le> of_int (b ^ nat p)"
    using u by (simp add: pos_divide_le_eq)
  then have "- of_int (b ^ nat p) \<le> q / quantum b p e q" "q / quantum b p e q \<le> of_int (b ^ nat p)"
    unfolding abs_le_iff by linarith+
  then have "round_half_even (- of_int (b ^ nat p)) \<le> n" "n \<le> round_half_even (of_int (b ^ nat p))"
    unfolding n_def by (blast intro: round_half_even_mono)+
  then have n: "\<bar>n\<bar> \<le> b ^ nat p" by (simp add: round_half_even_minus abs_le_iff del: of_int_power)
  show ?thesis
  proof (cases "\<bar>n\<bar> = b ^ nat p")
    case False
    then show ?thesis using n fl by (auto intro: representableI)
  next
    case True
    have "fl_round b p e q = of_int (sgn n) * ?B powi (p + ?j)"
    proof -
      have "n = sgn n * b ^ nat p" using True by (metis sgn_mult_abs)
      then have "(of_int n :: rat) = of_int (sgn n) * ?B powi p"
        using p by (metis of_int_mult of_int_power powi_nat_int zero_le_one order_trans)
      then show ?thesis using B unfolding fl by (simp add: power_int_add)
    qed
    moreover have "\<bar>sgn n\<bar> < b ^ nat p"
      using b p one_less_power [of b "nat p"] by (auto simp: sgn_if)
    ultimately show ?thesis using p by (intro representableI [of _ "sgn n" _ "p + ?j"]) auto
  qed
qed

lemma fl_round_idem:
  "2 \<le> b \<Longrightarrow> 1 \<le> p \<Longrightarrow> fl_round b p e (fl_round b p e q) = fl_round b p e q"
  by (simp add: fl_round_representable representable_fl_round)

lemma fl_round_error:
  assumes b: "2 \<le> b" and p: "1 \<le> p"
  shows "\<bar>fl_round b p e q - q\<bar> \<le> \<bar>q\<bar> * of_int b powi (1 - p) / 2 + of_int b powi e / 2"
proof (cases "q = 0")
  case False
  let ?B = "of_int b :: rat" and ?u = "quantum b p e q"
  have B: "1 < ?B" using b by simp
  have u: "0 < ?u" by (rule quantum_pos [OF b])
  have "fl_round b p e q - q = (of_int (round_half_even (q / ?u)) - q / ?u) * ?u"
    using False u by (simp add: fl_round_def Let_def left_diff_distrib)
  then have "\<bar>fl_round b p e q - q\<bar> \<le> 1/2 * ?u"
    using round_half_even_error [of "q / ?u"] u by (simp add: abs_mult mult_right_mono)
  also have "?u \<le> ?B powi (expo b q + (1 - p)) + ?B powi e"
    using B by (auto simp: quantum_def max_def algebra_simps)
  also have "?B powi (expo b q + (1 - p)) = ?B powi expo b q * ?B powi (1 - p)"
    using B by (simp add: power_int_add)
  also have "\<dots> \<le> \<bar>q\<bar> * ?B powi (1 - p)"
    using expo_bounds [OF b False] B by (intro mult_right_mono) auto
  finally show ?thesis by simp
qed (use b in simp)

section \<open>What a client may rely on\<close>

locale rounding =
  fixes rnd :: "rat \<Rightarrow> rat"
  assumes rnd_mono: "x \<le> y \<Longrightarrow> rnd x \<le> rnd y"
    and rnd_idem [simp]: "rnd (rnd x) = rnd x"
    and rnd_minus: "rnd (- x) = - rnd x"
    and rnd_zero [simp]: "rnd 0 = 0"
begin

lemma rnd_nonneg: "0 \<le> x \<Longrightarrow> 0 \<le> rnd x"
  using rnd_mono [of 0 x] by simp

lemma rnd_nonpos: "x \<le> 0 \<Longrightarrow> rnd x \<le> 0"
  using rnd_mono [of x 0] by simp

lemma rnd_le_fixed: "x \<le> y \<Longrightarrow> rnd y = y \<Longrightarrow> rnd x \<le> y"
  using rnd_mono [of x y] by simp

lemma rnd_ge_fixed: "y \<le> x \<Longrightarrow> rnd y = y \<Longrightarrow> y \<le> rnd x"
  using rnd_mono [of y x] by simp

lemma rnd_abs: "rnd \<bar>x\<bar> = \<bar>rnd x\<bar>"
  using rnd_nonneg [of x] rnd_nonpos [of x] by (cases "0 \<le> x") (auto simp: rnd_minus)

lemma rnd_min: "rnd (min x y) = min (rnd x) (rnd y)"
  by (metis min_absorb1 min_absorb2 linear rnd_mono)

lemma rnd_max: "rnd (max x y) = max (rnd x) (rnd y)"
  by (metis max_absorb1 max_absorb2 linear rnd_mono)

lemma rnd_less_cancel: "rnd x < rnd y \<Longrightarrow> x < y"
  using rnd_mono [of y x] by force

end

locale rounding_error = rounding +
  fixes eps eta :: rat
  assumes rnd_error: "\<bar>rnd x - x\<bar> \<le> \<bar>x\<bar> * eps + eta"
    and eps_half: "0 \<le> eps" "eps \<le> 1/2" and eta_nonneg: "0 \<le> eta"
begin

lemma rnd_upper: "0 \<le> x \<Longrightarrow> rnd x \<le> x * (1 + eps) + eta"
  using rnd_error [of x] by (simp add: algebra_simps abs_if split: if_splits)

lemma rnd_lower: "0 \<le> x \<Longrightarrow> x * (1 - eps) - eta \<le> rnd x"
  using rnd_error [of x] by (simp add: algebra_simps abs_if split: if_splits)

end

text \<open>
  The two formats of the program: IEEE binary64, and the default decimal context of 28 digits
  whose least exponent is \<open>Emin - (prec - 1)\<close> = -999999 - 27.
\<close>

definition rnd64 :: "rat \<Rightarrow> rat" where
  "rnd64 = fl_round 2 53 (-1074)"

definition decimal_etiny :: int where
  "decimal_etiny = -1000026"

definition rnd28 :: "rat \<Rightarrow> rat" where
  "rnd28 = fl_round 10 28 decimal_etiny"

interpretation b64: rounding_error rnd64 "2 powi (-52) / 2" "2 powi (-1074) / 2"
proof unfold_locales
  fix x :: rat
  show "\<bar>rnd64 x - x\<bar> \<le> \<bar>x\<bar> * (2 powi (-52) / 2) + 2 powi (-1074) / 2"
    using fl_round_error [where b = 2 and p = 53 and e = "-1074" and q = x] by (simp add: rnd64_def)
qed (auto simp: rnd64_def fl_round_mono fl_round_idem fl_round_minus power_int_def power_le_one)

interpretation d28: rounding_error rnd28 "10 powi (-27) / 2" "10 powi decimal_etiny / 2"
proof unfold_locales
  fix x :: rat
  show "\<bar>rnd28 x - x\<bar> \<le> \<bar>x\<bar> * (10 powi (-27) / 2) + 10 powi decimal_etiny / 2"
    using fl_round_error [where b = 10 and p = 28 and e = decimal_etiny and q = x] by (simp add: rnd28_def)
qed (auto simp: rnd28_def fl_round_mono fl_round_idem fl_round_minus power_int_def power_le_one)

lemma rnd64_representable: "representable 2 53 (-1074) x \<Longrightarrow> rnd64 x = x"
  by (simp add: rnd64_def fl_round_representable)

lemma rnd64_of_int: "\<bar>n\<bar> < 2 ^ 53 \<Longrightarrow> rnd64 (of_int n) = of_int n"
  by (rule rnd64_representable, rule representableI [of _ n _ 0]) auto

lemma rnd28_representable: "representable 10 28 decimal_etiny x \<Longrightarrow> rnd28 x = x"
  by (simp add: rnd28_def fl_round_representable)

lemma rnd28_of_int: "\<bar>n\<bar> < 10 ^ 28 \<Longrightarrow> rnd28 (of_int n) = of_int n"
  by (rule rnd28_representable, rule representableI [of _ n _ 0]) (auto simp: decimal_etiny_def)

section \<open>Evaluation\<close>

text \<open>
  Equations that evaluate the two roundings on integers, with powers by squaring, so that a
  concrete case costs few steps. They change nothing about what the functions are.
\<close>

function int_power :: "int \<Rightarrow> int \<Rightarrow> int" where
  "int_power b k =
     (if k \<le> 0 then 1
      else if k mod 2 = 0 then int_power (b * b) (k div 2) else b * int_power (b * b) (k div 2))"
  by pat_completeness auto
termination by (relation "measure (\<lambda>(b, k). nat k)") auto

declare int_power.simps [simp del]

lemma int_power_eq: "int_power b k = b ^ nat k"
proof (induction b k rule: int_power.induct)
  case (1 b k)
  show ?case
  proof (cases "k \<le> 0")
    case False
    have sq: "(b * b) ^ nat (k div 2) = b ^ (2 * nat (k div 2))" by (simp add: power_mult power2_eq_square)
    show ?thesis
    proof (cases "k mod 2 = 0")
      case True
      then have "k = 2 * (k div 2)" by presburger
      then obtain m where "k = 2 * m" by blast
      then have "nat k = 2 * nat (k div 2)" by (simp add: nat_mult_distrib)
      then show ?thesis using False True 1 sq by (simp add: int_power.simps [of b k])
    next
      case odd: False
      then have "k = 2 * (k div 2) + 1" by presburger
      then obtain m where "k = 2 * m + 1" by blast
      then have "nat k = Suc (2 * nat (k div 2))" using False by (simp add: nat_add_distrib nat_mult_distrib)
      then show ?thesis using False odd 1 sq by (simp add: int_power.simps [of b k])
    qed
  qed (simp add: int_power.simps [of b k])
qed

lemma ilog_exec [code]:
  "ilog b n =
     (if b \<le> 1 \<or> n < b then 0
      else let c = int_power b 16 in if c \<le> n then 16 + ilog b (n div c) else 1 + ilog b (n div b))"
proof -
  have step: "ilog b (n * 1) = int j + ilog b (n div b ^ j)" if "2 \<le> b" "b ^ j \<le> n" for j
    using that(2)
  proof (induction j arbitrary: n)
    case (Suc j)
    have pos: "0 < b ^ j" using that(1) by simp
    then have "b * 1 \<le> b * b ^ j" using that(1) by (intro mult_left_mono) auto
    then have bn: "b \<le> n" using Suc.prems by simp
    have "b ^ j \<le> n div b"
      using zdiv_mono1 [OF Suc.prems, of b] that(1) by simp
    then have "ilog b (n div b) = int j + ilog b (n div b div b ^ j)" using Suc.IH [of "n div b"] by simp
    then show ?case using bn that(1) by (subst ilog.simps) (simp add: zdiv_zmult2_eq)
  qed simp
  show ?thesis
  proof (cases "b \<le> 1 \<or> n < b")
    case True
    then show ?thesis by (subst ilog.simps) simp
  next
    case False
    then show ?thesis
      using step [of 16] by (subst ilog.simps) (simp add: int_power_eq Let_def ilog.simps [of b n])
  qed
qed

definition half_even_div :: "int \<Rightarrow> int \<Rightarrow> int" where
  "half_even_div n d =
     (let m = n div d; r = 2 * (n mod d)
      in if r < d then m else if d < r then m + 1 else if m mod 2 = 0 then m else m + 1)"

lemma half_even_div_eq: "0 < d \<Longrightarrow> round_half_even (of_int n / of_int d) = half_even_div n d"
proof -
  assume d: "0 < d"
  let ?x = "(of_int n / of_int d) :: rat"
  have fl: "\<lfloor>?x\<rfloor> = n div d" by (rule floor_divide_of_int_eq)
  have "(of_int n :: rat) = of_int (n div d) * of_int d + of_int (n mod d)"
    by (metis of_int_add of_int_mult div_mult_mod_eq)
  then have r: "?x - of_int (n div d) = of_int (n mod d) / of_int d" using d by (simp add: field_simps)
  have "of_int m / of_int d < (1/2 :: rat) \<longleftrightarrow> of_int (2 * m) < (of_int d :: rat)"
    "(1/2 :: rat) < of_int m / of_int d \<longleftrightarrow> (of_int d :: rat) < of_int (2 * m)" for m
    using d by (simp_all add: pos_divide_less_eq pos_less_divide_eq mult.commute)
  then have "?x - of_int (n div d) < 1/2 \<longleftrightarrow> 2 * (n mod d) < d" "1/2 < ?x - of_int (n div d) \<longleftrightarrow> d < 2 * (n mod d)"
    unfolding r by (simp_all only: of_int_less_iff)
  then show ?thesis
    unfolding round_half_even_def fl Let_def half_even_div_def by (simp add: even_iff_mod_2_eq_zero)
qed

definition expo_of :: "int \<Rightarrow> int \<Rightarrow> int \<Rightarrow> int" where
  "expo_of b n d =
     (let k = ilog b n - ilog b d
      in if (if 0 \<le> k then int_power b k * d \<le> n else d \<le> n * int_power b (- k)) then k else k - 1)"

definition fl_exec :: "int \<Rightarrow> int \<Rightarrow> int \<Rightarrow> rat \<Rightarrow> rat" where
  "fl_exec b p e q =
     (let (n, d) = quotient_of q
      in if n = 0 then 0
         else let k = max (expo_of b \<bar>n\<bar> d - p + 1) e
           in if 0 \<le> k then of_int (half_even_div n (d * int_power b k) * int_power b k)
              else of_int (half_even_div (n * int_power b (- k)) d) / of_int (int_power b (- k)))"

lemma expo_of_eq:
  assumes "2 \<le> b" "quotient_of q = (n, d)"
  shows "expo b q = expo_of b \<bar>n\<bar> d"
proof -
  have d: "0 < d" and q: "q = of_int n / of_int d"
    using quotient_of_denom_pos [OF assms(2)] quotient_of_div [OF assms(2)] by auto
  have abs: "quotient_of \<bar>q\<bar> = (\<bar>n\<bar>, d)"
    using assms(2) by (simp add: rat_abs_code)
  let ?k = "ilog b \<bar>n\<bar> - ilog b d"
  have qa: "\<bar>q\<bar> = of_int \<bar>n\<bar> / of_int d" using d q by simp
  have "of_int b powi ?k \<le> \<bar>q\<bar> \<longleftrightarrow> (if 0 \<le> ?k then int_power b ?k * d \<le> \<bar>n\<bar> else d \<le> \<bar>n\<bar> * int_power b (- ?k))"
  proof (cases "0 \<le> ?k")
    case True
    have "of_int b powi ?k \<le> \<bar>q\<bar> \<longleftrightarrow> of_int (int_power b ?k * d) \<le> (of_int \<bar>n\<bar> :: rat)"
      unfolding qa using True d by (simp add: pos_le_divide_eq powi_nat_int int_power_eq)
    then show ?thesis using True by (simp only: of_int_le_iff if_True)
  next
    case False
    have "of_int b powi ?k = 1 / (of_int (b ^ nat (- ?k)) :: rat)"
      using False by (simp add: power_int_def inverse_eq_divide power_one_over)
    moreover have "0 < (of_int (b ^ nat (- ?k)) :: rat)" using assms(1) by simp
    ultimately have "of_int b powi ?k \<le> \<bar>q\<bar> \<longleftrightarrow> of_int d \<le> (of_int (\<bar>n\<bar> * int_power b (- ?k)) :: rat)"
      unfolding qa using d by (simp add: divide_le_eq le_divide_eq int_power_eq field_simps)
    then show ?thesis using False by (simp only: of_int_le_iff if_False)
  qed
  then show ?thesis by (simp add: expo_def expo_of_def abs Let_def)
qed

lemma fl_round_exec:
  assumes "2 \<le> b"
  shows "fl_round b p e q = fl_exec b p e q"
proof -
  obtain n d where nd: "quotient_of q = (n, d)" by force
  have d: "0 < d" and q: "q = of_int n / of_int d"
    using quotient_of_denom_pos [OF nd] quotient_of_div [OF nd] by auto
  define k where "k = max (expo_of b \<bar>n\<bar> d - p + 1) e"
  have u: "quantum b p e q = of_int b powi k" by (simp add: quantum_def k_def expo_of_eq [OF assms nd])
  show ?thesis
  proof (cases "n = 0")
    case True
    then show ?thesis using q by (simp add: fl_exec_def nd)
  next
    case False
    then have q0: "q \<noteq> 0" using d q by simp
    show ?thesis
    proof (cases "0 \<le> k")
      case True
      have pos: "0 < d * b ^ nat k" using d assms by simp
      have "q / of_int b powi k = of_int n / of_int (d * b ^ nat k)"
        using True by (simp add: q powi_nat_int)
      then show ?thesis
        using True False q0 half_even_div_eq [OF pos, of n]
        by (simp add: fl_round_def fl_exec_def nd u k_def [symmetric] Let_def int_power_eq powi_nat_int)
    next
      case neg: False
      then have p: "of_int b powi k = 1 / (of_int (b ^ nat (- k)) :: rat)"
        by (simp add: power_int_def inverse_eq_divide power_one_over)
      then have "q / of_int b powi k = of_int (n * b ^ nat (- k)) / of_int d" by (simp add: q)
      then show ?thesis
        using neg False q0 half_even_div_eq [OF d, of "n * b ^ nat (- k)"]
        by (simp add: fl_round_def fl_exec_def nd u k_def [symmetric] Let_def int_power_eq p)
    qed
  qed
qed

text \<open>A number with few digits below the point is exact, so that evaluation skips its rounding.\<close>

lemma short_quotient:
  assumes "quotient_of q = (n, d)" "2 \<le> b" "b ^ j mod d = 0"
  shows "q = of_int (n * (b ^ j div d)) * of_int b powi (- int j)"
proof -
  obtain c where c: "b ^ j = d * c" using assms(3) by (metis mod_0_imp_dvd dvd_def)
  have d: "0 < d" using quotient_of_denom_pos [OF assms(1)] .
  have "(of_int b :: rat) powi (- int j) = 1 / of_int (b ^ j)" by (simp add: power_int_minus divide_inverse)
  moreover have "c \<noteq> 0" using c assms(2) by auto
  ultimately show ?thesis using d c quotient_of_div [OF assms(1)] by simp
qed

lemma rnd28_short:
  assumes "quotient_of q = (n, d)" "10000000000 mod d = 0" "\<bar>n\<bar> * (10000000000 div d) < 10 ^ 28"
  shows "rnd28 q = q"
proof -
  have d: "0 < d" using quotient_of_denom_pos [OF assms(1)] .
  have "q = of_int (n * (10000000000 div d)) * 10 powi (- 10)"
    using short_quotient [of q n d 10 10] assms(1,2) by simp
  moreover have "\<bar>n * (10000000000 div d)\<bar> < 10 ^ 28"
    using assms(3) d by (simp add: abs_mult pos_imp_zdiv_nonneg_iff)
  ultimately show ?thesis
    by (intro rnd28_representable representableI [of _ "n * (10000000000 div d)" _ "- 10"])
      (auto simp: decimal_etiny_def)
qed

lemma rnd64_exec [code]: "rnd64 q = fl_exec 2 53 (-1074) q"
  by (simp add: rnd64_def fl_round_exec)

lemma rnd28_exec [code]:
  "rnd28 q =
     (case quotient_of q of (n, d) \<Rightarrow>
        if 10000000000 mod d = 0 \<and> \<bar>n\<bar> * (10000000000 div d) < 10000000000000000000000000000 then q
        else fl_exec 10 28 decimal_etiny q)"
proof -
  obtain n d where nd: "quotient_of q = (n, d)" by force
  show ?thesis
    using rnd28_short [OF nd] by (simp add: nd) (simp add: rnd28_def fl_round_exec)
qed

lemma expo_exec [code]:
  "expo b q =
     (case quotient_of q of (n, d) \<Rightarrow>
        if 2 \<le> b then expo_of b \<bar>n\<bar> d
        else (case quotient_of \<bar>q\<bar> of (n, d) \<Rightarrow>
          let k = ilog b n - ilog b d in if of_int b powi k \<le> \<bar>q\<bar> then k else k - 1))"
  using expo_of_eq [of b q] by (auto simp: expo_def split: prod.split)

end
