(* ===== verification/Prelude.thy ===== *)
theory Prelude
  imports Rounding "HOL-Library.AList"
begin

text \<open>
  What every component shares: Python's exceptions as values, its \<open>float\<close> (IEEE
  binary64 with infinities and NaN, every operation rounded by \<open>rnd64\<close>), the parts of
  \<open>str\<close>, \<open>datetime\<close> and \<open>dict\<close> that the source uses, and the lemma
  collections the component proofs add to \<open>simp\<close>.
\<close>

named_theorems float_simps "evaluation of float operations on finite operands"
named_theorems gate_simps "definitions of gates that a safety proof unfolds"

section \<open>Exceptions\<close>

text \<open>
  One constructor per exception class the source raises or catches. The string is the message
  where the source distinguishes nothing by it; interpolated values are left out of it.
\<close>

datatype pyerr =
    ValueError string
  | TypeError string
  | ArithmeticError string
  | AssertionError string
  | RuntimeError string

type_synonym 'a res = "pyerr + 'a"

fun ebind :: "'a res \<Rightarrow> ('a \<Rightarrow> 'b res) \<Rightarrow> 'b res" where
  "ebind (Inl e) f = Inl e"
| "ebind (Inr x) f = f x"

lemma ebind_Inr_iff [simp]: "ebind m f = Inr y \<longleftrightarrow> (\<exists>x. m = Inr x \<and> f x = Inr y)"
  by (cases m) auto

lemma ebind_Inl_iff: "ebind m f = Inl e \<longleftrightarrow> m = Inl e \<or> (\<exists>x. m = Inr x \<and> f x = Inl e)"
  by (cases m) auto

definition require :: "bool \<Rightarrow> pyerr \<Rightarrow> unit res" where
  "require c e = (if c then Inr () else Inl e)"

lemma require_Inr [simp]: "require c e = Inr u \<longleftrightarrow> c"
  by (simp add: require_def)

lemma require_Inl [simp]: "require c e = Inl e' \<longleftrightarrow> \<not> c \<and> e' = e"
  by (auto simp: require_def)

fun ok :: "'a res \<Rightarrow> bool" where
  "ok (Inl _) = False"
| "ok (Inr _) = True"

lemma ok_iff: "ok r \<longleftrightarrow> (\<exists>x. r = Inr x)"
  by (cases r) auto

section \<open>Floats\<close>

text \<open>
  A finite float is the rational it denotes. The two zeros are one value: the source never
  divides by a zero (Python raises), so their sign is not observable except in formatted text.
  HOL's \<open>=\<close> on this type is identity; Python's \<open>==\<close> is \<open>feq\<close>.
\<close>

datatype pyfloat = Fin rat | PInf | NInf | NaN

fun isfinite :: "pyfloat \<Rightarrow> bool" where
  "isfinite (Fin _) = True"
| "isfinite _ = False"

lemma isfinite_iff: "isfinite x \<longleftrightarrow> (\<exists>q. x = Fin q)"
  by (cases x) auto

lemma isfiniteE: "isfinite x \<Longrightarrow> (\<And>q. x = Fin q \<Longrightarrow> P) \<Longrightarrow> P"
  by (cases x) auto

text \<open>Overflow: a magnitude that rounds to \<open>2 ^ 1024\<close> or more is an infinity.\<close>

definition to_float :: "rat \<Rightarrow> pyfloat" where
  "to_float q =
     (let r = rnd64 q
      in if 2 ^ 1024 \<le> r then PInf else if r \<le> - (2 ^ 1024) then NInf else Fin r)"

text \<open>The limit as a literal, so that evaluation does not multiply it out each time.\<close>

definition float_limit :: rat where
  "float_limit = 0x10000000000000000000000000000000000000000000000000000000000000000000000000000000000000000000000000000000000000000000000000000000000000000000000000000000000000000000000000000000000000000000000000000000000000000000000000000000000000000000000000000000000000000"

lemma float_limit: "float_limit = 2 ^ 1024"
  by (simp add: float_limit_def)

lemma to_float_code:
  "to_float q =
     (let r = rnd64 q
      in if float_limit \<le> r then PInf else if r \<le> - float_limit then NInf else Fin r)"
  by (simp only: to_float_def float_limit)

text \<open>Evaluation skips the rounding of a number with few binary digits, which is exact.\<close>

lemma to_float_short:
  assumes "quotient_of q = (n, d)" "1024 mod d = 0" "\<bar>n\<bar> * (1024 div d) < 2 ^ 53"
  shows "to_float q = Fin q"
proof -
  let ?m = "n * (1024 div d)"
  have q: "q = of_int ?m * 2 powi (- 10)"
    using short_quotient [of q n d 2 10] assms(1,2) by simp
  have m: "\<bar>?m\<bar> < 2 ^ 53"
    using assms(3) quotient_of_denom_pos [OF assms(1)] by (simp add: abs_mult pos_imp_zdiv_nonneg_iff)
  have "rnd64 q = q" using m q by (intro rnd64_representable representableI [of _ ?m _ "- 10"]) auto
  moreover have "\<bar>q\<bar> < 2 ^ 1024"
  proof -
    have "\<bar>q\<bar> \<le> of_int \<bar>?m\<bar>" unfolding q by (simp add: abs_mult power_int_minus)
    also have "\<dots> < of_int (2 ^ 53)" using m by (simp only: of_int_less_iff)
    also have "\<dots> \<le> 2 ^ 1024" by (simp only: of_int_power of_int_numeral power_increasing_iff)
    finally show ?thesis .
  qed
  ultimately show ?thesis by (auto simp: to_float_def Let_def abs_less_iff)
qed

lemma to_float_exec [code]:
  "to_float q =
     (case quotient_of q of (n, d) \<Rightarrow>
        if 1024 mod d = 0 \<and> \<bar>n\<bar> * (1024 div d) < 9007199254740992 then Fin q
        else let r = rnd64 q
          in if float_limit \<le> r then PInf else if r \<le> - float_limit then NInf else Fin r)"
proof -
  obtain n d where nd: "quotient_of q = (n, d)" by force
  show ?thesis using to_float_short [OF nd] by (simp add: nd to_float_code)
qed

fun fsign :: "pyfloat \<Rightarrow> int" where
  "fsign (Fin q) = (if 0 < q then 1 else if q < 0 then -1 else 0)"
| "fsign PInf = 1"
| "fsign NInf = -1"
| "fsign NaN = 0"

definition inf_of_sign :: "int \<Rightarrow> pyfloat" where
  "inf_of_sign s = (if 0 < s then PInf else if s < 0 then NInf else NaN)"

instantiation pyfloat :: "{zero, one, plus, minus, uminus, times, abs, ord}"
begin

definition zero_pyfloat :: pyfloat where "zero_pyfloat = Fin 0"

definition one_pyfloat :: pyfloat where "one_pyfloat = Fin 1"

fun uminus_pyfloat :: "pyfloat \<Rightarrow> pyfloat" where
  "uminus_pyfloat (Fin q) = Fin (- q)"
| "uminus_pyfloat PInf = NInf"
| "uminus_pyfloat NInf = PInf"
| "uminus_pyfloat NaN = NaN"

fun abs_pyfloat :: "pyfloat \<Rightarrow> pyfloat" where
  "abs_pyfloat (Fin q) = Fin \<bar>q\<bar>"
| "abs_pyfloat NaN = NaN"
| "abs_pyfloat _ = PInf"

fun plus_pyfloat :: "pyfloat \<Rightarrow> pyfloat \<Rightarrow> pyfloat" where
  "plus_pyfloat (Fin a) (Fin b) = to_float (a + b)"
| "plus_pyfloat NaN y = NaN"
| "plus_pyfloat x NaN = NaN"
| "plus_pyfloat PInf NInf = NaN"
| "plus_pyfloat NInf PInf = NaN"
| "plus_pyfloat (Fin _) y = y"
| "plus_pyfloat x _ = x"

definition minus_pyfloat :: "pyfloat \<Rightarrow> pyfloat \<Rightarrow> pyfloat" where
  "minus_pyfloat x y = x + (- y)"

fun times_pyfloat :: "pyfloat \<Rightarrow> pyfloat \<Rightarrow> pyfloat" where
  "times_pyfloat (Fin a) (Fin b) = to_float (a * b)"
| "times_pyfloat NaN y = NaN"
| "times_pyfloat x NaN = NaN"
| "times_pyfloat x y = inf_of_sign (fsign x * fsign y)"

fun less_pyfloat :: "pyfloat \<Rightarrow> pyfloat \<Rightarrow> bool" where
  "less_pyfloat (Fin a) (Fin b) = (a < b)"
| "less_pyfloat (Fin _) PInf = True"
| "less_pyfloat NInf (Fin _) = True"
| "less_pyfloat NInf PInf = True"
| "less_pyfloat _ _ = False"

fun less_eq_pyfloat :: "pyfloat \<Rightarrow> pyfloat \<Rightarrow> bool" where
  "less_eq_pyfloat (Fin a) (Fin b) = (a \<le> b)"
| "less_eq_pyfloat NaN _ = False"
| "less_eq_pyfloat _ NaN = False"
| "less_eq_pyfloat NInf _ = True"
| "less_eq_pyfloat _ PInf = True"
| "less_eq_pyfloat _ _ = False"

instance ..

end

definition feq :: "pyfloat \<Rightarrow> pyfloat \<Rightarrow> bool" where
  "feq x y \<longleftrightarrow> x \<le> y \<and> y \<le> x"

text \<open>
  Division. \<open>fquot\<close> is the quotient of a divisor known to be nonzero; \<open>py_div\<close>
  is the operator, which raises on a zero divisor.
\<close>

fun fquot :: "pyfloat \<Rightarrow> pyfloat \<Rightarrow> pyfloat" where
  "fquot (Fin a) (Fin b) = (if b = 0 then NaN else to_float (a / b))"
| "fquot NaN y = NaN"
| "fquot x NaN = NaN"
| "fquot (Fin _) y = Fin 0"
| "fquot x (Fin b) = inf_of_sign (fsign x * (if b < 0 then -1 else 1))"
| "fquot x y = NaN"

definition py_div :: "pyfloat \<Rightarrow> pyfloat \<Rightarrow> pyfloat res" where
  "py_div x y =
     (if y = Fin 0 then Inl (ArithmeticError ''division by zero'') else Inr (fquot x y))"

text \<open>\<open>max\<close> and \<open>min\<close> keep the first argument unless a later one is strictly better.\<close>

definition pymax :: "pyfloat \<Rightarrow> pyfloat \<Rightarrow> pyfloat" where
  "pymax a b = (if a < b then b else a)"

definition pymin :: "pyfloat \<Rightarrow> pyfloat \<Rightarrow> pyfloat" where
  "pymin a b = (if b < a then b else a)"

text \<open>\<open>sum\<close> adds from the left, starting at 0 (Python 3.11: no compensation).\<close>

definition fsum :: "pyfloat list \<Rightarrow> pyfloat" where
  "fsum xs = foldl (+) (Fin 0) xs"

definition float_of_int :: "int \<Rightarrow> pyfloat" where
  "float_of_int n = Fin (of_int n)"

subsection \<open>Order\<close>

declare plus_pyfloat.simps [float_simps] times_pyfloat.simps [float_simps]
  less_pyfloat.simps [float_simps] less_eq_pyfloat.simps [float_simps]

lemma float_le_refl [simp]: "x \<le> x \<longleftrightarrow> x \<noteq> (NaN :: pyfloat)"
  by (cases x) auto

lemma float_less_irrefl [simp]: "\<not> x < (x :: pyfloat)"
  by (cases x) auto

lemma float_le_trans [trans]: "x \<le> y \<Longrightarrow> y \<le> z \<Longrightarrow> x \<le> (z :: pyfloat)"
  by (cases x; cases y; cases z) auto

lemma float_less_le_trans [trans]: "x < y \<Longrightarrow> y \<le> z \<Longrightarrow> x < (z :: pyfloat)"
  by (cases x; cases y; cases z) auto

lemma float_le_less_trans [trans]: "x \<le> y \<Longrightarrow> y < z \<Longrightarrow> x < (z :: pyfloat)"
  by (cases x; cases y; cases z) auto

lemma float_less_imp_le: "x < y \<Longrightarrow> x \<le> (y :: pyfloat)"
  by (cases x; cases y) auto

lemma float_not_less: "x \<noteq> NaN \<Longrightarrow> y \<noteq> NaN \<Longrightarrow> \<not> x < y \<longleftrightarrow> y \<le> (x :: pyfloat)"
  by (cases x; cases y) auto

lemma float_not_le: "x \<noteq> NaN \<Longrightarrow> y \<noteq> NaN \<Longrightarrow> \<not> x \<le> y \<longleftrightarrow> y < (x :: pyfloat)"
  by (cases x; cases y) auto

lemma float_less_not_le: "x < y \<Longrightarrow> \<not> y \<le> (x :: pyfloat)"
  by (cases x; cases y) auto

lemma float_le_not_NaN: "x \<le> (y :: pyfloat) \<Longrightarrow> x \<noteq> NaN \<and> y \<noteq> NaN"
  by (cases x; cases y) auto

lemma float_less_not_NaN: "x < (y :: pyfloat) \<Longrightarrow> x \<noteq> NaN \<and> y \<noteq> NaN"
  by (cases x; cases y) auto

lemma not_le_NaN [simp]: "\<not> NaN \<le> x" "\<not> x \<le> NaN" "\<not> NaN < x" "\<not> x < NaN"
  by (cases x; simp)+

lemma le_PInf_iff [simp]: "x \<le> PInf \<longleftrightarrow> x \<noteq> NaN"
  by (cases x) auto

lemma NInf_le_iff [simp]: "NInf \<le> x \<longleftrightarrow> x \<noteq> NaN"
  by (cases x) auto

lemma isfinite_not_NaN: "isfinite x \<Longrightarrow> x \<noteq> NaN"
  by auto

lemma isfinite_between: "Fin a \<le> x \<Longrightarrow> x \<le> Fin b \<Longrightarrow> isfinite x"
  by (cases x) auto

lemma pymin_le1: "a \<noteq> NaN \<Longrightarrow> b \<noteq> NaN \<Longrightarrow> pymin a b \<le> a"
  by (auto simp: pymin_def float_less_imp_le)

lemma pymin_le2: "a \<noteq> NaN \<Longrightarrow> b \<noteq> NaN \<Longrightarrow> pymin a b \<le> b"
  by (auto simp: pymin_def float_not_less)

lemma pymin_cases: "pymin a b = a \<or> pymin a b = b"
  by (simp add: pymin_def)

lemma pymax_ge1: "a \<noteq> NaN \<Longrightarrow> a \<le> pymax a b"
  by (auto simp: pymax_def float_less_imp_le)

lemma pymax_ge2: "a \<noteq> NaN \<Longrightarrow> b \<noteq> NaN \<Longrightarrow> b \<le> pymax a b"
  by (auto simp: pymax_def float_not_less)

lemma pymax_not_NaN: "a \<noteq> NaN \<Longrightarrow> pymax a b \<noteq> NaN"
  using float_less_not_NaN by (auto simp: pymax_def)

lemma pymax_zero_nonneg [simp]: "Fin 0 \<le> pymax (Fin 0) b"
  by (auto simp: pymax_def float_less_imp_le)

lemma isfinite_pymax: "isfinite a \<Longrightarrow> isfinite b \<Longrightarrow> isfinite (pymax a b)"
  by (simp add: pymax_def)

lemma isfinite_pymin: "isfinite a \<Longrightarrow> isfinite b \<Longrightarrow> isfinite (pymin a b)"
  by (simp add: pymin_def)

subsection \<open>Rounded results\<close>

lemma to_float_not_NaN [simp]: "to_float q \<noteq> NaN"
  by (simp add: to_float_def Let_def)

lemma to_float_zero [simp]: "to_float 0 = Fin 0"
  by (simp add: to_float_def)

lemma to_float_mono: "a \<le> b \<Longrightarrow> to_float a \<le> to_float b"
  using b64.rnd_mono [of a b] by (auto simp: to_float_def Let_def)

lemma to_float_nonneg: "0 \<le> q \<Longrightarrow> Fin 0 \<le> to_float q"
  using to_float_mono [of 0 q] by simp

lemma to_float_fixed: "rnd64 q = q \<Longrightarrow> \<bar>q\<bar> < 2 ^ 1024 \<Longrightarrow> to_float q = Fin q"
  by (auto simp: to_float_def Let_def abs_less_iff)

lemma to_float_FinD: "to_float q = Fin r \<Longrightarrow> r = rnd64 q \<and> \<bar>r\<bar> < 2 ^ 1024"
  by (auto simp: to_float_def Let_def abs_less_iff split: if_splits)

text \<open>A value the format has. Every operation yields one; \<open>Fin (1/3)\<close> is not one.\<close>

fun is_b64 :: "pyfloat \<Rightarrow> bool" where
  "is_b64 (Fin q) = (rnd64 q = q \<and> \<bar>q\<bar> < 2 ^ 1024)"
| "is_b64 _ = True"

lemma is_b64_code [code]:
  "is_b64 (Fin q) = (rnd64 q = q \<and> \<bar>q\<bar> < float_limit)"
  "is_b64 PInf = True" "is_b64 NInf = True" "is_b64 NaN = True"
  by (simp_all add: float_limit)

lemma is_b64_to_float [simp]: "is_b64 (to_float q)"
  by (auto simp: to_float_def Let_def abs_less_iff)

lemma is_b64_zero [simp]: "is_b64 (Fin 0)"
  by simp

lemma inf_of_sign_b64 [simp]: "is_b64 (inf_of_sign s)"
  by (simp add: inf_of_sign_def)

lemma is_b64_times [simp]: "is_b64 (x * y)"
  by (cases x; cases y) auto

lemma is_b64_uminus [simp]: "is_b64 (- x) \<longleftrightarrow> is_b64 x"
  by (cases x) (auto simp: b64.rnd_minus)

lemma is_b64_abs [simp]: "is_b64 x \<Longrightarrow> is_b64 \<bar>x\<bar>"
  by (cases x) (auto simp: b64.rnd_abs)

lemma is_b64_plus [simp]: "is_b64 x \<Longrightarrow> is_b64 y \<Longrightarrow> is_b64 (x + y)"
  by (cases x; cases y) auto

lemma is_b64_minus [simp]: "is_b64 x \<Longrightarrow> is_b64 y \<Longrightarrow> is_b64 (x - y)"
  by (simp add: minus_pyfloat_def)

lemma is_b64_fquot [simp]: "is_b64 (fquot x y)"
  by (cases x; cases y) auto

lemma is_b64_pymax [simp]: "is_b64 x \<Longrightarrow> is_b64 y \<Longrightarrow> is_b64 (pymax x y)"
  by (simp add: pymax_def)

lemma is_b64_pymin [simp]: "is_b64 x \<Longrightarrow> is_b64 y \<Longrightarrow> is_b64 (pymin x y)"
  by (simp add: pymin_def)

lemma to_float_ge_b64: "is_b64 (Fin a) \<Longrightarrow> a \<le> q \<Longrightarrow> Fin a \<le> to_float q"
  using to_float_mono [of a q] to_float_fixed [of a] by simp

lemma to_float_le_b64: "is_b64 (Fin a) \<Longrightarrow> q \<le> a \<Longrightarrow> to_float q \<le> Fin a"
  using to_float_mono [of q a] to_float_fixed [of a] by simp

subsection \<open>Monotonicity of the operations\<close>

lemma times_mono_left: "x \<le> y \<Longrightarrow> Fin 0 < c \<Longrightarrow> isfinite c \<Longrightarrow> x * c \<le> y * c"
  by (cases x; cases y; cases c)
    (auto simp: inf_of_sign_def intro!: to_float_mono mult_right_mono)

lemma pymax_mono: "a \<le> b \<Longrightarrow> c \<le> d \<Longrightarrow> pymax a c \<le> pymax b d"
  by (cases a; cases b; cases c; cases d) (auto simp: pymax_def)

lemma times_nonneg: "Fin 0 \<le> x \<Longrightarrow> Fin 0 \<le> y \<Longrightarrow> isfinite x \<Longrightarrow> isfinite y \<Longrightarrow> Fin 0 \<le> x * y"
  by (cases x; cases y) (auto intro: to_float_nonneg)

lemma fquot_mono: "x \<le> y \<Longrightarrow> 0 < c \<Longrightarrow> fquot x (Fin c) \<le> fquot y (Fin c)"
  by (cases x; cases y) (auto simp: inf_of_sign_def intro!: to_float_mono divide_right_mono)

lemma fquot_nonneg: "Fin 0 \<le> x \<Longrightarrow> 0 < c \<Longrightarrow> Fin 0 \<le> fquot x (Fin c)"
  by (cases x) (auto simp: inf_of_sign_def intro: to_float_nonneg)

lemma fquot_not_NaN: "x \<noteq> NaN \<Longrightarrow> 0 < c \<Longrightarrow> fquot x (Fin c) \<noteq> NaN"
  by (cases x) (auto simp: inf_of_sign_def)

lemma plus_nonneg: "Fin 0 \<le> x \<Longrightarrow> Fin 0 \<le> y \<Longrightarrow> Fin 0 \<le> x + y"
  by (cases x; cases y) (auto intro: to_float_nonneg)

lemma plus_ge_left: "is_b64 x \<Longrightarrow> Fin 0 \<le> y \<Longrightarrow> x \<noteq> NaN \<Longrightarrow> x \<noteq> NInf \<Longrightarrow> x \<le> x + y"
  by (cases x; cases y) (auto intro: to_float_ge_b64 simp del: is_b64.simps)

lemma plus_ge_right: "is_b64 y \<Longrightarrow> Fin 0 \<le> x \<Longrightarrow> y \<noteq> NaN \<Longrightarrow> y \<noteq> NInf \<Longrightarrow> y \<le> x + y"
  by (cases x; cases y) (auto intro: to_float_ge_b64 simp del: is_b64.simps)

lemma plus_mono:
  "x \<le> x' \<Longrightarrow> y \<le> y' \<Longrightarrow> isfinite x' \<Longrightarrow> isfinite y' \<Longrightarrow> x \<noteq> NInf \<Longrightarrow> y \<noteq> NInf \<Longrightarrow> x + y \<le> x' + y'"
  by (cases x; cases y; cases x'; cases y') (auto intro: to_float_mono)

lemma minus_le_left: "is_b64 x \<Longrightarrow> isfinite x \<Longrightarrow> Fin 0 \<le> y \<Longrightarrow> x - y \<le> x"
  by (cases x; cases y) (auto simp: minus_pyfloat_def intro: to_float_le_b64 simp del: is_b64.simps)

text \<open>A left-to-right sum of non-negative floats is at least each of its terms.\<close>

lemma foldl_plus_ge:
  assumes "\<forall>x \<in> set xs. Fin 0 \<le> x" "Fin 0 \<le> a" "is_b64 a" "\<forall>x \<in> set xs. is_b64 x"
  shows "a \<le> foldl (+) a xs"
  using assms
proof (induction xs arbitrary: a)
  case (Cons x xs)
  have "a \<le> a + x" using Cons.prems by (intro plus_ge_left) (auto dest: float_le_not_NaN)
  also have "a + x \<le> foldl (+) (a + x) xs" using Cons by (simp add: plus_nonneg)
  finally show ?case by simp
qed (auto dest: float_le_not_NaN)

lemma fsum_nonneg: "\<forall>x \<in> set xs. Fin 0 \<le> x \<and> is_b64 x \<Longrightarrow> Fin 0 \<le> fsum xs"
  using foldl_plus_ge [of xs "Fin 0"] by (simp add: fsum_def)


lemma foldl_plus_ge_member:
  assumes "\<forall>x \<in> set xs. Fin 0 \<le> x" "Fin 0 \<le> a" "is_b64 a" "\<forall>x \<in> set xs. is_b64 x" "x \<in> set xs"
  shows "x \<le> foldl (+) a xs"
  using assms
proof (induction xs arbitrary: a)
  case (Cons y ys)
  show ?case
  proof (cases "x \<in> set ys")
    case True
    then show ?thesis using Cons by (simp add: plus_nonneg)
  next
    case False
    then have [simp]: "x = y" using Cons.prems by simp
    have "y \<le> a + y" using Cons.prems by (intro plus_ge_right) (auto dest: float_le_not_NaN)
    also have "a + y \<le> foldl (+) (a + y) ys"
      using Cons.prems by (intro foldl_plus_ge) (auto simp: plus_nonneg)
    finally show ?thesis by simp
  qed
qed simp

section \<open>Strings\<close>

text \<open>
  A Python string is the list of its code points; the model covers code points below 256, and
  case mapping only on ASCII letters (every string the source compares is an ASCII identifier).
\<close>

definition is_space :: "char \<Rightarrow> bool" where
  "is_space c \<longleftrightarrow>
     (of_char c :: nat) \<in> {9, 10, 11, 12, 13, 28, 29, 30, 31, 32, 133, 160}"

definition py_strip :: "string \<Rightarrow> string" where
  "py_strip s = rev (dropWhile is_space (rev (dropWhile is_space s)))"

definition lower_char :: "char \<Rightarrow> char" where
  "lower_char c = (let n = of_char c :: nat in if 65 \<le> n \<and> n \<le> 90 then char_of (n + 32) else c)"

definition upper_char :: "char \<Rightarrow> char" where
  "upper_char c = (let n = of_char c :: nat in if 97 \<le> n \<and> n \<le> 122 then char_of (n - 32) else c)"

definition py_lower :: "string \<Rightarrow> string" where
  "py_lower s = map lower_char s"

definition py_upper :: "string \<Rightarrow> string" where
  "py_upper s = map upper_char s"

definition starts_with :: "string \<Rightarrow> string \<Rightarrow> bool" where
  "starts_with p s \<longleftrightarrow> take (length p) s = p"

definition ends_with :: "string \<Rightarrow> string \<Rightarrow> bool" where
  "ends_with p s \<longleftrightarrow> drop (length s - length p) s = p"

text \<open>\<open>s and s == s.strip()\<close>: the test the source spells out in many places.\<close>

definition normalized :: "string \<Rightarrow> bool" where
  "normalized s \<longleftrightarrow> s \<noteq> [] \<and> py_strip s = s"

lemma py_lower_idem [simp]: "py_lower (py_lower s) = py_lower s"
proof -
  have "lower_char (lower_char c) = lower_char c" for c
    by (auto simp: lower_char_def Let_def)
  then show ?thesis by (simp add: py_lower_def)
qed

section \<open>Time stamps\<close>

text \<open>
  A \<open>datetime\<close> is naive or aware; either carries microseconds since the epoch. The
  difference of two aware stamps in seconds is the correctly rounded quotient, which is what
  \<open>timedelta.total_seconds\<close> and \<open>datetime.timestamp\<close> return.
\<close>

datatype pydatetime = Naive int | Aware int

fun is_aware :: "pydatetime \<Rightarrow> bool" where
  "is_aware (Aware _) = True"
| "is_aware (Naive _) = False"

fun micros :: "pydatetime \<Rightarrow> int" where
  "micros (Aware t) = t"
| "micros (Naive t) = t"

definition total_seconds :: "int \<Rightarrow> pyfloat" where
  "total_seconds us = to_float (of_int us / 1000000)"

text \<open>
  \<open>int(dt.astimezone(UTC).timestamp() * 1_000)\<close> of an aware stamp. A \<open>datetime\<close> lies
  between the years 1 and 9999, so the float is finite and \<open>int\<close> does not raise.
\<close>

fun py_int :: "pyfloat \<Rightarrow> int" where
  "py_int (Fin q) = (if 0 \<le> q then \<lfloor>q\<rfloor> else \<lceil>q\<rceil>)"
| "py_int _ = 0"

definition timestamp_ms :: "pydatetime \<Rightarrow> int" where
  "timestamp_ms dt = py_int (total_seconds (micros dt) * Fin 1000)"

end
