(* ===== verification/Contracts.thy ===== *)
theory Contracts
  imports Prelude
begin

text \<open>
  The messages and enumerations of \<open>kairos_core\<close>, which the program imports and this
  repository does not contain: one record per contract with exactly the attributes the program
  reads or passes, any value allowed. Nothing is assumed about the contracts' own validators;
  where a proof needs what one of them promises, the theorem says so. An enumeration lists the
  members the program names and, where the program treats every other member alike, a
  constructor for those.
\<close>

section \<open>Enumerations\<close>

datatype reason_code =
    ENTER_LONG_TREND | ENTER_SHORT_TREND | REBALANCE
  | CLOSE_POSITION | HOLD | NO_TRADE | REDUCE_LEVERAGE
  | OtherReason string

datatype side = LONG | SHORT | FLAT

datatype order_side = BUY | SELL

datatype order_type = MARKET | LIMIT

datatype system_mode = NORMAL | LOCAL_QUANT_MODE | TEXT_LOCAL_FILTER | CONFLICT_SAFE

datatype market_regime = BULL | BEAR | CHOP | OtherRegime string

datatype trading_mode = DRY_RUN | PAPER | LIVE

datatype evedex_profile = DEV | PROD | OtherProfile string

section \<open>The legacy route\<close>

record tactical_command =
  tc_message_id :: string
  tc_correlation_id :: "string option"
  tc_symbol :: string
  tc_reason_code :: reason_code
  tc_target_side :: side
  tc_requested_leverage :: pyfloat
  tc_reference_price :: pyfloat

record position_snapshot =
  ps_exchange :: string
  ps_account_id :: string
  ps_symbol :: string
  ps_signed_quantity :: pyfloat
  ps_entry_price :: "pyfloat option"
  ps_mark_price :: "pyfloat option"
  ps_captured_at :: pydatetime

text \<open>
  \<open>as_payload\<close> stands for the attributes of a snapshot that the program compares
  (\<open>model_dump\<close> without the envelope) but never reads one by one.
\<close>

record account_snapshot =
  as_exchange :: string
  as_account_id :: string
  as_equity_usd :: pyfloat
  as_peak_equity_usd :: pyfloat
  as_daily_pnl_pct :: pyfloat
  as_positions :: "position_snapshot list"
  as_captured_at :: pydatetime
  as_reconciled :: bool
  as_payload :: string

record strategic_allocation =
  sa_source :: string
  sa_message_id :: string
  sa_correlation_id :: "string option"
  sa_causation_id :: "string option"
  sa_schema_version :: string
  sa_produced_at :: pydatetime
  sa_regime :: market_regime
  sa_stable_reserve_pct :: pyfloat
  sa_strategy_weights :: "(string \<times> pyfloat) list"
  sa_max_gross_leverage :: pyfloat
  sa_triggered_by :: string
  sa_rationale :: string

text \<open>
  \<open>None\<close> in \<open>oi_price\<close>, \<open>oi_leverage\<close> and \<open>oi_reduce_only\<close> is an
  argument the program leaves to the contract's default; in \<open>oi_side\<close> it is the value
  \<open>None\<close>.
\<close>

record order_intent =
  oi_source :: string
  oi_message_id :: string
  oi_correlation_id :: string
  oi_causation_id :: string
  oi_symbol :: string
  oi_side :: "order_side option"
  oi_order_type :: order_type
  oi_quantity :: pyfloat
  oi_price :: "pyfloat option"
  oi_leverage :: "pyfloat option"
  oi_reduce_only :: "bool option"
  oi_reason_code :: reason_code

text \<open>
  The text of an adjustment note. A note that formats values is a constructor with those
  values; its wording is in the source.
\<close>

datatype adjustment =
    Note string
  | SideNote reason_code side side
  | FloatNote string "pyfloat list"

record validated_order =
  vo_source :: string
  vo_message_id :: string
  vo_correlation_id :: string
  vo_causation_id :: string
  vo_intent :: order_intent
  vo_approved :: bool
  vo_reason_code :: reason_code
  vo_adjustments :: "adjustment list"
  vo_risk_notes :: adjustment

section \<open>The reviewed-candidate route\<close>

text \<open>
  The \<open>payload\<close> fields stand for the attributes that the program compares as
  part of a whole model (\<open>model_dump\<close>) and never reads one by one. An enumeration whose
  other members are all treated alike keeps their value in a string.
\<close>

datatype review_decision = ALLOW | OtherReview string

datatype order_role = ENTRY | OtherRole string

record exit_plan =
  xp_stop_price :: pyfloat
  xp_target_price :: pyfloat
  xp_max_holding_ms :: int
  xp_payload :: string

record evidence_ref =
  ev_kind :: string
  ev_reference :: string
  ev_content_sha256 :: "string option"
  ev_observed_at_ms :: int

record strategy_provenance =
  pv_strategy_code_sha256 :: string
  pv_config_sha256 :: string
  pv_input_window_sha256 :: string
  pv_features_sha256 :: string
  pv_input_bar_sha256s :: "string list"

record strategy_intent =
  in_contract_version :: string
  in_intent_id :: "string option"
  in_message_id :: string
  in_source :: string
  in_symbol :: string
  in_venue :: string
  in_side :: side
  in_strategy_id :: string
  in_strategy_revision :: string
  in_decision_ts_ms :: int
  in_entry_eligible_ts_ms :: int
  in_entry_expires_ts_ms :: int
  in_reference_price :: pyfloat
  in_signal_strength :: pyfloat
  in_gross_reward_bps :: pyfloat
  in_exit_plan :: exit_plan
  in_provenance :: strategy_provenance
  in_evidence :: "evidence_ref list"
  in_metadata :: "(string \<times> string) list"
  in_payload :: string

record candidate_route =
  rt_route_id :: "string option"
  rt_message_id :: string
  rt_source :: string
  rt_correlation_id :: "string option"
  rt_causation_id :: string
  rt_intent :: strategy_intent
  rt_review_tier :: string
  rt_requested_reasoning_effort :: string
  rt_routed_at_ms :: int
  rt_review_deadline_ms :: int
  rt_evidence_ids :: "string list"
  rt_payload :: string

record candidate_review =
  cr_message_id :: string
  cr_review_id :: "string option"
  cr_source :: string
  cr_correlation_id :: "string option"
  cr_causation_id :: string
  cr_decision :: review_decision
  cr_reviewed_at_ms :: int
  cr_intent :: strategy_intent
  cr_route :: candidate_route
  cr_priority :: int
  cr_reviewer :: string
  cr_model_provenance :: "string option"
  cr_reason_codes :: "string list"
  cr_evidence :: "evidence_ref list"
  cr_payload :: string

record venue_quality =
  vq_symbol :: string
  vq_profile :: evedex_profile
  vq_observed_at_ms :: int
  vq_book_timestamp_ms :: int
  vq_reference_timestamp_ms :: int
  vq_expires_at_ms :: int
  vq_measurement_id :: "string option"
  vq_entry_allowed :: bool
  vq_reason_codes :: "string list"
  vq_best_bid :: pyfloat
  vq_best_ask :: pyfloat
  vq_mid_price :: pyfloat
  vq_buy_slippage_bps :: pyfloat
  vq_sell_slippage_bps :: pyfloat
  vq_taker_fee_bps :: pyfloat
  vq_assessed_notional_usd :: pyfloat
  vq_depth_usd :: pyfloat

text \<open>
  What an open position and an open order say about the trade they belong to: the six
  attributes by which a reconciled fact is matched with the approval that caused it.
\<close>

record lineage =
  ln_venue_symbol :: string
  ln_strategy_id :: string
  ln_strategy_revision :: string
  ln_intent_id :: "string option"
  ln_risk_decision_id :: "string option"
  ln_trade_id :: "string option"

record position_v2 =
  p2_lineage :: lineage
  p2_side :: side
  p2_signed_quantity :: pyfloat
  p2_entry_price :: pyfloat
  p2_mark_price :: pyfloat
  p2_exit_plan :: exit_plan

record order_v2 =
  o2_lineage :: lineage
  o2_order_role :: order_role
  o2_quantity :: pyfloat
  o2_filled_quantity :: pyfloat
  o2_price :: "pyfloat option"

record account_v2 =
  a2_snapshot_id :: "string option"
  a2_trading_mode :: trading_mode
  a2_evedex_profile :: evedex_profile
  a2_account_id :: string
  a2_reconciled :: bool
  a2_reconciliation_seq :: int
  a2_captured_at_ms :: int
  a2_positions :: "position_v2 list"
  a2_open_orders :: "order_v2 list"
  a2_equity_usd :: pyfloat
  a2_available_balance_usd :: pyfloat
  a2_total_open_risk_usd :: pyfloat
  a2_durable_day_start_equity_usd :: pyfloat
  a2_durable_peak_equity_usd :: pyfloat
  a2_daily_realized_pnl_usd :: pyfloat
  a2_unrealized_pnl_usd :: pyfloat

text \<open>
  A rejection reason. Texts that interpolate an enumeration's value or a venue's code are
  constructors with that value.
\<close>

datatype rejection =
    Reason string
  | ReviewReason review_decision
  | ModeReason system_mode
  | VenueReason string

text \<open>
  \<open>RiskTradeDecisionV1\<close>. The two identities are computed by the contract from the other
  fields; the program passes everything else.
\<close>

record risk_decision =
  rd_source :: string
  rd_correlation_id :: "string option"
  rd_causation_id :: string
  rd_intent :: strategy_intent
  rd_review :: candidate_review
  rd_venue_quality :: venue_quality
  rd_approved :: bool
  rd_rejection_reasons :: "rejection list"
  rd_decided_at_ms :: int
  rd_trading_mode :: trading_mode
  rd_evedex_profile :: evedex_profile
  rd_account_id :: string
  rd_venue_symbol :: string
  rd_quantity :: pyfloat
  rd_leverage :: pyfloat
  rd_notional_usd :: pyfloat
  rd_loss_budget_usd :: pyfloat
  rd_worst_case_loss_usd :: pyfloat
  rd_worst_entry_price :: pyfloat
  rd_estimated_fees_usd :: pyfloat
  rd_estimated_slippage_usd :: pyfloat
  rd_exit_plan :: exit_plan
  rd_decision_id :: "string option"
  rd_trade_id :: "string option"

text \<open>
  The adaptive profile's policy, its observation of one intent, and the allocation bound to it
  (\<open>kairos_core.contracts.regime_capability\<close>).
\<close>

record regime_policy =
  rp_policy_sha256 :: string
  rp_payload :: string

record regime_observation =
  ob_intent :: strategy_intent
  ob_expires_at_ms :: int
  ob_payload :: string

record regime_allocation =
  ra_message_id :: string
  ra_source :: string
  ra_bound_at_ms :: int
  ra_policy_sha256 :: string
  ra_account_id :: string
  ra_account_captured_at_ms :: int
  ra_allocation :: strategic_allocation
  ra_observation :: regime_observation
  ra_payload :: string

end
