(* ===== verification/Account.thy ===== *)
theory Account
  imports Contracts
begin

text \<open>
  \<open>kairos_risk/account.py\<close>: the account view a sizing decision uses, how it is derived
  from an authoritative snapshot, and the drawdown that gates entries.
\<close>

record account_state =
  ac_equity_usd :: pyfloat
  ac_peak_equity_usd :: pyfloat
  ac_daily_pnl_pct :: pyfloat
  ac_gross_exposure_usd :: pyfloat
  ac_gross_exposure_known :: bool
  ac_open_position_qty :: pyfloat
  ac_open_position_notional_usd :: pyfloat
  ac_open_position_notional_known :: bool
  ac_reconciled :: bool

text \<open>The field constraints, in their order, then the model validator.\<close>

definition account_fields_ok :: "account_state \<Rightarrow> bool" where
  "account_fields_ok a \<longleftrightarrow>
     isfinite (ac_equity_usd a) \<and> Fin 0 < ac_equity_usd a \<and>
     isfinite (ac_peak_equity_usd a) \<and> Fin 0 < ac_peak_equity_usd a \<and>
     isfinite (ac_daily_pnl_pct a) \<and>
     isfinite (ac_gross_exposure_usd a) \<and> Fin 0 \<le> ac_gross_exposure_usd a \<and>
     isfinite (ac_open_position_qty a) \<and>
     isfinite (ac_open_position_notional_usd a) \<and> Fin 0 \<le> ac_open_position_notional_usd a"

definition validate_account_invariants :: "account_state \<Rightarrow> account_state res" where
  "validate_account_invariants a =
     (if ac_peak_equity_usd a < ac_equity_usd a
      then Inl (ValueError ''peak_equity_usd cannot be below current equity_usd'')
      else if ac_gross_exposure_known a \<and> ac_open_position_notional_known a \<and>
              ac_gross_exposure_usd a < ac_open_position_notional_usd a
      then Inl (ValueError ''gross exposure cannot be below the command-symbol exposure'')
      else Inr a)"

definition mk_account :: "account_state \<Rightarrow> account_state res" where
  "mk_account a =
     (if account_fields_ok a then validate_account_invariants a
      else Inl (ValueError ''AccountState field''))"

section \<open>From a snapshot\<close>

text \<open>\<open>mark_price or entry_price\<close>: a missing or zero mark falls back to the entry.\<close>

definition price_of :: "position_snapshot \<Rightarrow> pyfloat option" where
  "price_of p =
     (case ps_mark_price p of
        Some m \<Rightarrow> if feq m (Fin 0) then ps_entry_price p else Some m
      | None \<Rightarrow> ps_entry_price p)"

text \<open>One round of the loop over the positions, on the running sum and its flag.\<close>

fun gross_step :: "pyfloat \<times> bool \<Rightarrow> position_snapshot \<Rightarrow> pyfloat \<times> bool" where
  "gross_step (gross, known) p =
    (let quantity = ps_signed_quantity p in
     if \<not> isfinite quantity then (gross, False)
     else if feq quantity (Fin 0) then (gross, known)
     else case price_of p of
         None \<Rightarrow> (gross, False)
       | Some price \<Rightarrow>
           if \<not> isfinite price then (gross, False)
           else
             (let notional = \<bar>quantity\<bar> * price in
              if \<not> isfinite notional then (gross, False) else (gross + notional, known)))"

definition gross_of :: "position_snapshot list \<Rightarrow> pyfloat \<times> bool" where
  "gross_of ps = foldl gross_step (Fin 0, True) ps"

text \<open>The three values about the selected position: quantity, notional, and whether it is known.\<close>

definition selected_values :: "position_snapshot option \<Rightarrow> pyfloat \<times> pyfloat \<times> bool" where
  "selected_values sel =
     (let qty = (case sel of Some p \<Rightarrow> ps_signed_quantity p | None \<Rightarrow> Fin 0);
          price = (case sel of Some p \<Rightarrow> price_of p | None \<Rightarrow> None);
          known = (sel = None \<or> feq qty (Fin 0) \<or>
                   (isfinite qty \<and> (case price of Some x \<Rightarrow> isfinite x | None \<Rightarrow> False)));
          notional = (case price of Some x \<Rightarrow> if known then \<bar>qty\<bar> * x else Fin 0 | None \<Rightarrow> Fin 0)
      in (qty, notional, known))"

definition from_snapshot :: "account_snapshot \<Rightarrow> string option \<Rightarrow> account_state res" where
  "from_snapshot s symbol =
     (let positions = as_positions s in
      if \<not> distinct (map ps_symbol positions)
      then Inl (ValueError ''account snapshot contains duplicate position symbols'')
      else
        (let (gross, known) = gross_of positions;
             (qty, notional, notional_known) =
               selected_values (find (\<lambda>p. Some (ps_symbol p) = symbol) positions)
         in mk_account
              \<lparr>ac_equity_usd = as_equity_usd s, ac_peak_equity_usd = as_peak_equity_usd s,
               ac_daily_pnl_pct = as_daily_pnl_pct s, ac_gross_exposure_usd = gross,
               ac_gross_exposure_known = known, ac_open_position_qty = qty,
               ac_open_position_notional_usd = notional,
               ac_open_position_notional_known = notional_known, ac_reconciled = as_reconciled s\<rparr>))"

section \<open>Drawdown\<close>

definition peak_drawdown :: "account_state \<Rightarrow> pyfloat" where
  "peak_drawdown a =
     pymax (Fin 0)
       (fquot (ac_peak_equity_usd a - ac_equity_usd a) (ac_peak_equity_usd a) * Fin 100)"

definition daily_drawdown_pct :: "account_state \<Rightarrow> pyfloat" where
  "daily_drawdown_pct a = pymax (pymax (Fin 0) (- ac_daily_pnl_pct a)) (peak_drawdown a)"

section \<open>The exposure sum\<close>

text \<open>
  The positions the theorems assume: floats of the format, and prices that are not negative.
\<close>

definition position_ok :: "position_snapshot \<Rightarrow> bool" where
  "position_ok p \<longleftrightarrow> (\<forall>x. price_of p = Some x \<longrightarrow> x \<noteq> NaN \<and> Fin 0 \<le> x)"

text \<open>What a position adds to the sum when it is counted.\<close>

definition position_notional :: "position_snapshot \<Rightarrow> pyfloat" where
  "position_notional p =
     (case price_of p of Some x \<Rightarrow> \<bar>ps_signed_quantity p\<bar> * x | None \<Rightarrow> Fin 0)"

lemma abs_nonneg_float: "x \<noteq> NaN \<Longrightarrow> Fin 0 \<le> \<bar>x\<bar>"
  by (cases x) auto

lemma isfinite_abs [simp]: "isfinite \<bar>x\<bar> = isfinite x"
  by (cases x) auto

lemma feq_zero_iff: "feq x (Fin 0) \<longleftrightarrow> x = Fin 0"
  by (cases x) (auto simp: feq_def)

lemma times_zero_left: "isfinite (Fin 0 * x) \<Longrightarrow> Fin 0 * x = Fin 0"
  by (cases x) (auto simp: inf_of_sign_def)

definition counted :: "position_snapshot \<Rightarrow> bool" where
  "counted p \<longleftrightarrow> isfinite (ps_signed_quantity p) \<and> ps_signed_quantity p \<noteq> Fin 0 \<and>
     (\<exists>x. price_of p = Some x \<and> isfinite x) \<and> isfinite (position_notional p)"

lemma gross_step_eq:
  "gross_step (g, k) p =
     (if counted p then (g + position_notional p, k)
      else if ps_signed_quantity p = Fin 0 then (g, k) else (g, False))"
  by (cases "price_of p")
    (auto simp: counted_def Let_def feq_zero_iff position_notional_def)

declare gross_step.simps [simp del]

lemma gross_step_cases:
  obtains (counted) "counted p" "ps_signed_quantity p \<noteq> Fin 0"
      "gross_step (g, k) p = (g + position_notional p, k)"
  | (flat) "ps_signed_quantity p = Fin 0" "gross_step (g, k) p = (g, k)"
  | (unknown) "gross_step (g, k) p = (g, False)"
  using gross_step_eq [of g k p] counted_def [of p] by (auto split: if_splits)

lemma position_notional_nonneg: "position_ok p \<Longrightarrow> counted p \<Longrightarrow> Fin 0 \<le> position_notional p"
  by (auto simp: position_notional_def position_ok_def counted_def isfinite_not_NaN abs_nonneg_float
      intro!: times_nonneg)

lemma gross_foldl:
  assumes "\<forall>p \<in> set ps. position_ok p" "Fin 0 \<le> g" "is_b64 g"
  shows "Fin 0 \<le> fst (foldl gross_step (g, k) ps) \<and> is_b64 (fst (foldl gross_step (g, k) ps)) \<and>
    g \<le> fst (foldl gross_step (g, k) ps) \<and>
    (snd (foldl gross_step (g, k) ps) \<longrightarrow> k \<and>
       (\<forall>p \<in> set ps. ps_signed_quantity p \<noteq> Fin 0 \<longrightarrow>
          isfinite (ps_signed_quantity p) \<and> position_notional p \<le> fst (foldl gross_step (g, k) ps)))"
  using assms
proof (induction ps arbitrary: g k)
  case Nil
  then show ?case by (auto dest: float_le_not_NaN)
next
  case (Cons p ps)
  have ok: "position_ok p" "\<forall>p \<in> set ps. position_ok p" using Cons.prems by auto
  show ?case
  proof (cases p rule: gross_step_cases [where g = g and k = k])
    case counted
    let ?n = "position_notional p"
    have n: "Fin 0 \<le> ?n" "is_b64 ?n"
      using ok(1) counted(1) position_notional_nonneg [of p]
      by (auto simp: position_notional_def split: option.splits)
    have le: "g \<le> g + ?n" "?n \<le> g + ?n" "Fin 0 \<le> g + ?n" "is_b64 (g + ?n)"
      using n Cons.prems by (auto intro!: plus_ge_left plus_ge_right plus_nonneg dest: float_le_not_NaN)
    show ?thesis
      using Cons.IH [OF ok(2) le(3,4), of k] counted le(1,2)
      by (auto simp: counted_def intro: float_le_trans)
  next
    case flat
    then show ?thesis using Cons.IH [OF ok(2) Cons.prems(2,3), of k] by auto
  next
    case unknown
    then show ?thesis using Cons.IH [OF ok(2) Cons.prems(2,3), of False] by auto
  qed
qed

lemmas gross_of_sum = gross_foldl [where g = "Fin 0" and k = True, folded gross_of_def, simplified]

lemma selected_le_gross:
  assumes "\<forall>p \<in> set ps. position_ok p" "snd (gross_of ps)" "isfinite notional"
    and sel: "selected_values (find P ps) = (qty, notional, True)"
  shows "notional \<le> fst (gross_of ps)"
proof -
  have nonneg: "Fin 0 \<le> fst (gross_of ps)" using gross_of_sum [OF assms(1)] by simp
  show ?thesis
  proof (cases "\<exists>p. find P ps = Some p \<and> ps_signed_quantity p \<noteq> Fin 0")
    case True
    then obtain p where p: "find P ps = Some p" "ps_signed_quantity p \<noteq> Fin 0" by blast
    then have mem: "p \<in> set ps" by (auto simp: find_Some_iff)
    have "notional = position_notional p"
      using sel p by (auto simp: selected_values_def position_notional_def Let_def feq_zero_iff split: option.splits)
    then show ?thesis using gross_of_sum [OF assms(1)] assms(2) mem p(2) by simp
  next
    case False
    then have "notional = Fin 0 \<or> (\<exists>x. notional = Fin 0 * x)"
      using sel by (auto simp: selected_values_def Let_def split: option.splits if_splits)
    then have "notional = Fin 0" using assms(3) times_zero_left by blast
    then show ?thesis using nonneg by simp
  qed
qed

lemma gross_known_foldl:
  "snd (foldl gross_step (g, k) ps) \<longleftrightarrow>
     k \<and> (\<forall>p \<in> set ps. counted p \<or> ps_signed_quantity p = Fin 0)"
  by (induction ps arbitrary: g k) (auto simp: gross_step_eq counted_def)

lemma mk_account_Inr:
  "mk_account a = Inr b \<longleftrightarrow> b = a \<and> account_fields_ok a \<and> \<not> ac_peak_equity_usd a < ac_equity_usd a \<and>
     \<not> (ac_gross_exposure_known a \<and> ac_open_position_notional_known a \<and>
        ac_gross_exposure_usd a < ac_open_position_notional_usd a)"
  by (auto simp: mk_account_def validate_account_invariants_def)

section \<open>The size of a drawdown\<close>

lemma peak_drawdown_bounds:
  assumes "ac_peak_equity_usd a = Fin p" "ac_equity_usd a = Fin e" "0 < e" "e \<le> p"
    and "is_b64 (Fin p)" "is_b64 (Fin e)"
  shows "Fin 0 \<le> peak_drawdown a \<and> peak_drawdown a \<le> Fin 100"
proof -
  have hundred: "is_b64 (Fin 100)" "is_b64 (Fin 1)" by (simp_all add: rnd64_of_int [of 100, simplified] rnd64_of_int [of 1, simplified])
  have d: "Fin 0 \<le> to_float (p - e)" "to_float (p - e) \<le> Fin p"
    using assms by (auto intro: to_float_nonneg to_float_le_b64)
  obtain r where r: "to_float (p - e) = Fin r" "0 \<le> r" "r \<le> p"
    using d by (cases "to_float (p - e)") auto
  have q: "Fin 0 \<le> to_float (r / p)" "to_float (r / p) \<le> Fin 1"
    using r assms hundred by (auto intro: to_float_nonneg to_float_le_b64)
  then obtain t where t: "to_float (r / p) = Fin t" "0 \<le> t" "t \<le> 1"
    by (cases "to_float (r / p)") auto
  have "to_float (t * 100) \<le> Fin 100"
    using t hundred by (intro to_float_le_b64) auto
  moreover have "Fin 0 \<le> to_float (t * 100)" using t by (intro to_float_nonneg) simp
  ultimately show ?thesis
    using assms r t by (auto simp: peak_drawdown_def minus_pyfloat_def pymax_def)
qed

lemma peak_drawdown_mono:
  assumes "ac_peak_equity_usd b = ac_peak_equity_usd a" "ac_equity_usd b \<le> ac_equity_usd a"
    and "isfinite (ac_equity_usd b)" "isfinite (ac_equity_usd a)" "Fin 0 < ac_peak_equity_usd a"
    and "isfinite (ac_peak_equity_usd a)"
  shows "peak_drawdown a \<le> peak_drawdown b"
proof -
  obtain p e e' where v: "ac_peak_equity_usd a = Fin p" "0 < p" "ac_equity_usd a = Fin e"
      "ac_equity_usd b = Fin e'" "e' \<le> e"
    using assms by (auto elim!: isfiniteE)
  have "to_float (p - e) \<le> to_float (p - e')" using v(5) by (intro to_float_mono) simp
  then have "fquot (to_float (p - e)) (Fin p) \<le> fquot (to_float (p - e')) (Fin p)"
    using v(2) by (rule fquot_mono)
  then have "fquot (to_float (p - e)) (Fin p) * Fin 100 \<le> fquot (to_float (p - e')) (Fin p) * Fin 100"
    by (rule times_mono_left) simp_all
  then show ?thesis
    using v assms(1) by (auto simp: peak_drawdown_def minus_pyfloat_def intro: pymax_mono)
qed

section \<open>Properties\<close>


definition two_positions :: account_snapshot where
  "two_positions =
     \<lparr>as_exchange = ''evedex'', as_account_id = ''a'', as_equity_usd = Fin 1000,
      as_peak_equity_usd = Fin 1200, as_daily_pnl_pct = Fin (- 1),
      as_positions =
        [\<lparr>ps_exchange = ''evedex'', ps_account_id = ''a'', ps_symbol = ''BTC'',
          ps_signed_quantity = Fin (- (1 / 2)), ps_entry_price = Some (Fin 100),
          ps_mark_price = Some (Fin 0), ps_captured_at = Aware 0\<rparr>,
         \<lparr>ps_exchange = ''evedex'', ps_account_id = ''a'', ps_symbol = ''ETH'',
          ps_signed_quantity = Fin 3, ps_entry_price = None,
          ps_mark_price = Some (Fin 10), ps_captured_at = Aware 0\<rparr>],
      as_captured_at = Aware 0, as_reconciled = True, as_payload = []\<rparr>"


text \<open>
  C40. The entry drawdown is conservative. For a valid account whose figures are floats, it is a
  finite number, never negative, at least the reported daily loss and at least the fall from
  the peak, which is a percentage of at most 100; it is one of these two or 0, and losing
  equity with the peak and the reported figure unchanged never lowers it.
\<close>

theorem drawdown_is_conservative:
  assumes "mk_account a = Inr a" "is_b64 (ac_equity_usd a)" "is_b64 (ac_peak_equity_usd a)"
    and "ac_peak_equity_usd b = ac_peak_equity_usd a" "ac_daily_pnl_pct b = ac_daily_pnl_pct a"
    and "isfinite (ac_equity_usd b)" "ac_equity_usd b \<le> ac_equity_usd a"
  shows "isfinite (daily_drawdown_pct a) \<and> Fin 0 \<le> daily_drawdown_pct a \<and>
         - ac_daily_pnl_pct a \<le> daily_drawdown_pct a \<and>
         peak_drawdown a \<le> daily_drawdown_pct a \<and> peak_drawdown a \<le> Fin 100 \<and>
         daily_drawdown_pct a \<in> {Fin 0, - ac_daily_pnl_pct a, peak_drawdown a} \<and>
         daily_drawdown_pct a \<le> daily_drawdown_pct b"
proof -
  have ok: "account_fields_ok a" "\<not> ac_peak_equity_usd a < ac_equity_usd a"
    using assms(1) by (simp_all add: mk_account_Inr)
  then obtain p e d where v: "ac_peak_equity_usd a = Fin p" "ac_equity_usd a = Fin e"
      "ac_daily_pnl_pct a = Fin d" "0 < e" "e \<le> p"
    by (auto simp: account_fields_ok_def elim!: isfiniteE)
  have bounds: "Fin 0 \<le> peak_drawdown a" "peak_drawdown a \<le> Fin 100"
    using peak_drawdown_bounds [OF v(1,2,4,5)] assms(2,3) v(1,2) by simp_all
  then obtain t where t: "peak_drawdown a = Fin t" by (cases "peak_drawdown a") auto
  have "peak_drawdown a \<le> peak_drawdown b"
    using assms(4,6,7) v by (intro peak_drawdown_mono) auto
  then have "daily_drawdown_pct a \<le> daily_drawdown_pct b"
    unfolding daily_drawdown_pct_def assms(5) using v(3)
    by (intro pymax_mono) (auto simp: pymax_def)
  then show ?thesis
    using bounds t v(3) by (auto simp: daily_drawdown_pct_def pymax_def)
qed

theorem drawdown_is_conservative_witness:
  "Fin 5 \<le> daily_drawdown_pct
     \<lparr>ac_equity_usd = Fin 97, ac_peak_equity_usd = Fin 100, ac_daily_pnl_pct = Fin (- 5),
      ac_gross_exposure_usd = Fin 0, ac_gross_exposure_known = True, ac_open_position_qty = Fin 0,
      ac_open_position_notional_usd = Fin 0, ac_open_position_notional_known = False,
      ac_reconciled = True\<rparr>"
  (is "_ \<le> daily_drawdown_pct ?a")
proof -
  have "mk_account ?a = Inr ?a" by code_simp
  moreover have "is_b64 (ac_equity_usd ?a)" "is_b64 (ac_peak_equity_usd ?a)" by code_simp+
  ultimately have "- ac_daily_pnl_pct ?a \<le> daily_drawdown_pct ?a"
    using drawdown_is_conservative [OF _ _ _ refl refl, of ?a] by (simp del: is_b64.simps)
  then show ?thesis by simp
qed

end
