(* ===== verification/Config.thy ===== *)
theory Config
  imports Contracts "HOL-Library.Char_ord" "HOL-Library.List_Lexorder"
begin

text \<open>
  \<open>kairos_risk/config.py\<close>: the settings, their validators, and the strategy allowlist of
  the PAPER route. The record also holds what the program reads from \<open>CoreSettings\<close>, a
  class of \<open>kairos_core\<close>: four values and the predicate \<open>symbol_allowed\<close>.
\<close>

definition PAPER_DEV_SYMBOL_MAP :: "(string \<times> string) list" where
  "PAPER_DEV_SYMBOL_MAP =
     [(''BTCUSDT'', ''BTCUSD:DEV''), (''ETHUSDT'', ''ETHUSD:DEV''), (''SOLUSDT'', ''SOLUSD:DEV''),
      (''BNBUSDT'', ''BNBUSD:DEV''), (''XRPUSDT'', ''XRPUSD:DEV'')]"

definition PAPER_CANARY_STRATEGY_ID :: string where
  "PAPER_CANARY_STRATEGY_ID = ''technical-canary''"

definition REJECTED_PAPER_STRATEGY_IDS :: "string list" where
  "REJECTED_PAPER_STRATEGY_IDS =
     [''trend_breakout_v1'', ''trend_pullback_reclaim_v1'', ''range_mean_reversion_v1'',
      ''orderflow_volatility_expansion_v1'', ''regime_veto_retest_reclaim_v1'']"

record risk_settings =
  rs_service_name :: string
  rs_trading_mode :: trading_mode
  rs_dry_run :: "bool option"
  rs_evedex_profile :: evedex_profile
  rs_hard_leverage_limit :: pyfloat
  rs_safe_leverage_cap :: pyfloat
  rs_max_allowed_leverage :: pyfloat
  rs_max_daily_drawdown_pct :: pyfloat
  rs_per_trade_risk_fraction :: pyfloat
  rs_max_position_notional_usd :: pyfloat
  rs_min_notional_usd :: pyfloat
  rs_require_reconciled_account :: bool
  rs_account_snapshot_max_age_s :: pyfloat
  rs_require_strategic_allocation :: bool
  rs_strategic_allocation_max_age_s :: pyfloat
  rs_paper_strategy_allowlist :: "string list"
  rs_paper_account_id :: string
  rs_paper_operator_scope_file :: "string option"
  rs_paper_account_snapshot_max_age_s :: pyfloat
  rs_paper_per_trade_risk_fraction :: pyfloat
  rs_paper_max_total_open_risk_fraction :: pyfloat
  rs_paper_max_leverage :: pyfloat
  rs_paper_max_position_notional_usd :: pyfloat
  rs_paper_min_notional_usd :: pyfloat
  rs_paper_decision_cache_size :: int
  rs_paper_regime_policy_profile :: string
  rs_paper_regime_policy_file :: "string option"
  rs_paper_regime_policy_sha256 :: "string option"
  rs_paper_regime_source_set_sha256 :: "string option"
  rs_paper_regime_macro_source :: string
  rs_breaker_max_consecutive_failures :: int
  rs_breaker_cooldown_s :: pyfloat
  cs_environment :: string
  cs_bus_backend :: string
  cs_trading_symbols :: "string list"
  cs_symbol_allowed :: "string \<Rightarrow> bool"

section \<open>Field constraints\<close>

definition positive :: "pyfloat \<Rightarrow> bool" where
  "positive x \<longleftrightarrow> isfinite x \<and> Fin 0 < x"

definition is_sha256 :: "string \<Rightarrow> bool" where
  "is_sha256 s \<longleftrightarrow> length s = 64 \<and> set s \<subseteq> set ''0123456789abcdef''"

definition optionally :: "('a \<Rightarrow> bool) \<Rightarrow> 'a option \<Rightarrow> bool" where
  "optionally P m = (case m of Some x \<Rightarrow> P x | None \<Rightarrow> True)"

definition settings_fields_ok :: "risk_settings \<Rightarrow> bool" where
  "settings_fields_ok s \<longleftrightarrow>
     positive (rs_hard_leverage_limit s) \<and> positive (rs_safe_leverage_cap s) \<and>
     positive (rs_max_allowed_leverage s) \<and>
     positive (rs_max_daily_drawdown_pct s) \<and> rs_max_daily_drawdown_pct s \<le> Fin 100 \<and>
     positive (rs_per_trade_risk_fraction s) \<and> rs_per_trade_risk_fraction s \<le> Fin 1 \<and>
     positive (rs_max_position_notional_usd s) \<and> positive (rs_min_notional_usd s) \<and>
     positive (rs_account_snapshot_max_age_s s) \<and> positive (rs_strategic_allocation_max_age_s s) \<and>
     positive (rs_paper_account_snapshot_max_age_s s) \<and>
     positive (rs_paper_per_trade_risk_fraction s) \<and>
     rs_paper_per_trade_risk_fraction s \<le> to_float (25 / 10000) \<and>
     positive (rs_paper_max_total_open_risk_fraction s) \<and>
     rs_paper_max_total_open_risk_fraction s \<le> to_float (1 / 100) \<and>
     isfinite (rs_paper_max_leverage s) \<and>
     Fin 1 \<le> rs_paper_max_leverage s \<and> rs_paper_max_leverage s \<le> Fin 5 \<and>
     positive (rs_paper_max_position_notional_usd s) \<and> positive (rs_paper_min_notional_usd s) \<and>
     1 \<le> rs_paper_decision_cache_size s \<and>
     rs_paper_regime_policy_profile s \<in> {''legacy-v1'', ''adaptive-research-v1''} \<and>
     optionally is_sha256 (rs_paper_regime_policy_sha256 s) \<and>
     optionally is_sha256 (rs_paper_regime_source_set_sha256 s) \<and>
     0 \<le> rs_breaker_max_consecutive_failures s \<and> positive (rs_breaker_cooldown_s s)"

section \<open>Validators\<close>

definition at_sign :: char where "at_sign = CHR ''@''"

text \<open>\<open>item.split("@", maxsplit=1)\<close> unpacked into two names, which needs an at sign.\<close>

definition split_at_sign :: "string \<Rightarrow> (string \<times> string) res" where
  "split_at_sign item =
     (if at_sign \<in> set item
      then Inr (takeWhile (\<lambda>c. c \<noteq> at_sign) item, tl (dropWhile (\<lambda>c. c \<noteq> at_sign) item))
      else Inl (ValueError ''not enough values to unpack''))"

fun check_allowlist_items :: "string list \<Rightarrow> unit res" where
  "check_allowlist_items [] = Inr ()"
| "check_allowlist_items (item # items) =
     (if py_strip item \<noteq> item \<or> count_list item at_sign \<noteq> 1
      then Inl (ValueError
        ''paper strategy allowlist entries must be normalized '<strategy_id>@<revision>' '')
      else ebind (split_at_sign item) (\<lambda>(strategy_id, revision).
        if strategy_id = [] \<or> revision = []
        then Inl (ValueError ''paper strategy allowlist entries require strategy_id and revision'')
        else check_allowlist_items items))"

definition validate_paper_strategy_allowlist :: "string list \<Rightarrow> string list res" where
  "validate_paper_strategy_allowlist value =
     ebind (check_allowlist_items value) (\<lambda>_.
       if \<not> distinct value
       then Inl (ValueError ''paper strategy allowlist entries must be unique'')
       else Inr (sort value))"

definition validate_paper_account_id :: "string \<Rightarrow> string res" where
  "validate_paper_account_id value =
     (if \<not> normalized value
      then Inl (ValueError ''paper_account_id must be a normalized non-empty string'')
      else if py_lower value \<in> {''primary'', ''prod'', ''production'', ''live''}
      then Inl (ValueError ''PAPER requires a dedicated non-production account_id'')
      else Inr value)"

definition validate_paper_mode :: "risk_settings \<Rightarrow> unit res" where
  "validate_paper_mode s =
     (if rs_evedex_profile s \<noteq> DEV
      then Inl (ValueError ''PAPER is restricted to the exact EVEDEX DEV profile'')
      else if py_lower (cs_environment s) = ''prod''
      then Inl (ValueError ''PAPER cannot run in a production Kairos environment'')
      else if cs_bus_backend s = ''memory''
      then Inl (ValueError ''PAPER requires the durable Redis/PostgreSQL message path'')
      else if set (cs_trading_symbols s) \<noteq> set (map fst PAPER_DEV_SYMBOL_MAP)
      then Inl (ValueError ''PAPER requires the exact five-symbol DEV allowlist'')
      else Inr ())"

definition validate_regime_inputs :: "risk_settings \<Rightarrow> unit res" where
  "validate_regime_inputs s =
     (let regime_inputs = [rs_paper_regime_policy_file s, rs_paper_regime_policy_sha256 s,
                           rs_paper_regime_source_set_sha256 s] in
      if rs_paper_regime_policy_profile s = ''legacy-v1'' \<and> (\<exists>v \<in> set regime_inputs. v \<noteq> None)
      then Inl (ValueError ''regime artifacts require an explicit adaptive-research-v1 opt-in'')
      else if rs_paper_regime_policy_profile s = ''adaptive-research-v1'' \<and>
              (rs_trading_mode s \<noteq> PAPER \<or> (\<exists>v \<in> set regime_inputs. v = None))
      then Inl (ValueError
        ''adaptive regime policy requires PAPER and independently frozen file/hash/source set'')
      else if rs_paper_regime_policy_profile s = ''adaptive-research-v1'' \<and>
              \<not> normalized (rs_paper_regime_macro_source s)
      then Inl (ValueError ''adaptive Macro source must be exact and normalized'')
      else Inr ())"

definition validate_limit_ordering :: "risk_settings \<Rightarrow> unit res" where
  "validate_limit_ordering s =
     (if \<not> (rs_safe_leverage_cap s \<le> rs_max_allowed_leverage s \<and>
            rs_max_allowed_leverage s \<le> rs_hard_leverage_limit s)
      then Inl (ValueError ''leverage limits must satisfy safe_leverage_cap <= max_allowed_leverage <= hard_leverage_limit'')
      else if rs_max_position_notional_usd s < rs_min_notional_usd s
      then Inl (ValueError ''min_notional_usd cannot exceed max_position_notional_usd'')
      else if rs_paper_max_position_notional_usd s < rs_paper_min_notional_usd s
      then Inl (ValueError ''paper_min_notional_usd cannot exceed paper_max_position_notional_usd'')
      else if rs_dry_run s = Some False
      then Inl (ValueError ''KAIROS_DRY_RUN=false is retired; set KAIROS_TRADING_MODE explicitly. It never enables PAPER or LIVE.'')
      else if rs_dry_run s = Some True \<and> rs_trading_mode s \<noteq> DRY_RUN
      then Inl (ValueError ''KAIROS_DRY_RUN=true conflicts with an explicit non-DRY_RUN mode'')
      else if rs_trading_mode s = LIVE
      then Inl (ValueError ''LIVE is disabled: this release is not LIVE_READY'')
      else ebind (if rs_trading_mode s = PAPER then validate_paper_mode s else Inr ())
             (\<lambda>_. validate_regime_inputs s))"

text \<open>Constructing the settings: fields, field validators, model validator.\<close>

definition mk_settings :: "risk_settings \<Rightarrow> risk_settings res" where
  "mk_settings s =
     (if \<not> settings_fields_ok s then Inl (ValueError ''RiskSettings field'')
      else ebind (validate_paper_strategy_allowlist (rs_paper_strategy_allowlist s)) (\<lambda>allowlist.
        ebind (validate_paper_account_id (rs_paper_account_id s)) (\<lambda>account_id.
          let s1 = s\<lparr>rs_paper_strategy_allowlist := allowlist, rs_paper_account_id := account_id\<rparr>
          in ebind (validate_limit_ordering s1) (\<lambda>_. Inr s1))))"

section \<open>The allowlist\<close>

definition strategy_key :: "string \<Rightarrow> string \<Rightarrow> string" where
  "strategy_key strategy_id revision = strategy_id @ [at_sign] @ revision"

definition paper_strategy_allowed :: "risk_settings \<Rightarrow> string \<Rightarrow> string \<Rightarrow> bool" where
  "paper_strategy_allowed s strategy_id revision =
     (if strategy_id \<in> set REJECTED_PAPER_STRATEGY_IDS then False
      else strategy_key strategy_id revision \<in> set (rs_paper_strategy_allowlist s))"

fun allowed_revisions :: "risk_settings \<Rightarrow> string list \<Rightarrow> (string \<times> string) list res" where
  "allowed_revisions s [] = Inr []"
| "allowed_revisions s (item # items) =
     ebind (split_at_sign item) (\<lambda>(strategy_id, revision).
       ebind (allowed_revisions s items) (\<lambda>rest.
         Inr (if paper_strategy_allowed s strategy_id revision \<and>
                 strategy_id \<noteq> PAPER_CANARY_STRATEGY_ID
              then (strategy_id, revision) # rest else rest)))"

text \<open>
  \<open>RegimeCapabilityPolicyV1\<close> and its binding check are \<open>kairos_core\<close>'s: \<open>parse\<close>
  reads and validates the file, \<open>bind_policy\<close> is \<open>validate_policy_binding\<close>.
\<close>

definition load_regime_policy ::
    "(string \<Rightarrow> 'p res) \<Rightarrow> ('p \<Rightarrow> string \<Rightarrow> string \<Rightarrow> (string \<times> string) set \<Rightarrow> unit res) \<Rightarrow>
     risk_settings \<Rightarrow> 'p option res" where
  "load_regime_policy parse bind_policy s =
     (if rs_paper_regime_policy_profile s = ''legacy-v1'' then Inr None
      else
        (case (rs_paper_regime_policy_file s, rs_paper_regime_policy_sha256 s,
               rs_paper_regime_source_set_sha256 s) of
           (Some file, Some sha, Some sources) \<Rightarrow>
             ebind (parse file) (\<lambda>policy.
               ebind (allowed_revisions s (rs_paper_strategy_allowlist s)) (\<lambda>allowed.
                 ebind (bind_policy policy sha sources (set allowed)) (\<lambda>_. Inr (Some policy))))
         | _ \<Rightarrow> Inl (ValueError
             ''adaptive regime policy requires independently frozen file/hash/source set'')))"

section \<open>Entries of a validated allowlist\<close>

text \<open>An entry with one at sign is the key of exactly one pair.\<close>

lemma split_key: "at_sign \<notin> set a \<Longrightarrow> split_at_sign (strategy_key a b) = Inr (a, b)"
  by (induction a) (auto simp: split_at_sign_def strategy_key_def)

lemma split_key_inverse: "split_at_sign item = Inr (a, b) \<Longrightarrow> strategy_key a b = item"
proof -
  assume split: "split_at_sign item = Inr (a, b)"
  then have mem: "at_sign \<in> set item" and a: "a = takeWhile (\<lambda>c. c \<noteq> at_sign) item"
    and b: "b = tl (dropWhile (\<lambda>c. c \<noteq> at_sign) item)"
    by (auto simp: split_at_sign_def split: if_splits)
  have "dropWhile (\<lambda>c. c \<noteq> at_sign) item \<noteq> []" using mem by (auto simp: dropWhile_eq_Nil_conv)
  then have "dropWhile (\<lambda>c. c \<noteq> at_sign) item = at_sign # b"
    using hd_dropWhile [of "\<lambda>c. c \<noteq> at_sign" item] b by (cases "dropWhile (\<lambda>c. c \<noteq> at_sign) item") auto
  then show ?thesis
    using takeWhile_dropWhile_id [of "\<lambda>c. c \<noteq> at_sign" item] a by (simp add: strategy_key_def)
qed

lemma check_allowlist_items_Inr:
  "check_allowlist_items items = Inr u \<longleftrightarrow>
     (\<forall>item \<in> set items. py_strip item = item \<and> count_list item at_sign = 1 \<and>
        (\<exists>a b. split_at_sign item = Inr (a, b) \<and> a \<noteq> [] \<and> b \<noteq> []))"
  by (induction items) (auto simp: split_beta)

definition allowlist_ok :: "risk_settings \<Rightarrow> bool" where
  "allowlist_ok s \<longleftrightarrow>
     (\<forall>item \<in> set (rs_paper_strategy_allowlist s). py_strip item = item \<and> count_list item at_sign = 1 \<and>
        (\<exists>a b. split_at_sign item = Inr (a, b) \<and> a \<noteq> [] \<and> b \<noteq> []))"

lemma allowlist_Inr:
  "validate_paper_strategy_allowlist (rs_paper_strategy_allowlist s) = Inr l \<longleftrightarrow>
     allowlist_ok s \<and> distinct (rs_paper_strategy_allowlist s) \<and> l = sort (rs_paper_strategy_allowlist s)"
  by (auto simp: validate_paper_strategy_allowlist_def check_allowlist_items_Inr allowlist_ok_def)

lemma account_id_Inr: "validate_paper_account_id v = Inr w \<longleftrightarrow> w = v \<and> ok (validate_paper_account_id v)"
  by (auto simp: validate_paper_account_id_def)

lemma settings_fields_ok_allowlist [simp]:
  "settings_fields_ok (s\<lparr>rs_paper_strategy_allowlist := l\<rparr>) = settings_fields_ok s"
  by (simp add: settings_fields_ok_def)

lemma allowlist_ok_sort [simp]:
  "allowlist_ok (s\<lparr>rs_paper_strategy_allowlist := sort (rs_paper_strategy_allowlist s)\<rparr>) = allowlist_ok s"
  by (simp add: allowlist_ok_def)

lemma mk_settings_Inr:
  "mk_settings s = Inr t \<longleftrightarrow>
     t = s\<lparr>rs_paper_strategy_allowlist := sort (rs_paper_strategy_allowlist s)\<rparr> \<and>
     settings_fields_ok s \<and> allowlist_ok s \<and> distinct (rs_paper_strategy_allowlist s) \<and>
     ok (validate_paper_account_id (rs_paper_account_id s)) \<and> validate_limit_ordering t = Inr ()"
proof -
  have "s\<lparr>rs_paper_strategy_allowlist := l, rs_paper_account_id := rs_paper_account_id s\<rparr> =
      s\<lparr>rs_paper_strategy_allowlist := l\<rparr>" for l by (cases s) simp
  then show ?thesis
    by (auto simp: mk_settings_def allowlist_Inr account_id_Inr Let_def)
qed

lemma mk_settings_allowlist:
  assumes "mk_settings s = Inr t"
  shows "allowlist_ok t" "set (rs_paper_strategy_allowlist t) = set (rs_paper_strategy_allowlist s)"
  using assms by (auto simp: mk_settings_Inr)

lemma mk_settings_idem: "mk_settings s = Inr t \<Longrightarrow> mk_settings t = Inr t"
  by (auto simp: mk_settings_Inr sorted_sort_id)

lemma strategy_allowed_sides:
  assumes "allowlist_ok s" "paper_strategy_allowed s a b"
  shows "at_sign \<notin> set a \<and> at_sign \<notin> set b \<and> a \<noteq> [] \<and> b \<noteq> [] \<and> split_at_sign (strategy_key a b) = Inr (a, b)"
proof -
  have mem: "strategy_key a b \<in> set (rs_paper_strategy_allowlist s)"
    using assms(2) by (auto simp: paper_strategy_allowed_def split: if_splits)
  have "count_list (strategy_key a b) at_sign = 1" using assms(1) mem by (auto simp: allowlist_ok_def)
  then have sides: "at_sign \<notin> set a \<and> at_sign \<notin> set b" by (auto simp: strategy_key_def count_list_0_iff)
  then have key: "split_at_sign (strategy_key a b) = Inr (a, b)" by (intro split_key) simp
  then show ?thesis using sides assms(1) mem by (auto simp: allowlist_ok_def)
qed

lemma split_sides:
  assumes "count_list item at_sign = 1" "split_at_sign item = Inr (a, b)"
  shows "at_sign \<notin> set a \<and> at_sign \<notin> set b"
proof -
  have "count_list (a @ [at_sign] @ b) at_sign = 1"
    using split_key_inverse [OF assms(2)] assms(1) by (simp add: strategy_key_def)
  then show ?thesis by (auto simp: count_list_0_iff)
qed

lemma allowed_revisions_set:
  assumes "allowlist_ok s" "set items \<subseteq> set (rs_paper_strategy_allowlist s)"
  shows "\<exists>l. allowed_revisions s items = Inr l \<and>
    set l = {(a, b). strategy_key a b \<in> set items \<and> at_sign \<notin> set a \<and>
                     paper_strategy_allowed s a b \<and> a \<noteq> PAPER_CANARY_STRATEGY_ID}"
  using assms(2)
proof (induction items)
  case (Cons item items)
  then obtain l where l: "allowed_revisions s items = Inr l"
    "set l = {(a, b). strategy_key a b \<in> set items \<and> at_sign \<notin> set a \<and>
                      paper_strategy_allowed s a b \<and> a \<noteq> PAPER_CANARY_STRATEGY_ID}" by auto
  obtain a b where ab: "split_at_sign item = Inr (a, b)" "at_sign \<notin> set a"
    using Cons.prems assms(1) split_sides unfolding allowlist_ok_def
    by (metis list.set_intros(1) subsetD)
  have key: "strategy_key c d = item \<longleftrightarrow> c = a \<and> d = b" if "at_sign \<notin> set c" for c d
    using split_key [OF that, of d] split_key_inverse [OF ab(1)] ab(1) by (metis Pair_inject sum.inject(2))
  have mem: "(strategy_key c d \<in> set (item # items) \<and> at_sign \<notin> set c) =
      ((c = a \<and> d = b) \<or> (strategy_key c d \<in> set items \<and> at_sign \<notin> set c))" for c d
    using key [of c d] ab(2) by auto
  have "{(c, d). strategy_key c d \<in> set (item # items) \<and> at_sign \<notin> set c \<and>
          paper_strategy_allowed s c d \<and> c \<noteq> PAPER_CANARY_STRATEGY_ID} =
        {(c, d). ((c = a \<and> d = b) \<or> (strategy_key c d \<in> set items \<and> at_sign \<notin> set c)) \<and>
          paper_strategy_allowed s c d \<and> c \<noteq> PAPER_CANARY_STRATEGY_ID}"
    using mem by blast
  then show ?case using l ab(1) by auto
qed simp

lemma strategy_allowed_split:
  assumes "allowlist_ok s"
  shows "paper_strategy_allowed s a b \<longleftrightarrow> a \<notin> set REJECTED_PAPER_STRATEGY_IDS \<and>
    (\<exists>item \<in> set (rs_paper_strategy_allowlist s). split_at_sign item = Inr (a, b))"
proof -
  have "(\<exists>item \<in> set (rs_paper_strategy_allowlist s). split_at_sign item = Inr (a, b)) \<longleftrightarrow>
      strategy_key a b \<in> set (rs_paper_strategy_allowlist s)" if "a \<notin> set REJECTED_PAPER_STRATEGY_IDS"
    using strategy_allowed_sides [OF assms, of a b] split_key_inverse [of _ a b] that
    unfolding paper_strategy_allowed_def by metis
  then show ?thesis unfolding paper_strategy_allowed_def by presburger
qed

section \<open>Properties\<close>

text \<open>
  C37. Settings that pass validation confine the authority of the process. LIVE is impossible
  and the retired dry-run flag never grants anything; PAPER runs only on the DEV profile,
  outside production, on a durable bus and with exactly the five DEV symbols; the leverage
  limits are ordered; an adaptive regime policy is pinned by file, hash and source set and only
  in PAPER. Validating settings again changes nothing.
\<close>

theorem settings_confine_authority:
  assumes "mk_settings s = Inr t"
  shows "rs_trading_mode t \<noteq> LIVE \<and> rs_dry_run t \<noteq> Some False \<and>
    (rs_dry_run t = Some True \<longrightarrow> rs_trading_mode t = DRY_RUN) \<and>
    (rs_trading_mode t = PAPER \<longrightarrow>
       rs_evedex_profile t = DEV \<and> py_lower (cs_environment t) \<noteq> ''prod'' \<and>
       cs_bus_backend t \<noteq> ''memory'' \<and>
       set (cs_trading_symbols t) = fst ` set PAPER_DEV_SYMBOL_MAP) \<and>
    Fin 0 < rs_safe_leverage_cap t \<and> rs_safe_leverage_cap t \<le> rs_max_allowed_leverage t \<and>
    rs_max_allowed_leverage t \<le> rs_hard_leverage_limit t \<and>
    rs_min_notional_usd t \<le> rs_max_position_notional_usd t \<and>
    rs_paper_min_notional_usd t \<le> rs_paper_max_position_notional_usd t \<and>
    (rs_paper_regime_policy_profile t = ''adaptive-research-v1'' \<longleftrightarrow>
       rs_paper_regime_policy_sha256 t \<noteq> None) \<and>
    (rs_paper_regime_policy_profile t = ''adaptive-research-v1'' \<longrightarrow>
       rs_trading_mode t = PAPER \<and> rs_paper_regime_policy_file t \<noteq> None \<and>
       rs_paper_regime_source_set_sha256 t \<noteq> None) \<and>
    mk_settings t = Inr t"
proof -
  have ok: "settings_fields_ok t" and lim: "validate_limit_ordering t = Inr ()"
    using assms by (auto simp: mk_settings_Inr)
  have notional: "rs_min_notional_usd t \<le> rs_max_position_notional_usd t"
      "rs_paper_min_notional_usd t \<le> rs_paper_max_position_notional_usd t"
    using ok lim float_not_less isfinite_not_NaN
    by (auto simp: validate_limit_ordering_def settings_fields_ok_def positive_def split: if_splits)
  have profile: "rs_paper_regime_policy_profile t = ''legacy-v1'' \<or>
      rs_paper_regime_policy_profile t = ''adaptive-research-v1''"
    and cap: "Fin 0 < rs_safe_leverage_cap t"
    using ok by (auto simp: settings_fields_ok_def positive_def)
  have regime: "validate_regime_inputs t = Inr ()"
    and paper: "rs_trading_mode t = PAPER \<Longrightarrow> validate_paper_mode t = Inr ()"
    using lim by (auto simp: validate_limit_ordering_def split: if_splits)
  have "rs_trading_mode t = PAPER \<longrightarrow>
       rs_evedex_profile t = DEV \<and> py_lower (cs_environment t) \<noteq> ''prod'' \<and>
       cs_bus_backend t \<noteq> ''memory'' \<and> set (cs_trading_symbols t) = fst ` set PAPER_DEV_SYMBOL_MAP"
  proof
    assume "rs_trading_mode t = PAPER"
    then show "rs_evedex_profile t = DEV \<and> py_lower (cs_environment t) \<noteq> ''prod'' \<and>
       cs_bus_backend t \<noteq> ''memory'' \<and> set (cs_trading_symbols t) = fst ` set PAPER_DEV_SYMBOL_MAP"
      using paper by (simp add: validate_paper_mode_def split: if_split_asm)
  qed
  moreover have "(rs_paper_regime_policy_profile t = ''adaptive-research-v1'' \<longleftrightarrow>
       rs_paper_regime_policy_sha256 t \<noteq> None) \<and>
    (rs_paper_regime_policy_profile t = ''adaptive-research-v1'' \<longrightarrow>
       rs_trading_mode t = PAPER \<and> rs_paper_regime_policy_file t \<noteq> None \<and>
       rs_paper_regime_source_set_sha256 t \<noteq> None)"
    using regime profile
    by (cases "rs_paper_regime_policy_file t"; cases "rs_paper_regime_policy_sha256 t";
        cases "rs_paper_regime_source_set_sha256 t")
      (auto simp: validate_regime_inputs_def Let_def split: if_splits)
  ultimately show ?thesis
    using lim notional cap mk_settings_idem [OF assms]
    by (auto simp: validate_limit_ordering_def split: if_splits)
qed

text \<open>The settings with every default of the source, in the mode and allowlist given.\<close>

definition default_settings :: "trading_mode \<Rightarrow> string list \<Rightarrow> risk_settings" where
  "default_settings mode allowlist =
     \<lparr>rs_service_name = ''kairos-risk-manager'', rs_trading_mode = mode, rs_dry_run = None,
      rs_evedex_profile = DEV, rs_hard_leverage_limit = Fin 10, rs_safe_leverage_cap = Fin 5,
      rs_max_allowed_leverage = Fin 10, rs_max_daily_drawdown_pct = Fin 3,
      rs_per_trade_risk_fraction = to_float (2 / 100), rs_max_position_notional_usd = Fin 250000,
      rs_min_notional_usd = Fin 5, rs_require_reconciled_account = True,
      rs_account_snapshot_max_age_s = Fin 60, rs_require_strategic_allocation = True,
      rs_strategic_allocation_max_age_s = Fin 93600, rs_paper_strategy_allowlist = allowlist,
      rs_paper_account_id = ''kairos-paper-dev-01'', rs_paper_operator_scope_file = None,
      rs_paper_account_snapshot_max_age_s = Fin 30,
      rs_paper_per_trade_risk_fraction = to_float (25 / 10000),
      rs_paper_max_total_open_risk_fraction = to_float (1 / 100), rs_paper_max_leverage = Fin 1,
      rs_paper_max_position_notional_usd = Fin 1000, rs_paper_min_notional_usd = Fin 5,
      rs_paper_decision_cache_size = 10000, rs_paper_regime_policy_profile = ''legacy-v1'',
      rs_paper_regime_policy_file = None, rs_paper_regime_policy_sha256 = None,
      rs_paper_regime_source_set_sha256 = None,
      rs_paper_regime_macro_source = ''kairos-macro-strategist'',
      rs_breaker_max_consecutive_failures = 2, rs_breaker_cooldown_s = Fin 300,
      cs_environment = ''dev'', cs_bus_backend = ''redis'',
      cs_trading_symbols = map fst PAPER_DEV_SYMBOL_MAP,
      cs_symbol_allowed = (\<lambda>sym. sym \<in> fst ` set PAPER_DEV_SYMBOL_MAP)\<rparr>"

definition paper_defaults :: risk_settings where
  "paper_defaults = default_settings PAPER [''alpha@1'', ''technical-canary@3'']"

lemma paper_defaults_valid: "mk_settings paper_defaults = Inr paper_defaults"
proof -
  have "settings_fields_ok paper_defaults" by code_simp
  moreover have "validate_paper_strategy_allowlist (rs_paper_strategy_allowlist paper_defaults) =
    Inr (rs_paper_strategy_allowlist paper_defaults)" by code_simp
  moreover have "ok (validate_paper_account_id (rs_paper_account_id paper_defaults))" by code_simp
  moreover have "validate_limit_ordering paper_defaults = Inr ()" by code_simp
  moreover have "sort (rs_paper_strategy_allowlist paper_defaults) = rs_paper_strategy_allowlist paper_defaults"
    using calculation(2) by (simp add: allowlist_Inr)
  moreover have "s\<lparr>rs_paper_strategy_allowlist := rs_paper_strategy_allowlist s\<rparr> = s" for s :: risk_settings
    by (cases s) simp
  ultimately show ?thesis by (simp add: mk_settings_Inr allowlist_Inr)
qed

theorem settings_confine_authority_witness:
  "rs_trading_mode paper_defaults = PAPER \<and> cs_bus_backend paper_defaults \<noteq> ''memory''"
proof -
  have "rs_trading_mode paper_defaults = PAPER" by (simp add: paper_defaults_def default_settings_def)
  then show ?thesis using settings_confine_authority [OF paper_defaults_valid] by blast
qed

text \<open>
  C38. The allowlist means a set of (strategy, revision) pairs, although it is matched as text.
  After validation, a pair is allowed exactly when some configured entry splits into it and the
  strategy is not one of the hard-denied ones, so no other way of cutting an entry at an at
  sign is accepted and a denied strategy stays denied whatever is configured; and a loaded
  regime policy was bound against exactly the allowed pairs other than the canary.
\<close>

theorem allowlist_is_a_set_of_pairs:
  assumes "mk_settings s = Inr t"
  shows "(paper_strategy_allowed t a b \<longleftrightarrow> a \<notin> set REJECTED_PAPER_STRATEGY_IDS \<and>
            (\<exists>item \<in> set (rs_paper_strategy_allowlist s). split_at_sign item = Inr (a, b))) \<and>
    (load_regime_policy parse bind_policy t = Inr (Some policy) \<longrightarrow>
       (\<exists>file sha sources. rs_paper_regime_policy_file t = Some file \<and> parse file = Inr policy \<and>
          rs_paper_regime_policy_sha256 t = Some sha \<and>
          bind_policy policy sha sources
            {(c, d). paper_strategy_allowed t c d \<and> c \<noteq> PAPER_CANARY_STRATEGY_ID} = Inr ()))"
proof -
  note ok = mk_settings_allowlist [OF assms]
  obtain l where l: "allowed_revisions t (rs_paper_strategy_allowlist t) = Inr l"
      "set l = {(c, d). paper_strategy_allowed t c d \<and> c \<noteq> PAPER_CANARY_STRATEGY_ID}"
    using allowed_revisions_set [OF ok(1) subset_refl] strategy_allowed_sides [OF ok(1)]
    by (force simp: paper_strategy_allowed_def split: if_splits)
  show ?thesis
    using strategy_allowed_split [OF ok(1), of a b] ok(2) l
    by (auto simp: load_regime_policy_def split: if_splits option.splits)
qed

theorem allowlist_is_a_set_of_pairs_witness:
  "paper_strategy_allowed paper_defaults ''alpha'' ''1'' \<and>
   \<not> paper_strategy_allowed paper_defaults ''alpha'' ''1@''"
proof -
  have "split_at_sign ''alpha@1'' = Inr (''alpha'', ''1'')"
       "split_at_sign ''technical-canary@3'' = Inr (''technical-canary'', ''3'')" by code_simp+
  moreover have "rs_paper_strategy_allowlist paper_defaults = [''alpha@1'', ''technical-canary@3'']"
    by (simp add: paper_defaults_def default_settings_def)
  moreover have "''alpha'' \<notin> set REJECTED_PAPER_STRATEGY_IDS" by code_simp
  ultimately show ?thesis
    using allowlist_is_a_set_of_pairs [OF paper_defaults_valid, of "''alpha''" "''1''", THEN conjunct1]
      allowlist_is_a_set_of_pairs [OF paper_defaults_valid, of "''alpha''" "''1@''", THEN conjunct1] by simp
qed

end
