(* ===== verification/Sizing.thy ===== *)
theory Sizing
  imports Account Config
begin

text \<open>
  The small, pure parts of the legacy route: the filters of \<open>kairos_risk/validators.py\<close>, the
  quantity of \<open>kairos_risk/sizing.py\<close>, and the entry limits that a strategic allocation sets
  (\<open>kairos_risk/strategy.py\<close>).
\<close>

section \<open>Filters\<close>

definition ENTRY_CODES :: "reason_code list" where
  "ENTRY_CODES = [ENTER_LONG_TREND, ENTER_SHORT_TREND, REBALANCE]"

definition cap_leverage :: "pyfloat \<Rightarrow> risk_settings \<Rightarrow> pyfloat \<times> adjustment option" where
  "cap_leverage requested s =
     (if \<not> isfinite requested \<or> requested \<le> Fin 0
      then (Fin 0, Some (Note ''invalid leverage -> entry refused''))
      else if rs_hard_leverage_limit s < requested
      then (rs_safe_leverage_cap s,
            Some (FloatNote ''leverage exceeds hard limit -> capped (suspected error)''
              [requested, rs_hard_leverage_limit s, rs_safe_leverage_cap s]))
      else if rs_max_allowed_leverage s < requested
      then (rs_max_allowed_leverage s,
            Some (FloatNote ''leverage clamped'' [requested, rs_max_allowed_leverage s]))
      else (requested, None))"

definition drawdown_gate :: "reason_code \<Rightarrow> account_state \<Rightarrow> risk_settings \<Rightarrow> adjustment option" where
  "drawdown_gate reason account s =
     (if reason \<in> set ENTRY_CODES \<and> rs_max_daily_drawdown_pct s \<le> daily_drawdown_pct account
      then Some (FloatNote ''daily drawdown -> entry refused, forcing NO_TRADE''
             [daily_drawdown_pct account, rs_max_daily_drawdown_pct s])
      else None)"

definition enforce_min_notional ::
    "pyfloat \<Rightarrow> pyfloat \<Rightarrow> risk_settings \<Rightarrow> pyfloat \<times> adjustment option" where
  "enforce_min_notional qty price s =
     (if \<not> isfinite qty \<or> \<not> isfinite price \<or> qty \<le> Fin 0 \<or> price \<le> Fin 0
      then (Fin 0, Some (Note ''invalid quantity or price -> zeroed''))
      else if qty * price < rs_min_notional_usd s
      then (Fin 0, Some (FloatNote ''notional below exchange minimum -> zeroed'' [rs_min_notional_usd s]))
      else (qty, None))"

section \<open>Quantity\<close>

definition position_quantity ::
    "pyfloat \<Rightarrow> pyfloat \<Rightarrow> pyfloat \<Rightarrow> pyfloat \<Rightarrow> pyfloat \<Rightarrow> pyfloat" where
  "position_quantity equity_usd price leverage risk_fraction max_notional_usd =
     (if \<not> (\<forall>value \<in> set [equity_usd, price, leverage, risk_fraction, max_notional_usd]. isfinite value)
      then Fin 0
      else if equity_usd \<le> Fin 0 \<or> price \<le> Fin 0 \<or> leverage \<le> Fin 0 \<or>
              \<not> (Fin 0 < risk_fraction \<and> risk_fraction \<le> Fin 1)
      then Fin 0
      else if max_notional_usd \<le> Fin 0 then Fin 0
      else
        (let notional = equity_usd * risk_fraction * leverage;
             notional = pymin notional max_notional_usd
         in pymax (Fin 0) (fquot notional price)))"

section \<open>Strategic limits\<close>

record strategic_limits =
  sl_allowed :: bool
  sl_max_leverage :: pyfloat
  sl_available_equity_usd :: pyfloat
  sl_remaining_gross_notional_usd :: pyfloat
  sl_notes :: "adjustment list"

definition unit_interval :: "pyfloat \<Rightarrow> bool" where
  "unit_interval x \<longleftrightarrow> isfinite x \<and> Fin 0 \<le> x \<and> x \<le> Fin 1"

definition allocation_error :: "strategic_allocation \<Rightarrow> string option" where
  "allocation_error a =
     (if \<not> unit_interval (sa_stable_reserve_pct a)
      then Some ''strategic stable reserve must be a finite value in [0, 1]''
      else if \<not> isfinite (sa_max_gross_leverage a) \<or> sa_max_gross_leverage a \<le> Fin 0
      then Some ''strategic maximum leverage must be finite and positive''
      else
        (let weights = map snd (sa_strategy_weights a) in
         if \<exists>w \<in> set weights. \<not> unit_interval w
         then Some ''strategic weights must be finite values in [0, 1]''
         else if to_float (10001 / 10000) < sa_stable_reserve_pct a + fsum weights
         then Some ''strategic reserve and weights exceed total capital''
         else None))"

definition is_fresh :: "strategic_allocation \<Rightarrow> pyfloat \<Rightarrow> pydatetime \<Rightarrow> bool" where
  "is_fresh a max_age_s current =
     (if \<not> isfinite max_age_s \<or> max_age_s \<le> Fin 0 then False
      else if \<not> is_aware current \<or> \<not> is_aware (sa_produced_at a) then False
      else
        (let age_s = total_seconds (micros current - micros (sa_produced_at a))
         in Fin 0 \<le> age_s \<and> age_s \<le> max_age_s))"

definition closed_limits :: "string \<Rightarrow> strategic_limits" where
  "closed_limits note =
     \<lparr>sl_allowed = False, sl_max_leverage = Fin 0, sl_available_equity_usd = Fin 0,
      sl_remaining_gross_notional_usd = Fin 0, sl_notes = [Note note]\<rparr>"

definition regime_veto :: "market_regime \<Rightarrow> reason_code \<Rightarrow> string option" where
  "regime_veto regime reason =
     (if regime = BEAR \<and> reason = ENTER_LONG_TREND
      then Some ''strategic regime BEAR forbids new long trend entries''
      else if regime = BULL \<and> reason = ENTER_SHORT_TREND
      then Some ''strategic regime BULL forbids new short trend entries''
      else if regime = CHOP \<and> reason \<in> {ENTER_LONG_TREND, ENTER_SHORT_TREND}
      then Some ''strategic regime CHOP forbids new trend entries''
      else None)"

definition risk_budget :: "strategic_allocation \<Rightarrow> pyfloat" where
  "risk_budget a = pymax (Fin 0) (Fin 1 - sa_stable_reserve_pct a)"

definition limits_for ::
    "strategic_allocation \<Rightarrow> reason_code \<Rightarrow> pyfloat \<Rightarrow> pyfloat \<Rightarrow> strategic_limits" where
  "limits_for a reason equity_usd gross_exposure_usd =
     (if \<not> isfinite equity_usd \<or> equity_usd \<le> Fin 0 \<or> \<not> isfinite gross_exposure_usd \<or>
         gross_exposure_usd < Fin 0
      then closed_limits ''account inputs for strategic limits are invalid''
      else case allocation_error a of
        Some invalid \<Rightarrow> closed_limits invalid
      | None \<Rightarrow>
         (let veto = regime_veto (sa_regime a) reason;
              notes = (case veto of Some n \<Rightarrow> [Note n] | None \<Rightarrow> []);
              available_equity = equity_usd * risk_budget a;
              gross_cap = equity_usd * sa_max_gross_leverage a * risk_budget a;
              remaining = pymax (Fin 0) (gross_cap - gross_exposure_usd);
              exhausted = remaining \<le> Fin 0
          in \<lparr>sl_allowed = (veto = None \<and> \<not> exhausted),
              sl_max_leverage = sa_max_gross_leverage a,
              sl_available_equity_usd = available_equity,
              sl_remaining_gross_notional_usd = remaining,
              sl_notes = notes @
                (if exhausted then [Note ''strategic gross exposure cap exhausted''] else [])\<rparr>))"

section \<open>Facts about the filters\<close>

lemma cap_leverage_bounds:
  assumes "rs_safe_leverage_cap s \<le> rs_max_allowed_leverage s" "Fin 0 < rs_safe_leverage_cap s"
    and "rs_max_allowed_leverage s \<le> rs_hard_leverage_limit s"
    and "isfinite (rs_safe_leverage_cap s)" "isfinite (rs_max_allowed_leverage s)"
  shows "Fin 0 \<le> fst (cap_leverage r s) \<and> fst (cap_leverage r s) \<le> rs_max_allowed_leverage s \<and>
    (fst (cap_leverage r s) = Fin 0 \<or> fst (cap_leverage r s) \<le> r)"
  using assms
  by (cases r; cases "rs_safe_leverage_cap s"; cases "rs_max_allowed_leverage s";
      cases "rs_hard_leverage_limit s") (auto simp: cap_leverage_def)

lemma enforce_min_notional_pos:
  "Fin 0 < fst (enforce_min_notional q p s) \<longleftrightarrow>
     isfinite q \<and> isfinite p \<and> Fin 0 < q \<and> Fin 0 < p \<and> \<not> q * p < rs_min_notional_usd s"
  "Fin 0 < fst (enforce_min_notional q p s) \<Longrightarrow> enforce_min_notional q p s = (q, None)"
  by (auto simp: enforce_min_notional_def float_not_le isfinite_not_NaN
      dest: float_less_not_le split: if_splits)

lemma enforce_min_notional_cases:
  "fst (enforce_min_notional q p s) = Fin 0 \<or> enforce_min_notional q p s = (q, None) \<and> Fin 0 < q"
  by (auto simp: enforce_min_notional_def float_not_le isfinite_not_NaN)

text \<open>The quantity: what is spent is within both the equity budget and the cap.\<close>

lemma position_quantity_pos:
  assumes "Fin 0 < position_quantity e p l f m"
  obtains p' where "p = Fin p'" "0 < p'" "isfinite e" "isfinite l" "isfinite f" "isfinite m"
    "Fin 0 < e" "Fin 0 < l" "Fin 0 < f" "f \<le> Fin 1" "Fin 0 < m"
    "position_quantity e p l f m = fquot (pymin (e * f * l) m) p"
proof -
  have "Fin 0 < fquot (pymin (e * f * l) m) p"
      "position_quantity e p l f m = fquot (pymin (e * f * l) m) p"
      "isfinite e" "isfinite p" "isfinite l" "isfinite f" "isfinite m"
      "\<not> e \<le> Fin 0" "\<not> p \<le> Fin 0" "\<not> l \<le> Fin 0" "\<not> m \<le> Fin 0" "Fin 0 < f" "f \<le> Fin 1"
    using assms by (auto simp: position_quantity_def pymax_def Let_def split: if_splits)
  then show ?thesis
    by (intro that [of "case p of Fin p' \<Rightarrow> p' | _ \<Rightarrow> 0"]) (auto simp: float_not_le isfinite_iff)
qed

lemma times_nonneg_not_NaN: "Fin 0 \<le> x \<Longrightarrow> Fin 0 < y \<Longrightarrow> isfinite y \<Longrightarrow> x * y \<noteq> NaN \<and> Fin 0 \<le> x * y"
  by (cases x; cases y) (auto simp: inf_of_sign_def intro: to_float_nonneg)

lemma position_quantity_le:
  assumes "Fin 0 < position_quantity e (Fin p) l f m"
  shows "position_quantity e (Fin p) l f m \<le> fquot m (Fin p) \<and>
    position_quantity e (Fin p) l f m \<le> fquot (e * f * l) (Fin p)"
proof -
  from assms obtain p' where *: "Fin p = Fin p'" "0 < p'" "isfinite e" "isfinite l" "isfinite f" "isfinite m"
    "Fin 0 < e" "Fin 0 < l" "Fin 0 < f" "f \<le> Fin 1" "Fin 0 < m"
    "position_quantity e (Fin p) l f m = fquot (pymin (e * f * l) m) (Fin p)"
    by (rule position_quantity_pos)
  have "Fin 0 \<le> e * f" using *(5,7,9) by (auto intro: times_nonneg_not_NaN [THEN conjunct2] float_less_imp_le)
  then have "e * f * l \<noteq> NaN" "m \<noteq> NaN"
    using *(4,6,8) isfinite_not_NaN times_nonneg_not_NaN [of "e * f" l] by auto
  then show ?thesis
    using *(1,2,12) by (auto intro!: fquot_mono pymin_le1 pymin_le2)
qed

text \<open>It grows with the budget and with the cap, and falls with neither.\<close>

lemma times_pos_mono:
  assumes "Fin 0 \<le> x" "x \<le> y" "Fin 0 < c" "c \<le> d" "isfinite d"
  shows "x * c \<le> y * d"
  using assms
  by (cases x; cases y; cases c; cases d)
    (auto simp: inf_of_sign_def zero_less_mult_iff intro!: to_float_mono mult_mono)

lemma pymin_mono: "a \<le> b \<Longrightarrow> c \<le> d \<Longrightarrow> pymin a c \<le> pymin b d"
  by (cases a; cases b; cases c; cases d) (auto simp: pymin_def)

lemma position_quantity_nonneg [simp]: "Fin 0 \<le> position_quantity e p l f m"
  by (simp add: position_quantity_def Let_def)

lemma position_quantity_mono:
  assumes "e \<le> e'" "l \<le> l'" "f \<le> f'" "m \<le> m'" "isfinite e'" "isfinite l'" "f' \<le> Fin 1" "isfinite m'"
  shows "position_quantity e p l f m \<le> position_quantity e' p l' f' m'"
proof (cases "Fin 0 < position_quantity e p l f m")
  case True
  then obtain p' where *: "p = Fin p'" "0 < p'" "isfinite e" "isfinite l" "isfinite f" "isfinite m"
    "Fin 0 < e" "Fin 0 < l" "Fin 0 < f" "f \<le> Fin 1" "Fin 0 < m"
    "position_quantity e p l f m = fquot (pymin (e * f * l) m) p"
    by (rule position_quantity_pos)
  have pos: "Fin 0 < e'" "Fin 0 < l'" "Fin 0 < f'" "Fin 0 < m'" "isfinite f'"
    using * assms float_less_le_trans isfinite_between [of 0 f' 1] by (blast intro: float_less_imp_le)+
  have "Fin 0 \<le> e * f" using *(3,5,7,9) by (intro times_nonneg) (auto dest: float_less_imp_le)
  then have "e * f * l \<le> e' * f' * l'"
    using * assms pos by (intro times_pos_mono) (auto dest: float_less_imp_le)
  then have "fquot (pymin (e * f * l) m) p \<le> fquot (pymin (e' * f' * l') m') p"
    using *(1,2) assms(4) by (auto intro!: fquot_mono pymin_mono)
  also have "\<dots> \<le> position_quantity e' p l' f' m'"
    using pos assms *(1,2) pymax_ge2 [of "Fin 0" "fquot (pymin (e' * f' * l') m') p"] calculation
    by (auto simp: position_quantity_def Let_def dest: float_less_not_le float_le_not_NaN)
  finally show ?thesis using *(12) by simp
next
  case False
  then have "position_quantity e p l f m = Fin 0"
    using position_quantity_nonneg [of e p l f m] by (cases "position_quantity e p l f m") auto
  then show ?thesis by simp
qed

text \<open>
  In exact arithmetic: price times quantity overshoots the amount divided by at most one
  relative rounding step (and one subnormal step of the price).
\<close>

definition rounding_room :: "rat \<Rightarrow> rat \<Rightarrow> rat" where
  "rounding_room amount price = amount * (1 + 2 powi (-52) / 2) + price * (2 powi (-1074) / 2)"

lemma rounding_room_mono: "a \<le> b \<Longrightarrow> rounding_room a p \<le> rounding_room b p"
  by (simp add: rounding_room_def mult_right_mono)

lemma fquot_overshoot:
  assumes "fquot x (Fin p) = Fin q" "x = Fin b" "0 < p" "0 \<le> b"
  shows "q * p \<le> rounding_room b p"
proof -
  have q: "q = rnd64 (b / p)" using assms to_float_FinD by auto
  have "q \<le> b / p * (1 + 2 powi (-52) / 2) + 2 powi (-1074) / 2"
    unfolding q using assms(3,4) by (intro b64.rnd_upper) simp
  then have "q * p \<le> (b / p * (1 + 2 powi (-52) / 2) + 2 powi (-1074) / 2) * p"
    using assms(3) by (intro mult_right_mono) auto
  then show ?thesis using assms(3) by (simp add: rounding_room_def algebra_simps)
qed

text \<open>Strategic limits that allow an entry come from a sane allocation and account.\<close>

lemma limits_for_allowed:
  assumes "sl_allowed (limits_for a reason e g)"
  shows "allocation_error a = None \<and> regime_veto (sa_regime a) reason = None \<and>
    isfinite e \<and> Fin 0 < e \<and> isfinite g \<and> Fin 0 \<le> g \<and>
    sl_max_leverage (limits_for a reason e g) = sa_max_gross_leverage a \<and>
    sl_available_equity_usd (limits_for a reason e g) = e * risk_budget a \<and>
    sl_remaining_gross_notional_usd (limits_for a reason e g) =
      e * sa_max_gross_leverage a * risk_budget a - g \<and>
    Fin 0 < e * sa_max_gross_leverage a * risk_budget a - g"
  using assms
  by (auto simp: limits_for_def closed_limits_def Let_def pymax_def float_not_le float_not_less
      isfinite_not_NaN dest: float_less_not_le split: if_splits option.splits)

end
