(* ===== verification/Pipeline.thy ===== *)
theory Pipeline
  imports Sizing
begin

text \<open>
  \<open>RiskPipeline\<close> (\<open>kairos_risk/pipeline.py\<close>), the decision on one tactical command, and
  the policy matrix of \<open>kairos_risk/evaluation.py\<close>. \<open>uuid5\<close> is the standard library's
  name hash, a parameter \<open>uuid\<close> of what uses it. The decision is built in the order of the
  code: gates, leverage, direction and size, minimum notional.
\<close>

definition SIDE_MAP :: "reason_code \<Rightarrow> order_side option" where
  "SIDE_MAP reason =
     (case reason of ENTER_LONG_TREND \<Rightarrow> Some BUY | ENTER_SHORT_TREND \<Rightarrow> Some SELL | _ \<Rightarrow> None)"

definition NEW_RISK_REASONS :: "reason_code list" where
  "NEW_RISK_REASONS = [ENTER_LONG_TREND, ENTER_SHORT_TREND, REBALANCE]"

definition EXPECTED_ENTRY_SIDE :: "reason_code \<Rightarrow> side option" where
  "EXPECTED_ENTRY_SIDE reason =
     (case reason of ENTER_LONG_TREND \<Rightarrow> Some LONG | ENTER_SHORT_TREND \<Rightarrow> Some SHORT | _ \<Rightarrow> None)"

section \<open>Identities and refusals\<close>

type_synonym uuid = "string \<Rightarrow> string"

definition derived_id :: "uuid \<Rightarrow> tactical_command \<Rightarrow> string \<Rightarrow> string" where
  "derived_id uuid command kind = uuid (''kairos:risk:'' @ kind @ '':'' @ tc_message_id command)"

definition correlation_of :: "tactical_command \<Rightarrow> string" where
  "correlation_of command =
     (case tc_correlation_id command of
        Some c \<Rightarrow> if c = [] then tc_message_id command else c
      | None \<Rightarrow> tc_message_id command)"

definition refuse_order ::
    "uuid \<Rightarrow> risk_settings \<Rightarrow> tactical_command \<Rightarrow> reason_code \<Rightarrow> adjustment list \<Rightarrow> validated_order" where
  "refuse_order uuid s command reason adjustments =
     (let intent =
        \<lparr>oi_source = rs_service_name s, oi_message_id = derived_id uuid command ''intent'',
         oi_correlation_id = correlation_of command, oi_causation_id = tc_message_id command,
         oi_symbol = tc_symbol command, oi_side = Some BUY, oi_order_type = MARKET,
         oi_quantity = to_float (1 / 10 ^ 9), oi_price = None, oi_leverage = None,
         oi_reduce_only = None, oi_reason_code = reason\<rparr>
      in \<lparr>vo_source = rs_service_name s, vo_message_id = derived_id uuid command ''decision'',
          vo_correlation_id = correlation_of command, vo_causation_id = tc_message_id command,
          vo_intent = intent, vo_approved = False, vo_reason_code = reason,
          vo_adjustments = adjustments, vo_risk_notes = Note ''refused by risk manager''\<rparr>)"

text \<open>The fallback account of the code is passed to \<open>_refuse\<close>, which does not read it.\<close>

definition refuse :: "uuid \<Rightarrow> risk_settings \<Rightarrow> tactical_command \<Rightarrow> string \<Rightarrow> validated_order" where
  "refuse uuid s command adjustment = refuse_order uuid s command NO_TRADE [Note adjustment]"

section \<open>The decision\<close>

text \<open>Steps 1 to 3: the reason code of a refusal and its note, if one of the gates fires.\<close>

definition entry_gates ::
    "risk_settings \<Rightarrow> tactical_command \<Rightarrow> account_state \<Rightarrow> pyfloat \<Rightarrow> system_mode \<Rightarrow>
     (reason_code \<times> adjustment list) option" where
  "entry_gates s command account price mode =
     (let reason = tc_reason_code command in
      if \<not> isfinite price \<or> price \<le> Fin 0
      then Some (NO_TRADE, [Note ''finite positive reference price required''])
      else if mode = LOCAL_QUANT_MODE \<and> reason \<in> set NEW_RISK_REASONS
      then Some (NO_TRADE, [Note ''LOCAL_QUANT_MODE blocks new risk''])
      else if EXPECTED_ENTRY_SIDE reason \<noteq> None \<and>
              EXPECTED_ENTRY_SIDE reason \<noteq> Some (tc_target_side command)
      then Some (NO_TRADE,
             [SideNote reason (the (EXPECTED_ENTRY_SIDE reason)) (tc_target_side command)])
      else if reason \<in> set NEW_RISK_REASONS \<and> \<not> ac_gross_exposure_known account
      then Some (NO_TRADE, [Note ''authoritative gross exposure is unavailable''])
      else case drawdown_gate reason account s of
        Some veto \<Rightarrow> Some (NO_TRADE, [veto])
      | None \<Rightarrow>
          if reason \<in> {HOLD, NO_TRADE, REDUCE_LEVERAGE} then Some (reason, []) else None)"

text \<open>Step 4.\<close>

definition strategic_of ::
    "strategic_allocation option \<Rightarrow> reason_code \<Rightarrow> account_state \<Rightarrow> strategic_limits option" where
  "strategic_of allocation reason account =
     (case allocation of
        Some a \<Rightarrow>
          if reason \<noteq> CLOSE_POSITION
          then Some (limits_for a reason (ac_equity_usd account) (ac_gross_exposure_usd account))
          else None
      | None \<Rightarrow> None)"

text \<open>Step 5: the leverage and its notes, the strategic one first.\<close>

definition decide_leverage ::
    "risk_settings \<Rightarrow> pyfloat \<Rightarrow> strategic_limits option \<Rightarrow> pyfloat \<times> adjustment list" where
  "decide_leverage s requested strategic =
     (let (leverage, note) = cap_leverage requested s;
          notes = (case note of Some n \<Rightarrow> [n] | None \<Rightarrow> []) in
      case strategic of
        Some l \<Rightarrow>
          if sl_max_leverage l < leverage
          then (sl_max_leverage l,
                FloatNote ''leverage capped by strategic allocation'' [sl_max_leverage l] # notes)
          else (leverage, notes)
      | None \<Rightarrow> (leverage, notes))"

text \<open>
  Step 6: a refusal note, or the side and the quantity. \<open>side\<close> may be \<open>None\<close> here only
  for a reason code that the maps do not list.
\<close>

definition exit_sizing :: "account_state \<Rightarrow> adjustment + order_side option \<times> pyfloat" where
  "exit_sizing account =
     (if feq (ac_open_position_qty account) (Fin 0) then Inl (Note ''no open position to close'')
      else Inr (Some (if Fin 0 < ac_open_position_qty account then SELL else BUY),
                \<bar>ac_open_position_qty account\<bar>))"

definition entry_cap :: "risk_settings \<Rightarrow> account_state \<Rightarrow> strategic_limits option \<Rightarrow> pyfloat" where
  "entry_cap s account strategic =
     (let max_notional = pymax (Fin 0)
            (rs_max_position_notional_usd s - ac_open_position_notional_usd account) in
      case strategic of
        Some l \<Rightarrow> pymin max_notional (sl_remaining_gross_notional_usd l)
      | None \<Rightarrow> max_notional)"

definition sizing_equity :: "account_state \<Rightarrow> strategic_limits option \<Rightarrow> pyfloat" where
  "sizing_equity account strategic =
     (case strategic of Some l \<Rightarrow> sl_available_equity_usd l | None \<Rightarrow> ac_equity_usd account)"

definition position_side :: "account_state \<Rightarrow> side" where
  "position_side account = (if Fin 0 < ac_open_position_qty account then LONG else SHORT)"

definition entry_sizing ::
    "risk_settings \<Rightarrow> tactical_command \<Rightarrow> account_state \<Rightarrow> pyfloat \<Rightarrow> strategic_limits option \<Rightarrow>
     pyfloat \<Rightarrow> adjustment + order_side option \<times> pyfloat" where
  "entry_sizing s command account price strategic leverage =
     (let reason = tc_reason_code command;
          side = (if reason = REBALANCE
                  then (case tc_target_side command of
                          LONG \<Rightarrow> Some BUY | SHORT \<Rightarrow> Some SELL | FLAT \<Rightarrow> None)
                  else SIDE_MAP reason) in
      if reason = REBALANCE \<and> side = None
      then Inl (Note ''rebalance requires LONG or SHORT target_side'')
      else if \<not> feq (ac_open_position_qty account) (Fin 0) \<and>
              tc_target_side command \<noteq> position_side account
      then Inl (Note ''entry target opposes the open position; close it before changing direction'')
      else if \<not> feq (ac_open_position_qty account) (Fin 0) \<and>
              \<not> ac_open_position_notional_known account
      then Inl (Note ''command-symbol position notional is unavailable'')
      else if entry_cap s account strategic \<le> Fin 0
      then Inl (Note ''position or strategic gross-notional cap exhausted'')
      else Inr (side,
             position_quantity (sizing_equity account strategic) price leverage
               (rs_per_trade_risk_fraction s) (entry_cap s account strategic)))"

definition approve_order ::
    "uuid \<Rightarrow> risk_settings \<Rightarrow> tactical_command \<Rightarrow> account_state \<Rightarrow> pyfloat \<Rightarrow> adjustment list \<Rightarrow>
     order_side option \<Rightarrow> pyfloat \<Rightarrow> pyfloat \<Rightarrow> validated_order" where
  "approve_order uuid s command account price adjustments side qty leverage =
     (let reason = tc_reason_code command;
          intent =
        \<lparr>oi_source = rs_service_name s, oi_message_id = derived_id uuid command ''intent'',
         oi_correlation_id = correlation_of command, oi_causation_id = tc_message_id command,
         oi_symbol = tc_symbol command, oi_side = side, oi_order_type = LIMIT,
         oi_quantity = qty, oi_price = Some price, oi_leverage = Some leverage,
         oi_reduce_only = Some (reason = CLOSE_POSITION), oi_reason_code = reason\<rparr>
      in \<lparr>vo_source = rs_service_name s, vo_message_id = derived_id uuid command ''decision'',
          vo_correlation_id = correlation_of command, vo_causation_id = tc_message_id command,
          vo_intent = intent, vo_approved = True, vo_reason_code = reason,
          vo_adjustments = adjustments,
          vo_risk_notes =
            FloatNote ''equity dd'' [ac_equity_usd account, daily_drawdown_pct account]\<rparr>)"

definition validate ::
    "uuid \<Rightarrow> risk_settings \<Rightarrow> tactical_command \<Rightarrow> account_state \<Rightarrow> pyfloat \<Rightarrow>
     strategic_allocation option \<Rightarrow> system_mode \<Rightarrow> validated_order" where
  "validate uuid s command account price allocation mode =
     (let reason = tc_reason_code command in
      case entry_gates s command account price mode of
        Some (code, notes) \<Rightarrow> refuse_order uuid s command code notes
      | None \<Rightarrow>
         (let strategic = strategic_of allocation reason account;
              adj = (case strategic of Some l \<Rightarrow> sl_notes l | None \<Rightarrow> []) in
          if (case strategic of Some l \<Rightarrow> \<not> sl_allowed l | None \<Rightarrow> False)
          then refuse_order uuid s command NO_TRADE adj
          else
            (let (leverage, notes) = decide_leverage s (tc_requested_leverage command) strategic;
                 adj = adj @ notes;
                 sized = (if reason = CLOSE_POSITION then exit_sizing account
                          else entry_sizing s command account price strategic leverage)
             in case sized of
                  Inl note \<Rightarrow> refuse_order uuid s command NO_TRADE (adj @ [note])
                | Inr (side, qty) \<Rightarrow>
                   (let (qty, note) = enforce_min_notional qty price s;
                        adj = adj @ (case note of Some n \<Rightarrow> [n] | None \<Rightarrow> [])
                    in if qty \<le> Fin 0 then refuse_order uuid s command NO_TRADE adj
                       else approve_order uuid s command account price adj side qty leverage))))"

section \<open>The policy matrix\<close>

record risk_case =
  rc_name :: string
  rc_command :: tactical_command
  rc_account :: account_state
  rc_price :: pyfloat
  rc_allocation :: "strategic_allocation option"
  rc_system_mode :: system_mode

record risk_case_result =
  rr_name :: string
  rr_decision :: validated_order
  rr_approved_notional_usd :: pyfloat

record risk_evaluation =
  re_cases :: "risk_case_result list"
  re_approved :: int
  re_refused :: int
  re_approved_notional_usd :: pyfloat

text \<open>\<open>decision.intent.price or case.price\<close>\<close>

definition intent_price :: "validated_order \<Rightarrow> pyfloat \<Rightarrow> pyfloat" where
  "intent_price decision price =
     (case oi_price (vo_intent decision) of
        Some p \<Rightarrow> if feq p (Fin 0) then price else p | None \<Rightarrow> price)"

definition evaluate_case :: "uuid \<Rightarrow> risk_settings \<Rightarrow> risk_case \<Rightarrow> risk_case_result res" where
  "evaluate_case uuid s c =
     (let decision = validate uuid s (rc_command c) (rc_account c) (rc_price c) (rc_allocation c)
                       (rc_system_mode c) in
      if \<not> vo_approved decision
      then Inr \<lparr>rr_name = rc_name c, rr_decision = decision, rr_approved_notional_usd = Fin 0\<rparr>
      else
        (let notional = oi_quantity (vo_intent decision) * intent_price decision (rc_price c) in
         if \<not> isfinite notional \<or> notional \<le> Fin 0
         then Inl (AssertionError ''approved order has invalid notional'')
         else if vo_reason_code decision = NO_TRADE
         then Inl (AssertionError ''NO_TRADE decision cannot be approved'')
         else if rc_system_mode c = LOCAL_QUANT_MODE \<and>
                 oi_reduce_only (vo_intent decision) \<noteq> Some True
         then Inl (AssertionError ''LOCAL_QUANT_MODE approved new risk'')
         else Inr \<lparr>rr_name = rc_name c, rr_decision = decision,
                   rr_approved_notional_usd = notional\<rparr>))"

fun evaluate_cases :: "uuid \<Rightarrow> risk_settings \<Rightarrow> risk_case list \<Rightarrow> risk_case_result list res" where
  "evaluate_cases uuid s [] = Inr []"
| "evaluate_cases uuid s (c # cs) =
     ebind (evaluate_case uuid s c) (\<lambda>r. ebind (evaluate_cases uuid s cs) (\<lambda>rs. Inr (r # rs)))"

definition evaluate_policy :: "uuid \<Rightarrow> risk_settings \<Rightarrow> risk_case list \<Rightarrow> risk_evaluation res" where
  "evaluate_policy uuid s cases =
     (if cases = [] \<or> \<not> distinct (map rc_name cases)
      then Inl (ValueError ''risk cases must be non-empty and uniquely named'')
      else ebind (evaluate_cases uuid s cases) (\<lambda>output.
        let approved = int (length (filter (\<lambda>r. vo_approved (rr_decision r)) output)) in
        Inr \<lparr>re_cases = output, re_approved = approved,
             re_refused = int (length output) - approved,
             re_approved_notional_usd = fsum (map rr_approved_notional_usd output)\<rparr>))"

section \<open>What an approval means\<close>

lemma refuse_order_simps [simp]:
  "vo_approved (refuse_order uuid s c r a) = False"
  "vo_reason_code (refuse_order uuid s c r a) = r"
  "vo_message_id (refuse_order uuid s c r a) = derived_id uuid c ''decision''"
  "oi_message_id (vo_intent (refuse_order uuid s c r a)) = derived_id uuid c ''intent''"
  "vo_causation_id (refuse_order uuid s c r a) = tc_message_id c"
  by (simp_all add: refuse_order_def Let_def)

lemma approve_order_simps [simp]:
  "vo_approved (approve_order uuid s c ac p a sd q l) = True"
  "vo_reason_code (approve_order uuid s c ac p a sd q l) = tc_reason_code c"
  "vo_message_id (approve_order uuid s c ac p a sd q l) = derived_id uuid c ''decision''"
  "oi_message_id (vo_intent (approve_order uuid s c ac p a sd q l)) = derived_id uuid c ''intent''"
  "vo_causation_id (approve_order uuid s c ac p a sd q l) = tc_message_id c"
  "oi_symbol (vo_intent (approve_order uuid s c ac p a sd q l)) = tc_symbol c"
  "oi_side (vo_intent (approve_order uuid s c ac p a sd q l)) = sd"
  "oi_quantity (vo_intent (approve_order uuid s c ac p a sd q l)) = q"
  "oi_price (vo_intent (approve_order uuid s c ac p a sd q l)) = Some p"
  "oi_leverage (vo_intent (approve_order uuid s c ac p a sd q l)) = Some l"
  "oi_reduce_only (vo_intent (approve_order uuid s c ac p a sd q l)) = Some (tc_reason_code c = CLOSE_POSITION)"
  "oi_order_type (vo_intent (approve_order uuid s c ac p a sd q l)) = LIMIT"
  "oi_reason_code (vo_intent (approve_order uuid s c ac p a sd q l)) = tc_reason_code c"
  by (simp_all add: approve_order_def Let_def)

definition allowed_by :: "strategic_limits option \<Rightarrow> bool" where
  "allowed_by strategic = (case strategic of Some l \<Rightarrow> sl_allowed l | None \<Rightarrow> True)"

text \<open>The decision as one condition: the single place where the branches are multiplied out.\<close>

lemma validate_approved_iff:
  fixes s c ac price al
  defines "st \<equiv> strategic_of al (tc_reason_code c) ac"
  defines "lev \<equiv> fst (decide_leverage s (tc_requested_leverage c) st)"
  shows "vo_approved (validate uuid s c ac price al mode) \<longleftrightarrow>
    entry_gates s c ac price mode = None \<and> allowed_by st \<and>
    (\<exists>side q. (if tc_reason_code c = CLOSE_POSITION then exit_sizing ac
               else entry_sizing s c ac price st lev) = Inr (side, q) \<and>
       Fin 0 < fst (enforce_min_notional q price s))"
proof -
  have pos: "\<not> fst (enforce_min_notional q price s) \<le> Fin 0 \<longleftrightarrow> Fin 0 < fst (enforce_min_notional q price s)" for q
    using enforce_min_notional_cases [of q price s] by (auto dest: float_less_not_le)
  let ?sized = "if tc_reason_code c = CLOSE_POSITION then exit_sizing ac
                else entry_sizing s c ac price st lev"
  show ?thesis
  proof (cases "entry_gates s c ac price mode")
    case (Some x)
    then show ?thesis by (cases x) (simp add: validate_def)
  next
    case None
    have veto: "(case st of Some l \<Rightarrow> \<not> sl_allowed l | None \<Rightarrow> False) = (\<not> allowed_by st)"
      by (simp add: allowed_by_def split: option.splits)
    obtain nts where lev: "decide_leverage s (tc_requested_leverage c) st = (lev, nts)"
      unfolding lev_def by (metis prod.collapse)
    show ?thesis
    proof (cases "?sized")
      case (Inl nt)
      then show ?thesis
        unfolding validate_def st_def [symmetric] Let_def None option.case veto lev prod.case by simp
    next
      case (Inr x)
      obtain side q where x: "x = (side, q)" by (cases x)
      obtain q' nt where q': "enforce_min_notional q price s = (q', nt)" by (cases "enforce_min_notional q price s")
      show ?thesis
        using Inr pos [of q] q' None
        unfolding validate_def st_def [symmetric] Let_def None option.case veto lev prod.case x
        by auto
    qed
  qed
qed

lemma validate_approvedE:
  assumes "vo_approved (validate uuid s c ac price al mode)"
  obtains side q st lev adj where "st = strategic_of al (tc_reason_code c) ac"
    "lev = fst (decide_leverage s (tc_requested_leverage c) st)"
    "entry_gates s c ac price mode = None" "allowed_by st"
    "(if tc_reason_code c = CLOSE_POSITION then exit_sizing ac
      else entry_sizing s c ac price st lev) = Inr (side, q)"
    "isfinite q" "Fin 0 < q" "\<not> q * price < rs_min_notional_usd s"
    "validate uuid s c ac price al mode = approve_order uuid s c ac price adj side q lev"
proof -
  let ?st = "strategic_of al (tc_reason_code c) ac"
  let ?lev = "fst (decide_leverage s (tc_requested_leverage c) ?st)"
  obtain side q where *: "entry_gates s c ac price mode = None" "allowed_by ?st"
    "(if tc_reason_code c = CLOSE_POSITION then exit_sizing ac
      else entry_sizing s c ac price ?st ?lev) = Inr (side, q)"
    "Fin 0 < fst (enforce_min_notional q price s)"
    using assms by (auto simp: validate_approved_iff)
  then have q: "enforce_min_notional q price s = (q, None)" "isfinite q" "Fin 0 < q"
      "\<not> q * price < rs_min_notional_usd s"
    using enforce_min_notional_pos [of q price s] by auto
  have veto: "(case ?st of Some l \<Rightarrow> \<not> sl_allowed l | None \<Rightarrow> False) = False"
    using *(2) by (simp add: allowed_by_def split: option.splits)
  have "\<not> q \<le> Fin 0" using q(3) by (rule float_less_not_le)
  then have "\<exists>adj. validate uuid s c ac price al mode = approve_order uuid s c ac price adj side q ?lev"
    unfolding validate_def Let_def *(1) option.case veto split_beta *(3) sum.case by (auto simp: q(1))
  then show ?thesis using that [OF refl refl *(1-3) q(2-4)] by blast
qed

section \<open>Facts about the steps\<close>

definition new_risk :: "reason_code \<Rightarrow> bool" where
  "new_risk reason \<longleftrightarrow> reason \<in> set NEW_RISK_REASONS"

lemma new_risk_cases: "new_risk r \<longleftrightarrow> r = ENTER_LONG_TREND \<or> r = ENTER_SHORT_TREND \<or> r = REBALANCE"
  by (auto simp: new_risk_def NEW_RISK_REASONS_def)

lemma entry_gates_None:
  "entry_gates s c ac price mode = None \<longleftrightarrow>
     isfinite price \<and> Fin 0 < price \<and>
     (mode = LOCAL_QUANT_MODE \<longrightarrow> \<not> new_risk (tc_reason_code c)) \<and>
     (tc_reason_code c = ENTER_LONG_TREND \<longrightarrow> tc_target_side c = LONG) \<and>
     (tc_reason_code c = ENTER_SHORT_TREND \<longrightarrow> tc_target_side c = SHORT) \<and>
     (new_risk (tc_reason_code c) \<longrightarrow> ac_gross_exposure_known ac \<and>
        \<not> rs_max_daily_drawdown_pct s \<le> daily_drawdown_pct ac) \<and>
     tc_reason_code c \<notin> {HOLD, NO_TRADE, REDUCE_LEVERAGE}"
  by (cases "tc_reason_code c")
    (auto simp: entry_gates_def Let_def new_risk_def NEW_RISK_REASONS_def EXPECTED_ENTRY_SIDE_def
      drawdown_gate_def ENTRY_CODES_def float_not_le isfinite_not_NaN dest: float_less_not_le)

lemma exit_sizing_Inr:
  "exit_sizing ac = Inr (side, q) \<longleftrightarrow> ac_open_position_qty ac \<noteq> Fin 0 \<and>
     side = Some (if Fin 0 < ac_open_position_qty ac then SELL else BUY) \<and> q = \<bar>ac_open_position_qty ac\<bar>"
  by (auto simp: exit_sizing_def feq_zero_iff)

lemma entry_sizing_InrD:
  assumes "entry_sizing s c ac price st lev = Inr (side, q)" "new_risk (tc_reason_code c)"
    and "entry_gates s c ac price mode = None"
  shows "q = position_quantity (sizing_equity ac st) price lev (rs_per_trade_risk_fraction s) (entry_cap s ac st)"
    and "Fin 0 < entry_cap s ac st \<or> entry_cap s ac st = NaN"
    and "tc_target_side c \<noteq> FLAT"
    and "side = Some (if tc_target_side c = LONG then BUY else SELL)"
    and "ac_open_position_qty ac \<noteq> Fin 0 \<Longrightarrow>
           tc_target_side c = position_side ac \<and> ac_open_position_notional_known ac"
  using assms
  by (cases "entry_cap s ac st"; cases "tc_target_side c";
      auto simp: entry_sizing_def Let_def feq_zero_iff new_risk_cases SIDE_MAP_def entry_gates_None
      split: if_splits)+

lemma decide_leverage_le:
  "fst (decide_leverage s r st) \<le> fst (cap_leverage r s) \<or> fst (decide_leverage s r st) = fst (cap_leverage r s)"
  "st = Some l \<Longrightarrow> fst (decide_leverage s r st) \<noteq> NaN \<Longrightarrow> sl_max_leverage l \<noteq> NaN \<Longrightarrow>
     fst (decide_leverage s r st) \<le> sl_max_leverage l"
  by (auto simp: decide_leverage_def Let_def split_beta float_not_less dest: float_less_imp_le split: option.splits)

text \<open>
  The amounts an entry may cost: what the position limit leaves, what the equity budget and the
  leverage allow, and what the allocation's gross cap leaves.
\<close>

definition order_caps ::
    "risk_settings \<Rightarrow> account_state \<Rightarrow> strategic_allocation option \<Rightarrow> pyfloat \<Rightarrow> pyfloat list" where
  "order_caps s ac al lev =
     [rs_max_position_notional_usd s - ac_open_position_notional_usd ac,
      (case al of Some a \<Rightarrow> ac_equity_usd ac * risk_budget a | None \<Rightarrow> ac_equity_usd ac) *
        rs_per_trade_risk_fraction s * lev] @
     (case al of
        Some a \<Rightarrow> [ac_equity_usd ac * sa_max_gross_leverage a * risk_budget a - ac_gross_exposure_usd ac]
      | None \<Rightarrow> [])"

lemma pymin_gt: "c < pymin a b \<Longrightarrow> c < a \<or> a = NaN" "c < pymin a b \<Longrightarrow> c < b \<or> b = NaN"
  by (cases a; cases b; cases c; auto simp: pymin_def split: if_splits)+

lemma pymax_gt: "Fin 0 < pymax (Fin 0) a \<Longrightarrow> pymax (Fin 0) a = a"
  by (auto simp: pymax_def split: if_splits)

lemma entry_cap_le:
  assumes "Fin 0 < entry_cap s ac (strategic_of al r ac)" "allowed_by (strategic_of al r ac)" "r \<noteq> CLOSE_POSITION"
    and "isfinite (rs_max_position_notional_usd s)" "isfinite (ac_open_position_notional_usd ac)"
  shows "entry_cap s ac (strategic_of al r ac) \<le>
           rs_max_position_notional_usd s - ac_open_position_notional_usd ac"
    and "al = Some a \<Longrightarrow> entry_cap s ac (strategic_of al r ac) \<le>
           ac_equity_usd ac * sa_max_gross_leverage a * risk_budget a - ac_gross_exposure_usd ac"
proof -
  let ?m = "rs_max_position_notional_usd s - ac_open_position_notional_usd ac"
  have m: "?m \<noteq> NaN" using assms(4,5) by (auto simp: minus_pyfloat_def elim!: isfiniteE)
  have mm: "pymax (Fin 0) ?m \<noteq> NaN" by (simp add: pymax_not_NaN)
  show "entry_cap s ac (strategic_of al r ac) \<le> ?m"
  proof (cases al)
    case None
    then have "Fin 0 < pymax (Fin 0) ?m" using assms(1) by (simp add: entry_cap_def strategic_of_def Let_def)
    then show ?thesis using None m pymax_gt [of ?m] by (simp add: entry_cap_def strategic_of_def Let_def)
  next
    case (Some a)
    let ?r = "ac_equity_usd ac * sa_max_gross_leverage a * risk_budget a - ac_gross_exposure_usd ac"
    let ?l = "limits_for a r (ac_equity_usd ac) (ac_gross_exposure_usd ac)"
    have l: "sl_remaining_gross_notional_usd ?l = ?r" "Fin 0 < ?r"
      using limits_for_allowed [of a r "ac_equity_usd ac" "ac_gross_exposure_usd ac"] assms(2,3) Some
      by (simp_all add: allowed_by_def strategic_of_def)
    have cap: "entry_cap s ac (strategic_of al r ac) = pymin (pymax (Fin 0) ?m) ?r"
      using Some assms(3) l(1) by (simp add: entry_cap_def strategic_of_def Let_def)
    have "Fin 0 < pymax (Fin 0) ?m" using assms(1) pymin_gt(1) mm unfolding cap by blast
    then have "pymax (Fin 0) ?m = ?m" by (rule pymax_gt)
    moreover have "?r \<noteq> NaN" using l(2) by auto
    ultimately show ?thesis unfolding cap using m by (auto intro: pymin_le1)
  qed
  show "entry_cap s ac (strategic_of al r ac) \<le>
      ac_equity_usd ac * sa_max_gross_leverage a * risk_budget a - ac_gross_exposure_usd ac" if al: "al = Some a"
  proof -
    have l: "sl_remaining_gross_notional_usd (limits_for a r (ac_equity_usd ac) (ac_gross_exposure_usd ac)) =
        ac_equity_usd ac * sa_max_gross_leverage a * risk_budget a - ac_gross_exposure_usd ac"
        "Fin 0 < ac_equity_usd ac * sa_max_gross_leverage a * risk_budget a - ac_gross_exposure_usd ac"
      using limits_for_allowed [of a r "ac_equity_usd ac" "ac_gross_exposure_usd ac"] assms(2,3) al
      by (simp_all add: allowed_by_def strategic_of_def)
    then show ?thesis
      using al assms(3) mm by (auto simp: entry_cap_def strategic_of_def Let_def intro: pymin_le2)
  qed
qed

lemma sizing_equity_eq:
  "allowed_by (strategic_of al r ac) \<Longrightarrow> r \<noteq> CLOSE_POSITION \<Longrightarrow>
     sizing_equity ac (strategic_of al r ac) =
       (case al of Some a \<Rightarrow> ac_equity_usd ac * risk_budget a | None \<Rightarrow> ac_equity_usd ac)"
  using limits_for_allowed [of _ r "ac_equity_usd ac" "ac_gross_exposure_usd ac"]
  by (auto simp: sizing_equity_def strategic_of_def allowed_by_def split: option.splits)

text \<open>A positive quantity keeps within every cap, exactly up to one rounding of the quotient.\<close>

lemma quantity_within:
  assumes "fquot x (Fin p) = Fin q" "0 < q" "x \<le> Fin m" "0 < p"
  shows "q * p \<le> rounding_room m p"
proof -
  obtain b where b: "x = Fin b" "b \<le> m" using assms by (cases x) (auto simp: inf_of_sign_def)
  have "0 \<le> b"
  proof (rule ccontr)
    assume "\<not> 0 \<le> b"
    then have "to_float (b / p) \<le> to_float 0" using assms(4) by (intro to_float_mono) (simp add: divide_nonpos_nonneg)
    then show False using assms b by simp
  qed
  then have "q * p \<le> rounding_room b p"
    using assms b by (intro fquot_overshoot) auto
  also have "rounding_room b p \<le> rounding_room m p" using b(2) by (rule rounding_room_mono)
  finally show ?thesis .
qed

lemma validate_message_id [simp]:
  "vo_message_id (validate uuid s c ac price al mode) = derived_id uuid c ''decision''"
  "oi_message_id (vo_intent (validate uuid s c ac price al mode)) = derived_id uuid c ''intent''"
  "vo_causation_id (validate uuid s c ac price al mode) = tc_message_id c"
  by (auto simp: validate_def Let_def split_beta split: option.splits sum.splits prod.splits)

lemma validate_refused:
  assumes "\<not> vo_approved (validate uuid s c ac price al mode)"
  shows "\<exists>code adj. validate uuid s c ac price al mode = refuse_order uuid s c code adj \<and>
    (code = NO_TRADE \<or> code = tc_reason_code c \<and> code \<in> {HOLD, REDUCE_LEVERAGE})"
proof (cases "entry_gates s c ac price mode")
  case (Some x)
  obtain code nts where x: "x = (code, nts)" by (cases x)
  have "code = NO_TRADE \<or> code = tc_reason_code c \<and> code \<in> {HOLD, REDUCE_LEVERAGE}"
    using Some x by (auto simp: entry_gates_def Let_def split: if_splits option.splits)
  then show ?thesis using Some x by (auto simp: validate_def Let_def)
next
  case None
  then have "\<exists>adj. validate uuid s c ac price al mode = refuse_order uuid s c NO_TRADE adj"
    using assms by (auto simp: validate_def Let_def split_beta split: sum.splits if_splits)
  then show ?thesis by blast
qed

text \<open>The two halves of an entry's size: its leverage and its quantity.\<close>

lemma entry_leverage_bounds:
  assumes "mk_settings s = Inr s" "st = strategic_of al r ac" "allowed_by st" "r \<noteq> CLOSE_POSITION"
    and lev: "lev = fst (decide_leverage s requested st)" "isfinite lev" "Fin 0 < lev"
  shows "lev \<le> rs_max_allowed_leverage s \<and> lev \<le> requested \<and>
    (\<forall>a. al = Some a \<longrightarrow> lev \<le> sa_max_gross_leverage a)"
proof -
  have settings: "settings_fields_ok s" "validate_limit_ordering s = Inr ()"
    using assms(1) by (simp_all add: mk_settings_Inr)
  have fields: "isfinite (rs_safe_leverage_cap s)" "Fin 0 < rs_safe_leverage_cap s"
      "isfinite (rs_max_allowed_leverage s)"
    using settings(1) by (simp_all add: settings_fields_ok_def positive_def)
  have order_lims: "rs_safe_leverage_cap s \<le> rs_max_allowed_leverage s"
      "rs_max_allowed_leverage s \<le> rs_hard_leverage_limit s"
    using settings(2) by (auto simp: validate_limit_ordering_def split: if_splits)
  let ?c = "fst (cap_leverage requested s)"
  have c: "Fin 0 \<le> ?c" "?c \<le> rs_max_allowed_leverage s" "?c = Fin 0 \<or> ?c \<le> requested"
    using cap_leverage_bounds [OF order_lims(1) fields(2) order_lims(2) fields(1,3)] by blast+
  have lc: "lev \<le> ?c" using decide_leverage_le(1) [of s requested st] c lev(1) by auto
  then have "Fin 0 < ?c" using lev(3) float_less_le_trans by blast
  then have "?c \<le> requested" using c(3) by auto
  then have "lev \<le> rs_max_allowed_leverage s" "lev \<le> requested"
    using lc c(2) float_le_trans by blast+
  moreover have "lev \<le> sa_max_gross_leverage a" if al: "al = Some a" for a
  proof -
    have l: "sl_max_leverage (limits_for a r (ac_equity_usd ac) (ac_gross_exposure_usd ac)) =
        sa_max_gross_leverage a" "allocation_error a = None"
      using limits_for_allowed [of a r "ac_equity_usd ac" "ac_gross_exposure_usd ac"]
        assms(2-4) al by (simp_all add: strategic_of_def allowed_by_def)
    then have "sa_max_gross_leverage a \<noteq> NaN" by (auto simp: allocation_error_def split: if_splits)
    moreover have "lev \<noteq> NaN" using lev(2) by auto
    moreover have "st = Some (limits_for a r (ac_equity_usd ac) (ac_gross_exposure_usd ac))"
      using al assms(2,4) by (simp add: strategic_of_def)
    ultimately show ?thesis using decide_leverage_le(2) [of st _ s requested] l(1) lev(1) by metis
  qed
  ultimately show ?thesis by blast
qed

lemma entry_quantity_within:
  assumes "st = strategic_of al r ac" "allowed_by st" "r \<noteq> CLOSE_POSITION"
    and fin: "isfinite (rs_max_position_notional_usd s)" "isfinite (ac_open_position_notional_usd ac)"
    and qty: "position_quantity (sizing_equity ac st) (Fin p) lev (rs_per_trade_risk_fraction s)
                (entry_cap s ac st) = Fin q" "0 < q"
  shows "0 < p \<and> isfinite lev \<and> Fin 0 < lev \<and>
    (\<forall>m. Fin m \<in> set (order_caps s ac al lev) \<longrightarrow>
       q * p \<le> rounding_room m p)"
proof -
  let ?cap = "entry_cap s ac st" let ?e = "sizing_equity ac st" let ?f = "rs_per_trade_risk_fraction s"
  let ?x = "pymin (?e * ?f * lev) ?cap"
  have "Fin 0 < position_quantity ?e (Fin p) lev ?f ?cap" using qty by simp
  then obtain p' where pq: "Fin p = Fin p'" "0 < p'" "isfinite ?e" "isfinite lev" "isfinite ?f" "isfinite ?cap"
      "Fin 0 < ?e" "Fin 0 < lev" "Fin 0 < ?f" "?f \<le> Fin 1" "Fin 0 < ?cap"
      "position_quantity ?e (Fin p) lev ?f ?cap = fquot ?x (Fin p)"
    by (rule position_quantity_pos)
  have quot: "fquot ?x (Fin p) = Fin q" using pq(12) qty(1) by simp
  have "?e * ?f * lev \<noteq> NaN"
    using times_nonneg_not_NaN [of "?e * ?f" lev] times_nonneg_not_NaN [of ?e ?f] pq
    by (auto dest: float_less_imp_le)
  moreover have "?cap \<noteq> NaN" using pq(11) by auto
  ultimately have x: "?x \<le> ?cap" "?x \<le> ?e * ?f * lev" by (auto intro: pymin_le1 pymin_le2)
  have pos: "Fin 0 < entry_cap s ac (strategic_of al r ac)" "allowed_by (strategic_of al r ac)"
    using pq(11) assms(1,2) by simp_all
  have capped: "?cap \<le> rs_max_position_notional_usd s - ac_open_position_notional_usd ac"
      "al = Some a \<Longrightarrow> ?cap \<le> ac_equity_usd ac * sa_max_gross_leverage a * risk_budget a - ac_gross_exposure_usd ac" for a
    using entry_cap_le [OF pos assms(3) fin] assms(1) by simp_all
  have equity: "?e = (case al of Some a \<Rightarrow> ac_equity_usd ac * risk_budget a | None \<Rightarrow> ac_equity_usd ac)"
    unfolding assms(1) using pos(2) assms(3) by (rule sizing_equity_eq)
  have caps: "?x \<le> m" if m: "m \<in> set (order_caps s ac al lev)" for m
  proof -
    from m have "m = rs_max_position_notional_usd s - ac_open_position_notional_usd ac \<or>
        m = ?e * ?f * lev \<or> (\<exists>a. al = Some a \<and>
          m = ac_equity_usd ac * sa_max_gross_leverage a * risk_budget a - ac_gross_exposure_usd ac)"
      unfolding order_caps_def equity by (auto split: option.splits)
    then show ?thesis using x capped float_le_trans [OF x(1)] by blast
  qed
  then show ?thesis using quantity_within [OF quot qty(2)] pq(1,2,4,8) by auto
qed

lemma approved_entry_gates_mode:
  "vo_approved (validate uuid s c ac price al mode) \<Longrightarrow> new_risk (tc_reason_code c) \<Longrightarrow>
     mode \<noteq> LOCAL_QUANT_MODE"
  by (auto simp: validate_approved_iff entry_gates_None)

section \<open>Properties\<close>

text \<open>
  C12. New risk is only ever approved when every gate is open. An approved entry or rebalance
  was decided outside LOCAL_QUANT_MODE, with a known gross exposure and a drawdown below the
  limit; its direction is the one the reason and the target name, never against an open
  position, and adding to one needs that position's notional; an allocation in force was sane
  and its regime does not forbid the direction. The order is the command's symbol, not
  reduce-only, at the reference price.
\<close>

theorem approved_entry_passed_every_gate:
  assumes "vo_approved (validate uuid s c ac price al mode)" "new_risk (tc_reason_code c)"
  shows "mode \<noteq> LOCAL_QUANT_MODE \<and> isfinite price \<and> Fin 0 < price \<and>
    ac_gross_exposure_known ac \<and> \<not> rs_max_daily_drawdown_pct s \<le> daily_drawdown_pct ac \<and>
    (tc_reason_code c = ENTER_LONG_TREND \<longrightarrow> tc_target_side c = LONG) \<and>
    (tc_reason_code c = ENTER_SHORT_TREND \<longrightarrow> tc_target_side c = SHORT) \<and>
    (ac_open_position_qty ac \<noteq> Fin 0 \<longrightarrow>
       tc_target_side c = position_side ac \<and> ac_open_position_notional_known ac) \<and>
    (\<forall>a. al = Some a \<longrightarrow> allocation_error a = None \<and> regime_veto (sa_regime a) (tc_reason_code c) = None) \<and>
    (let intent = vo_intent (validate uuid s c ac price al mode) in
       oi_side intent = Some (if tc_target_side c = LONG then BUY else SELL) \<and>
       tc_target_side c \<noteq> FLAT \<and> oi_symbol intent = tc_symbol c \<and>
       oi_reduce_only intent = Some False \<and> oi_price intent = Some price)"
proof -
  obtain side q st lev adj where *: "st = strategic_of al (tc_reason_code c) ac"
    "entry_gates s c ac price mode = None" "allowed_by st"
    "(if tc_reason_code c = CLOSE_POSITION then exit_sizing ac
      else entry_sizing s c ac price st lev) = Inr (side, q)"
    "validate uuid s c ac price al mode = approve_order uuid s c ac price adj side q lev"
    using assms(1) by (rule validate_approvedE)
  have no_close: "tc_reason_code c \<noteq> CLOSE_POSITION" using assms(2) by (auto simp: new_risk_cases)
  then have sized: "entry_sizing s c ac price st lev = Inr (side, q)" using *(4) by simp
  have alloc: "al = Some a \<Longrightarrow> allocation_error a = None \<and> regime_veto (sa_regime a) (tc_reason_code c) = None" for a
    using *(1,3) no_close limits_for_allowed [of a "tc_reason_code c"]
    by (simp add: strategic_of_def allowed_by_def)
  show ?thesis
    using *(2) entry_gates_None [of s c ac price mode] entry_sizing_InrD [OF sized assms(2) *(2)]
      assms(2) alloc no_close unfolding *(5) by auto
qed

definition long_command :: "pyfloat \<Rightarrow> tactical_command" where
  "long_command lev =
     \<lparr>tc_message_id = ''m1'', tc_correlation_id = None, tc_symbol = ''BTCUSDT'',
      tc_reason_code = ENTER_LONG_TREND, tc_target_side = LONG, tc_requested_leverage = lev,
      tc_reference_price = Fin 100\<rparr>"

definition flat_account :: account_state where
  "flat_account =
     \<lparr>ac_equity_usd = Fin 10000, ac_peak_equity_usd = Fin 10000, ac_daily_pnl_pct = Fin 0,
      ac_gross_exposure_usd = Fin 0, ac_gross_exposure_known = True, ac_open_position_qty = Fin 0,
      ac_open_position_notional_usd = Fin 0, ac_open_position_notional_known = True,
      ac_reconciled = True\<rparr>"

definition bull_allocation :: strategic_allocation where
  "bull_allocation =
     \<lparr>sa_source = ''macro'', sa_message_id = ''a1'', sa_correlation_id = None, sa_causation_id = None,
      sa_schema_version = ''1'', sa_produced_at = Aware 0, sa_regime = BULL,
      sa_stable_reserve_pct = Fin (1 / 2), sa_strategy_weights = [(''trend'', Fin (1 / 2))],
      sa_max_gross_leverage = Fin 2, sa_triggered_by = [], sa_rationale = []\<rparr>"

definition dry_defaults :: risk_settings where
  "dry_defaults = default_settings DRY_RUN []"

lemma example_approved:
  "vo_approved (validate id dry_defaults (long_command (Fin 20)) flat_account (Fin 100)
     (Some bull_allocation) NORMAL)"
  by code_simp

theorem approved_entry_passed_every_gate_witness:
  "oi_side (vo_intent (validate id dry_defaults (long_command (Fin 20)) flat_account (Fin 100)
     (Some bull_allocation) NORMAL)) = Some BUY"
  using approved_entry_passed_every_gate [OF example_approved]
  by (simp add: long_command_def new_risk_cases Let_def)

text \<open>
  C13. An approved entry stays inside its limits. With validated settings and account, its
  leverage is positive and at most the configured maximum, the request and the allocation's
  maximum; its notional reaches the exchange minimum; and, in exact arithmetic, price times
  quantity exceeds none of the caps (the room left under the position limit, the equity budget
  times leverage, the room left under the allocation's gross cap) by more than one rounding
  step of the quotient.
\<close>

theorem approved_entry_within_limits:
  assumes "vo_approved (validate uuid s c ac price al mode)" "new_risk (tc_reason_code c)"
    and "mk_settings s = Inr s" "mk_account ac = Inr ac"
  defines "intent \<equiv> vo_intent (validate uuid s c ac price al mode)"
  shows "\<exists>q p lev. oi_quantity intent = Fin q \<and> price = Fin p \<and> oi_leverage intent = Some lev \<and>
    0 < q \<and> 0 < p \<and> Fin 0 < lev \<and> lev \<le> rs_max_allowed_leverage s \<and> lev \<le> tc_requested_leverage c \<and>
    (\<forall>a. al = Some a \<longrightarrow> lev \<le> sa_max_gross_leverage a) \<and>
    rs_min_notional_usd s \<le> Fin q * price \<and>
    (\<forall>m. Fin m \<in> set (order_caps s ac al lev) \<longrightarrow>
       q * p \<le> rounding_room m p)"
proof -
  obtain side qty st lev adj where st: "st = strategic_of al (tc_reason_code c) ac"
    and lev: "lev = fst (decide_leverage s (tc_requested_leverage c) st)"
    and gates: "entry_gates s c ac price mode = None" and allowed: "allowed_by st"
    and sized: "(if tc_reason_code c = CLOSE_POSITION then exit_sizing ac
      else entry_sizing s c ac price st lev) = Inr (side, qty)"
    and qty: "isfinite qty" "Fin 0 < qty" "\<not> qty * price < rs_min_notional_usd s"
    and order: "validate uuid s c ac price al mode = approve_order uuid s c ac price adj side qty lev"
    using assms(1) by (rule validate_approvedE)
  have no_close: "tc_reason_code c \<noteq> CLOSE_POSITION" using assms(2) by (auto simp: new_risk_cases)
  then have "entry_sizing s c ac price st lev = Inr (side, qty)" using sized by simp
  note sized = entry_sizing_InrD(1) [OF this assms(2) gates]
  obtain p where p: "price = Fin p" using gates by (auto simp: entry_gates_None elim!: isfiniteE)
  obtain q where q: "qty = Fin q" "0 < q" using qty by (auto elim!: isfiniteE)
  have fields: "isfinite (rs_max_position_notional_usd s)" "isfinite (rs_min_notional_usd s)"
    using assms(3) by (simp_all add: mk_settings_Inr settings_fields_ok_def positive_def)
  have acc: "isfinite (ac_open_position_notional_usd ac)"
    using assms(4) by (simp add: mk_account_Inr account_fields_ok_def)
  have "position_quantity (sizing_equity ac st) (Fin p) lev (rs_per_trade_risk_fraction s)
      (entry_cap s ac st) = Fin q" using sized p q(1) by simp
  note size = entry_quantity_within [OF st allowed no_close fields(1) acc this q(2)]
  have leverage: "lev \<le> rs_max_allowed_leverage s \<and> lev \<le> tc_requested_leverage c \<and>
      (\<forall>a. al = Some a \<longrightarrow> lev \<le> sa_max_gross_leverage a)"
    using entry_leverage_bounds [OF assms(3) st allowed no_close lev] size by blast
  have "rs_min_notional_usd s \<le> Fin q * price"
    using qty(3) fields(2) q(1) p by (auto simp: float_not_less isfinite_not_NaN)
  then show ?thesis
    unfolding intent_def order using q p size leverage by simp
qed

lemma dry_defaults_valid: "mk_settings dry_defaults = Inr dry_defaults"
proof -
  have "settings_fields_ok dry_defaults" by code_simp
  moreover have "ok (validate_paper_account_id (rs_paper_account_id dry_defaults))" by code_simp
  moreover have "validate_limit_ordering dry_defaults = Inr ()" by code_simp
  moreover have "rs_paper_strategy_allowlist dry_defaults = []" by (simp add: dry_defaults_def default_settings_def)
  moreover have "s\<lparr>rs_paper_strategy_allowlist := rs_paper_strategy_allowlist s\<rparr> = s" for s :: risk_settings
    by (cases s) simp
  ultimately show ?thesis by (simp add: mk_settings_Inr allowlist_ok_def)
qed

lemma flat_account_valid: "mk_account flat_account = Inr flat_account"
  by code_simp

theorem approved_entry_within_limits_witness:
  "\<exists>lev. oi_leverage (vo_intent (validate id dry_defaults (long_command (Fin 20)) flat_account (Fin 100)
      (Some bull_allocation) NORMAL)) = Some lev \<and> lev \<le> Fin 2"
  using approved_entry_within_limits [OF example_approved _ dry_defaults_valid flat_account_valid]
  by (auto simp: long_command_def new_risk_cases bull_allocation_def)

text \<open>
  C39. A close order flattens the position and nothing else decides about it. It is approved
  exactly when there is a position, the price is finite and positive and the position's
  notional reaches the exchange minimum, whatever the mode, the drawdown, the allocation and
  the requested leverage are; the order is then reduce-only, for exactly the open quantity on
  the opposite side, so that filling it leaves a position of 0.
\<close>

theorem close_order_flattens_position:
  fixes uuid s c ac price al mode
  assumes "tc_reason_code c = CLOSE_POSITION" "mk_account ac = Inr ac"
  defines "intent \<equiv> vo_intent (validate uuid s c ac price al mode)"
  shows "(vo_approved (validate uuid s c ac price al mode) \<longleftrightarrow>
      ac_open_position_qty ac \<noteq> Fin 0 \<and> isfinite price \<and> Fin 0 < price \<and>
      \<not> \<bar>ac_open_position_qty ac\<bar> * price < rs_min_notional_usd s) \<and>
    (vo_approved (validate uuid s c ac price al mode) \<longrightarrow>
      oi_reduce_only intent = Some True \<and> oi_quantity intent = \<bar>ac_open_position_qty ac\<bar> \<and>
      oi_symbol intent = tc_symbol c \<and>
      (oi_side intent = Some SELL \<and> ac_open_position_qty ac - oi_quantity intent = Fin 0 \<or>
       oi_side intent = Some BUY \<and> ac_open_position_qty ac + oi_quantity intent = Fin 0))"
proof -
  obtain x where x: "ac_open_position_qty ac = Fin x"
    using assms(2) by (auto simp: mk_account_Inr account_fields_ok_def elim!: isfiniteE)
  have st: "strategic_of al CLOSE_POSITION ac = None" by (simp add: strategic_of_def split: option.splits)
  have iff: "vo_approved (validate uuid s c ac price al mode) \<longleftrightarrow>
      ac_open_position_qty ac \<noteq> Fin 0 \<and> isfinite price \<and> Fin 0 < price \<and>
      \<not> \<bar>ac_open_position_qty ac\<bar> * price < rs_min_notional_usd s"
    unfolding validate_approved_iff assms(1) st
    using x by (auto simp: entry_gates_None new_risk_cases assms(1) allowed_by_def exit_sizing_Inr
        enforce_min_notional_pos)
  moreover have "oi_reduce_only intent = Some True \<and> oi_quantity intent = \<bar>ac_open_position_qty ac\<bar> \<and>
      oi_symbol intent = tc_symbol c \<and>
      (oi_side intent = Some SELL \<and> ac_open_position_qty ac - oi_quantity intent = Fin 0 \<or>
       oi_side intent = Some BUY \<and> ac_open_position_qty ac + oi_quantity intent = Fin 0)"
    if approved: "vo_approved (validate uuid s c ac price al mode)"
  proof -
    obtain side q lev adj where *: "exit_sizing ac = Inr (side, q)"
      "validate uuid s c ac price al mode = approve_order uuid s c ac price adj side q lev"
      using approved by (rule validate_approvedE) (simp add: assms(1))
    then show ?thesis
      unfolding intent_def *(2) using x assms(1) by (auto simp: exit_sizing_Inr minus_pyfloat_def)
  qed
  ultimately show ?thesis by blast
qed

definition short_account :: account_state where
  "short_account = flat_account\<lparr>ac_open_position_qty := Fin (-3), ac_open_position_notional_known := False\<rparr>"

theorem close_order_flattens_position_witness:
  "oi_quantity (vo_intent (validate id dry_defaults ((long_command NaN)\<lparr>tc_reason_code := CLOSE_POSITION\<rparr>)
     short_account (Fin 100) None LOCAL_QUANT_MODE)) = Fin 3"
proof -
  let ?c = "(long_command NaN)\<lparr>tc_reason_code := CLOSE_POSITION\<rparr>"
  have "mk_account short_account = Inr short_account" by code_simp
  moreover have "tc_reason_code ?c = CLOSE_POSITION" by simp
  moreover have "\<not> \<bar>ac_open_position_qty short_account\<bar> * Fin 100 < rs_min_notional_usd dry_defaults" by code_simp
  moreover have "ac_open_position_qty short_account = Fin (-3)" by (simp add: short_account_def)
  ultimately show ?thesis
    using close_order_flattens_position [of ?c short_account id dry_defaults "Fin 100" None LOCAL_QUANT_MODE]
    by simp
qed

text \<open>
  A decision has one identity and a refusal can not be traded. The ids of a decision and of
  its intent depend on the command's message id alone, so a redelivered command gets the same
  ids under any settings, account, price, allocation and mode, also when the service refuses it
  early. An approval keeps the command's reason and is a limit order; a refusal carries NO_TRADE
  or the passive reason of the command and a market placeholder of one billionth.
\<close>

theorem decision_identity:
  shows "vo_message_id (validate uuid s c ac price al mode) = vo_message_id (refuse uuid s' c note) \<and>
    oi_message_id (vo_intent (validate uuid s c ac price al mode)) =
      oi_message_id (vo_intent (refuse uuid s' c note)) \<and>
    vo_causation_id (validate uuid s c ac price al mode) = tc_message_id c \<and>
    (let d = validate uuid s c ac price al mode in
       if vo_approved d
       then vo_reason_code d = tc_reason_code c \<and> vo_reason_code d \<notin> {HOLD, NO_TRADE, REDUCE_LEVERAGE} \<and>
            oi_order_type (vo_intent d) = LIMIT \<and> oi_reason_code (vo_intent d) = vo_reason_code d
       else (vo_reason_code d = NO_TRADE \<or>
             vo_reason_code d = tc_reason_code c \<and> vo_reason_code d \<in> {HOLD, REDUCE_LEVERAGE}) \<and>
            oi_order_type (vo_intent d) = MARKET \<and> oi_quantity (vo_intent d) = to_float (1 / 10 ^ 9) \<and>
            oi_reason_code (vo_intent d) = vo_reason_code d)"
proof (cases "vo_approved (validate uuid s c ac price al mode)")
  case True
  then obtain side q lev adj where "entry_gates s c ac price mode = None"
    "validate uuid s c ac price al mode = approve_order uuid s c ac price adj side q lev"
    by (rule validate_approvedE)
  then show ?thesis using True by (auto simp: refuse_def Let_def entry_gates_None)
next
  case False
  then show ?thesis
    using validate_refused [OF False]
    by (auto simp: refuse_def Let_def) (auto simp: refuse_order_def Let_def)
qed

lemma evaluate_case_Inr:
  fixes uuid s c
  assumes "\<forall>r. tc_reason_code (rc_command c) \<noteq> OtherReason r" "Fin 0 < rs_min_notional_usd s"
    and "isfinite (rs_min_notional_usd s)"
  defines "d \<equiv> validate uuid s (rc_command c) (rc_account c) (rc_price c) (rc_allocation c) (rc_system_mode c)"
  assumes "vo_approved d \<longrightarrow> isfinite (oi_quantity (vo_intent d) * rc_price c)"
  shows "\<exists>n. evaluate_case uuid s c = Inr \<lparr>rr_name = rc_name c, rr_decision = d, rr_approved_notional_usd = n\<rparr> \<and>
    Fin 0 \<le> n \<and> is_b64 n"
proof (cases "vo_approved d")
  case False
  then show ?thesis by (simp add: evaluate_case_def d_def Let_def)
next
  case True
  let ?c = "rc_command c" let ?p = "rc_price c"
  obtain side q st lev adj where gates: "entry_gates s ?c (rc_account c) ?p (rc_system_mode c) = None"
    and q: "isfinite q" "Fin 0 < q" "\<not> q * ?p < rs_min_notional_usd s"
    and d: "d = approve_order uuid s ?c (rc_account c) ?p adj side q lev"
    using True unfolding d_def by (rule validate_approvedE)
  have p: "intent_price d ?p = ?p"
    using gates by (auto simp: d intent_price_def)
  have fin: "isfinite (q * ?p)" using assms(5) True by (simp add: d)
  then have "rs_min_notional_usd s \<le> q * ?p"
    using q(3) assms(3) by (simp add: float_not_less isfinite_not_NaN)
  then have pos: "Fin 0 < q * ?p" using assms(2) float_less_le_trans by blast
  have reason: "tc_reason_code ?c \<noteq> NO_TRADE" using gates by (auto simp: entry_gates_None)
  have reduce: "rc_system_mode c = LOCAL_QUANT_MODE \<Longrightarrow> tc_reason_code ?c = CLOSE_POSITION"
    using gates assms(1) by (cases "tc_reason_code ?c") (auto simp: entry_gates_None new_risk_cases)
  have "evaluate_case uuid s c = Inr \<lparr>rr_name = rc_name c, rr_decision = d, rr_approved_notional_usd = q * ?p\<rparr>"
    unfolding evaluate_case_def d_def [symmetric] Let_def p
    using fin pos reason reduce True float_less_not_le [OF pos] by (auto simp: d)
  then show ?thesis using pos float_less_imp_le by auto
qed

lemma evaluate_cases_Inr:
  assumes "\<forall>c \<in> set cs. \<exists>n. evaluate_case uuid s c =
      Inr \<lparr>rr_name = rc_name c, rr_decision = d c, rr_approved_notional_usd = n\<rparr> \<and> Fin 0 \<le> n \<and> is_b64 n"
  shows "\<exists>out. evaluate_cases uuid s cs = Inr out \<and> map rr_name out = map rc_name cs \<and>
    map rr_decision out = map d cs \<and> (\<forall>r \<in> set out. Fin 0 \<le> rr_approved_notional_usd r \<and> is_b64 (rr_approved_notional_usd r))"
  using assms
proof (induction cs)
  case (Cons c cs)
  then obtain n where "evaluate_case uuid s c =
      Inr \<lparr>rr_name = rc_name c, rr_decision = d c, rr_approved_notional_usd = n\<rparr>" "Fin 0 \<le> n" "is_b64 n"
    by auto
  moreover obtain out where "evaluate_cases uuid s cs = Inr out" "map rr_name out = map rc_name cs"
    "map rr_decision out = map d cs"
    "\<forall>r \<in> set out. Fin 0 \<le> rr_approved_notional_usd r \<and> is_b64 (rr_approved_notional_usd r)"
    using Cons by auto
  ultimately show ?case by simp
qed simp

text \<open>
  The policy matrix passes its own checks. For uniquely named cases with the reasons the
  program names, a positive minimum notional and no overflow in an approved notional,
  \<open>evaluate_policy\<close> never raises: it reports one result per case in order, with the pipeline's
  decision, counts the approved and refused ones, and its total is at least the notional of
  each result.
\<close>

theorem policy_matrix_never_raises:
  fixes uuid s cs
  assumes "cs \<noteq> []" "distinct (map rc_name cs)" "Fin 0 < rs_min_notional_usd s" "isfinite (rs_min_notional_usd s)"
    and "\<forall>c \<in> set cs. \<forall>r. tc_reason_code (rc_command c) \<noteq> OtherReason r"
  defines "d \<equiv> (\<lambda>c. validate uuid s (rc_command c) (rc_account c) (rc_price c) (rc_allocation c) (rc_system_mode c))"
  assumes "\<forall>c \<in> set cs. vo_approved (d c) \<longrightarrow> isfinite (oi_quantity (vo_intent (d c)) * rc_price c)"
  shows "\<exists>e. evaluate_policy uuid s cs = Inr e \<and> map rr_name (re_cases e) = map rc_name cs \<and>
    map rr_decision (re_cases e) = map d cs \<and>
    re_approved e = int (length (filter (\<lambda>c. vo_approved (d c)) cs)) \<and>
    re_refused e = int (length (filter (\<lambda>c. \<not> vo_approved (d c)) cs)) \<and>
    (\<forall>r \<in> set (re_cases e). rr_approved_notional_usd r \<le> re_approved_notional_usd e)"
proof -
  have "\<forall>c \<in> set cs. \<exists>n. evaluate_case uuid s c =
      Inr \<lparr>rr_name = rc_name c, rr_decision = d c, rr_approved_notional_usd = n\<rparr> \<and> Fin 0 \<le> n \<and> is_b64 n"
    using evaluate_case_Inr [where s = s and uuid = uuid] assms(3-7) unfolding d_def by blast
  then obtain out where out: "evaluate_cases uuid s cs = Inr out" "map rr_name out = map rc_name cs"
    "map rr_decision out = map d cs"
    "\<forall>r \<in> set out. Fin 0 \<le> rr_approved_notional_usd r \<and> is_b64 (rr_approved_notional_usd r)"
    using evaluate_cases_Inr by blast
  let ?n = "map rr_approved_notional_usd out"
  have count: "length (filter (\<lambda>r. P (rr_decision r)) out) = length (filter (\<lambda>c. P (d c)) cs)" for P
    using arg_cong [OF out(3), of "\<lambda>xs. length (filter P xs)"] by (simp add: filter_map comp_def)
  have len: "length out = length cs" using arg_cong [OF out(3), of length] by simp
  have "rr_approved_notional_usd r \<le> fsum ?n" if "r \<in> set out" for r
    unfolding fsum_def using that out(4) by (intro foldl_plus_ge_member) auto
  then show ?thesis
    using assms(1,2) out count [of vo_approved] sum_length_filter_compl [of "\<lambda>c. vo_approved (d c)" cs] len
    by (auto simp: evaluate_policy_def Let_def)
qed

theorem policy_matrix_never_raises_witness:
  "\<exists>e. evaluate_policy id dry_defaults
     [\<lparr>rc_name = ''bull'', rc_command = long_command (Fin 20), rc_account = flat_account, rc_price = Fin 100,
       rc_allocation = Some bull_allocation, rc_system_mode = NORMAL\<rparr>,
      \<lparr>rc_name = ''down'', rc_command = long_command (Fin 20), rc_account = flat_account, rc_price = Fin 100,
       rc_allocation = None, rc_system_mode = LOCAL_QUANT_MODE\<rparr>] = Inr e \<and> re_approved e = 1"
  (is "\<exists>e. evaluate_policy id dry_defaults ?cs = Inr e \<and> _")
proof -
  let ?d = "\<lambda>c. validate id dry_defaults (rc_command c) (rc_account c) (rc_price c) (rc_allocation c) (rc_system_mode c)"
  have fin: "\<forall>c \<in> set ?cs. isfinite (oi_quantity (vo_intent (?d c)) * rc_price c)" by code_simp
  have one: "length (filter (\<lambda>c. vo_approved (?d c)) ?cs) = 1" by code_simp
  have min: "Fin 0 < rs_min_notional_usd dry_defaults" "isfinite (rs_min_notional_usd dry_defaults)"
    by (simp_all add: dry_defaults_def default_settings_def)
  have reasons: "\<forall>c \<in> set ?cs. \<forall>r. tc_reason_code (rc_command c) \<noteq> OtherReason r"
    by (simp add: long_command_def)
  have "?cs \<noteq> []" "distinct (map rc_name ?cs)" by simp_all
  note * = policy_matrix_never_raises [OF this min reasons, of id]
  from * fin obtain e where "evaluate_policy id dry_defaults ?cs = Inr e"
      "re_approved e = int (length (filter (\<lambda>c. vo_approved (?d c)) ?cs))" by blast
  then show ?thesis unfolding one by auto
qed

text \<open>
  Tighter limits never make an order larger. With less equity, less leverage, a smaller
  risk fraction or a smaller notional cap, at any price, the quantity does not grow; it is
  never negative, and it is 0 as soon as one input is not a positive finite number.
\<close>

theorem quantity_is_monotone:
  assumes "e \<le> e'" "l \<le> l'" "f \<le> f'" "m \<le> m'" "isfinite e'" "isfinite l'" "f' \<le> Fin 1" "isfinite m'"
  shows "position_quantity e p l f m \<le> position_quantity e' p l' f' m' \<and>
    Fin 0 \<le> position_quantity e p l f m \<and>
    (\<not> (Fin 0 < e \<and> Fin 0 < l \<and> Fin 0 < f \<and> Fin 0 < m \<and> isfinite p \<and> Fin 0 < p) \<longrightarrow>
       position_quantity e p l f m = Fin 0)"
proof -
  have "position_quantity e p l f m = Fin 0"
    if "\<not> (Fin 0 < e \<and> Fin 0 < l \<and> Fin 0 < f \<and> Fin 0 < m \<and> isfinite p \<and> Fin 0 < p)"
    using that by (auto simp: position_quantity_def float_not_le isfinite_not_NaN)
  then show ?thesis using position_quantity_mono [OF assms] position_quantity_nonneg by blast
qed

theorem quantity_is_monotone_witness:
  "position_quantity (Fin 100) (Fin 7) (Fin 2) (Fin (1 / 4)) (Fin 30) \<le>
   position_quantity (Fin 200) (Fin 7) (Fin 5) (Fin (1 / 2)) (Fin 31)"
  using quantity_is_monotone [of "Fin 100" "Fin 200" "Fin 2" "Fin 5" "Fin (1 / 4)" "Fin (1 / 2)" "Fin 30" "Fin 31"]
  by simp

end
