(* ===== verification/Circuit_Breaker.thy ===== *)
theory Circuit_Breaker
  imports Contracts
begin

text \<open>
  \<open>kairos_risk/circuit_breaker.py\<close>: the breaker of one model or provider, and the
  registry that folds all of them into one system mode. Each read of
  \<open>time.monotonic()\<close> is an argument: \<open>now\<close> where a call reads the clock once, and
  \<open>clock k\<close> for the read that the fold makes at the breaker of model \<open>k\<close>. Reading a property can move a breaker from OPEN to
  HALF_OPEN and can create a missing entry, so reads return the new state too.
\<close>

section \<open>One breaker\<close>

datatype breaker_state = CLOSED | OPEN | HALF_OPEN

record breaker =
  br_max_failures :: int
  br_cooldown :: pyfloat
  br_state :: breaker_state
  br_failures :: int
  br_opened_at :: "pyfloat option"

definition new_breaker :: "int \<Rightarrow> pyfloat \<Rightarrow> breaker" where
  "new_breaker mx cd =
     \<lparr>br_max_failures = mx, br_cooldown = cd, br_state = CLOSED, br_failures = 0, br_opened_at = None\<rparr>"

definition maybe_half_open :: "pyfloat \<Rightarrow> breaker \<Rightarrow> breaker" where
  "maybe_half_open now b =
     (case br_opened_at b of
        Some t \<Rightarrow>
          if br_state b = OPEN \<and> br_cooldown b \<le> now - t then b\<lparr>br_state := HALF_OPEN\<rparr> else b
      | None \<Rightarrow> b)"

definition trip :: "pyfloat \<Rightarrow> breaker \<Rightarrow> breaker" where
  "trip now b = b\<lparr>br_state := OPEN, br_opened_at := Some now\<rparr>"

definition record_failure :: "pyfloat \<Rightarrow> breaker \<Rightarrow> breaker_state \<times> breaker" where
  "record_failure now b =
     (let b1 = maybe_half_open now b in
      if br_state b1 = HALF_OPEN then (let b2 = trip now b1 in (br_state b2, b2))
      else
        (let b2 = b1\<lparr>br_failures := br_failures b1 + 1\<rparr>;
             b3 = (if br_max_failures b2 < br_failures b2 then trip now b2 else b2)
         in (br_state b3, b3)))"

definition record_success :: "breaker \<Rightarrow> breaker_state \<times> breaker" where
  "record_success b =
     (let b1 = b\<lparr>br_failures := 0, br_state := CLOSED, br_opened_at := None\<rparr> in (br_state b1, b1))"

definition read_state :: "pyfloat \<Rightarrow> breaker \<Rightarrow> breaker_state \<times> breaker" where
  "read_state now b = (let b1 = maybe_half_open now b in (br_state b1, b1))"

definition breaker_system_mode :: "pyfloat \<Rightarrow> breaker \<Rightarrow> system_mode \<times> breaker" where
  "breaker_system_mode now b =
     (let (st, b1) = read_state now b in (if st = CLOSED then NORMAL else LOCAL_QUANT_MODE, b1))"

definition llm_allowed :: "pyfloat \<Rightarrow> breaker \<Rightarrow> bool \<times> breaker" where
  "llm_allowed now b = (let (st, b1) = read_state now b in (st = CLOSED, b1))"

subsection \<open>Its runs\<close>

datatype breaker_event = Failure pyfloat | Success | Read pyfloat

fun apply_event :: "breaker_event \<Rightarrow> breaker \<Rightarrow> breaker" where
  "apply_event (Failure now) b = snd (record_failure now b)"
| "apply_event Success b = snd (record_success b)"
| "apply_event (Read now) b = snd (read_state now b)"

definition breaker_run :: "breaker_event list \<Rightarrow> breaker \<Rightarrow> breaker" where
  "breaker_run es b = fold apply_event es b"

inductive breaker_reachable :: "int \<Rightarrow> pyfloat \<Rightarrow> breaker \<Rightarrow> bool" for mx cd where
  init: "breaker_reachable mx cd (new_breaker mx cd)"
| step: "breaker_reachable mx cd b \<Longrightarrow> breaker_reachable mx cd (apply_event e b)"

lemmas breaker_ops = record_failure_def record_success_def read_state_def maybe_half_open_def
  trip_def Let_def

text \<open>
  CLOSED exactly when no trip is recorded and the streak is within the limit; a breaker that
  is not CLOSED knows when it tripped and keeps a streak above the limit.
\<close>

definition breaker_inv :: "int \<Rightarrow> pyfloat \<Rightarrow> breaker \<Rightarrow> bool" where
  "breaker_inv mx cd b \<longleftrightarrow>
     br_max_failures b = mx \<and> br_cooldown b = cd \<and> 0 \<le> br_failures b \<and>
     (br_state b = CLOSED \<longleftrightarrow> br_opened_at b = None) \<and>
     (br_state b = CLOSED \<longleftrightarrow> br_failures b \<le> mx)"

lemma breaker_event_inv:
  "0 \<le> mx \<Longrightarrow> breaker_inv mx cd b \<Longrightarrow> breaker_inv mx cd (apply_event e b)"
  by (cases e) (auto simp: breaker_inv_def breaker_ops split: option.splits)

lemma breaker_reachable_inv: "breaker_reachable mx cd b \<Longrightarrow> 0 \<le> mx \<Longrightarrow> breaker_inv mx cd b"
proof (induction rule: breaker_reachable.induct)
  case init
  then show ?case by (simp add: breaker_inv_def new_breaker_def)
next
  case (step b e)
  then show ?case by (simp add: breaker_event_inv)
qed

lemma breaker_run_reachable:
  "breaker_reachable mx cd b \<Longrightarrow> breaker_reachable mx cd (breaker_run es b)"
  unfolding breaker_run_def
  by (induction es arbitrary: b) (auto intro: breaker_reachable.step)

text \<open>Until a success, a breaker that tripped does not close.\<close>

lemma breaker_event_stays_open:
  "br_state b \<noteq> CLOSED \<Longrightarrow> e \<noteq> Success \<Longrightarrow> br_state (apply_event e b) \<noteq> CLOSED"
  by (cases e) (auto simp: breaker_ops split: option.splits)

lemma breaker_run_stays_open:
  "br_state b \<noteq> CLOSED \<Longrightarrow> Success \<notin> set es \<Longrightarrow> br_state (breaker_run es b) \<noteq> CLOSED"
proof (induction es arbitrary: b)
  case (Cons e es)
  have "br_state (breaker_run es (apply_event e b)) \<noteq> CLOSED"
    using Cons.prems breaker_event_stays_open [of b e] by (intro Cons.IH) auto
  then show ?case by (simp add: breaker_run_def)
qed (simp add: breaker_run_def)

lemma maybe_half_open_closed [simp]: "br_state (maybe_half_open now b) = CLOSED \<longleftrightarrow> br_state b = CLOSED"
  by (auto simp: maybe_half_open_def split: option.splits)

lemma llm_allowed_iff: "fst (llm_allowed now b) \<longleftrightarrow> br_state b = CLOSED"
  by (simp add: llm_allowed_def read_state_def Let_def)

section \<open>The registry\<close>

record registry =
  rg_max :: int
  rg_cooldown :: pyfloat
  rg_breakers :: "(string \<times> breaker) list"
  rg_provider_breakers :: "(string \<times> breaker) list"

definition FLASH :: string where "FLASH = ''deepseek-flash''"
definition LUNA :: string where "LUNA = ''gpt-6-luna''"
definition SOL :: string where "SOL = ''gpt-6.1-sol''"
definition OPENAI :: string where "OPENAI = ''openai''"
definition LEGACY_FLASH :: string where "LEGACY_FLASH = ''deepseek-v4-flash''"
definition LEGACY_LUNA :: string where "LEGACY_LUNA = ''gpt-5.6-luna''"
definition TERRA :: string where "TERRA = ''gpt-5.6-terra''"
definition LEGACY_SOL :: string where "LEGACY_SOL = ''gpt-5.6-sol''"
definition LEGACY_SOL_6 :: string where "LEGACY_SOL_6 = ''gpt-6-sol''"

lemmas model_names = FLASH_def LUNA_def SOL_def OPENAI_def LEGACY_FLASH_def LEGACY_LUNA_def
  TERRA_def LEGACY_SOL_def LEGACY_SOL_6_def

definition CURRENT_MODELS :: "string list" where
  "CURRENT_MODELS = [LUNA, SOL]"

definition LEGACY_MODELS :: "string list" where
  "LEGACY_MODELS = [FLASH, LEGACY_FLASH, LEGACY_LUNA, TERRA, LEGACY_SOL, LEGACY_SOL_6]"

definition KNOWN_MODELS :: "string list" where
  "KNOWN_MODELS = CURRENT_MODELS @ LEGACY_MODELS"

definition OPENAI_MODELS :: "string list" where
  "OPENAI_MODELS = [LUNA, SOL, LEGACY_LUNA, TERRA, LEGACY_SOL, LEGACY_SOL_6]"

definition new_registry :: "int \<Rightarrow> pyfloat \<Rightarrow> registry" where
  "new_registry mx cd =
     \<lparr>rg_max = mx, rg_cooldown = cd, rg_breakers = [], rg_provider_breakers = []\<rparr>"

definition setdefault :: "string \<Rightarrow> 'a \<Rightarrow> (string \<times> 'a) list \<Rightarrow> 'a \<times> (string \<times> 'a) list" where
  "setdefault k d m = (case map_of m k of Some v \<Rightarrow> (v, m) | None \<Rightarrow> (d, AList.update k d m))"

definition normalize_provider :: "string \<Rightarrow> string" where
  "normalize_provider p = py_lower (py_strip p)"

definition get_breaker :: "string \<Rightarrow> registry \<Rightarrow> breaker \<times> registry" where
  "get_breaker model r =
     (let (b, m) = setdefault model (new_breaker (rg_max r) (rg_cooldown r)) (rg_breakers r)
      in (b, r\<lparr>rg_breakers := m\<rparr>))"

definition get_provider_breaker :: "string \<Rightarrow> registry \<Rightarrow> breaker \<times> registry" where
  "get_provider_breaker provider r =
     (let (b, m) = setdefault (normalize_provider provider)
                     (new_breaker (rg_max r) (rg_cooldown r)) (rg_provider_breakers r)
      in (b, r\<lparr>rg_provider_breakers := m\<rparr>))"

text \<open>The breaker object is shared with the dict: updating it stores it back.\<close>

definition put_breaker :: "string \<Rightarrow> breaker \<Rightarrow> registry \<Rightarrow> registry" where
  "put_breaker model b r = r\<lparr>rg_breakers := AList.update model b (rg_breakers r)\<rparr>"

definition put_provider_breaker :: "string \<Rightarrow> breaker \<Rightarrow> registry \<Rightarrow> registry" where
  "put_provider_breaker provider b r =
     r\<lparr>rg_provider_breakers :=
         AList.update (normalize_provider provider) b (rg_provider_breakers r)\<rparr>"

definition infer_provider :: "string \<Rightarrow> string option" where
  "infer_provider model =
     (if model \<in> set OPENAI_MODELS \<or> starts_with ''gpt-'' model then Some OPENAI
      else if model = FLASH \<or> starts_with ''deepseek-'' model then Some ''deepseek''
      else None)"

definition reg_record_failure :: "pyfloat \<Rightarrow> string \<Rightarrow> registry \<Rightarrow> breaker_state \<times> registry" where
  "reg_record_failure now model r =
     (let (b, r1) = get_breaker model r; (st, b1) = record_failure now b
      in (st, put_breaker model b1 r1))"

definition reg_record_success :: "string \<Rightarrow> registry \<Rightarrow> breaker_state \<times> registry" where
  "reg_record_success model r =
     (let (b, r1) = get_breaker model r; (st, b1) = record_success b
      in (st, put_breaker model b1 r1))"

definition record_provider_failure ::
    "pyfloat \<Rightarrow> string \<Rightarrow> registry \<Rightarrow> breaker_state \<times> registry" where
  "record_provider_failure now provider r =
     (let (b, r1) = get_provider_breaker provider r; (st, b1) = record_failure now b
      in (st, put_provider_breaker provider b1 r1))"

definition record_provider_success :: "string \<Rightarrow> registry \<Rightarrow> breaker_state \<times> registry" where
  "record_provider_success provider r =
     (let (b, r1) = get_provider_breaker provider r; (st, b1) = record_success b
      in (st, put_provider_breaker provider b1 r1))"

definition is_down :: "pyfloat \<Rightarrow> string \<Rightarrow> registry \<Rightarrow> bool \<times> registry" where
  "is_down now model r =
     (let (b, r1) = get_breaker model r; (allowed, b1) = llm_allowed now b
      in (\<not> allowed, put_breaker model b1 r1))"

definition is_provider_down :: "pyfloat \<Rightarrow> string \<Rightarrow> registry \<Rightarrow> bool \<times> registry" where
  "is_provider_down now provider r =
     (let (b, r1) = get_provider_breaker provider r; (allowed, b1) = llm_allowed now b
      in (\<not> allowed, put_provider_breaker provider b1 r1))"

definition registry_system_mode ::
    "pyfloat \<Rightarrow> (string \<Rightarrow> pyfloat) \<Rightarrow> registry \<Rightarrow> system_mode \<times> registry" where
  "registry_system_mode now clock r =
     (let (down, r1) = is_provider_down now OPENAI r in
      if down then (LOCAL_QUANT_MODE, r1)
      else
        (let reads = map (\<lambda>(model, b). (model, llm_allowed (clock model) b)) (rg_breakers r1);
             down_models = map fst (filter (\<lambda>(_, allowed, _). \<not> allowed) reads);
             r2 = r1\<lparr>rg_breakers := map (\<lambda>(model, _, b). (model, b)) reads\<rparr>
         in (if filter (\<lambda>m. m \<noteq> FLASH) down_models \<noteq> [] then LOCAL_QUANT_MODE
             else if FLASH \<in> set down_models then TEXT_LOCAL_FILTER
             else NORMAL, r2)))"

section \<open>What the registry decides\<close>

text \<open>
  The abstract state of a registry: which models and which providers are down. The mode is a
  function of it, whatever the clock says and whichever entries have been created by a read.
\<close>

definition model_down :: "registry \<Rightarrow> string \<Rightarrow> bool" where
  "model_down r k \<longleftrightarrow> (\<exists>b. map_of (rg_breakers r) k = Some b \<and> br_state b \<noteq> CLOSED)"

definition provider_down :: "registry \<Rightarrow> string \<Rightarrow> bool" where
  "provider_down r k \<longleftrightarrow> (\<exists>b. map_of (rg_provider_breakers r) k = Some b \<and> br_state b \<noteq> CLOSED)"

definition registry_ok :: "registry \<Rightarrow> bool" where
  "registry_ok r \<longleftrightarrow>
     distinct (map fst (rg_breakers r)) \<and> distinct (map fst (rg_provider_breakers r))"

definition abstract_mode :: "bool \<Rightarrow> (string \<Rightarrow> bool) \<Rightarrow> system_mode" where
  "abstract_mode openai_down down =
     (if openai_down then LOCAL_QUANT_MODE
      else if \<exists>k. k \<noteq> FLASH \<and> down k then LOCAL_QUANT_MODE
      else if down FLASH then TEXT_LOCAL_FILTER
      else NORMAL)"

lemma normalize_OPENAI [simp]: "normalize_provider OPENAI = OPENAI"
  by code_simp

lemma new_breaker_closed [simp]: "br_state (new_breaker mx cd) = CLOSED"
  by (simp add: new_breaker_def)

lemmas registry_ops = get_breaker_def get_provider_breaker_def put_breaker_def
  put_provider_breaker_def setdefault_def

lemma is_provider_down_eq:
  "fst (is_provider_down now p r) \<longleftrightarrow> provider_down r (normalize_provider p)"
  by (auto simp: is_provider_down_def registry_ops provider_down_def llm_allowed_def read_state_def
      Let_def split: option.splits)

lemma is_provider_down_frame:
  "model_down (snd (is_provider_down now p r)) = model_down r"
  "provider_down (snd (is_provider_down now p r)) = provider_down r"
  "rg_breakers (snd (is_provider_down now p r)) = rg_breakers r"
  "registry_ok r \<Longrightarrow> registry_ok (snd (is_provider_down now p r))"
  by (auto simp: is_provider_down_def registry_ops provider_down_def model_down_def llm_allowed_def
      read_state_def Let_def fun_eq_iff update_conv' registry_ok_def distinct_update
      split: option.splits)

lemma is_down_eq: "fst (is_down now k r) \<longleftrightarrow> model_down r k"
  by (auto simp: is_down_def registry_ops model_down_def llm_allowed_def read_state_def
      Let_def split: option.splits)

lemma model_down_member:
  "registry_ok r \<Longrightarrow> model_down r k \<longleftrightarrow> (\<exists>b. (k, b) \<in> set (rg_breakers r) \<and> br_state b \<noteq> CLOSED)"
  by (auto simp: model_down_def registry_ok_def)

lemma down_models_set:
  assumes "registry_ok r"
  shows "set (map fst (filter (\<lambda>(_, allowed, _). \<not> allowed)
           (map (\<lambda>(model, b). (model, llm_allowed (clock model) b)) (rg_breakers r)))) = {k. model_down r k}"
  using assms
  by (force simp: model_down_member llm_allowed_def read_state_def Let_def image_iff)

lemma registry_mode_abstract:
  assumes "registry_ok r"
  shows "fst (registry_system_mode now clock r) = abstract_mode (provider_down r OPENAI) (model_down r)"
proof -
  let ?r1 = "snd (is_provider_down now OPENAI r)"
  have r1: "registry_ok ?r1" "model_down ?r1 = model_down r"
    using assms by (simp_all add: is_provider_down_frame)
  have fst1: "fst (is_provider_down now OPENAI r) \<longleftrightarrow> provider_down r OPENAI"
    by (simp add: is_provider_down_eq)
  define ks where "ks = map fst (filter (\<lambda>(_, allowed, _). \<not> allowed)
    (map (\<lambda>(model, b). (model, llm_allowed (clock model) b)) (rg_breakers ?r1)))"
  have ks: "set ks = {k. model_down r k}" using down_models_set [OF r1(1)] r1(2) by (simp add: ks_def)
  have "filter (\<lambda>m. m \<noteq> FLASH) ks \<noteq> [] \<longleftrightarrow> (\<exists>k. k \<noteq> FLASH \<and> model_down r k)"
    using ks by (auto simp: filter_empty_conv)
  moreover have "FLASH \<in> set ks \<longleftrightarrow> model_down r FLASH" using ks by simp
  ultimately show ?thesis
    using fst1
    by (auto simp: registry_system_mode_def abstract_mode_def split_beta Let_def ks_def [symmetric])
qed

lemma map_reads_state:
  "map_of (map (\<lambda>(k, b). (k, f k b)) xs) k = map_option (f k) (map_of xs k)"
  by (induction xs) auto

lemma registry_mode_frame:
  "model_down (snd (registry_system_mode now clock r)) = model_down r"
  "provider_down (snd (registry_system_mode now clock r)) = provider_down r"
  "registry_ok r \<Longrightarrow> registry_ok (snd (registry_system_mode now clock r))"
proof -
  let ?r1 = "snd (is_provider_down now OPENAI r)"
  let ?read = "\<lambda>k b. snd (llm_allowed (clock k) b)"
  have reads: "map (\<lambda>(model, _, b). (model, b))
      (map (\<lambda>(model, b). (model, llm_allowed (clock model) b)) xs)
      = map (\<lambda>(k, b). (k, ?read k b)) xs" for xs by (auto simp: split_beta)
  have closed: "br_state (?read k b) = CLOSED \<longleftrightarrow> br_state b = CLOSED" for k b
    by (simp add: llm_allowed_def read_state_def Let_def)
  have snd_eq: "snd (registry_system_mode now clock r) = ?r1 \<or>
      snd (registry_system_mode now clock r) = ?r1\<lparr>rg_breakers := map (\<lambda>(k, b). (k, ?read k b)) (rg_breakers r)\<rparr>"
    using reads [of "rg_breakers r"]
    by (auto simp: registry_system_mode_def split_beta Let_def is_provider_down_frame)
  show "model_down (snd (registry_system_mode now clock r)) = model_down r"
    using snd_eq is_provider_down_frame(1) [of now OPENAI r] closed
    by (auto simp: model_down_def fun_eq_iff map_reads_state)
  show "provider_down (snd (registry_system_mode now clock r)) = provider_down r"
    using snd_eq is_provider_down_frame(2) [of now OPENAI r]
    by (auto simp: provider_down_def fun_eq_iff)
  show "registry_ok (snd (registry_system_mode now clock r))" if "registry_ok r"
    using snd_eq is_provider_down_frame(4) [OF that, of now OPENAI] is_provider_down_frame(3) [of now OPENAI r]
    by (auto simp: registry_ok_def split_beta comp_def)
qed

lemma registry_ok_ops:
  assumes "registry_ok r"
  shows "registry_ok (snd (reg_record_failure now k r))" "registry_ok (snd (reg_record_success k r))"
    "registry_ok (snd (record_provider_failure now k r))" "registry_ok (snd (record_provider_success k r))"
  using assms
  by (auto simp: reg_record_failure_def reg_record_success_def record_provider_failure_def
      record_provider_success_def registry_ops registry_ok_def distinct_update Let_def split_beta
      split: option.splits)

lemma provider_down_model_ops:
  "provider_down (snd (reg_record_failure now k r)) = provider_down r"
  "provider_down (snd (reg_record_success k r)) = provider_down r"
  by (auto simp: reg_record_failure_def reg_record_success_def registry_ops provider_down_def
      split_beta fun_eq_iff split: option.splits)

lemma record_failure_not_closed:
  "br_state b \<noteq> CLOSED \<Longrightarrow> br_state (snd (record_failure now b)) \<noteq> CLOSED"
  using breaker_event_stays_open [of b "Failure now"] by simp

lemma provider_down_failure:
  "provider_down r p \<Longrightarrow> provider_down (snd (record_provider_failure now k r)) p"
  using record_failure_not_closed
  by (auto simp: record_provider_failure_def registry_ops provider_down_def split_beta
      update_conv' split: option.splits)

lemma provider_down_success:
  "provider_down (snd (record_provider_success k r)) p \<longleftrightarrow> provider_down r p \<and> p \<noteq> normalize_provider k"
  by (auto simp: record_provider_success_def registry_ops provider_down_def split_beta
      update_conv' record_success_def Let_def split: option.splits)

section \<open>Failure streaks\<close>

lemma failure_streak_step:
  assumes "breaker_inv mx cd b" "0 \<le> mx"
  shows "(br_state (snd (record_failure now b)) = CLOSED) = (br_failures b + 1 \<le> mx)"
    and "br_state b = CLOSED \<Longrightarrow> br_failures (snd (record_failure now b)) = br_failures b + 1"
  using assms by (auto simp: breaker_inv_def breaker_ops split: option.splits)

lemma failure_run_closed:
  assumes "breaker_inv mx cd b" "0 \<le> mx"
  shows "br_state (breaker_run (map Failure ts) b) = CLOSED \<longleftrightarrow> br_failures b + int (length ts) \<le> mx"
  using assms(1)
proof (induction ts arbitrary: b)
  case Nil
  then have "br_state b = CLOSED \<longleftrightarrow> br_failures b \<le> mx" unfolding breaker_inv_def by blast
  then show ?case by (simp add: breaker_run_def)
next
  case (Cons t ts)
  let ?b = "snd (record_failure t b)"
  have inv: "breaker_inv mx cd ?b"
    using breaker_event_inv [OF assms(2) Cons.prems, of "Failure t"] by simp
  have run: "breaker_run (map Failure (t # ts)) b = breaker_run (map Failure ts) ?b"
    by (simp add: breaker_run_def)
  show ?case
  proof (cases "br_state ?b = CLOSED")
    case True
    then have "br_state b = CLOSED" using record_failure_not_closed by blast
    then show ?thesis
      using Cons.IH [OF inv] failure_streak_step(2) [OF Cons.prems assms(2)] unfolding run
      by (simp add: algebra_simps)
  next
    case False
    then have "br_state (breaker_run (map Failure ts) ?b) \<noteq> CLOSED"
      by (intro breaker_run_stays_open) auto
    then show ?thesis
      using False failure_streak_step(1) [OF Cons.prems assms(2), of t] unfolding run by simp
  qed
qed

section \<open>Properties\<close>

text \<open>
  C29. In every state a breaker can reach, the model may be called exactly while the streak of
  failures is within the limit, and then, and only then, no trip is on record. From such a
  state a further burst of failures detaches the model exactly when it takes the streak over
  the limit, however the failures are spaced in time.
\<close>

theorem breaker_gate_matches_streak:
  assumes "breaker_reachable mx cd b" "0 \<le> mx"
  shows "(fst (llm_allowed now b) \<longleftrightarrow> br_failures b \<le> mx) \<and>
         (fst (llm_allowed now b) \<longleftrightarrow> br_opened_at b = None) \<and>
         (fst (llm_allowed now (breaker_run (map Failure ts) b)) \<longleftrightarrow>
            br_failures b + int (length ts) \<le> mx)"
proof -
  have inv: "breaker_inv mx cd b" using breaker_reachable_inv [OF assms] .
  have "br_opened_at b = None \<longleftrightarrow> br_state b = CLOSED" "br_failures b \<le> mx \<longleftrightarrow> br_state b = CLOSED"
    using inv unfolding breaker_inv_def by blast+
  then show ?thesis using failure_run_closed [OF inv assms(2)] by (simp add: llm_allowed_iff)
qed

theorem breaker_gate_matches_streak_witness:
  "fst (llm_allowed (Fin 9) (breaker_run (map Failure [Fin 0, Fin 1]) (new_breaker 2 (Fin 300)))) \<and>
   \<not> fst (llm_allowed (Fin 9) (breaker_run (map Failure [Fin 0, Fin 1, Fin 2]) (new_breaker 2 (Fin 300))))"
  using breaker_gate_matches_streak [OF breaker_reachable.init [of 2 "Fin 300"],
      of "Fin 9" "[Fin 0, Fin 1]"]
    breaker_gate_matches_streak [OF breaker_reachable.init [of 2 "Fin 300"],
      of "Fin 9" "[Fin 0, Fin 1, Fin 2]"]
  by (simp add: new_breaker_def)

text \<open>
  C17. A tripped breaker follows the probe cycle. Whatever failures and reads follow, the model
  stays detached until a success is recorded. An OPEN breaker reads HALF_OPEN exactly from the
  moment the cooldown has passed. Any further failure, probe or not, opens it with a cooldown that
  starts again, and only one that is not a probe adds to the streak; a success closes it and
  makes it as good as new.
\<close>

theorem tripped_breaker_probe_cycle:
  assumes "breaker_reachable mx cd b" "0 \<le> mx" "br_state b = OPEN" "Success \<notin> set es"
  shows "\<not> fst (llm_allowed now (breaker_run es b)) \<and>
    (\<exists>t. br_opened_at b = Some t \<and>
       fst (read_state now b) = (if cd \<le> now - t then HALF_OPEN else OPEN) \<and>
       snd (record_failure now b) = b\<lparr>br_state := OPEN, br_opened_at := Some now,
         br_failures := (if cd \<le> now - t then br_failures b else br_failures b + 1)\<rparr>) \<and>
    apply_event Success (breaker_run es b) = new_breaker mx cd"
proof -
  have inv: "breaker_inv mx cd b" using breaker_reachable_inv [OF assms(1,2)] .
  then obtain t where t: "br_opened_at b = Some t" "br_cooldown b = cd"
    using assms(3) by (auto simp: breaker_inv_def)
  have "breaker_inv mx cd (breaker_run es b)"
    using breaker_reachable_inv [OF breaker_run_reachable [OF assms(1)] assms(2)] .
  then have "apply_event Success (breaker_run es b) = new_breaker mx cd"
    by (simp add: breaker_inv_def record_success_def new_breaker_def Let_def)
  then show ?thesis
    using t assms(3) breaker_run_stays_open [of b es] assms(4) inv
    by (auto simp: llm_allowed_iff breaker_ops breaker_inv_def)
qed

theorem tripped_breaker_probe_cycle_witness:
  "\<not> fst (llm_allowed (Fin 400) (breaker_run [Read (Fin 302), Failure (Fin 303)]
      (breaker_run (map Failure [Fin 0, Fin 1, Fin 2]) (new_breaker 2 (Fin 300)))))"
proof -
  let ?b = "breaker_run (map Failure [Fin 0, Fin 1, Fin 2]) (new_breaker 2 (Fin 300))"
  have "br_state ?b = OPEN" by code_simp
  then show ?thesis
    using tripped_breaker_probe_cycle [OF breaker_run_reachable [OF breaker_reachable.init], of 2
        "map Failure [Fin 0, Fin 1, Fin 2]" "Fin 300" "[Read (Fin 302), Failure (Fin 303)]" "Fin 400"]
    by simp
qed

text \<open>
  C28. The mode of the registry is the documented function of which breakers are tripped: the
  OpenAI aggregate or any model but Flash detaches the LLM altogether, Flash alone leaves the
  text filter, and otherwise the mode is NORMAL. The clock readings do not matter, and reading
  the mode changes no breaker's verdict, although it may create entries and move breakers to
  HALF_OPEN.
\<close>

theorem registry_mode_follows_breakers:
  assumes "registry_ok r"
  shows "fst (registry_system_mode now clock r) =
           abstract_mode (provider_down r OPENAI) (model_down r) \<and>
         model_down (snd (registry_system_mode now clock r)) = model_down r \<and>
         provider_down (snd (registry_system_mode now clock r)) = provider_down r"
  using registry_mode_abstract [OF assms] registry_mode_frame by blast

definition flash_outage :: registry where
  "flash_outage = snd (reg_record_failure (Fin 5) FLASH (new_registry 0 (Fin 300)))"

theorem registry_mode_follows_breakers_witness:
  "fst (registry_system_mode (Fin 6) (\<lambda>_. Fin 400) flash_outage) = TEXT_LOCAL_FILTER"
proof -
  have ok: "registry_ok flash_outage"
    unfolding flash_outage_def by (intro registry_ok_ops) (simp add: registry_ok_def new_registry_def)
  have "rg_provider_breakers flash_outage = []" by code_simp
  moreover have "map_option br_state (map_of (rg_breakers flash_outage) FLASH) = Some OPEN" by code_simp
  moreover have "map fst (rg_breakers flash_outage) = [FLASH]" by code_simp
  then have "k = FLASH" if "map_of (rg_breakers flash_outage) k = Some b" for k b
    using that by (metis map_of_SomeD in_set_zipE zip_map_fst_snd list.set_map empty_iff insertE list.set(1,2))
  ultimately have "abstract_mode (provider_down flash_outage OPENAI) (model_down flash_outage)
      = TEXT_LOCAL_FILTER"
    by (auto simp: abstract_mode_def provider_down_def model_down_def)
  then show ?thesis
    using registry_mode_follows_breakers [OF ok, of "Fin 6" "\<lambda>_. Fin 400"] by simp
qed

end
