(* ===== verification/Health.thy ===== *)
theory Health
  imports Circuit_Breaker
begin

text \<open>
  The LLM side of \<open>RiskService\<close> (\<open>kairos_risk/service.py\<close>): how a health event
  feeds the breakers, and how a change of the system mode is announced. A clock reading is an
  argument; a \<open>publish\<close> is an outcome bit and an appended message.
\<close>

section \<open>Health events\<close>

definition MODEL_OUTAGE_KINDS :: "string list" where
  "MODEL_OUTAGE_KINDS = [''5xx'', ''timeout'', ''connection'', ''rate_limit'']"

definition PROVIDER_OUTAGE_KINDS :: "string list" where
  "PROVIDER_OUTAGE_KINDS = [''connection'', ''rate_limit'', ''provider_outage'']"

text \<open>
  \<open>provider or inferred\<close>: \<open>None\<close> and the empty string are false. \<open>truthy\<close> is
  the test \<open>if resolved_provider\<close>.
\<close>

fun py_or :: "string option \<Rightarrow> string option \<Rightarrow> string option" where
  "py_or None d = d"
| "py_or (Some s) d = (if s = [] then d else Some s)"

fun truthy :: "string option \<Rightarrow> bool" where
  "truthy None = False"
| "truthy (Some s) = (s \<noteq> [])"

definition record_llm_failure :: "pyfloat \<Rightarrow> string \<Rightarrow> registry \<Rightarrow> registry" where
  "record_llm_failure now model r = snd (reg_record_failure now model r)"

definition record_llm_success :: "string \<Rightarrow> string option \<Rightarrow> registry \<Rightarrow> registry" where
  "record_llm_success model provider r =
     (let inferred = infer_provider model; resolved = py_or provider inferred in
      if model \<in> set KNOWN_MODELS \<and> truthy resolved \<and>
         Some (normalize_provider (the resolved)) \<noteq> inferred
      then r
      else
        (let r1 = snd (reg_record_success model r) in
         if truthy resolved \<and> model \<in> set CURRENT_MODELS
         then snd (record_provider_success (the resolved) r1) else r1))"

record health_event =
  he_model :: string
  he_ok :: bool
  he_kind :: string
  he_provider :: "string option"

text \<open>
  The handler up to the mode it returns. \<open>now\<close> and \<open>now'\<close> are the clock readings of
  the two \<open>record_failure\<close> calls.
\<close>

definition feed_health :: "pyfloat \<Rightarrow> pyfloat \<Rightarrow> health_event \<Rightarrow> registry \<Rightarrow> registry" where
  "feed_health now now' e r =
     (let resolved = py_or (he_provider e) (infer_provider (he_model e)) in
      if he_ok e then record_llm_success (he_model e) resolved r
      else
        (let r1 = (if he_kind e \<in> set MODEL_OUTAGE_KINDS
                   then snd (reg_record_failure now (he_model e) r) else r)
         in if truthy resolved \<and> normalize_provider (the resolved) = OPENAI \<and>
               he_kind e \<in> set PROVIDER_OUTAGE_KINDS
            then snd (record_provider_failure now' (the resolved) r1) else r1))"

definition apply_health_event ::
    "pyfloat \<Rightarrow> pyfloat \<Rightarrow> pyfloat \<Rightarrow> (string \<Rightarrow> pyfloat) \<Rightarrow> health_event \<Rightarrow> registry \<Rightarrow>
     system_mode \<times> registry" where
  "apply_health_event now now' now'' clock e r =
     registry_system_mode now'' clock (feed_health now now' e r)"

lemma feed_health_ok: "registry_ok r \<Longrightarrow> registry_ok (feed_health now now' e r)"
  by (simp add: feed_health_def record_llm_success_def Let_def registry_ok_ops)

lemma model_down_provider_ops:
  "model_down (snd (record_provider_failure now k r)) = model_down r"
  "model_down (snd (record_provider_success k r)) = model_down r"
  by (auto simp: record_provider_failure_def record_provider_success_def registry_ops model_down_def
      split_beta fun_eq_iff split: option.splits)

lemma model_down_success:
  "model_down (snd (reg_record_success k r)) p \<longleftrightarrow> model_down r p \<and> p \<noteq> k"
  by (auto simp: reg_record_success_def registry_ops model_down_def split_beta
      update_conv' record_success_def Let_def split: option.splits)

lemma model_down_failure: "model_down r p \<Longrightarrow> model_down (snd (reg_record_failure now k r)) p"
  using record_failure_not_closed
  by (auto simp: reg_record_failure_def registry_ops model_down_def split_beta
      update_conv' split: option.splits)

subsection \<open>What proves a recovery\<close>

text \<open>
  A success event whose provider, given or inferred, is the one the model belongs to. A model
  outside the known table may be attributed to anyone.
\<close>

definition attributed :: "health_event \<Rightarrow> bool" where
  "attributed e \<longleftrightarrow> he_ok e \<and>
     (he_model e \<in> set KNOWN_MODELS \<longrightarrow>
        (let p = py_or (he_provider e) (infer_provider (he_model e))
         in truthy p \<longrightarrow> Some (normalize_provider (the p)) = infer_provider (he_model e)))"

lemma py_or_idem: "py_or (py_or p d) d = py_or p d"
  by (cases p; cases d; simp)

lemma infer_current: "m \<in> set CURRENT_MODELS \<Longrightarrow> infer_provider m = Some OPENAI"
  by (auto simp: CURRENT_MODELS_def infer_provider_def OPENAI_MODELS_def)

lemma current_known: "m \<in> set CURRENT_MODELS \<Longrightarrow> m \<in> set KNOWN_MODELS"
  by (simp add: KNOWN_MODELS_def)

lemma feed_health_provider_down:
  assumes "\<not> (attributed e \<and> he_model e \<in> set CURRENT_MODELS)" "provider_down r OPENAI"
  shows "provider_down (feed_health now now' e r) OPENAI"
proof (cases "he_ok e")
  case True
  then show ?thesis
    using assms infer_current [of "he_model e"] current_known [of "he_model e"]
    by (auto simp: feed_health_def record_llm_success_def attributed_def Let_def py_or_idem
        provider_down_model_ops)
next
  case False
  then show ?thesis
    using assms(2) by (auto simp: feed_health_def Let_def provider_down_failure provider_down_model_ops)
qed

lemma feed_health_model_down:
  assumes "\<not> (attributed e \<and> he_model e = k)" "model_down r k"
  shows "model_down (feed_health now now' e r) k"
proof (cases "he_ok e")
  case True
  then show ?thesis
    using assms by (auto simp: feed_health_def record_llm_success_def attributed_def Let_def py_or_idem
        model_down_provider_ops model_down_success)
next
  case False
  then show ?thesis
    using assms(2) by (auto simp: feed_health_def Let_def model_down_failure model_down_provider_ops)
qed

text \<open>A run: each event with its clock readings, the mode read after each.\<close>

type_synonym timed_health = "pyfloat \<times> pyfloat \<times> pyfloat \<times> (string \<Rightarrow> pyfloat) \<times> health_event"

fun health_step :: "timed_health \<Rightarrow> registry \<Rightarrow> registry" where
  "health_step (t, t', t'', clock, e) r = snd (apply_health_event t t' t'' clock e r)"

fun health_of :: "timed_health \<Rightarrow> health_event" where
  "health_of (_, _, _, _, e) = e"

lemma health_step_frame:
  "registry_ok r \<Longrightarrow> registry_ok (health_step x r)"
  "\<not> (attributed (health_of x) \<and> he_model (health_of x) \<in> set CURRENT_MODELS) \<Longrightarrow>
     provider_down r OPENAI \<Longrightarrow> provider_down (health_step x r) OPENAI"
  "\<not> (attributed (health_of x) \<and> he_model (health_of x) = k) \<Longrightarrow>
     model_down r k \<Longrightarrow> model_down (health_step x r) k"
  by (cases x; simp add: apply_health_event_def registry_mode_frame feed_health_ok
      feed_health_provider_down feed_health_model_down)+

lemma health_run_down:
  assumes "registry_ok r"
    and "(\<forall>x \<in> set xs. \<not> (attributed (health_of x) \<and> he_model (health_of x) \<in> set CURRENT_MODELS)) \<and>
           provider_down r OPENAI \<or>
         (\<forall>x \<in> set xs. \<not> (attributed (health_of x) \<and> he_model (health_of x) = k)) \<and> model_down r k"
  shows "registry_ok (fold health_step xs r) \<and>
    (provider_down (fold health_step xs r) OPENAI \<or> model_down (fold health_step xs r) k)"
  using assms
proof (induction xs arbitrary: r)
  case (Cons x xs)
  have "registry_ok (fold health_step xs (health_step x r)) \<and>
    (provider_down (fold health_step xs (health_step x r)) OPENAI \<or>
     model_down (fold health_step xs (health_step x r)) k)"
    using Cons.prems health_step_frame(1) [of r x] health_step_frame(2) [of x r] health_step_frame(3) [of x k r]
    by (intro Cons.IH) auto
  then show ?case by simp
qed auto

section \<open>Announcing the mode\<close>

record mode_board =
  mb_breakers :: registry
  mb_last_mode :: system_mode

text \<open>
  \<open>_broadcast_mode\<close>: \<open>published\<close> says whether the bus accepted the message (a
  \<open>publish\<close> that raises leaves the state as it was). The result lists what was sent and
  whether the call raised.
\<close>

definition broadcast_mode ::
    "bool \<Rightarrow> pyfloat \<Rightarrow> (string \<Rightarrow> pyfloat) \<Rightarrow> mode_board \<Rightarrow> (system_mode list \<times> bool) \<times> mode_board" where
  "broadcast_mode published now clock s =
     (let (mode, r) = registry_system_mode now clock (mb_breakers s); s1 = s\<lparr>mb_breakers := r\<rparr> in
      if mode = mb_last_mode s1 then (([], False), s1)
      else if published then (([mode], False), s1\<lparr>mb_last_mode := mode\<rparr>)
      else (([], True), s1))"

lemma broadcast_mode_read:
  assumes "registry_ok (mb_breakers s)"
  shows "fst (registry_system_mode now clock (mb_breakers (snd (broadcast_mode p t c s)))) =
         fst (registry_system_mode t c (mb_breakers s))"
  using assms registry_mode_frame [where r = "mb_breakers s" and now = t and clock = c]
  by (simp add: registry_mode_abstract broadcast_mode_def split_beta Let_def)

section \<open>Properties\<close>

text \<open>
  C16. An outage is only undone by evidence about the route that failed. While the OpenAI
  aggregate is down, no sequence of health events, at whatever times, brings back NORMAL
  unless it holds a success of a current model attributed to its own provider; and while a
  model is down, none does without an attributed success of that very model.
\<close>

theorem recovery_needs_attributed_success:
  assumes "registry_ok r"
    and "provider_down r OPENAI \<and>
           (\<forall>x \<in> set xs. \<not> (attributed (health_of x) \<and> he_model (health_of x) \<in> set CURRENT_MODELS)) \<or>
         model_down r k \<and>
           (\<forall>x \<in> set xs. \<not> (attributed (health_of x) \<and> he_model (health_of x) = k))"
  shows "fst (registry_system_mode now clock (fold health_step xs r)) \<noteq> NORMAL"
proof -
  have "registry_ok (fold health_step xs r) \<and>
    (provider_down (fold health_step xs r) OPENAI \<or> model_down (fold health_step xs r) k)"
    using assms by (intro health_run_down) blast+
  then show ?thesis using registry_mode_abstract by (cases "k = FLASH") (auto simp: abstract_mode_def)
qed

definition health :: "string \<Rightarrow> bool \<Rightarrow> string \<Rightarrow> string option \<Rightarrow> timed_health" where
  "health m okay k p =
     (Fin 0, Fin 0, Fin 0, \<lambda>_. Fin 0, \<lparr>he_model = m, he_ok = okay, he_kind = k, he_provider = p\<rparr>)"

definition openai_outage :: registry where
  "openai_outage = snd (record_provider_failure (Fin 5) ''OpenAI '' (new_registry 0 (Fin 300)))"

theorem recovery_needs_attributed_success_witness:
  "fst (registry_system_mode (Fin 999) (\<lambda>_. Fin 999)
     (fold health_step [health TERRA True ''ok'' None, health LUNA True ''ok'' (Some ''deepseek'')]
        openai_outage)) \<noteq> NORMAL"
proof (rule recovery_needs_attributed_success)
  show "registry_ok openai_outage"
    unfolding openai_outage_def by (intro registry_ok_ops) (simp add: registry_ok_def new_registry_def)
  have "map_option br_state (map_of (rg_provider_breakers openai_outage) OPENAI) = Some OPEN" by code_simp
  then have "provider_down openai_outage OPENAI" by (auto simp: provider_down_def)
  moreover have "TERRA \<notin> set CURRENT_MODELS" by code_simp
  moreover have "\<not> attributed (health_of (health LUNA True ''ok'' (Some ''deepseek'')))" by code_simp
  ultimately show "provider_down openai_outage OPENAI \<and>
      (\<forall>x \<in> set [health TERRA True ''ok'' None, health LUNA True ''ok'' (Some ''deepseek'')].
         \<not> (attributed (health_of x) \<and> he_model (health_of x) \<in> set CURRENT_MODELS)) \<or>
      model_down openai_outage [] \<and>
      (\<forall>x \<in> set [health TERRA True ''ok'' None, health LUNA True ''ok'' (Some ''deepseek'')].
         \<not> (attributed (health_of x) \<and> he_model (health_of x) = []))"
    by (simp add: health_def)
qed

text \<open>
  A mode change is announced once and never lost. A broadcast sends at most the current
  mode, and only when it differs from the last one announced; when the bus fails, nothing is
  marked as announced, so the next broadcast tries the same mode again; once one has gone
  through, repeating it at any time sends nothing.
\<close>

theorem mode_change_announced_once:
  assumes "registry_ok (mb_breakers s)"
  shows "let mode = abstract_mode (provider_down (mb_breakers s) OPENAI) (model_down (mb_breakers s));
             ((sent, raised), s1) = broadcast_mode published now clock s
         in sent = (if mode \<noteq> mb_last_mode s \<and> published then [mode] else []) \<and>
            (raised \<longleftrightarrow> mode \<noteq> mb_last_mode s \<and> \<not> published) \<and>
            mb_last_mode s1 = (if raised then mb_last_mode s else mode) \<and>
            fst (broadcast_mode published' now' clock' s1) =
              (if \<not> raised then ([], False)
               else if published' then ([mode], False) else ([], True))"
proof -
  let ?r = "snd (registry_system_mode now clock (mb_breakers s))"
  have ok: "registry_ok ?r" "model_down ?r = model_down (mb_breakers s)"
      "provider_down ?r = provider_down (mb_breakers s)"
    using assms registry_mode_frame [where r = "mb_breakers s" and now = now and clock = clock] by auto
  have m: "fst (registry_system_mode now clock (mb_breakers s)) =
      abstract_mode (provider_down (mb_breakers s) OPENAI) (model_down (mb_breakers s))"
    using assms by (rule registry_mode_abstract)
  have m': "fst (registry_system_mode now' clock' ?r) =
      abstract_mode (provider_down (mb_breakers s) OPENAI) (model_down (mb_breakers s))"
    using registry_mode_abstract [OF ok(1)] ok(2,3) by simp
  show ?thesis
    by (simp add: broadcast_mode_def split_beta Let_def m m')
qed

theorem mode_change_announced_once_witness:
  "fst (broadcast_mode True (Fin 1) (\<lambda>_. Fin 1)
     (snd (broadcast_mode False (Fin 0) (\<lambda>_. Fin 0)
        \<lparr>mb_breakers = new_registry 2 (Fin 300), mb_last_mode = LOCAL_QUANT_MODE\<rparr>)))
   = ([NORMAL], False)"
proof -
  let ?s = "\<lparr>mb_breakers = new_registry 2 (Fin 300), mb_last_mode = LOCAL_QUANT_MODE\<rparr>"
  have "registry_ok (mb_breakers ?s)" by (simp add: registry_ok_def new_registry_def)
  moreover have "abstract_mode (provider_down (mb_breakers ?s) OPENAI) (model_down (mb_breakers ?s)) = NORMAL"
    by (simp add: abstract_mode_def provider_down_def model_down_def new_registry_def)
  ultimately show ?thesis
    using mode_change_announced_once [of ?s False "Fin 0" "\<lambda>_. Fin 0" True "Fin 1" "\<lambda>_. Fin 1"]
    by (simp add: split_beta Let_def)
qed

end
