(* ===== verification/Versioned.thy ===== *)
theory Versioned
  imports Main
begin

text \<open>
  The contract of a view that is replaced by messages carrying versions: an event installs a
  view where there is none only when it offers a version newer than every version seen, and
  the newest version seen never goes back. The legacy service keeps its account and its
  allocation this way (times), the PAPER coordinator its account (reconciliation sequence) and
  each instrument's venue measurement (observation time).
\<close>

locale versioned_view =
  fixes apply_ev :: "'e \<Rightarrow> 's \<Rightarrow> 's"
    and view :: "'s \<Rightarrow> 'v option"
    and latest :: "'s \<Rightarrow> int option"
    and offer :: "'e \<Rightarrow> int option"
  assumes installs: "view s = None \<Longrightarrow> view (apply_ev e s) \<noteq> None \<Longrightarrow>
      \<exists>t. offer e = Some t \<and> (\<forall>l. latest s = Some l \<longrightarrow> l < t)"
    and keeps: "latest s = Some l \<Longrightarrow> \<exists>l'. latest (apply_ev e s) = Some l' \<and> l \<le> l'"
begin

lemma stays_revoked:
  assumes "view s = None" "latest s = Some l" "\<forall>e \<in> set es. \<forall>t. offer e = Some t \<longrightarrow> t \<le> l"
  shows "view (fold apply_ev es s) = None \<and> (\<exists>l'. latest (fold apply_ev es s) = Some l' \<and> l \<le> l')"
  using assms
proof (induction es rule: rev_induct)
  case (snoc e es)
  let ?s = "fold apply_ev es s"
  obtain l' where IH: "view ?s = None" "latest ?s = Some l'" "l \<le> l'" using snoc by auto
  have "view (apply_ev e ?s) = None"
    using installs [OF IH(1), of e] IH(2,3) snoc.prems(3) by fastforce
  then show ?case using keeps [OF IH(2), of e] IH(3) by (auto intro: order_trans)
qed simp

end

end
