(* ===== verification/Service.thy ===== *)
theory Service
  imports Pipeline Health Versioned
begin

text \<open>
  The legacy side of \<open>RiskService\<close> (\<open>kairos_risk/service.py\<close>): the account and
  allocation views it keeps, the handler of tactical commands, and the consume loops around
  them. Each handler runs between two awaits that nothing else interrupts, so a run is a
  sequence of handled events. An event whose payload the contract rejects is \<open>None\<close>.
\<close>

record service =
  sv_settings :: risk_settings
  sv_board :: mode_board
  sv_account :: account_state
  sv_account_snapshot :: "account_snapshot option"
  sv_latest_account :: "pydatetime option"
  sv_allocation :: "strategic_allocation option"
  sv_latest_allocation :: "pydatetime option"

definition fallback_account :: account_state where
  "fallback_account =
     \<lparr>ac_equity_usd = Fin 10000, ac_peak_equity_usd = Fin 10000, ac_daily_pnl_pct = Fin 0,
      ac_gross_exposure_usd = Fin 0, ac_gross_exposure_known = True, ac_open_position_qty = Fin 0,
      ac_open_position_notional_usd = Fin 0, ac_open_position_notional_known = False,
      ac_reconciled = False\<rparr>"

definition new_service :: "risk_settings \<Rightarrow> service" where
  "new_service s =
     \<lparr>sv_settings = s,
      sv_board = \<lparr>mb_breakers = new_registry (rs_breaker_max_consecutive_failures s) (rs_breaker_cooldown_s s),
                  mb_last_mode = NORMAL\<rparr>,
      sv_account = fallback_account, sv_account_snapshot = None, sv_latest_account = None,
      sv_allocation = None, sv_latest_allocation = None\<rparr>"

section \<open>Account snapshots\<close>

text \<open>
  Python's \<open>!=\<close> on two dumped payloads: floats compare by value (NaN differs from itself).
\<close>

definition opt_eq :: "pyfloat option \<Rightarrow> pyfloat option \<Rightarrow> bool" where
  "opt_eq a b = (case (a, b) of (None, None) \<Rightarrow> True | (Some x, Some y) \<Rightarrow> feq x y | _ \<Rightarrow> False)"

definition position_eq :: "position_snapshot \<Rightarrow> position_snapshot \<Rightarrow> bool" where
  "position_eq p q \<longleftrightarrow>
     ps_exchange p = ps_exchange q \<and> ps_account_id p = ps_account_id q \<and> ps_symbol p = ps_symbol q \<and>
     feq (ps_signed_quantity p) (ps_signed_quantity q) \<and> opt_eq (ps_entry_price p) (ps_entry_price q) \<and>
     opt_eq (ps_mark_price p) (ps_mark_price q) \<and> ps_captured_at p = ps_captured_at q"

definition same_payload :: "account_snapshot \<Rightarrow> account_snapshot \<Rightarrow> bool" where
  "same_payload a b \<longleftrightarrow>
     as_exchange a = as_exchange b \<and> as_account_id a = as_account_id b \<and>
     feq (as_equity_usd a) (as_equity_usd b) \<and> feq (as_peak_equity_usd a) (as_peak_equity_usd b) \<and>
     feq (as_daily_pnl_pct a) (as_daily_pnl_pct b) \<and>
     list_all2 position_eq (as_positions a) (as_positions b) \<and>
     as_captured_at a = as_captured_at b \<and> as_reconciled a = as_reconciled b \<and>
     as_payload a = as_payload b"

definition foreign_positions :: "account_snapshot \<Rightarrow> string list" where
  "foreign_positions s =
     map ps_symbol (filter (\<lambda>p. ps_exchange p \<noteq> as_exchange s \<or> ps_account_id p \<noteq> as_account_id s)
       (as_positions s))"

definition revoke_account :: "account_snapshot \<Rightarrow> service \<Rightarrow> service" where
  "revoke_account s sv =
     sv\<lparr>sv_latest_account := Some (as_captured_at s), sv_account_snapshot := None\<rparr>"

text \<open>\<open>_handle_account\<close>: the exception it raises, if any, and the state it leaves.\<close>

definition handle_account :: "account_snapshot \<Rightarrow> service \<Rightarrow> pyerr option \<times> service" where
  "handle_account s sv =
     (if \<not> is_aware (as_captured_at s)
      then (Some (ValueError ''account snapshot captured_at must be timezone-aware''), sv)
      else if \<exists>p \<in> set (as_positions s). \<not> is_aware (ps_captured_at p)
      then (Some (ValueError ''account snapshot position captured_at values must be timezone-aware''), sv)
      else
        (let t = micros (as_captured_at s);
             latest = map_option micros (sv_latest_account sv);
             current = sv_account_snapshot sv in
         if (case latest of Some l \<Rightarrow> t < l | None \<Rightarrow> False) then (None, sv)
         else if latest = Some t
         then (None,
           if \<not> as_reconciled s \<and> current \<noteq> None then sv\<lparr>sv_account_snapshot := None\<rparr>
           else if as_reconciled s \<and> (case current of Some c \<Rightarrow> \<not> same_payload s c | None \<Rightarrow> False)
           then sv\<lparr>sv_account_snapshot := None\<rparr>
           else sv)
         else if \<not> as_reconciled s then (None, revoke_account s sv)
         else if foreign_positions s \<noteq> []
         then (Some (ValueError ''account snapshot contains positions for a different exchange/account''),
               revoke_account s sv)
         else case from_snapshot s None of
           Inl e \<Rightarrow> (Some e, revoke_account s sv)
         | Inr account \<Rightarrow>
             (None, sv\<lparr>sv_latest_account := Some (as_captured_at s),
                       sv_account_snapshot := Some s, sv_account := account\<rparr>)))"

text \<open>One round of \<open>_consume_account\<close>; an ack that fails changes nothing.\<close>

definition consume_account :: "account_snapshot option \<Rightarrow> service \<Rightarrow> service" where
  "consume_account event sv =
     (case event of
        None \<Rightarrow> sv\<lparr>sv_account_snapshot := None\<rparr>
      | Some s \<Rightarrow>
         (case handle_account s sv of
            (Some _, sv1) \<Rightarrow> sv1\<lparr>sv_account_snapshot := None\<rparr>
          | (None, sv1) \<Rightarrow> sv1))"

section \<open>Strategic allocations\<close>

text \<open>The items of a dict sorted: its keys are distinct, so the key decides.\<close>

definition allocation_policy ::
    "strategic_allocation \<Rightarrow> market_regime \<times> pyfloat \<times> (string \<times> pyfloat) list \<times> pyfloat" where
  "allocation_policy a =
     (sa_regime a, sa_stable_reserve_pct a, sort_key fst (sa_strategy_weights a), sa_max_gross_leverage a)"

definition handle_allocation :: "strategic_allocation \<Rightarrow> service \<Rightarrow> pyerr option \<times> service" where
  "handle_allocation a sv =
     (if \<not> is_aware (sa_produced_at a)
      then (Some (ValueError ''strategic allocation produced_at must be timezone-aware''),
            sv\<lparr>sv_allocation := None\<rparr>)
      else
        (let t = micros (sa_produced_at a);
             latest = map_option micros (sv_latest_allocation sv) in
         if (case latest of Some l \<Rightarrow> t < l | None \<Rightarrow> False) then (None, sv)
         else case allocation_error a of
           Some invalid \<Rightarrow>
             (Some (ValueError invalid),
              (if (case latest of Some l \<Rightarrow> l < t | None \<Rightarrow> True)
               then sv\<lparr>sv_latest_allocation := Some (sa_produced_at a)\<rparr> else sv)
                \<lparr>sv_allocation := None\<rparr>)
         | None \<Rightarrow>
             if latest = Some t
             then (None,
               (case sv_allocation sv of
                  None \<Rightarrow> sv
                | Some current \<Rightarrow>
                    if allocation_policy a \<noteq> allocation_policy current
                    then sv\<lparr>sv_allocation := None\<rparr> else sv))
             else (None, sv\<lparr>sv_latest_allocation := Some (sa_produced_at a), sv_allocation := Some a\<rparr>)))"

definition consume_allocation :: "strategic_allocation option \<Rightarrow> service \<Rightarrow> service" where
  "consume_allocation event sv =
     (case event of
        None \<Rightarrow> sv\<lparr>sv_allocation := None\<rparr>
      | Some a \<Rightarrow>
         (case handle_allocation a sv of
            (Some _, sv1) \<Rightarrow> sv1\<lparr>sv_allocation := None\<rparr>
          | (None, sv1) \<Rightarrow> sv1))"

section \<open>Tactical commands\<close>

definition NON_ENTRY_REASONS :: "reason_code list" where
  "NON_ENTRY_REASONS = [CLOSE_POSITION, HOLD, NO_TRADE, REDUCE_LEVERAGE]"

definition account_ready :: "pydatetime \<Rightarrow> service \<Rightarrow> bool" where
  "account_ready now sv =
     (if sv_account_snapshot sv = None \<and> sv_latest_account sv \<noteq> None then False
      else if \<not> rs_require_reconciled_account (sv_settings sv) then True
      else case sv_account_snapshot sv of
        None \<Rightarrow> False
      | Some s \<Rightarrow>
          if \<not> as_reconciled s then False
          else
            (let age_s = total_seconds (micros now - micros (as_captured_at s))
             in \<not> (age_s < Fin 0 \<or> rs_account_snapshot_max_age_s (sv_settings sv) < age_s)))"

text \<open>The clock readings of one call.\<close>

record command_clock =
  cc_account :: pydatetime
  cc_allocation :: pydatetime
  cc_provider :: pyfloat
  cc_models :: "string \<Rightarrow> pyfloat"

text \<open>The allocation that constrains the command, or the note of a refusal.\<close>

definition allocation_for ::
    "pydatetime \<Rightarrow> service \<Rightarrow> tactical_command \<Rightarrow> system_mode \<Rightarrow> string + strategic_allocation option" where
  "allocation_for now sv c mode =
     (if rs_require_strategic_allocation (sv_settings sv) \<and>
         tc_reason_code c \<notin> set NON_ENTRY_REASONS \<and> mode \<noteq> LOCAL_QUANT_MODE
      then
        (case sv_allocation sv of
           None \<Rightarrow> Inl ''required strategic allocation unavailable''
         | Some a \<Rightarrow>
             if \<not> is_fresh a (rs_strategic_allocation_max_age_s (sv_settings sv)) now
             then Inl ''required strategic allocation is stale''
             else Inr (Some a))
      else Inr None)"

text \<open>\<open>_handle_command\<close> from the point where it has an account.\<close>

definition decide_command ::
    "uuid \<Rightarrow> command_clock \<Rightarrow> tactical_command \<Rightarrow> account_state \<Rightarrow> service \<Rightarrow> validated_order \<times> service" where
  "decide_command uuid clk c account sv =
     (let s = sv_settings sv;
          (mode, r) = registry_system_mode (cc_provider clk) (cc_models clk) (mb_breakers (sv_board sv));
          price = tc_reference_price c
      in (case allocation_for (cc_allocation clk) sv c mode of
            Inl note \<Rightarrow> refuse uuid s c note
          | Inr allocation \<Rightarrow>
              if price \<le> Fin 0
              then refuse uuid s c ''positive reference price required for deterministic sizing''
              else validate uuid s c account price allocation mode,
          sv\<lparr>sv_board := (sv_board sv)\<lparr>mb_breakers := r\<rparr>\<rparr>))"

text \<open>\<open>_handle_command\<close>: the decision it publishes, or the exception it raises.\<close>

definition account_for :: "tactical_command \<Rightarrow> service \<Rightarrow> account_state res" where
  "account_for c sv =
     (case sv_account_snapshot sv of
        Some snapshot \<Rightarrow> from_snapshot snapshot (Some (tc_symbol c))
      | None \<Rightarrow> Inr (sv_account sv))"

definition handle_command ::
    "uuid \<Rightarrow> command_clock \<Rightarrow> tactical_command \<Rightarrow> service \<Rightarrow> validated_order res \<times> service" where
  "handle_command uuid clk c sv =
     (let s = sv_settings sv in
      if \<not> cs_symbol_allowed s (tc_symbol c) then (Inr (refuse uuid s c ''symbol is not allowed''), sv)
      else if \<not> account_ready (cc_account clk) sv
      then (Inr (refuse uuid s c ''authoritative account reconciliation unavailable''), sv)
      else
        (case account_for c sv of
           Inl e \<Rightarrow> (Inl e, sv)
         | Inr account \<Rightarrow> (let (order, sv1) = decide_command uuid clk c account sv in (Inr order, sv1))))"

text \<open>
  One round of \<open>_consume_commands\<close>: what was published and whether the event was acked.
  \<open>published\<close> says whether the bus accepts the message, \<open>acked\<close> whether it accepts the ack.
\<close>

definition consume_command ::
    "uuid \<Rightarrow> command_clock \<Rightarrow> bool \<Rightarrow> bool \<Rightarrow> tactical_command option \<Rightarrow> service \<Rightarrow>
     (validated_order list \<times> bool) \<times> service" where
  "consume_command uuid clk published acked event sv =
     (case event of
        None \<Rightarrow> (([], False), sv)
      | Some c \<Rightarrow>
         (case handle_command uuid clk c sv of
            (Inl e, sv1) \<Rightarrow> (([], False), sv1)
          | (Inr order, sv1) \<Rightarrow> if published then (([order], acked), sv1) else (([], False), sv1)))"

section \<open>Health events\<close>

text \<open>\<open>_handle_health\<close> and its consume loop: feed the breakers, read the mode, announce a change.\<close>

definition consume_health ::
    "bool \<Rightarrow> (pyfloat \<times> (string \<Rightarrow> pyfloat)) \<Rightarrow> timed_health \<Rightarrow> service \<Rightarrow> system_mode list \<times> service" where
  "consume_health published clk event sv =
     (let board = sv_board sv;
          board1 = board\<lparr>mb_breakers := health_step event (mb_breakers board)\<rparr>;
          ((sent, _), board2) = broadcast_mode published (fst clk) (snd clk) board1
      in (sent, sv\<lparr>sv_board := board2\<rparr>))"

section \<open>Runs\<close>

datatype service_event =
    AccountEvent "account_snapshot option"
  | AllocationEvent "strategic_allocation option"
  | HealthEvent bool "pyfloat \<times> (string \<Rightarrow> pyfloat)" timed_health
  | CommandEvent command_clock bool bool "tactical_command option"

fun service_step :: "uuid \<Rightarrow> service_event \<Rightarrow> service \<Rightarrow> service" where
  "service_step uuid (AccountEvent e) sv = consume_account e sv"
| "service_step uuid (AllocationEvent e) sv = consume_allocation e sv"
| "service_step uuid (HealthEvent p clk e) sv = snd (consume_health p clk e sv)"
| "service_step uuid (CommandEvent clk p a e) sv = snd (consume_command uuid clk p a e sv)"

inductive service_reachable :: "uuid \<Rightarrow> risk_settings \<Rightarrow> service \<Rightarrow> bool" for uuid s where
  start: "service_reachable uuid s (new_service s)"
| event: "service_reachable uuid s sv \<Longrightarrow> service_reachable uuid s (service_step uuid e sv)"

subsection \<open>The invariant\<close>

text \<open>
  A trusted snapshot is reconciled, free of foreign positions, the newest version seen, and the
  account was computed from it; an allocation in force is sane and the newest version seen.
\<close>

definition account_inv :: "service \<Rightarrow> bool" where
  "account_inv sv \<longleftrightarrow>
     (\<forall>t. sv_latest_account sv = Some t \<longrightarrow> is_aware t) \<and>
     (\<forall>s. sv_account_snapshot sv = Some s \<longrightarrow>
        sv_latest_account sv = Some (as_captured_at s) \<and> as_reconciled s \<and>
        foreign_positions s = [] \<and> from_snapshot s None = Inr (sv_account sv))"

definition allocation_inv :: "service \<Rightarrow> bool" where
  "allocation_inv sv \<longleftrightarrow>
     (\<forall>t. sv_latest_allocation sv = Some t \<longrightarrow> is_aware t) \<and>
     (\<forall>a. sv_allocation sv = Some a \<longrightarrow>
        sv_latest_allocation sv = Some (sa_produced_at a) \<and> allocation_error a = None)"

definition service_inv :: "risk_settings \<Rightarrow> service \<Rightarrow> bool" where
  "service_inv s sv \<longleftrightarrow>
     sv_settings sv = s \<and> registry_ok (mb_breakers (sv_board sv)) \<and> account_inv sv \<and> allocation_inv sv"

lemma aware_eq: "is_aware a \<Longrightarrow> is_aware b \<Longrightarrow> micros a = micros b \<longleftrightarrow> a = b"
  by (cases a; cases b) auto

lemma handle_account_inv:
  "account_inv sv \<Longrightarrow> account_inv (snd (handle_account s sv))"
  by (auto simp: handle_account_def account_inv_def revoke_account_def Let_def
      split: option.splits sum.splits)

lemma consume_account_cases:
  obtains sv1 where "sv1 = sv \<or> (\<exists>s. e = Some s \<and> sv1 = snd (handle_account s sv))"
    "consume_account e sv = sv1 \<or> consume_account e sv = sv1\<lparr>sv_account_snapshot := None\<rparr>"
proof (cases e)
  case None
  then show ?thesis by (intro that [of sv]) (simp_all add: consume_account_def)
next
  case (Some s)
  then show ?thesis
    by (intro that [of "snd (handle_account s sv)"])
      (auto simp: consume_account_def split: option.splits prod.splits)
qed

lemma consume_account_inv: "account_inv sv \<Longrightarrow> account_inv (consume_account e sv)"
  using handle_account_inv [of sv]
  by (cases rule: consume_account_cases [where sv = sv and e = e]) (auto simp: account_inv_def)

lemma handle_allocation_inv: "allocation_inv sv \<Longrightarrow> allocation_inv (snd (handle_allocation a sv))"
  by (auto simp: handle_allocation_def allocation_inv_def Let_def split: option.splits)

lemma consume_allocation_cases:
  obtains sv1 where "sv1 = sv \<or> (\<exists>a. e = Some a \<and> sv1 = snd (handle_allocation a sv))"
    "consume_allocation e sv = sv1 \<or> consume_allocation e sv = sv1\<lparr>sv_allocation := None\<rparr>"
proof (cases e)
  case None
  then show ?thesis by (intro that [of sv]) (simp_all add: consume_allocation_def)
next
  case (Some a)
  then show ?thesis
    by (intro that [of "snd (handle_allocation a sv)"])
      (auto simp: consume_allocation_def split: option.splits prod.splits)
qed

lemma consume_allocation_inv: "allocation_inv sv \<Longrightarrow> allocation_inv (consume_allocation e sv)"
  using handle_allocation_inv [of sv]
  by (cases rule: consume_allocation_cases [where sv = sv and e = e]) (auto simp: allocation_inv_def)

lemma handle_account_frame:
  "sv_settings (snd (handle_account s sv)) = sv_settings sv"
  "sv_board (snd (handle_account s sv)) = sv_board sv"
  "sv_allocation (snd (handle_account s sv)) = sv_allocation sv"
  "sv_latest_allocation (snd (handle_account s sv)) = sv_latest_allocation sv"
  by (auto simp: handle_account_def revoke_account_def Let_def split: option.splits sum.splits)

lemma consume_account_frame [simp]:
  "sv_settings (consume_account e sv) = sv_settings sv"
  "sv_board (consume_account e sv) = sv_board sv"
  "sv_allocation (consume_account e sv) = sv_allocation sv"
  "sv_latest_allocation (consume_account e sv) = sv_latest_allocation sv"
  using handle_account_frame [where sv = sv]
  by (cases rule: consume_account_cases [where sv = sv and e = e]; auto)+

lemma handle_allocation_frame:
  "sv_settings (snd (handle_allocation a sv)) = sv_settings sv"
  "sv_board (snd (handle_allocation a sv)) = sv_board sv"
  "sv_account (snd (handle_allocation a sv)) = sv_account sv"
  "sv_account_snapshot (snd (handle_allocation a sv)) = sv_account_snapshot sv"
  "sv_latest_account (snd (handle_allocation a sv)) = sv_latest_account sv"
  by (auto simp: handle_allocation_def Let_def split: option.splits)

lemma consume_allocation_frame [simp]:
  "sv_settings (consume_allocation e sv) = sv_settings sv"
  "sv_board (consume_allocation e sv) = sv_board sv"
  "sv_account (consume_allocation e sv) = sv_account sv"
  "sv_account_snapshot (consume_allocation e sv) = sv_account_snapshot sv"
  "sv_latest_account (consume_allocation e sv) = sv_latest_account sv"
  using handle_allocation_frame [where sv = sv]
  by (cases rule: consume_allocation_cases [where sv = sv and e = e]; auto)+

text \<open>A command and a health event touch the board only.\<close>

lemma handle_command_state:
  "\<exists>b. snd (handle_command uuid clk c sv) = sv\<lparr>sv_board := b\<rparr> \<and>
     (registry_ok (mb_breakers (sv_board sv)) \<longrightarrow> registry_ok (mb_breakers b))"
proof -
  let ?r = "snd (registry_system_mode (cc_provider clk) (cc_models clk) (mb_breakers (sv_board sv)))"
  have "snd (handle_command uuid clk c sv) = sv \<or>
      snd (handle_command uuid clk c sv) = sv\<lparr>sv_board := (sv_board sv)\<lparr>mb_breakers := ?r\<rparr>\<rparr>"
    by (cases "account_for c sv") (simp_all add: handle_command_def decide_command_def Let_def split_beta)
  then show ?thesis
  proof
    assume "snd (handle_command uuid clk c sv) = sv"
    then show ?thesis by (intro exI [of _ "sv_board sv"]) simp
  next
    assume "snd (handle_command uuid clk c sv) = sv\<lparr>sv_board := (sv_board sv)\<lparr>mb_breakers := ?r\<rparr>\<rparr>"
    then show ?thesis
      using registry_mode_frame(3) by (intro exI [of _ "(sv_board sv)\<lparr>mb_breakers := ?r\<rparr>"]) simp
  qed
qed

lemma consume_command_state:
  "\<exists>b. snd (consume_command uuid clk p a e sv) = sv\<lparr>sv_board := b\<rparr> \<and>
     (registry_ok (mb_breakers (sv_board sv)) \<longrightarrow> registry_ok (mb_breakers b))"
proof (cases e)
  case None
  then show ?thesis by (intro exI [of _ "sv_board sv"]) (simp add: consume_command_def)
next
  case (Some c)
  have "snd (consume_command uuid clk p a e sv) = snd (handle_command uuid clk c sv)"
    by (auto simp: consume_command_def Some split: prod.splits sum.splits)
  then show ?thesis using handle_command_state by metis
qed

lemma consume_health_state:
  "\<exists>b. snd (consume_health p clk e sv) = sv\<lparr>sv_board := b\<rparr> \<and>
     (registry_ok (mb_breakers (sv_board sv)) \<longrightarrow> registry_ok (mb_breakers b))"
  using health_step_frame(1) [of "mb_breakers (sv_board sv)" e] registry_mode_frame(3)
  by (auto simp: consume_health_def broadcast_mode_def Let_def split_beta)

lemma service_inv_board:
  "service_inv s sv \<Longrightarrow> registry_ok (mb_breakers b) \<Longrightarrow> service_inv s (sv\<lparr>sv_board := b\<rparr>)"
  by (simp add: service_inv_def account_inv_def allocation_inv_def)

lemma service_step_inv:
  assumes "service_inv s sv"
  shows "service_inv s (service_step uuid e sv)"
proof (cases e)
  case (AccountEvent x)
  then show ?thesis
    using assms consume_account_inv [of sv x] by (simp add: service_inv_def allocation_inv_def)
next
  case (AllocationEvent x)
  then show ?thesis
    using assms consume_allocation_inv [of sv x] by (simp add: service_inv_def account_inv_def)
next
  case (HealthEvent p clk x)
  obtain b where "snd (consume_health p clk x sv) = sv\<lparr>sv_board := b\<rparr>"
    "registry_ok (mb_breakers (sv_board sv)) \<longrightarrow> registry_ok (mb_breakers b)"
    using consume_health_state by blast
  then show ?thesis using assms HealthEvent service_inv_board [OF assms] by (simp add: service_inv_def)
next
  case (CommandEvent clk p a x)
  obtain b where "snd (consume_command uuid clk p a x sv) = sv\<lparr>sv_board := b\<rparr>"
    "registry_ok (mb_breakers (sv_board sv)) \<longrightarrow> registry_ok (mb_breakers b)"
    using consume_command_state by blast
  then show ?thesis using assms CommandEvent service_inv_board [OF assms] by (simp add: service_inv_def)
qed

lemma service_reachable_inv: "service_reachable uuid s sv \<Longrightarrow> service_inv s sv"
proof (induction rule: service_reachable.induct)
  case start
  then show ?case
    by (simp add: service_inv_def account_inv_def allocation_inv_def new_service_def registry_ok_def new_registry_def)
next
  case (event sv e)
  then show ?case by (simp add: service_step_inv)
qed

section \<open>Views that only a newer version reopens\<close>

fun account_offer :: "service_event \<Rightarrow> int option" where
  "account_offer (AccountEvent (Some s)) =
     (if as_reconciled s then Some (micros (as_captured_at s)) else None)"
| "account_offer _ = None"

fun allocation_offer :: "service_event \<Rightarrow> int option" where
  "allocation_offer (AllocationEvent (Some a)) = Some (micros (sa_produced_at a))"
| "allocation_offer _ = None"

lemma board_event_frame:
  "sv_account_snapshot (snd (consume_health p clk e sv)) = sv_account_snapshot sv"
  "sv_latest_account (snd (consume_health p clk e sv)) = sv_latest_account sv"
  "sv_allocation (snd (consume_health p clk e sv)) = sv_allocation sv"
  "sv_latest_allocation (snd (consume_health p clk e sv)) = sv_latest_allocation sv"
  "sv_account_snapshot (snd (consume_command uuid k a b c sv)) = sv_account_snapshot sv"
  "sv_latest_account (snd (consume_command uuid k a b c sv)) = sv_latest_account sv"
  "sv_allocation (snd (consume_command uuid k a b c sv)) = sv_allocation sv"
  "sv_latest_allocation (snd (consume_command uuid k a b c sv)) = sv_latest_allocation sv"
  using consume_health_state [of p clk e sv] consume_command_state [of uuid k a b c sv] by auto

lemma handle_account_version:
  "sv_account_snapshot sv = None \<Longrightarrow> sv_account_snapshot (snd (handle_account s sv)) \<noteq> None \<Longrightarrow>
     as_reconciled s \<and> (\<forall>l. map_option micros (sv_latest_account sv) = Some l \<longrightarrow> l < micros (as_captured_at s))"
  "map_option micros (sv_latest_account sv) = Some l \<Longrightarrow>
     \<exists>l'. map_option micros (sv_latest_account (snd (handle_account s sv))) = Some l' \<and> l \<le> l'"
  by (auto simp: handle_account_def revoke_account_def Let_def split: option.splits sum.splits if_splits)

lemma handle_allocation_version:
  "sv_allocation sv = None \<Longrightarrow> sv_allocation (snd (handle_allocation a sv)) \<noteq> None \<Longrightarrow>
     \<forall>l. map_option micros (sv_latest_allocation sv) = Some l \<longrightarrow> l < micros (sa_produced_at a)"
  "map_option micros (sv_latest_allocation sv) = Some l \<Longrightarrow>
     \<exists>l'. map_option micros (sv_latest_allocation (snd (handle_allocation a sv))) = Some l' \<and> l \<le> l'"
  by (auto simp: handle_allocation_def Let_def split: option.splits if_splits)

lemma consume_account_version:
  "sv_account_snapshot sv = None \<Longrightarrow> sv_account_snapshot (consume_account e sv) \<noteq> None \<Longrightarrow>
     \<exists>t. account_offer (AccountEvent e) = Some t \<and>
       (\<forall>l. map_option micros (sv_latest_account sv) = Some l \<longrightarrow> l < t)"
  "map_option micros (sv_latest_account sv) = Some l \<Longrightarrow>
     \<exists>l'. map_option micros (sv_latest_account (consume_account e sv)) = Some l' \<and> l \<le> l'"
  using handle_account_version [of sv]
  by (cases rule: consume_account_cases [where sv = sv and e = e]; fastforce)+

lemma consume_allocation_version:
  "sv_allocation sv = None \<Longrightarrow> sv_allocation (consume_allocation e sv) \<noteq> None \<Longrightarrow>
     \<exists>t. allocation_offer (AllocationEvent e) = Some t \<and>
       (\<forall>l. map_option micros (sv_latest_allocation sv) = Some l \<longrightarrow> l < t)"
  "map_option micros (sv_latest_allocation sv) = Some l \<Longrightarrow>
     \<exists>l'. map_option micros (sv_latest_allocation (consume_allocation e sv)) = Some l' \<and> l \<le> l'"
  using handle_allocation_version [of sv]
  by (cases rule: consume_allocation_cases [where sv = sv and e = e]; fastforce)+

lemma consume_allocation_account_frame:
  "sv_account_snapshot (consume_allocation e sv) = sv_account_snapshot sv"
  "sv_latest_account (consume_allocation e sv) = sv_latest_account sv"
  by simp_all

interpretation account_view: versioned_view "service_step uuid" sv_account_snapshot
    "\<lambda>sv. map_option micros (sv_latest_account sv)" account_offer for uuid
proof
  fix s :: service and e
  assume "sv_account_snapshot s = None" "sv_account_snapshot (service_step uuid e s) \<noteq> None"
  then show "\<exists>t. account_offer e = Some t \<and> (\<forall>l. map_option micros (sv_latest_account s) = Some l \<longrightarrow> l < t)"
    using consume_account_version(1) by (cases e) (simp_all add: board_event_frame)
next
  fix s :: service and l e
  assume "map_option micros (sv_latest_account s) = Some l"
  then show "\<exists>l'. map_option micros (sv_latest_account (service_step uuid e s)) = Some l' \<and> l \<le> l'"
    using consume_account_version(2) [of s l] by (cases e; fastforce simp: board_event_frame)
qed

interpretation allocation_view: versioned_view "service_step uuid" sv_allocation
    "\<lambda>sv. map_option micros (sv_latest_allocation sv)" allocation_offer for uuid
proof
  fix s :: service and e
  assume "sv_allocation s = None" "sv_allocation (service_step uuid e s) \<noteq> None"
  then show "\<exists>t. allocation_offer e = Some t \<and> (\<forall>l. map_option micros (sv_latest_allocation s) = Some l \<longrightarrow> l < t)"
    using consume_allocation_version(1) by (cases e) (simp_all add: board_event_frame)
next
  fix s :: service and l e
  assume "map_option micros (sv_latest_allocation s) = Some l"
  then show "\<exists>l'. map_option micros (sv_latest_allocation (service_step uuid e s)) = Some l' \<and> l \<le> l'"
    using consume_allocation_version(2) [of s l] by (cases e; fastforce simp: board_event_frame)
qed

lemma service_run_settings: "sv_settings (fold (service_step uuid) es sv) = sv_settings sv"
proof (induction es arbitrary: sv)
  case (Cons e es)
  have "sv_settings (service_step uuid e sv) = sv_settings sv"
  proof (cases e)
    case (HealthEvent p clk x)
    then show ?thesis using consume_health_state [of p clk x sv] by auto
  next
    case (CommandEvent clk p a x)
    then show ?thesis using consume_command_state [of uuid clk p a x sv] by auto
  qed simp_all
  then show ?case using Cons by simp
qed simp

section \<open>Properties\<close>

text \<open>
  C30. Whatever was received in whatever order, the trusted views are current and consistent.
  In every reachable state a snapshot in force is reconciled, the newest version seen, free of
  positions of another exchange or account, and the account view is the one computed from it;
  an allocation in force is the newest version seen and passes every sanity check.
\<close>

theorem trusted_views_are_current:
  assumes "service_reachable uuid s sv"
  shows "sv_settings sv = s \<and>
    (\<forall>snap. sv_account_snapshot sv = Some snap \<longrightarrow>
       sv_latest_account sv = Some (as_captured_at snap) \<and> as_reconciled snap \<and>
       (\<forall>p \<in> set (as_positions snap). ps_exchange p = as_exchange snap \<and> ps_account_id p = as_account_id snap) \<and>
       from_snapshot snap None = Inr (sv_account sv)) \<and>
    (\<forall>a. sv_allocation sv = Some a \<longrightarrow>
       sv_latest_allocation sv = Some (sa_produced_at a) \<and> allocation_error a = None)"
  using service_reachable_inv [OF assms]
  by (auto simp: service_inv_def account_inv_def allocation_inv_def foreign_positions_def filter_empty_conv)

definition good_snapshot :: "int \<Rightarrow> account_snapshot" where
  "good_snapshot t = two_positions\<lparr>as_captured_at := Aware t\<rparr>"

theorem trusted_views_are_current_witness:
  "let sv = service_step id (AccountEvent (Some (good_snapshot 5))) (new_service dry_defaults)
   in sv_account_snapshot sv = Some (good_snapshot 5) \<and> sv_latest_account sv = Some (Aware 5)"
proof -
  let ?sv = "service_step id (AccountEvent (Some (good_snapshot 5))) (new_service dry_defaults)"
  have reach: "service_reachable id dry_defaults ?sv" by (intro service_reachable.intros)
  have "ok (from_snapshot (good_snapshot 5) None)" by code_simp
  then obtain a where a: "from_snapshot (good_snapshot 5) None = Inr a" by (auto simp: ok_iff)
  have "foreign_positions (good_snapshot 5) = []"
    by (simp add: foreign_positions_def good_snapshot_def two_positions_def)
  then have "sv_account_snapshot ?sv = Some (good_snapshot 5)"
    using a by (simp add: consume_account_def handle_account_def new_service_def good_snapshot_def two_positions_def)
  then show ?thesis
    using trusted_views_are_current [OF reach] by (simp add: Let_def good_snapshot_def)
qed


definition revoked_service :: service where
  "revoked_service =
     (new_service dry_defaults)\<lparr>sv_latest_account := Some (Aware 9), sv_latest_allocation := Some (Aware 3)\<rparr>"


text \<open>
  C15. Only a fresh, reconciled account can lead to an order. With both requirements switched on
  (the defaults), an approved order of a reachable state is for an allowed symbol and was
  decided on the account computed from the trusted snapshot, whose age is between 0 and the
  limit, in the mode the breakers stand for. New risk was decided outside LOCAL_QUANT_MODE
  under the allocation in force, which is sane and fresh.
\<close>

theorem approved_orders_rest_on_fresh_views:
  assumes "service_reachable uuid s sv" "rs_require_reconciled_account s" "rs_require_strategic_allocation s"
    and "fst (handle_command uuid clk c sv) = Inr order" "vo_approved order"
  shows "\<exists>snap account al.
    cs_symbol_allowed s (tc_symbol c) \<and> sv_account_snapshot sv = Some snap \<and> as_reconciled snap \<and>
    (let age = total_seconds (micros (cc_account clk) - micros (as_captured_at snap))
     in Fin 0 \<le> age \<and> \<not> rs_account_snapshot_max_age_s s < age) \<and>
    from_snapshot snap (Some (tc_symbol c)) = Inr account \<and>
    order = validate uuid s c account (tc_reference_price c) al
      (abstract_mode (provider_down (mb_breakers (sv_board sv)) OPENAI) (model_down (mb_breakers (sv_board sv)))) \<and>
    (new_risk (tc_reason_code c) \<longrightarrow> (\<exists>a. al = Some a \<and> sv_allocation sv = Some a \<and> allocation_error a = None \<and>
       is_fresh a (rs_strategic_allocation_max_age_s s) (cc_allocation clk) \<and>
       abstract_mode (provider_down (mb_breakers (sv_board sv)) OPENAI) (model_down (mb_breakers (sv_board sv)))
         \<noteq> LOCAL_QUANT_MODE))"
proof -
  have inv: "service_inv s sv" using service_reachable_inv [OF assms(1)] .
  let ?mode = "abstract_mode (provider_down (mb_breakers (sv_board sv)) OPENAI) (model_down (mb_breakers (sv_board sv)))"
  have set: "sv_settings sv = s" and rg: "registry_ok (mb_breakers (sv_board sv))"
    and ainv: "allocation_inv sv" using inv by (simp_all add: service_inv_def)
  have mode: "fst (registry_system_mode (cc_provider clk) (cc_models clk) (mb_breakers (sv_board sv))) = ?mode"
    using rg by (rule registry_mode_abstract)
  have refused: "\<not> vo_approved (refuse uuid s c n)" for n by (simp add: refuse_def)
  have sym: "cs_symbol_allowed s (tc_symbol c)" and ready: "account_ready (cc_account clk) sv"
    using assms(4,5) refused by (auto simp: handle_command_def set Let_def split: if_splits)
  obtain snap where snap: "sv_account_snapshot sv = Some snap" "as_reconciled snap"
      "\<not> total_seconds (micros (cc_account clk) - micros (as_captured_at snap)) < Fin 0"
      "\<not> rs_account_snapshot_max_age_s s < total_seconds (micros (cc_account clk) - micros (as_captured_at snap))"
    using ready assms(2) by (auto simp: account_ready_def set Let_def split: if_splits option.splits)
  obtain account where acc: "from_snapshot snap (Some (tc_symbol c)) = Inr account"
    and dec: "fst (decide_command uuid clk c account sv) = order"
    using assms(4) sym ready
    by (cases "account_for c sv") (auto simp: handle_command_def set Let_def split_beta account_for_def snap(1))
  obtain al where al: "allocation_for (cc_allocation clk) sv c ?mode = Inr al"
      "order = validate uuid s c account (tc_reference_price c) al ?mode"
    using dec assms(5) refused
    by (auto simp: decide_command_def Let_def split_beta mode set split: sum.splits if_splits)
  have "\<exists>a. al = Some a \<and> sv_allocation sv = Some a \<and> allocation_error a = None \<and>
       is_fresh a (rs_strategic_allocation_max_age_s s) (cc_allocation clk) \<and> ?mode \<noteq> LOCAL_QUANT_MODE"
    if new: "new_risk (tc_reason_code c)"
  proof -
    have m: "?mode \<noteq> LOCAL_QUANT_MODE"
      using approved_entry_gates_mode [of uuid s c account "tc_reference_price c" al ?mode] assms(5) new al(2) by blast
    have "tc_reason_code c \<notin> set NON_ENTRY_REASONS"
      using new by (auto simp: new_risk_cases NON_ENTRY_REASONS_def)
    then show ?thesis
      using al(1) m assms(3) ainv
      by (auto simp: allocation_for_def set allocation_inv_def split: option.splits if_splits)
  qed
  moreover have "total_seconds t \<noteq> NaN" for t by (simp add: total_seconds_def)
  ultimately show ?thesis
    using sym snap acc al(2) by (auto simp: Let_def float_not_less)
qed

text \<open>
  With \<open>require_reconciled_account\<close> switched off, a malformed first account event does not
  stop trading on the fallback account: the flag that would is the version of a snapshot, and
  none has been recorded.
\<close>

lemma malformed_first_account_event:
  "\<not> rs_require_reconciled_account s \<Longrightarrow> account_ready now (consume_account None (new_service s))"
  by (simp add: account_ready_def consume_account_def new_service_def)

definition ready_service :: service where
  "ready_service =
     fold (service_step id)
       [AccountEvent (Some ((good_snapshot 5)\<lparr>as_peak_equity_usd := Fin 1000, as_daily_pnl_pct := Fin 0\<rparr>)),
        AllocationEvent (Some bull_allocation)] (new_service dry_defaults)"

definition clock_6 :: command_clock where
  "clock_6 = \<lparr>cc_account = Aware 6, cc_allocation = Aware 6, cc_provider = Fin 0, cc_models = (\<lambda>_. Fin 0)\<rparr>"

theorem approved_orders_rest_on_fresh_views_witness:
  "\<exists>order. fst (handle_command id clock_6 (long_command (Fin 2)) ready_service) = Inr order \<and>
     vo_approved order \<and> (\<exists>a. sv_allocation ready_service = Some a \<and> allocation_error a = None)"
proof -
  have reach: "service_reachable id dry_defaults ready_service"
    unfolding ready_service_def fold.simps comp_def id_def by (intro service_reachable.intros)
  have "case fst (handle_command id clock_6 (long_command (Fin 2)) ready_service) of
      Inr order \<Rightarrow> vo_approved order | Inl _ \<Rightarrow> False" by code_simp
  then obtain order where order: "fst (handle_command id clock_6 (long_command (Fin 2)) ready_service) = Inr order"
    "vo_approved order" by (auto split: sum.splits)
  have "rs_require_reconciled_account dry_defaults" "rs_require_strategic_allocation dry_defaults"
    by (simp_all add: dry_defaults_def default_settings_def)
  from approved_orders_rest_on_fresh_views [OF reach this order]
  have "\<exists>a. sv_allocation ready_service = Some a \<and> allocation_error a = None"
    by (auto simp: long_command_def new_risk_cases)
  then show ?thesis using order by blast
qed

end
