(* ===== verification/Decimals.thy ===== *)
theory Decimals
  imports Prelude "HOL-Library.Char_ord"
begin

text \<open>
  Python's \<open>decimal.Decimal\<close> as far as the program uses it: a coefficient and an exponent,
  the value they denote, the constructor's grammar, fixed-point formatting, and the operations
  of the default context, which round to 28 digits and trap overflow and invalid operations.
  \<open>decimal_of_float\<close> is \<open>Decimal(str(x))\<close>: the shortest decimal that reads back as
  \<open>x\<close>. The sign of a zero, of an infinity and of a NaN is not kept.
\<close>

section \<open>Digits\<close>

definition digit_char :: "int \<Rightarrow> char" where
  "digit_char d = char_of (48 + nat d)"

definition digit_value :: "char \<Rightarrow> int" where
  "digit_value c = int (of_char c) - 48"

definition is_digit :: "char \<Rightarrow> bool" where
  "is_digit c \<longleftrightarrow> (let n = of_char c :: nat in 48 \<le> n \<and> n \<le> 57)"

function digits_of :: "int \<Rightarrow> string" where
  "digits_of n =
     (if n < 10 then [digit_char n] else digits_of (n div 10) @ [digit_char (n mod 10)])"
  by pat_completeness auto
termination by (relation "measure nat") auto

declare digits_of.simps [simp del]

definition int_of_digits :: "string \<Rightarrow> int" where
  "int_of_digits s = foldl (\<lambda>a c. 10 * a + digit_value c) 0 s"

lemma of_char_digit: "0 \<le> d \<Longrightarrow> d < 10 \<Longrightarrow> (of_char (digit_char d) :: nat) = 48 + nat d"
  by (simp add: digit_char_def)

lemma is_digit_char [simp]: "0 \<le> d \<Longrightarrow> d < 10 \<Longrightarrow> is_digit (digit_char d)"
  by (simp add: is_digit_def of_char_digit)

lemma digit_value_char [simp]: "0 \<le> d \<Longrightarrow> d < 10 \<Longrightarrow> digit_value (digit_char d) = d"
  by (simp add: digit_value_def of_char_digit)

lemma digit_char_zero [simp]: "digit_char 0 = CHR ''0''"
  by (simp add: digit_char_def char_of_eq_iff take_bit_eq_mod)

lemma digit_char_eq_zero [simp]: "0 \<le> d \<Longrightarrow> d < 10 \<Longrightarrow> digit_char d = CHR ''0'' \<longleftrightarrow> d = 0"
  by (metis digit_char_zero digit_value_char order_refl zero_less_numeral)

lemma is_digit_not:
  "\<not> is_digit (CHR ''.'')" "\<not> is_digit (CHR ''-'')" "\<not> is_digit (CHR ''+'')" "\<not> is_digit (CHR ''_'')"
  "\<not> is_digit (CHR ''e'')" "\<not> is_digit (CHR ''E'')"
  by (simp_all add: is_digit_def)

lemma is_digit_not_space: "is_digit c \<Longrightarrow> \<not> is_space c"
  by (auto simp: is_digit_def is_space_def Let_def)

lemma digits_of_nonempty [simp]: "digits_of n \<noteq> []"
  by (subst digits_of.simps) simp

lemma digits_of_all: "0 \<le> n \<Longrightarrow> c \<in> set (digits_of n) \<Longrightarrow> is_digit c"
proof (induction n rule: digits_of.induct)
  case (1 n)
  show ?case
    using 1(2,3) 1(1) [of] pos_mod_bound [of 10 n]
    by (subst (asm) digits_of.simps) (auto split: if_splits)
qed

lemma digits_of_snoc: "0 < n \<Longrightarrow> 0 \<le> d \<Longrightarrow> d < 10 \<Longrightarrow> digits_of (10 * n + d) = digits_of n @ [digit_char d]"
  by (subst digits_of.simps) simp

lemma int_of_digits_snoc [simp]:
  "int_of_digits [] = 0" "int_of_digits (s @ [c]) = 10 * int_of_digits s + digit_value c"
  by (simp_all add: int_of_digits_def)

lemma int_of_digits_append: "int_of_digits (s @ t) = int_of_digits s * 10 ^ length t + int_of_digits t"
proof (induction t rule: rev_induct)
  case (snoc c t)
  then show ?case by (simp flip: append_assoc)
qed simp

lemma int_of_digits_zeros [simp]: "int_of_digits (replicate k (CHR ''0'')) = 0"
proof (induction k)
  case (Suc k)
  have "digit_value (CHR ''0'') = 0" by (simp add: digit_value_def)
  then show ?case using Suc by (simp add: replicate_append_same [symmetric])
qed simp

lemma int_of_digits_of [simp]: "0 \<le> n \<Longrightarrow> int_of_digits (digits_of n) = n"
proof (induction n rule: digits_of.induct)
  case (1 n)
  have one: "int_of_digits [digit_char d] = d" if "0 \<le> d" "d < 10" for d
    using that int_of_digits_snoc(2) [of "[]"] by simp
  show ?case using 1 one by (subst digits_of.simps) (simp add: int_of_digits_append)
qed

section \<open>The type\<close>

datatype pydecimal = Decimal int int | DInf | DNaN

fun dec_finite :: "pydecimal \<Rightarrow> bool" where
  "dec_finite (Decimal _ _) = True"
| "dec_finite _ = False"

fun dval :: "pydecimal \<Rightarrow> rat" where
  "dval (Decimal c e) = of_int c * 10 powi e"
| "dval _ = 0"

lemma dval_pos_iff [simp]: "0 < dval (Decimal c e) \<longleftrightarrow> 0 < c"
proof -
  have "0 < (10 :: rat) powi e" by simp
  then show ?thesis by (metis dval.simps(1) mult_less_cancel_right_pos mult_zero_left of_int_0_less_iff)
qed

lemma dval_shift: "0 \<le> k \<Longrightarrow> of_int (c * 10 ^ nat k) * (10 :: rat) powi e = of_int c * 10 powi (e + k)"
  by (simp add: power_int_add powi_nat_int)

text \<open>
  Construction from text is exact. What the grammar accepts must also fit the limits of the
  implementation: a largest adjusted exponent and a least exponent.
\<close>

definition dec_in_range :: "int \<Rightarrow> int \<Rightarrow> bool" where
  "dec_in_range c e \<longleftrightarrow>
     ilog 10 \<bar>c\<bar> + e \<le> 999999999999999999 \<and> - 1999999999999999997 \<le> e"

definition sign_of :: "string \<Rightarrow> int \<times> string" where
  "sign_of s =
     (if s \<noteq> [] \<and> hd s = CHR ''-'' then (- 1, tl s)
      else if s \<noteq> [] \<and> hd s = CHR ''+'' then (1, tl s) else (1, s))"

definition parse_exponent :: "string \<Rightarrow> int option" where
  "parse_exponent s =
     (if s = [] then Some 0
      else if hd s \<in> {CHR ''e'', CHR ''E''}
      then (let (sg, ds) = sign_of (tl s) in
            if ds \<noteq> [] \<and> list_all is_digit ds then Some (sg * (int_of_digits ds)) else None)
      else None)"

definition parse_number :: "int \<Rightarrow> string \<Rightarrow> pydecimal option" where
  "parse_number sg s =
     (let whole = takeWhile is_digit s; rest = dropWhile is_digit s;
          dotted = rest \<noteq> [] \<and> hd rest = CHR ''.'';
          frac = (if dotted then takeWhile is_digit (tl rest) else []);
          rest = (if dotted then dropWhile is_digit (tl rest) else rest)
      in if whole @ frac = [] then None
         else case parse_exponent rest of
           None \<Rightarrow> None
         | Some x \<Rightarrow>
             (let c = sg * (int_of_digits (whole @ frac)); e = x - int (length frac)
              in if dec_in_range c e then Some (Decimal c e) else None))"

definition is_nan_text :: "string \<Rightarrow> bool" where
  "is_nan_text s \<longleftrightarrow>
     (starts_with ''nan'' s \<and> list_all is_digit (drop 3 s)) \<or>
     (starts_with ''snan'' s \<and> list_all is_digit (drop 4 s))"

definition parse_decimal :: "string \<Rightarrow> pydecimal option" where
  "parse_decimal text =
     (let (sg, s) = sign_of (filter (\<lambda>c. c \<noteq> CHR ''_'') (py_strip text));
          low = py_lower s
      in if low \<in> {''inf'', ''infinity''} then Some DInf
         else if is_nan_text low then Some DNaN
         else parse_number sg s)"

text \<open>\<open>format(value, "f")\<close> of a finite decimal.\<close>

definition fixed_text :: "int \<Rightarrow> int \<Rightarrow> string" where
  "fixed_text c e =
     (if 0 \<le> e then digits_of (c * 10 ^ nat e)
      else
        (let k = nat (- e); ds = digits_of c;
             padded = replicate (k + 1 - length ds) (CHR ''0'') @ ds
         in take (length padded - k) padded @ CHR ''.'' # drop (length padded - k) padded))"

definition format_f :: "int \<Rightarrow> int \<Rightarrow> string" where
  "format_f c e = (if c < 0 then CHR ''-'' # fixed_text (- c) e else fixed_text c e)"

definition rstrip :: "char \<Rightarrow> string \<Rightarrow> string" where
  "rstrip c s = rev (dropWhile (\<lambda>x. x = c) (rev s))"

text \<open>\<open>canonical_decimal\<close> of \<open>canary_instrument.py\<close>.\<close>

fun canonical_decimal :: "pydecimal \<Rightarrow> string res" where
  "canonical_decimal (Decimal c e) =
     (let text = format_f c e;
          text = (if CHR ''.'' \<in> set text then rstrip (CHR ''.'') (rstrip (CHR ''0'') text) else text)
      in if text \<in> {'''', ''-0''} then Inr ''0'' else Inr text)"
| "canonical_decimal _ = Inl (ValueError ''decimal must be finite'')"

section \<open>The canonical text determines the value\<close>

text \<open>The representation whose fixed-point text has no trailing zeros to strip.\<close>

function normal_form :: "int \<Rightarrow> int \<Rightarrow> int \<times> int" where
  "normal_form c e =
     (if 0 \<le> e then (c * 10 ^ nat e, 0)
      else if c mod 10 = 0 then normal_form (c div 10) (e + 1) else (c, e))"
  by pat_completeness auto
termination by (relation "measure (\<lambda>(c, e). nat (- e))") auto

declare normal_form.simps [simp del]

definition reduced :: "int \<Rightarrow> int \<Rightarrow> bool" where
  "reduced c e \<longleftrightarrow> 0 < c \<and> (e = 0 \<or> e < 0 \<and> c mod 10 \<noteq> 0)"

lemma normal_form_reduced: "0 < c \<Longrightarrow> normal_form c e = (c', e') \<Longrightarrow> reduced c' e'"
proof (induction c e rule: normal_form.induct)
  case (1 c e)
  show ?case
  proof (cases "e < 0 \<and> c mod 10 = 0")
    case True
    then have "0 < c div 10" using 1(2) by presburger
    moreover have "normal_form (c div 10) (e + 1) = (c', e')"
      using True 1(3) by (simp add: normal_form.simps [of c e])
    ultimately show ?thesis using 1(1) True by simp
  next
    case False
    then show ?thesis using 1(2,3) by (subst (asm) normal_form.simps) (auto simp: reduced_def split: if_splits)
  qed
qed

lemma normal_form_value: "normal_form c e = (c', e') \<Longrightarrow> dval (Decimal c' e') = dval (Decimal c e)"
proof (induction c e rule: normal_form.induct)
  case (1 c e)
  consider "0 \<le> e" | "e < 0" "c mod 10 = 0" | "e < 0" "c mod 10 \<noteq> 0" by linarith
  then show ?case
  proof cases
    case 1
    then show ?thesis using "1.prems" by (subst (asm) normal_form.simps) (auto simp: powi_nat_int)
  next
    case 2
    then have c: "c = 10 * (c div 10)" by presburger
    have "dval (Decimal c' e') = dval (Decimal (c div 10) (e + 1))"
      using 2 "1.prems" by (intro "1.IH") (auto simp: normal_form.simps [of c e])
    also have "\<dots> = of_int (10 * (c div 10)) * 10 powi e" by (simp add: power_int_add)
    finally show ?thesis using c by simp
  next
    case 3
    then show ?thesis using "1.prems" by (simp add: normal_form.simps [of c e])
  qed
qed

lemma reduced_unique:
  assumes "reduced c e" "reduced c' e'" "dval (Decimal c e) = dval (Decimal c' e')"
  shows "c = c' \<and> e = e'"
proof -
  have step: "a = b \<and> x = y"
    if r: "reduced a x" "reduced b y" and v: "dval (Decimal a x) = dval (Decimal b y)" and le: "x \<le> y" for a b x y
  proof -
    have "of_int a * (10 :: rat) powi x = of_int (b * 10 ^ nat (y - x)) * 10 powi x"
      using v le dval_shift [of "y - x" b x] by (metis add.commute diff_add_cancel diff_ge_0_iff_ge dval.simps(1))
    then have a: "a = b * 10 ^ nat (y - x)" by (simp del: of_int_mult)
    show ?thesis
    proof (cases "x = y")
      case False
      then have "nat (y - x) = Suc (nat (y - x) - 1)" using le by simp
      then have "a mod 10 = 0" using a by (metis mod_mult_self2_is_0 mult.left_commute power_Suc mult.commute)
      then show ?thesis using r False le by (auto simp: reduced_def)
    qed (use a in simp)
  qed
  show ?thesis
    using step [OF assms] step [OF assms(2,1) assms(3) [symmetric]] by linarith
qed


text \<open>Stripping a trailing zero of the coefficient strips it from the text.\<close>

lemma rstrip_snoc [simp]:
  "rstrip c [] = []" "rstrip c (s @ [c]) = rstrip c s" "x \<noteq> c \<Longrightarrow> rstrip c (s @ [x]) = s @ [x]"
  by (simp_all add: rstrip_def)

lemma fixed_text_shift:
  assumes "0 < c" "e < 0"
  shows "fixed_text (10 * c) e = (if e = - 1 then fixed_text c 0 @ ''.0'' else fixed_text c (e + 1) @ ''0'')"
proof -
  have d: "digits_of (10 * c) = digits_of c @ [CHR ''0'']" using digits_of_snoc [of c 0] assms by simp
  obtain k where k: "e = - int (Suc k)" using assms(2) by (metis negD)
  have len: "1 \<le> length (digits_of c)" using digits_of_nonempty [of c] by (cases "digits_of c") auto
  show ?thesis
  proof (cases k)
    case 0
    then show ?thesis using len k d by (simp add: fixed_text_def Let_def)
  next
    case (Suc j)
    have "nat (- e) = Suc (Suc j)" "nat (- (e + 1)) = Suc j" "e \<noteq> - 1" "e + 1 < 0" using k Suc by auto
    then show ?thesis using assms d len
      by (simp add: fixed_text_def Let_def Suc_diff_le not_le) (simp add: min_def; arith)
  qed
qed

lemma fixed_text_nonempty [simp]: "fixed_text c e \<noteq> []"
  by (simp add: fixed_text_def Let_def)

lemma dot_fixed_text [simp]: "0 \<le> c \<Longrightarrow> CHR ''.'' \<in> set (fixed_text c e) \<longleftrightarrow> e < 0"
  using digits_of_all [of "c * 10 ^ nat e" "CHR ''.''"]
  by (auto simp: fixed_text_def Let_def is_digit_not)

definition strip_text :: "string \<Rightarrow> string" where
  "strip_text t = (if CHR ''.'' \<in> set t then rstrip (CHR ''.'') (rstrip (CHR ''0'') t) else t)"

lemma fixed_text_last:
  assumes "e < 0" "0 < c"
  shows "\<exists>s. fixed_text c e = s @ [digit_char (c mod 10)]"
proof -
  have "digits_of c = (if c < 10 then [] else digits_of (c div 10)) @ [digit_char (c mod 10)]"
    using assms(2) by (subst digits_of.simps) (simp add: mod_pos_pos_trivial)
  moreover have "0 < nat (- e)" using assms by simp
  ultimately show ?thesis using assms by (simp add: fixed_text_def Let_def) 
qed


lemma rstrip_id: "c \<notin> set s \<Longrightarrow> rstrip c s = s"
  by (cases s rule: rev_cases) auto

lemma strip_normal:
  assumes "0 < c" "normal_form c e = (c', e')"
  shows "strip_text (fixed_text c e) = fixed_text c' e'"
  using assms
proof (induction c e rule: normal_form.induct)
  case (1 c e)
  consider "0 \<le> e" | "e < 0" "c mod 10 = 0" | "e < 0" "c mod 10 \<noteq> 0" by linarith
  then show ?case
  proof cases
    case 1
    then have "c' = c * 10 ^ nat e" "e' = 0" using "1.prems" by (auto simp: normal_form.simps [of c e])
    then have "fixed_text c' e' = fixed_text c e"
      using 1 by (simp add: fixed_text_def)
    then show ?thesis using 1 "1.prems"(1) by (simp add: strip_text_def)
  next
    case 2
    define d where "d = c div 10"
    have d: "c = 10 * d" "0 < d" "c div 10 = d" using 2 "1.prems"(1) unfolding d_def by presburger+
    have nf: "normal_form d (e + 1) = (c', e')" using 2 "1.prems"(2) d(3) by (simp add: normal_form.simps [of c e])
    have ih: "strip_text (fixed_text d (e + 1)) = fixed_text c' e'"
      using "1.IH" 2 d nf by simp
    have "CHR ''.'' \<notin> set (fixed_text d 0)" using d by simp
    then have "rstrip (CHR ''.'') (fixed_text d 0 @ ''.'') = fixed_text d 0" by (simp add: rstrip_id)
    moreover have "rstrip (CHR ''0'') (fixed_text d 0 @ ''.0'') = fixed_text d 0 @ ''.''"
      using rstrip_snoc(2) [of "CHR ''0''" "fixed_text d 0 @ ''.''"]
        rstrip_snoc(3) [of "CHR ''.''" "CHR ''0''" "fixed_text d 0"] by simp
    ultimately show ?thesis
      using 2 d fixed_text_shift [of d e] ih nf by (auto simp: strip_text_def)
  next
    case 3
    then have *: "c' = c" "e' = e" using "1.prems" by (simp_all add: normal_form.simps [of c e])
    obtain s where s: "fixed_text c e = s @ [digit_char (c mod 10)]"
      using fixed_text_last [of e c] 3 "1.prems" by auto
    have "digit_char (c mod 10) \<noteq> CHR ''0''" using 3 by simp
    moreover have "digit_char (c mod 10) \<noteq> CHR ''.''"
      using is_digit_char [of "c mod 10"] is_digit_not(1) by fastforce
    ultimately show ?thesis using 3 * s dot_fixed_text [of c e] "1.prems"(1) by (simp add: strip_text_def)
  qed
qed

lemma canonical_decimal_pos:
  assumes "0 < c"
  shows "canonical_decimal (Decimal c e) = Inr (case normal_form c e of (c', e') \<Rightarrow> fixed_text c' e')"
proof -
  obtain c' e' where nf: "normal_form c e = (c', e')" by force
  have "fixed_text n x \<noteq> ''-0''" if "0 \<le> n" for n x
  proof
    assume t: "fixed_text n x = ''-0''"
    show False
    proof (cases "x < 0")
      case True
      then show ?thesis using dot_fixed_text [of n x] t that by simp
    next
      case False
      then show ?thesis using t that digits_of_all [of "n * 10 ^ nat x" "CHR ''-''"]
        by (simp add: fixed_text_def is_digit_not)
    qed
  qed
  then show ?thesis
    using strip_normal [OF assms nf] assms nf normal_form_reduced [OF assms nf] by (simp add: reduced_def format_f_def strip_text_def Let_def)
qed

declare canonical_decimal.simps(1) [simp del]

text \<open>Reading a plain number back.\<close>

lemma list_all_takeWhile: "list_all P w \<Longrightarrow> takeWhile P (w @ x) = w @ takeWhile P x \<and> dropWhile P (w @ x) = dropWhile P x"
  by (induction w) auto

lemma py_strip_id: "list_all (\<lambda>c. \<not> is_space c) s \<Longrightarrow> py_strip s = s"
proof -
  have *: "dropWhile is_space s = s" if "list_all (\<lambda>c. \<not> is_space c) s" for s
    using that by (cases s) auto
  assume "list_all (\<lambda>c. \<not> is_space c) s"
  then show ?thesis using * [of s] * [of "rev s"] by (simp add: py_strip_def)
qed

definition plain_char :: "char \<Rightarrow> bool" where
  "plain_char c \<longleftrightarrow> is_digit c \<or> c = CHR ''.''"

lemma lower_plain: "plain_char c \<Longrightarrow> lower_char c = c"
  by (auto simp: plain_char_def is_digit_def lower_char_def Let_def)

lemma plain_not_space: "plain_char c \<Longrightarrow> \<not> is_space c"
  unfolding plain_char_def using is_digit_not_space by (auto simp: is_space_def)

lemma parse_plain:
  assumes "list_all plain_char s" "s \<noteq> []"
  shows "parse_decimal s = parse_number 1 s"
proof -
  have "list_all (\<lambda>c. \<not> is_space c) s"
    using assms(1) by (simp add: list_all_iff plain_not_space)
  then have strip: "py_strip s = s" by (rule py_strip_id)
  have "\<forall>c \<in> set s. c \<noteq> CHR ''_''"
    using assms(1) is_digit_not(4) by (auto simp: list_all_iff plain_char_def)
  then have filter: "filter (\<lambda>c. c \<noteq> CHR ''_'') s = s" by simp
  obtain c t where s: "s = c # t" "plain_char c" using assms by (cases s) auto
  then have "c \<noteq> CHR ''-''" "c \<noteq> CHR ''+''" "c \<noteq> CHR ''i''" "c \<noteq> CHR ''n''" "c \<noteq> CHR ''s''"
    by (auto simp: plain_char_def is_digit_def)
  then have "sign_of s = (1, s)" "s \<notin> {''inf'', ''infinity''}" "\<not> is_nan_text s"
    using s(1) by (auto simp: sign_of_def is_nan_text_def starts_with_def)
  moreover have "py_lower s = s"
    using assms(1) by (auto simp: py_lower_def list_all_iff lower_plain intro: map_idI)
  ultimately show ?thesis by (simp add: parse_decimal_def strip filter)
qed

lemma parse_fixed_text:
  assumes "0 < c" "e \<le> 0" "dec_in_range c e"
  shows "parse_decimal (fixed_text c e) = Some (Decimal c e)"
proof -
  define k where "k = nat (- e)"
  define p where "p = replicate (k + 1 - length (digits_of c)) (CHR ''0'') @ digits_of c"
  have digits: "list_all is_digit p" using digits_of_all [of c] assms(1) by (auto simp: p_def list_all_iff is_digit_def)
  have val: "int_of_digits p = c" using assms(1) by (simp add: p_def int_of_digits_append)
  show ?thesis
  proof (cases "e = 0")
    case True
    have all: "list_all is_digit (digits_of c)" using digits_of_all [of c] assms(1) by (simp add: list_all_iff)
    then have "list_all plain_char (digits_of c)" by (auto simp: list_all_iff plain_char_def)
    then have "parse_decimal (digits_of c) = parse_number 1 (digits_of c)" by (rule parse_plain) simp
    moreover have "takeWhile is_digit (digits_of c) = digits_of c"
        "dropWhile is_digit (digits_of c) = []"
      using list_all_takeWhile [OF all, of "[]"] by simp_all
    ultimately show ?thesis
      using True assms by (simp add: fixed_text_def parse_number_def Let_def parse_exponent_def)
  next
    case False
    define w where "w = take (length p - k) p"
    define f where "f = drop (length p - k) p"
    have t: "fixed_text c e = w @ CHR ''.'' # f"
      using False assms by (simp add: fixed_text_def w_def f_def p_def k_def Let_def)
    have "k < length p" by (simp add: p_def)
    then have len: "length f = k" "w \<noteq> []" by (auto simp: f_def w_def)
    have wf: "list_all is_digit w" "list_all is_digit f" "int_of_digits (w @ f) = c"
      using digits val by (auto simp: w_def f_def list_all_iff dest: in_set_takeD in_set_dropD)
    then have "list_all plain_char (w @ CHR ''.'' # f)" by (auto simp: list_all_iff plain_char_def)
    then have "parse_decimal (fixed_text c e) = parse_number 1 (w @ CHR ''.'' # f)"
      unfolding t by (rule parse_plain) simp
    moreover have "takeWhile is_digit f = f" "dropWhile is_digit f = []"
      using list_all_takeWhile [OF wf(2), of "[]"] by simp_all
    ultimately show ?thesis
      using False assms wf len list_all_takeWhile [OF wf(1), of "CHR ''.'' # f"]
      by (simp add: parse_number_def Let_def parse_exponent_def is_digit_not k_def)
  qed
qed


lemma ilog_times_ten: "0 < c \<Longrightarrow> ilog 10 (c * 10 ^ n) = ilog 10 c + int n"
proof (induction n)
  case (Suc n)
  have p: "0 < c * 10 ^ n" using Suc.prems by simp
  have "ilog 10 (c * 10 ^ Suc n) = 1 + ilog 10 (c * 10 ^ Suc n div 10)"
    using p by (subst ilog.simps) auto
  then show ?case using Suc by simp
qed simp

lemma normal_form_range:
  "0 < c \<Longrightarrow> normal_form c e = (c', e') \<Longrightarrow> ilog 10 c' + e' = ilog 10 c + e \<and> min e 0 \<le> e'"
proof (induction c e rule: normal_form.induct)
  case (1 c e)
  consider "0 \<le> e" | "e < 0" "c mod 10 = 0" | "e < 0" "c mod 10 \<noteq> 0" by linarith
  then show ?case
  proof cases
    case 1
    then show ?thesis using "1.prems" by (auto simp: normal_form.simps [of c e] ilog_times_ten)
  next
    case 2
    then have d: "0 < c div 10" "c div 10 * 10 = c" using "1.prems" by presburger+
    have "ilog 10 c = ilog 10 (c div 10) + 1" using ilog_times_ten [OF d(1), of 1] d(2) by simp
    then show ?thesis using "1.IH" 2 d "1.prems"(2) by (simp add: normal_form.simps [of c e])
  next
    case 3
    then show ?thesis using "1.prems" by (simp add: normal_form.simps [of c e])
  qed
qed

lemma normal_form_in_range:
  "0 < c \<Longrightarrow> normal_form c e = (c', e') \<Longrightarrow> dec_in_range c e \<Longrightarrow> dec_in_range c' e'"
  using normal_form_range [of c e c' e'] normal_form_reduced [of c e c' e']
  by (auto simp: dec_in_range_def reduced_def)

lemma canonical_decimal_roundtrip:
  assumes "0 < c" "dec_in_range c e" "normal_form c e = (c', e')"
  shows "\<exists>t. canonical_decimal (Decimal c e) = Inr t \<and> parse_decimal t = Some (Decimal c' e')"
proof -
  have "reduced c' e'" "dec_in_range c' e'"
    using assms normal_form_reduced normal_form_in_range by blast+
  then show ?thesis
    using assms parse_fixed_text [of c' e'] by (auto simp: canonical_decimal_pos reduced_def)
qed

lemma normal_form_eq_iff:
  assumes "0 < c" "0 < d"
  shows "normal_form c e = normal_form d x \<longleftrightarrow> dval (Decimal c e) = dval (Decimal d x)"
proof -
  obtain c' e' d' x' where nf: "normal_form c e = (c', e')" "normal_form d x = (d', x')" by force
  have "reduced c' e'" "reduced d' x'" using nf assms normal_form_reduced by blast+
  then show ?thesis
    using nf reduced_unique [of c' e' d' x'] normal_form_value [OF nf(1)] normal_form_value [OF nf(2)] by auto
qed

lemma canonical_decimal_value:
  "0 < c \<Longrightarrow> 0 < d \<Longrightarrow> dval (Decimal c e) = dval (Decimal d x) \<Longrightarrow>
     canonical_decimal (Decimal c e) = canonical_decimal (Decimal d x)"
  using normal_form_eq_iff [of c d e x] by (simp add: canonical_decimal_pos)


section \<open>Arithmetic of the default context\<close>

text \<open>
  A result is rounded to 28 digits, half to even; an adjusted exponent above 999999 is
  trapped. \<open>dec_fix\<close> rounds an exact coefficient and exponent, \<open>context\<close> a value.
\<close>

definition dec_fix :: "int \<Rightarrow> int \<Rightarrow> pydecimal res" where
  "dec_fix c e =
     (let k = max 0 (max (ilog 10 \<bar>c\<bar> - 27) (decimal_etiny - e));
          c' = (if k = 0 then c else round_half_even (of_int c / 10 ^ nat k)); e' = e + k
      in if c' \<noteq> 0 \<and> 999999 < ilog 10 \<bar>c'\<bar> + e' then Inl (ArithmeticError ''Overflow'')
         else Inr (Decimal c' e'))"

definition dec_context :: "rat \<Rightarrow> rat res" where
  "dec_context q =
     (let r = rnd28 q
      in if r \<noteq> 0 \<and> 999999 < expo 10 r then Inl (ArithmeticError ''Overflow'') else Inr r)"

fun dec_mul :: "pydecimal \<Rightarrow> pydecimal \<Rightarrow> pydecimal res" where
  "dec_mul (Decimal a x) (Decimal b y) = dec_fix (a * b) (x + y)"
| "dec_mul _ _ = Inl (ArithmeticError ''InvalidOperation'')"

definition dec_div :: "rat \<Rightarrow> rat \<Rightarrow> rat res" where
  "dec_div p q = (if q = 0 then Inl (ArithmeticError ''DivisionByZero'') else dec_context (p / q))"

definition dec_truncate :: "rat \<Rightarrow> int" where
  "dec_truncate q = (if 0 \<le> q then \<lfloor>q\<rfloor> else \<lceil>q\<rceil>)"

text \<open>
  \<open>%\<close> is exact up to the final rounding, but it raises \<open>DivisionImpossible\<close> when the
  integer quotient has more digits than the context.
\<close>

definition dec_mod :: "rat \<Rightarrow> rat \<Rightarrow> rat res" where
  "dec_mod p q =
     (if q = 0 then Inl (ArithmeticError ''InvalidOperation'')
      else
        (let n = dec_truncate (p / q) in
         if 10 ^ 28 \<le> \<bar>n\<bar> then Inl (ArithmeticError ''InvalidOperation'')
         else dec_context (p - q * of_int n)))"

lemma expo_unique: "2 \<le> b \<Longrightarrow> of_int b powi k \<le> \<bar>q\<bar> \<Longrightarrow> \<bar>q\<bar> < of_int b powi (k + 1) \<Longrightarrow> expo b q = k"
proof -
  assume *: "2 \<le> b" "of_int b powi k \<le> \<bar>q\<bar>" "\<bar>q\<bar> < of_int b powi (k + 1)"
  have pos: "0 < (of_int b :: rat) powi k" using *(1) by simp
  then have q: "q \<noteq> 0" using *(2) by auto
  have "expo b q < k + 1" using expo_less [OF *(1) q *(3)] .
  moreover have "\<not> expo b q + 1 \<le> k"
  proof
    assume "expo b q + 1 \<le> k"
    then have "(of_int b :: rat) powi (expo b q + 1) \<le> of_int b powi k"
      using *(1) by (intro power_int_increasing) auto
    then show False using expo_bounds [OF *(1) q] *(2) by linarith
  qed
  ultimately show ?thesis by simp
qed

lemma expo_decimal:
  assumes "c \<noteq> 0"
  shows "expo 10 (of_int c * 10 powi e) = ilog 10 \<bar>c\<bar> + e"
proof (rule expo_unique)
  let ?i = "ilog 10 \<bar>c\<bar>"
  have b: "10 ^ nat ?i \<le> \<bar>c\<bar>" "\<bar>c\<bar> < 10 ^ (nat ?i + 1)"
    using ilog_bounds [of 10 "\<bar>c\<bar>"] assms by auto
  have abs: "\<bar>of_int c * 10 powi e\<bar> = of_int \<bar>c\<bar> * (10 :: rat) powi e" by (simp add: abs_mult)
  have pos: "0 < (10 :: rat) powi e" by simp
  have lo: "(of_int (10 ^ nat ?i) :: rat) \<le> of_int \<bar>c\<bar>" using b(1) by (simp only: of_int_le_iff)
  have hi: "(of_int \<bar>c\<bar> :: rat) < of_int (10 ^ (nat ?i + 1))" using b(2) by (simp only: of_int_less_iff)
  have i: "(of_int (10 ^ nat ?i) :: rat) = 10 powi ?i" "(of_int (10 ^ (nat ?i + 1)) :: rat) = 10 powi (?i + 1)"
    using ilog_nonneg [of 10 "\<bar>c\<bar>"] by (simp_all add: powi_nat_int nat_add_distrib)
  show "of_int 10 powi (?i + e) \<le> \<bar>of_int c * (10 :: rat) powi e\<bar>"
    using mult_right_mono [OF lo, of "10 powi e"] pos unfolding abs i by (simp add: power_int_add)
  show "\<bar>of_int c * (10 :: rat) powi e\<bar> < of_int 10 powi (?i + e + 1)"
    using mult_strict_right_mono [OF hi pos] unfolding abs i by (simp add: power_int_add algebra_simps)
qed simp

lemma dec_fix_value:
  assumes "dec_fix c e = Inr d"
  shows "dval d = rnd28 (of_int c * 10 powi e) \<and> dec_finite d"
proof -
  define k where "k = max 0 (max (ilog 10 \<bar>c\<bar> - 27) (decimal_etiny - e))"
  define c' where "c' = (if k = 0 then c else round_half_even (of_int c / 10 ^ nat k))"
  have d: "d = Decimal c' (e + k)"
    using assms unfolding dec_fix_def Let_def k_def [symmetric] c'_def [symmetric] by (simp split: if_split_asm)
  let ?q = "of_int c * (10 :: rat) powi e"
  have "rnd28 ?q = of_int c' * 10 powi (e + k)"
  proof (cases "c = 0")
    case True
    then have "c' = 0" using round_half_even_of_int [of 0] by (simp add: c'_def)
    then show ?thesis using True by simp
  next
    case False
    have u: "quantum 10 28 decimal_etiny ?q = 10 powi max (ilog 10 \<bar>c\<bar> + e - 27) decimal_etiny"
      unfolding quantum_def expo_decimal [OF False] by simp
    show ?thesis
    proof (cases "k = 0")
      case True
      have "\<bar>c\<bar> < 10 ^ (nat (ilog 10 \<bar>c\<bar>) + 1)" using ilog_bounds [of 10 "\<bar>c\<bar>"] False by auto
      also have "(10 :: int) ^ (nat (ilog 10 \<bar>c\<bar>) + 1) \<le> 10 ^ nat 28"
        using True by (intro power_increasing) (auto simp: k_def)
      finally have "representable 10 28 decimal_etiny ?q"
        using True by (intro representableI [of _ c _ e]) (auto simp: k_def)
      then show ?thesis using True by (simp add: rnd28_def fl_round_representable c'_def)
    next
      case False': False
      then have "max (ilog 10 \<bar>c\<bar> + e - 27) decimal_etiny = e + k" "0 < k" by (auto simp: k_def)
      then have "rnd28 ?q = of_int (round_half_even (?q / 10 powi (e + k))) * 10 powi (e + k)"
        using False by (simp add: rnd28_def fl_round_def Let_def u)
      moreover have "?q / 10 powi (e + k) = of_int c / 10 ^ nat k"
        using \<open>0 < k\<close> by (simp add: power_int_add powi_nat_int)
      ultimately show ?thesis using False' by (simp add: c'_def)
    qed
  qed
  then show ?thesis using d by simp
qed

lemma dec_mul_value: "dec_mul a b = Inr d \<Longrightarrow> dval d = rnd28 (dval a * dval b) \<and> dec_finite d"
  by (cases a; cases b) (auto dest!: dec_fix_value simp: power_int_add algebra_simps)

lemma dec_context_Inr: "dec_context q = Inr r \<Longrightarrow> r = rnd28 q"
  by (simp add: dec_context_def Let_def split: if_splits)

lemma dec_div_Inr: "dec_div p q = Inr r \<Longrightarrow> q \<noteq> 0 \<and> r = rnd28 (p / q)"
  by (auto simp: dec_div_def dec_context_Inr split: if_splits)

section \<open>\<open>Decimal(str(x))\<close> of a float\<close>

text \<open>
  \<open>str\<close> of a float is the shortest decimal that reads back as the same float, the nearest of
  those of that length. 17 digits are always enough; the last resort below is the exact
  expansion, which no float needs.
\<close>

definition reads_back :: "rat \<Rightarrow> int \<Rightarrow> int \<Rightarrow> bool" where
  "reads_back q e m \<longleftrightarrow> rnd64 (of_int m * 10 powi e) = q"

definition nearer_of :: "rat \<Rightarrow> int \<Rightarrow> int \<Rightarrow> int" where
  "nearer_of x lo hi =
     (if x - of_int lo < of_int hi - x then lo
      else if of_int hi - x < x - of_int lo then hi else if even lo then lo else hi)"

definition with_digits :: "nat \<Rightarrow> rat \<Rightarrow> pydecimal option" where
  "with_digits n q =
     (let e = expo 10 q - int n + 1; x = q / 10 powi e; lo = \<lfloor>x\<rfloor>; hi = \<lceil>x\<rceil>
      in if reads_back q e lo
         then Some (Decimal (if reads_back q e hi then nearer_of x lo hi else lo) e)
         else if reads_back q e hi then Some (Decimal hi e) else None)"

definition expansion_digits :: nat where
  "expansion_digits = 1074"

fun shortest :: "nat list \<Rightarrow> rat \<Rightarrow> pydecimal" where
  "shortest [] q = Decimal \<lfloor>q * 10 ^ expansion_digits\<rfloor> (- int expansion_digits)"
| "shortest (n # ns) q = (case with_digits n q of Some d \<Rightarrow> d | None \<Rightarrow> shortest ns q)"

fun dec_neg :: "pydecimal \<Rightarrow> pydecimal" where
  "dec_neg (Decimal c e) = Decimal (- c) e"
| "dec_neg d = d"

fun decimal_of_float :: "pyfloat \<Rightarrow> pydecimal" where
  "decimal_of_float (Fin q) =
     (if q = 0 then Decimal 0 0
      else if q < 0 then dec_neg (shortest [1..<18] (- q)) else shortest [1..<18] q)"
| "decimal_of_float NaN = DNaN"
| "decimal_of_float _ = DInf"

text \<open>\<open>float(d)\<close> rounds the exact value once.\<close>

fun float_of_decimal :: "pydecimal \<Rightarrow> pyfloat" where
  "float_of_decimal (Decimal c e) = to_float (dval (Decimal c e))"
| "float_of_decimal DInf = PInf"
| "float_of_decimal DNaN = NaN"

lemma with_digits_back: "with_digits n q = Some d \<Longrightarrow> dec_finite d \<and> rnd64 (dval d) = q"
  by (auto simp: with_digits_def Let_def reads_back_def nearer_of_def split: if_split_asm)

lemma exact_expansion:
  fixes q :: rat
  assumes "q = of_int m * 2 powi k" "- int n \<le> k"
  shows "of_int \<lfloor>q * 10 ^ n\<rfloor> = q * 10 ^ n"
proof -
  have "(10 :: rat) ^ n = 2 ^ n * 5 ^ n" by (simp flip: power_mult_distrib)
  moreover have "(2 :: rat) powi k * 2 ^ n = 2 ^ nat (k + int n)"
    using assms(2) by (simp add: powi_nat_int [symmetric] power_int_add)
  ultimately have "q * 10 ^ n = of_int (m * 2 ^ nat (k + int n) * 5 ^ n)"
    unfolding assms(1) by (simp add: mult.assoc [symmetric])
  then show ?thesis by (simp only: floor_of_int)
qed

lemma shortest_back:
  assumes "rnd64 q = q"
  shows "dec_finite (shortest ns q) \<and> rnd64 (dval (shortest ns q)) = q"
proof (induction ns)
  case Nil
  have "representable 2 53 (-1074) q"
    using representable_fl_round [of 2 53 "-1074" q] assms by (simp add: rnd64_def)
  then obtain m k where q: "q = of_int m * 2 powi k" "- int expansion_digits \<le> k"
    by (auto simp: representable_def expansion_digits_def)
  have "dval (shortest [] q) = q * 10 ^ expansion_digits * 10 powi (- int expansion_digits)"
    using exact_expansion [OF q] by simp
  also have "\<dots> = q" by (simp add: power_int_minus)
  finally show ?case using assms by simp
qed (auto split: option.split dest: with_digits_back)

lemma dec_neg_simps [simp]: "dec_finite (dec_neg d) = dec_finite d" "dval (dec_neg d) = - dval d"
  by (cases d; simp)+

lemma decimal_of_float_back:
  assumes "is_b64 (Fin q)"
  shows "dec_finite (decimal_of_float (Fin q)) \<and> rnd64 (dval (decimal_of_float (Fin q))) = q"
proof -
  have *: "rnd64 q = q" "rnd64 (- q) = - q" using assms by (auto simp: b64.rnd_minus)
  show ?thesis
    using shortest_back [OF *(1), of "[1..<18]"] shortest_back [OF *(2), of "[1..<18]"]
    by (auto simp del: upt.simps shortest.simps simp: b64.rnd_minus)
qed

lemma float_decimal_roundtrip: "is_b64 x \<Longrightarrow> x \<noteq> NInf \<Longrightarrow> float_of_decimal (decimal_of_float x) = x"
proof (cases x)
  case (Fin q)
  assume b: "is_b64 x"
  obtain c e where d: "decimal_of_float x = Decimal c e" "rnd64 (dval (Decimal c e)) = q"
    using decimal_of_float_back [of q] b Fin by (cases "decimal_of_float x") auto
  then show ?thesis using b Fin by (simp add: to_float_def abs_less_iff del: dval.simps)
qed auto

end
