(* ===== verification/Canary_Instrument.thy ===== *)
theory Canary_Instrument
  imports Decimals Config "HOL-Library.Multiset"
begin

text \<open>
  \<open>kairos_risk/canary_instrument.py\<close>: the venue's instrument rule of the technical canary,
  its validation, the minimum quantity it implies at a price, and the binding of rule and
  quantity to an intent through metadata and evidence. Three functions are parameters:
  \<open>sha\<close> is \<open>canonical_sha256\<close> of \<open>kairos_core\<close>, \<open>read_iso\<close> is
  \<open>datetime.fromisoformat\<close>, and the HTTP exchange is its outcome, a \<open>venue_response\<close>.
\<close>

section \<open>Values and fields\<close>

text \<open>A decoded JSON value; \<open>parse_float=Decimal\<close> makes its fractions decimals.\<close>

datatype json =
    JNull | JBool bool | JInt int | JDecimal pydecimal | JFloat pyfloat | JStr string
  | JList "json list" | JDict "(string \<times> json) list"

definition positive_decimal :: "string \<Rightarrow> pydecimal \<Rightarrow> pydecimal res" where
  "positive_decimal name d =
     (if \<not> dec_finite d \<or> dval d \<le> 0
      then Inl (ValueError (name @ '' must be finite and positive'')) else Inr d)"

text \<open>\<open>Decimal(str(value))\<close>: the text of a null, a list or an object is never a number.\<close>

fun decimal_of_json :: "json \<Rightarrow> pydecimal option" where
  "decimal_of_json (JStr s) = parse_decimal s"
| "decimal_of_json (JInt n) = Some (Decimal n 0)"
| "decimal_of_json (JDecimal d) = Some d"
| "decimal_of_json (JFloat x) = Some (decimal_of_float x)"
| "decimal_of_json _ = None"

definition decimal_arg :: "string \<Rightarrow> json \<Rightarrow> pydecimal res" where
  "decimal_arg name v =
     (case decimal_of_json v of
        None \<Rightarrow> Inl (ValueError (name @ '' must be a decimal''))
      | Some d \<Rightarrow> positive_decimal name d)"

definition string_arg :: "string \<Rightarrow> json \<Rightarrow> string res" where
  "string_arg name v =
     (case v of
        JStr s \<Rightarrow> if s = [] then Inl (ValueError (name @ '' must be a non-empty string'')) else Inr s
      | _ \<Rightarrow> Inl (ValueError (name @ '' must be a non-empty string'')))"

definition zulu_offset :: "string \<Rightarrow> string" where
  "zulu_offset s = concat (map (\<lambda>c. if c = CHR ''Z'' then ''+00:00'' else [c]) s)"

text \<open>A stamp whose UTC time leaves the years 1 to 9999 makes \<open>astimezone\<close> overflow.\<close>

definition utc_in_range :: "int \<Rightarrow> bool" where
  "utc_in_range us \<longleftrightarrow> -62135596800000000 \<le> us \<and> us \<le> 253402300799999999"

definition timestamp_arg :: "(string \<Rightarrow> pydatetime option) \<Rightarrow> json \<Rightarrow> int res" where
  "timestamp_arg read_iso v =
     (case string_arg ''updatedAt'' v of
        Inl e \<Rightarrow> Inl e
      | Inr s \<Rightarrow>
         (case read_iso (zulu_offset s) of
            None \<Rightarrow> Inl (ValueError ''updatedAt must be a valid ISO-8601 timestamp'')
          | Some stamp \<Rightarrow>
              if \<not> is_aware stamp then Inl (ValueError ''updatedAt must be timezone-aware'')
              else if \<not> utc_in_range (micros stamp) then Inl (ArithmeticError ''OverflowError'')
              else Inr (timestamp_ms stamp)))"

section \<open>The rule\<close>

record instrument_rule =
  ir_venue_symbol :: string
  ir_trading :: string
  ir_market_state :: string
  ir_updated_at_ms :: int
  ir_lot_size :: pydecimal
  ir_price_increment :: pydecimal
  ir_quantity_increment :: pydecimal
  ir_multiplier :: pydecimal
  ir_min_volume_usd :: pydecimal
  ir_min_price :: pydecimal
  ir_max_price :: pydecimal
  ir_min_quantity :: pydecimal
  ir_max_quantity :: pydecimal
  ir_fetched_at_ms :: int

definition rule_decimals :: "instrument_rule \<Rightarrow> pydecimal list" where
  "rule_decimals r =
     [ir_lot_size r, ir_price_increment r, ir_quantity_increment r, ir_multiplier r,
      ir_min_volume_usd r, ir_min_price r, ir_max_price r, ir_min_quantity r, ir_max_quantity r]"

definition misaligned :: "pydecimal \<Rightarrow> pydecimal \<Rightarrow> bool res" where
  "misaligned x step = (case dec_mod (dval x) (dval step) of Inl e \<Rightarrow> Inl e | Inr m \<Rightarrow> Inr (m \<noteq> 0))"

definition require_aligned :: "pydecimal \<Rightarrow> pydecimal \<Rightarrow> string \<Rightarrow> unit res" where
  "require_aligned x step text =
     (case misaligned x step of Inl e \<Rightarrow> Inl e | Inr bad \<Rightarrow> require (\<not> bad) (ValueError text))"

definition check_identity :: "instrument_rule \<Rightarrow> unit res" where
  "check_identity r =
     (if \<not> ends_with '':DEV'' (ir_venue_symbol r) \<or> ir_venue_symbol r \<noteq> py_upper (ir_venue_symbol r)
      then Inl (ValueError ''venue_symbol must be one normalized EVEDEX DEV instrument'')
      else if ir_trading r \<noteq> ''all'' \<or> ir_market_state r \<noteq> ''OPEN''
      then Inl (ValueError ''EVEDEX DEV instrument must have trading=all and marketState=OPEN'')
      else if ir_updated_at_ms r < 0
      then Inl (ValueError ''updated_at_ms must be a non-negative integer'')
      else if ir_fetched_at_ms r < 0
      then Inl (ValueError ''fetched_at_ms must be a non-negative integer'')
      else Inr ())"

definition check_bounds :: "instrument_rule \<Rightarrow> unit res" where
  "check_bounds r =
     (if \<not> list_all (\<lambda>d. dec_finite d \<and> 0 < dval d) (rule_decimals r)
      then Inl (ValueError ''field must be finite and positive'')
      else if dval (ir_lot_size r) \<noteq> 1 \<or> dval (ir_multiplier r) \<noteq> 1
      then Inl (ValueError ''technical canary supports only lotSize=1 and multiplier=1'')
      else if dval (ir_max_price r) \<le> dval (ir_min_price r)
      then Inl (ValueError ''instrument minPrice must be below maxPrice'')
      else if dval (ir_max_quantity r) < dval (ir_min_quantity r)
      then Inl (ValueError ''instrument minQuantity must not exceed maxQuantity'')
      else Inr ())"

definition check_alignment :: "instrument_rule \<Rightarrow> unit res" where
  "check_alignment r =
     (let text = ''instrument price bounds must align with priceIncrement'' in
      case require_aligned (ir_min_price r) (ir_price_increment r) text of
        Inl e \<Rightarrow> Inl e
      | Inr _ \<Rightarrow>
         (case require_aligned (ir_max_price r) (ir_price_increment r) text of
            Inl e \<Rightarrow> Inl e
          | Inr _ \<Rightarrow> require_aligned (ir_min_quantity r) (ir_quantity_increment r)
                      ''instrument minQuantity must align with quantityIncrement''))"

definition mk_rule :: "instrument_rule \<Rightarrow> instrument_rule res" where
  "mk_rule r =
     (case check_identity r of
        Inl e \<Rightarrow> Inl e
      | Inr _ \<Rightarrow>
         (case check_bounds r of
            Inl e \<Rightarrow> Inl e
          | Inr _ \<Rightarrow> (case check_alignment r of Inl e \<Rightarrow> Inl e | Inr _ \<Rightarrow> Inr r)))"

section \<open>The rule from the venue\<close>

definition field_of :: "(string \<times> json) list \<Rightarrow> string \<Rightarrow> json" where
  "field_of payload key = (case map_of payload key of Some v \<Rightarrow> v | None \<Rightarrow> JNull)"

text \<open>The nine numbers in the order \<open>from_api\<close> reads them; the first bad one is reported.\<close>

definition API_DECIMAL_FIELDS :: "string list" where
  "API_DECIMAL_FIELDS =
     [''lotSize'', ''priceIncrement'', ''quantityIncrement'', ''multiplier'', ''minVolume'',
      ''minPrice'', ''maxPrice'', ''minQuantity'', ''maxQuantity'']"

fun read_all :: "(string \<Rightarrow> pydecimal res) \<Rightarrow> string list \<Rightarrow> pydecimal list res" where
  "read_all f [] = Inr []"
| "read_all f (k # ks) =
     (case f k of
        Inl e \<Rightarrow> Inl e
      | Inr d \<Rightarrow> (case read_all f ks of Inl e \<Rightarrow> Inl e | Inr ds \<Rightarrow> Inr (d # ds)))"

definition api_decimal :: "(string \<times> json) list \<Rightarrow> string \<Rightarrow> pydecimal res" where
  "api_decimal payload key = decimal_arg key (field_of payload key)"

definition rule_with ::
    "string \<Rightarrow> string \<Rightarrow> string \<Rightarrow> int \<Rightarrow> pydecimal list \<Rightarrow> int \<Rightarrow> instrument_rule" where
  "rule_with symbol trading state updated ds fetched =
     \<lparr>ir_venue_symbol = symbol, ir_trading = trading, ir_market_state = state, ir_updated_at_ms = updated,
      ir_lot_size = ds ! 0, ir_price_increment = ds ! 1, ir_quantity_increment = ds ! 2,
      ir_multiplier = ds ! 3, ir_min_volume_usd = ds ! 4, ir_min_price = ds ! 5, ir_max_price = ds ! 6,
      ir_min_quantity = ds ! 7, ir_max_quantity = ds ! 8, ir_fetched_at_ms = fetched\<rparr>"

definition from_api ::
    "(string \<Rightarrow> pydatetime option) \<Rightarrow> (string \<times> json) list \<Rightarrow> int \<Rightarrow> instrument_rule res" where
  "from_api read_iso payload fetched_at_ms =
     (case string_arg ''name'' (field_of payload ''name'') of
        Inl e \<Rightarrow> Inl e
      | Inr symbol \<Rightarrow>
     (case string_arg ''trading'' (field_of payload ''trading'') of
        Inl e \<Rightarrow> Inl e
      | Inr trading \<Rightarrow>
     (case string_arg ''marketState'' (field_of payload ''marketState'') of
        Inl e \<Rightarrow> Inl e
      | Inr state \<Rightarrow>
     (case timestamp_arg read_iso (field_of payload ''updatedAt'') of
        Inl e \<Rightarrow> Inl e
      | Inr updated \<Rightarrow>
     (case read_all (api_decimal payload) API_DECIMAL_FIELDS of
        Inl e \<Rightarrow> Inl e
      | Inr ds \<Rightarrow> mk_rule (rule_with symbol trading state updated ds fetched_at_ms))))))"

datatype venue_response = Unreachable | Response int "json option"

definition MAX_RESPONSE_BYTES :: int where
  "MAX_RESPONSE_BYTES = 2 * 1024 * 1024"

definition named :: "string \<Rightarrow> json \<Rightarrow> bool" where
  "named symbol item =
     (case item of JDict payload \<Rightarrow> map_of payload ''name'' = Some (JStr symbol) | _ \<Rightarrow> False)"

text \<open>
  \<open>fetch_evedex_dev_instrument\<close> from the outcome of the request on: unreachable, or a body of
  some length whose JSON text decodes or does not. A \<open>CanaryInstrumentError\<close> is a
  \<open>RuntimeError\<close>; an arithmetic error of the rule is not caught.
\<close>

definition fetch_instrument ::
    "(string \<Rightarrow> pydatetime option) \<Rightarrow> string \<Rightarrow> int \<Rightarrow> venue_response \<Rightarrow> instrument_rule res" where
  "fetch_instrument read_iso venue_symbol fetched_at_ms response =
     (case response of
        Unreachable \<Rightarrow> Inl (RuntimeError ''official EVEDEX DEV instrument endpoint is unavailable'')
      | Response bytes decoded \<Rightarrow>
          if MAX_RESPONSE_BYTES < bytes
          then Inl (RuntimeError ''official EVEDEX DEV instrument response is unexpectedly large'')
          else
            (case decoded of
               None \<Rightarrow> Inl (RuntimeError ''official EVEDEX DEV instrument response is invalid JSON'')
             | Some (JList items) \<Rightarrow>
                 (case filter (named venue_symbol) items of
                    [JDict payload] \<Rightarrow>
                      (case from_api read_iso payload fetched_at_ms of
                         Inl (TypeError _) \<Rightarrow> Inl (RuntimeError ''official EVEDEX DEV instrument rule is unsafe'')
                       | Inl (ValueError _) \<Rightarrow> Inl (RuntimeError ''official EVEDEX DEV instrument rule is unsafe'')
                       | r \<Rightarrow> r)
                  | _ \<Rightarrow> Inl (RuntimeError ''exact EVEDEX DEV instrument is missing or duplicated''))
             | Some _ \<Rightarrow> Inl (RuntimeError ''official EVEDEX DEV instrument response is not a list'')))"

section \<open>What the rule implies\<close>

text \<open>\<open>to_integral_value(rounding=ROUND_CEILING)\<close> of the two quotients, times the increment.\<close>

definition volume_minimum :: "instrument_rule \<Rightarrow> rat \<Rightarrow> pydecimal res" where
  "volume_minimum r price =
     (case dec_div (dval (ir_min_volume_usd r)) price of
        Inl e \<Rightarrow> Inl e
      | Inr per_price \<Rightarrow>
         (case dec_div per_price (dval (ir_quantity_increment r)) of
            Inl e \<Rightarrow> Inl e
          | Inr steps \<Rightarrow> dec_mul (Decimal \<lceil>steps\<rceil> 0) (ir_quantity_increment r)))"

definition dec_max :: "pydecimal \<Rightarrow> pydecimal \<Rightarrow> pydecimal" where
  "dec_max a b = (if dval a < dval b then b else a)"

definition effective_min_quantity :: "instrument_rule \<Rightarrow> pydecimal \<Rightarrow> pydecimal res" where
  "effective_min_quantity r entry_price =
     (case positive_decimal ''entry_price'' entry_price of
        Inl e \<Rightarrow> Inl e
      | Inr price \<Rightarrow>
          if dval price < dval (ir_min_price r) \<or> dval (ir_max_price r) < dval price
          then Inl (ValueError ''entry price is outside current EVEDEX instrument bounds'')
          else
            (case require_aligned price (ir_price_increment r)
                    ''entry price is not aligned with EVEDEX priceIncrement'' of
               Inl e \<Rightarrow> Inl e
             | Inr _ \<Rightarrow>
                (case volume_minimum r (dval price) of
                   Inl e \<Rightarrow> Inl e
                 | Inr minimum \<Rightarrow>
                     (let result = dec_max (ir_min_quantity r) minimum in
                      if dval (ir_max_quantity r) < dval result
                      then Inl (ValueError ''effective minimum quantity exceeds venue maxQuantity'')
                      else Inr result))))"

section \<open>Payload, metadata and evidence\<close>

datatype payload_value = PText string | PInt int

definition text_of_int :: "int \<Rightarrow> string" where
  "text_of_int n = (if n < 0 then CHR ''-'' # digits_of (- n) else digits_of n)"

fun text_of_value :: "payload_value \<Rightarrow> string" where
  "text_of_value (PText s) = s"
| "text_of_value (PInt n) = text_of_int n"

text \<open>The fields of a rule are finite, so \<open>canonical_decimal\<close> never raises on them.\<close>

definition dec_text :: "pydecimal \<Rightarrow> string" where
  "dec_text d = (case canonical_decimal d of Inr t \<Rightarrow> t | Inl _ \<Rightarrow> '''')"

definition rule_payload :: "instrument_rule \<Rightarrow> (string \<times> payload_value) list" where
  "rule_payload r =
     [(''domain'', PText ''evedex-dev-instrument-rule.v1''),
      (''venue_lot_size'', PText (dec_text (ir_lot_size r))),
      (''venue_market_state'', PText (ir_market_state r)),
      (''venue_max_price'', PText (dec_text (ir_max_price r))),
      (''venue_max_quantity'', PText (dec_text (ir_max_quantity r))),
      (''venue_min_price'', PText (dec_text (ir_min_price r))),
      (''venue_min_quantity'', PText (dec_text (ir_min_quantity r))),
      (''venue_min_volume_usd'', PText (dec_text (ir_min_volume_usd r))),
      (''venue_multiplier'', PText (dec_text (ir_multiplier r))),
      (''venue_price_increment'', PText (dec_text (ir_price_increment r))),
      (''venue_quantity_increment'', PText (dec_text (ir_quantity_increment r))),
      (''venue_symbol'', PText (ir_venue_symbol r)),
      (''venue_trading'', PText (ir_trading r)),
      (''venue_updated_at_ms'', PInt (ir_updated_at_ms r))]"

type_synonym sha = "(string \<times> payload_value) list \<Rightarrow> string"

definition rules_sha256 :: "sha \<Rightarrow> instrument_rule \<Rightarrow> string" where
  "rules_sha256 sha r = sha (rule_payload r)"

definition CANARY_ENTRY_ORDER :: string where
  "CANARY_ENTRY_ORDER = ''MARKETABLE_IOC_LIMIT''"

text \<open>The keys are distinct, so sorting the pairs is sorting by key.\<close>

definition rule_metadata :: "sha \<Rightarrow> instrument_rule \<Rightarrow> pydecimal \<Rightarrow> (string \<times> string) list" where
  "rule_metadata sha r quantity =
     sort_key fst
       ([(''canary_entry_order'', CANARY_ENTRY_ORDER), (''canary_quantity'', dec_text quantity),
         (''instrument_rules_sha256'', rules_sha256 sha r)] @
        map (\<lambda>(k, v). (k, text_of_value v)) (filter (\<lambda>(k, _). k \<noteq> ''domain'') (rule_payload r)))"

definition rule_evidence :: "sha \<Rightarrow> instrument_rule \<Rightarrow> evidence_ref" where
  "rule_evidence sha r =
     \<lparr>ev_kind = ''venue_instrument'',
      ev_reference = ''EVEDEX_DEV:'' @ ir_venue_symbol r @ '':'' @ text_of_int (ir_updated_at_ms r),
      ev_content_sha256 = Some (rules_sha256 sha r), ev_observed_at_ms = ir_updated_at_ms r\<rparr>"

text \<open>The metadata of a canary intent, as \<open>_build_intent\<close> of \<open>canary.py\<close> writes it.\<close>

definition canary_metadata :: "sha \<Rightarrow> string \<Rightarrow> instrument_rule \<Rightarrow> pydecimal \<Rightarrow> (string \<times> string) list" where
  "canary_metadata sha account_id r quantity =
     [(''account_id'', account_id), (''alpha_claim'', ''false''),
      (''entry_policy'', ''NEXT_BAR_MARKET''), (''purpose'', ''technical_execution_canary'')] @
     rule_metadata sha r quantity"

section \<open>The binding checked again\<close>

text \<open>\<open>dict(intent.metadata)\<close>: the last pair of a key wins.\<close>

definition meta :: "(string \<times> string) list \<Rightarrow> string \<Rightarrow> string" where
  "meta pairs key = (case map_of (rev pairs) key of Some v \<Rightarrow> v | None \<Rightarrow> '''')"

definition RULE_DECIMAL_FIELDS :: "string list" where
  "RULE_DECIMAL_FIELDS =
     [''venue_lot_size'', ''venue_price_increment'', ''venue_quantity_increment'', ''venue_multiplier'',
      ''venue_min_volume_usd'', ''venue_min_price'', ''venue_max_price'', ''venue_min_quantity'',
      ''venue_max_quantity'']"

definition EXPECTED_KEYS :: "string list" where
  "EXPECTED_KEYS =
     [''account_id'', ''alpha_claim'', ''canary_entry_order'', ''canary_quantity'', ''entry_policy'',
      ''instrument_rules_sha256'', ''purpose''] @ RULE_DECIMAL_FIELDS @
     [''venue_market_state'', ''venue_symbol'', ''venue_trading'', ''venue_updated_at_ms'']"

text \<open>
  \<open>int(text)\<close>: surrounding space, a sign, digits with single underscores between them,
  at most 4300 digits.
\<close>

fun underscored :: "string \<Rightarrow> bool" where
  "underscored [] = False"
| "underscored [c] = is_digit c"
| "underscored (c # d # s) =
     (is_digit c \<and> (if d = CHR ''_'' then underscored s else underscored (d # s)))"

definition parse_int :: "string \<Rightarrow> int option" where
  "parse_int text =
     (let (sg, s) = sign_of (py_strip text); ds = filter is_digit s
      in if underscored s \<and> int (length ds) \<le> 4300 then Some (sg * int_of_digits ds) else None)"

definition read_updated :: "(string \<times> string) list \<Rightarrow> int res" where
  "read_updated md =
     (case parse_int (meta md ''venue_updated_at_ms'') of
        None \<Rightarrow> Inl (ValueError ''venue_updated_at_ms is invalid'')
      | Some n \<Rightarrow>
          if text_of_int n \<noteq> meta md ''venue_updated_at_ms'' \<or> n < 0
          then Inl (ValueError ''venue_updated_at_ms is not canonical'') else Inr n)"

definition read_canonical :: "(string \<times> string) list \<Rightarrow> string \<Rightarrow> pydecimal res" where
  "read_canonical md key =
     (case decimal_arg key (JStr (meta md key)) of
        Inl e \<Rightarrow> Inl e
      | Inr d \<Rightarrow>
          if canonical_decimal d \<noteq> Inr (meta md key)
          then Inl (ValueError (key @ '' is not canonical'')) else Inr d)"

definition check_metadata :: "string \<Rightarrow> (string \<times> string) list \<Rightarrow> unit res" where
  "check_metadata account_id md =
     (if set (map fst md) \<noteq> set EXPECTED_KEYS
      then Inl (ValueError ''technical canary instrument metadata set is not exact'')
      else if meta md ''account_id'' \<noteq> account_id
      then Inl (ValueError ''technical canary account binding is invalid'')
      else if meta md ''alpha_claim'' \<noteq> ''false'' \<or> meta md ''canary_entry_order'' \<noteq> CANARY_ENTRY_ORDER \<or>
         meta md ''entry_policy'' \<noteq> ''NEXT_BAR_MARKET'' \<or>
         meta md ''purpose'' \<noteq> ''technical_execution_canary'' \<or>
         meta md ''venue_trading'' \<noteq> ''all'' \<or> meta md ''venue_market_state'' \<noteq> ''OPEN''
      then Inl (ValueError ''technical canary fixed policy metadata is invalid'')
      else Inr ())"

definition bound_rule :: "(string \<times> string) list \<Rightarrow> instrument_rule res" where
  "bound_rule md =
     (case read_updated md of
        Inl e \<Rightarrow> Inl e
      | Inr updated \<Rightarrow>
         (case read_all (read_canonical md) RULE_DECIMAL_FIELDS of
            Inl e \<Rightarrow> Inl e
          | Inr ds \<Rightarrow>
              mk_rule (rule_with (meta md ''venue_symbol'') (meta md ''venue_trading'')
                (meta md ''venue_market_state'') updated ds updated)))"

definition bound_evidence :: "sha \<Rightarrow> strategy_intent \<Rightarrow> instrument_rule \<Rightarrow> bool" where
  "bound_evidence sha intent r \<longleftrightarrow>
     filter (\<lambda>e. ev_kind e = ''venue_instrument'') (in_evidence intent) = [rule_evidence sha r]"

definition bound_quantity :: "(string \<times> string) list \<Rightarrow> instrument_rule \<Rightarrow> pydecimal res" where
  "bound_quantity md r =
     (case read_canonical md ''canary_quantity'' of
        Inl e \<Rightarrow> Inl e
      | Inr bound \<Rightarrow>
          (let text = ''technical canary quantity violates bound instrument increments'' in
           if dval bound < dval (ir_min_quantity r) \<or> dval (ir_max_quantity r) < dval bound
           then Inl (ValueError text)
           else
             (case require_aligned bound (ir_quantity_increment r) text of
                Inl e \<Rightarrow> Inl e
              | Inr _ \<Rightarrow> Inr bound)))"

definition bound_canary_instrument ::
    "sha \<Rightarrow> strategy_intent \<Rightarrow> string \<Rightarrow> (instrument_rule \<times> pydecimal) res" where
  "bound_canary_instrument sha intent account_id =
     (let md = in_metadata intent in
      case check_metadata account_id md of
        Inl e \<Rightarrow> Inl e
      | Inr _ \<Rightarrow>
         (case bound_rule md of
            Inl e \<Rightarrow> Inl e
          | Inr r \<Rightarrow>
              if meta md ''instrument_rules_sha256'' \<noteq> rules_sha256 sha r
              then Inl (ValueError ''technical canary instrument rule hash is invalid'')
              else if \<not> bound_evidence sha intent r
              then Inl (ValueError ''technical canary venue instrument evidence is invalid'')
              else (case bound_quantity md r of Inl e \<Rightarrow> Inl e | Inr q \<Rightarrow> Inr (r, q))))"

definition bound_canary_quantity ::
    "sha \<Rightarrow> strategy_intent \<Rightarrow> string \<Rightarrow> pyfloat \<Rightarrow> pyfloat res" where
  "bound_canary_quantity sha intent account_id worst_entry_price =
     (case bound_canary_instrument sha intent account_id of
        Inl e \<Rightarrow> Inl e
      | Inr (r, bound) \<Rightarrow>
         (case effective_min_quantity r (decimal_of_float worst_entry_price) of
            Inl e \<Rightarrow> Inl e
          | Inr expected \<Rightarrow>
              if dval bound \<noteq> dval expected
              then Inl (ValueError ''technical canary quantity is not the current effective venue minimum'')
              else
                (let result = float_of_decimal bound in
                 if \<not> isfinite result \<or> result \<le> Fin 0
                 then Inl (ValueError ''technical canary quantity is not representable'')
                 else Inr result)))"

section \<open>The rule a canary carries\<close>

lemma mk_rule_Inr:
  "mk_rule r = Inr r' \<longleftrightarrow> r' = r \<and> ok (check_identity r) \<and> ok (check_bounds r) \<and> ok (check_alignment r)"
  by (auto simp: mk_rule_def ok_iff split: sum.splits)

lemma require_aligned_Inr:
  "require_aligned x step t = Inr u \<longleftrightarrow> misaligned x step = Inr False"
  by (cases "misaligned x step") (auto simp: require_aligned_def)

lemma rule_positive:
  assumes "mk_rule r = Inr r'" "d \<in> set (rule_decimals r)"
  shows "dec_finite d \<and> 0 < dval d"
  using assms by (auto simp: mk_rule_Inr check_bounds_def ok_iff list_all_iff split: if_split_asm)

lemma positive_decimalE:
  assumes "dec_finite d" "0 < dval d"
  obtains c e where "d = Decimal c e" "0 < c"
  using assms by (cases d) (auto simp del: dval.simps)

text \<open>
  \<open>plain d\<close> is the decimal read back from the canonical text of \<open>d\<close>.
\<close>

fun plain :: "pydecimal \<Rightarrow> pydecimal" where
  "plain (Decimal c e) = (case normal_form c e of (c', e') \<Rightarrow> Decimal c' e')"
| "plain d = d"

fun storable :: "pydecimal \<Rightarrow> bool" where
  "storable (Decimal c e) = (0 < c \<and> dec_in_range c e)"
| "storable _ = False"

lemma plain_dval [simp]: "dval (plain d) = dval d"
  by (cases d) (auto split: prod.split simp del: dval.simps simp: normal_form_value)

lemma plain_finite [simp]: "dec_finite (plain d) = dec_finite d"
  by (cases d) (auto split: prod.split)

lemma storable_text:
  assumes "storable d"
  shows "parse_decimal (dec_text d) = Some (plain d) \<and> canonical_decimal (plain d) = Inr (dec_text d) \<and>
    dec_finite d \<and> 0 < dval d"
proof -
  obtain c e where d: "d = Decimal c e" "0 < c" "dec_in_range c e" using assms by (cases d) auto
  obtain c' e' where nf: "normal_form c e = (c', e')" by force
  obtain t where t: "canonical_decimal (Decimal c e) = Inr t" "parse_decimal t = Some (Decimal c' e')"
    using canonical_decimal_roundtrip [OF d(2,3) nf] by blast
  have "0 < c'" using normal_form_reduced [OF d(2) nf] by (simp add: reduced_def)
  then have "canonical_decimal (Decimal c' e') = canonical_decimal (Decimal c e)"
    using canonical_decimal_value [of c' c e' e] d(2) normal_form_value [OF nf] by blast
  moreover have "dec_text d = t" "plain d = Decimal c' e'" using d(1) t(1) nf by (simp_all add: dec_text_def)
  moreover have "0 < dval d" using d by (simp only: dval_pos_iff)
  ultimately show ?thesis using t d(1) by simp
qed

lemma dec_text_plain: "dec_finite d \<Longrightarrow> 0 < dval d \<Longrightarrow> dec_text (plain d) = dec_text d"
proof -
  assume "dec_finite d" "0 < dval d"
  then obtain c e where d: "d = Decimal c e" "0 < c" by (rule positive_decimalE)
  obtain c' e' where nf: "normal_form c e = (c', e')" by force
  have "0 < c'" using normal_form_reduced [OF d(2) nf] by (simp add: reduced_def)
  then have "canonical_decimal (Decimal c' e') = canonical_decimal (Decimal c e)"
    using canonical_decimal_value [of c' c e' e] d(2) normal_form_value [OF nf] by blast
  then show ?thesis using d nf by (simp add: dec_text_def)
qed

definition plain_rule :: "instrument_rule \<Rightarrow> instrument_rule" where
  "plain_rule r =
     rule_with (ir_venue_symbol r) (ir_trading r) (ir_market_state r) (ir_updated_at_ms r)
       (map plain (rule_decimals r)) (ir_updated_at_ms r)"

lemma plain_rule_sel [simp]:
  "ir_venue_symbol (plain_rule r) = ir_venue_symbol r" "ir_trading (plain_rule r) = ir_trading r"
  "ir_market_state (plain_rule r) = ir_market_state r" "ir_updated_at_ms (plain_rule r) = ir_updated_at_ms r"
  "ir_fetched_at_ms (plain_rule r) = ir_updated_at_ms r"
  "ir_lot_size (plain_rule r) = plain (ir_lot_size r)"
  "ir_price_increment (plain_rule r) = plain (ir_price_increment r)"
  "ir_quantity_increment (plain_rule r) = plain (ir_quantity_increment r)"
  "ir_multiplier (plain_rule r) = plain (ir_multiplier r)"
  "ir_min_volume_usd (plain_rule r) = plain (ir_min_volume_usd r)"
  "ir_min_price (plain_rule r) = plain (ir_min_price r)" "ir_max_price (plain_rule r) = plain (ir_max_price r)"
  "ir_min_quantity (plain_rule r) = plain (ir_min_quantity r)"
  "ir_max_quantity (plain_rule r) = plain (ir_max_quantity r)"
  by (simp_all add: plain_rule_def rule_with_def rule_decimals_def)

lemma misaligned_plain [simp]: "misaligned (plain x) (plain s) = misaligned x s"
  by (simp add: misaligned_def)

lemma require_aligned_plain [simp]: "require_aligned (plain x) (plain s) t = require_aligned x s t"
  by (simp add: require_aligned_def)

lemma mk_rule_plain:
  assumes "mk_rule r = Inr r"
  shows "mk_rule (plain_rule r) = Inr (plain_rule r)"
proof -
  have ds: "rule_decimals (plain_rule r) = map plain (rule_decimals r)" by (simp add: rule_decimals_def)
  have "check_bounds (plain_rule r) = check_bounds r"
    unfolding check_bounds_def ds by (simp add: list.pred_map comp_def)
  moreover have "check_alignment (plain_rule r) = check_alignment r" by (simp add: check_alignment_def cong: sum.case_cong)
  moreover have "ok (check_identity r) \<Longrightarrow> ok (check_identity (plain_rule r))"
    by (simp add: check_identity_def split: if_split_asm)
  ultimately show ?thesis using assms by (simp add: mk_rule_Inr)
qed

lemma rule_payload_plain: "mk_rule r = Inr r \<Longrightarrow> rule_payload (plain_rule r) = rule_payload r"
  using rule_positive [of r r] by (simp add: rule_payload_def rule_decimals_def dec_text_plain)

text \<open>Looking metadata up.\<close>

lemma meta_member: "distinct (map fst xs) \<Longrightarrow> (k, v) \<in> set xs \<Longrightarrow> meta xs k = v"
  by (simp add: meta_def rev_map [symmetric] map_of_eq_Some_iff [THEN iffD2])

lemma distinct_sort_key: "distinct (map fst (sort_key fst xs)) = distinct (map fst (xs :: (string \<times> 'a) list))"
  by (rule mset_eq_imp_distinct_iff) simp

lemma rule_payload_keys:
  "map fst (filter (\<lambda>(k, _). k \<noteq> ''domain'') (rule_payload r)) =
     [''venue_lot_size'', ''venue_market_state'', ''venue_max_price'', ''venue_max_quantity'',
      ''venue_min_price'', ''venue_min_quantity'', ''venue_min_volume_usd'', ''venue_multiplier'',
      ''venue_price_increment'', ''venue_quantity_increment'', ''venue_symbol'', ''venue_trading'',
      ''venue_updated_at_ms'']"
  by (simp add: rule_payload_def)

definition plain_pairs :: "sha \<Rightarrow> string \<Rightarrow> instrument_rule \<Rightarrow> pydecimal \<Rightarrow> (string \<times> string) list" where
  "plain_pairs sha account_id r q =
     [(''account_id'', account_id), (''alpha_claim'', ''false''), (''canary_entry_order'', CANARY_ENTRY_ORDER),
      (''canary_quantity'', dec_text q), (''entry_policy'', ''NEXT_BAR_MARKET''),
      (''instrument_rules_sha256'', rules_sha256 sha r), (''purpose'', ''technical_execution_canary''),
      (''venue_lot_size'', dec_text (ir_lot_size r)),
      (''venue_price_increment'', dec_text (ir_price_increment r)),
      (''venue_quantity_increment'', dec_text (ir_quantity_increment r)),
      (''venue_multiplier'', dec_text (ir_multiplier r)),
      (''venue_min_volume_usd'', dec_text (ir_min_volume_usd r)),
      (''venue_min_price'', dec_text (ir_min_price r)), (''venue_max_price'', dec_text (ir_max_price r)),
      (''venue_min_quantity'', dec_text (ir_min_quantity r)),
      (''venue_max_quantity'', dec_text (ir_max_quantity r)),
      (''venue_market_state'', ir_market_state r), (''venue_symbol'', ir_venue_symbol r),
      (''venue_trading'', ir_trading r), (''venue_updated_at_ms'', text_of_int (ir_updated_at_ms r))]"

lemma canary_metadata_set: "set (canary_metadata sha acct r q) = set (plain_pairs sha acct r q)"
  by (auto simp: canary_metadata_def rule_metadata_def rule_payload_def plain_pairs_def)

lemma plain_pairs_keys: "map fst (plain_pairs sha acct r q) = EXPECTED_KEYS"
  by (simp add: plain_pairs_def EXPECTED_KEYS_def RULE_DECIMAL_FIELDS_def)

lemma expected_keys_distinct: "distinct EXPECTED_KEYS"
  by (simp add: EXPECTED_KEYS_def RULE_DECIMAL_FIELDS_def)

lemma canary_metadata_distinct: "distinct (map fst (canary_metadata sha acct r q))"
proof -
  let ?xs = "[(''canary_entry_order'', CANARY_ENTRY_ORDER), (''canary_quantity'', dec_text q),
         (''instrument_rules_sha256'', rules_sha256 sha r)] @
        map (\<lambda>(k, v). (k, text_of_value v)) (filter (\<lambda>(k, _). k \<noteq> ''domain'') (rule_payload r))"
  have "distinct (map fst ?xs)" by (simp add: rule_payload_def)
  then have d: "distinct (map fst (rule_metadata sha r q))"
    unfolding rule_metadata_def by (simp only: distinct_sort_key)
  have "fst ` set (rule_metadata sha r q) = fst ` set ?xs" by (simp only: rule_metadata_def set_sort)
  then have "{''account_id'', ''alpha_claim'', ''entry_policy'', ''purpose''} \<inter> fst ` set (rule_metadata sha r q) = {}"
    by (simp add: rule_payload_def)
  then show ?thesis using d by (auto simp: canary_metadata_def)
qed

lemma meta_canary:
  assumes "(k, v) \<in> set (plain_pairs sha acct r q)"
  shows "meta (canary_metadata sha acct r q) k = v"
  using assms canary_metadata_distinct canary_metadata_set by (auto intro: meta_member)

lemma read_canonical_plain:
  "storable d \<Longrightarrow> meta md k = dec_text d \<Longrightarrow> read_canonical md k = Inr (plain d)"
  using storable_text [of d] by (simp add: read_canonical_def decimal_arg_def positive_decimal_def)

lemma read_all_map: "list_all2 (\<lambda>k d. f k = Inr d) ks ds \<Longrightarrow> read_all f ks = Inr ds"
  by (induction rule: list_all2_induct) auto

lemma text_of_int_parse:
  assumes "0 \<le> n" "length (digits_of n) \<le> 4300"
  shows "parse_int (text_of_int n) = Some n"
proof -
  have all: "list_all is_digit (digits_of n)" using digits_of_all assms(1) by (simp add: list_all_iff)
  then have strip: "py_strip (digits_of n) = digits_of n"
    by (intro py_strip_id) (auto simp: list_all_iff is_digit_not_space)
  have us: "underscored s" if "list_all is_digit s" "s \<noteq> []" for s
    using that by (induction s rule: underscored.induct) (auto simp: is_digit_not)
  obtain c s where cs: "digits_of n = c # s" using digits_of_nonempty by (metis neq_Nil_conv)
  then have "is_digit c" using all by simp
  then have "sign_of (digits_of n) = (1, digits_of n)"
    using cs is_digit_not(2,3) by (auto simp: sign_of_def)
  moreover have "filter is_digit (digits_of n) = digits_of n" using all by (simp add: list_all_iff)
  ultimately show ?thesis
    using assms us [OF all] strip by (simp add: parse_int_def text_of_int_def)
qed

text \<open>
  What a canary intent records of its instrument can be read back exactly. For a rule and
  a quantity that satisfy the checks, the binding of an intent whose metadata and evidence were
  written from them is accepted, and yields the same rule with every number equal in value (and
  the rule's own time as its fetch time) and the same quantity.
\<close>

theorem canary_binding_roundtrip:
  assumes "mk_rule r = Inr r" "\<forall>d \<in> set (rule_decimals r). storable d" "storable q"
    and "dval (ir_min_quantity r) \<le> dval q" "dval q \<le> dval (ir_max_quantity r)"
    and "misaligned q (ir_quantity_increment r) = Inr False"
    and "length (digits_of (ir_updated_at_ms r)) \<le> 4300"
    and "in_metadata intent = canary_metadata sha acct r q"
    and "filter (\<lambda>e. ev_kind e = ''venue_instrument'') (in_evidence intent) = [rule_evidence sha r]"
  shows "bound_canary_instrument sha intent acct = Inr (plain_rule r, plain q) \<and>
    map dval (rule_decimals (plain_rule r)) = map dval (rule_decimals r) \<and> dval (plain q) = dval q"
proof -
  let ?md = "canary_metadata sha acct r q"
  have m: "\<And>k v. (k, v) \<in> set (plain_pairs sha acct r q) \<Longrightarrow> meta ?md k = v" by (rule meta_canary)
  have id: "ir_trading r = ''all''" "ir_market_state r = ''OPEN''" "0 \<le> ir_updated_at_ms r"
    using assms(1) by (auto simp: mk_rule_Inr check_identity_def split: if_split_asm)
  have keys: "set (map fst ?md) = set EXPECTED_KEYS"
    using canary_metadata_set [of sha acct r q] plain_pairs_keys [of sha acct r q] by (metis image_set)
  have "check_metadata acct ?md = Inr ()"
    using keys id by (simp add: check_metadata_def m plain_pairs_def)
  moreover have upd: "read_updated ?md = Inr (ir_updated_at_ms r)"
    using text_of_int_parse [OF id(3) assms(7)] id(3) by (simp add: read_updated_def m plain_pairs_def)
  have rc: "read_canonical ?md k = Inr (plain d)"
    if "storable d" "(k, dec_text d) \<in> set (plain_pairs sha acct r q)" for k d
    using that read_canonical_plain m by blast
  have "read_all (read_canonical ?md) RULE_DECIMAL_FIELDS = Inr (map plain (rule_decimals r))"
    using assms(2) by (intro read_all_map) (simp add: RULE_DECIMAL_FIELDS_def rule_decimals_def rc plain_pairs_def)
  then have "bound_rule ?md = Inr (plain_rule r)"
    using upd mk_rule_plain [OF assms(1)]
    by (simp add: bound_rule_def plain_rule_def m plain_pairs_def)
  moreover have hash: "rules_sha256 sha (plain_rule r) = rules_sha256 sha r"
    by (simp add: rules_sha256_def rule_payload_plain [OF assms(1)])
  moreover have "bound_evidence sha intent (plain_rule r)"
    using assms(9) hash by (simp add: bound_evidence_def rule_evidence_def)
  moreover have "bound_quantity ?md (plain_rule r) = Inr (plain q)"
    using assms(3-6) rc [of q "''canary_quantity''"]
    by (simp add: bound_quantity_def plain_pairs_def require_aligned_def require_def)
  ultimately show ?thesis
    using assms(8) by (simp add: bound_canary_instrument_def m plain_pairs_def rule_decimals_def)
qed

definition dev_rule :: instrument_rule where
  "dev_rule =
     \<lparr>ir_venue_symbol = ''BTCUSD:DEV'', ir_trading = ''all'', ir_market_state = ''OPEN'', ir_updated_at_ms = 1700,
      ir_lot_size = Decimal 1 0, ir_price_increment = Decimal 1 (-1), ir_quantity_increment = Decimal 10 (-4),
      ir_multiplier = Decimal 1 0, ir_min_volume_usd = Decimal 5 0, ir_min_price = Decimal 1 0,
      ir_max_price = Decimal 10 5, ir_min_quantity = Decimal 1 (-3), ir_max_quantity = Decimal 100 0,
      ir_fetched_at_ms = 2000\<rparr>"

definition flat_sha :: sha where
  "flat_sha payload = concat (map fst payload)"

definition canary_intent :: "pydecimal \<Rightarrow> strategy_intent" where
  "canary_intent q =
     \<lparr>in_contract_version = ''strategy-intent.v1'', in_intent_id = Some ''i1'', in_message_id = ''i1'',
      in_source = ''canary'', in_symbol = ''BTCUSDT'', in_venue = ''BINANCE_UM'', in_side = LONG,
      in_strategy_id = PAPER_CANARY_STRATEGY_ID, in_strategy_revision = ''r1'', in_decision_ts_ms = 1000,
      in_entry_eligible_ts_ms = 1001, in_entry_expires_ts_ms = 61001, in_reference_price = Fin 1000,
      in_signal_strength = Fin 0, in_gross_reward_bps = Fin 200,
      in_exit_plan = \<lparr>xp_stop_price = Fin 990, xp_target_price = Fin 1020, xp_max_holding_ms = 300000, xp_payload = []\<rparr>,
      in_provenance =
        \<lparr>pv_strategy_code_sha256 = [], pv_config_sha256 = [], pv_input_window_sha256 = [], pv_features_sha256 = [],
         pv_input_bar_sha256s = [''bar'']\<rparr>, in_evidence = [rule_evidence flat_sha dev_rule],
      in_metadata = canary_metadata flat_sha ''acc'' dev_rule q, in_payload = []\<rparr>"

lemma dev_rule_valid: "mk_rule dev_rule = Inr dev_rule"
  by code_simp

theorem canary_binding_roundtrip_witness:
  "bound_canary_instrument flat_sha (canary_intent (Decimal 5 (-3))) ''acc'' =
     Inr (plain_rule dev_rule, plain (Decimal 5 (-3)))"
proof -
  have "\<forall>d \<in> set (rule_decimals dev_rule). storable d" "storable (Decimal 5 (-3))"
    "misaligned (Decimal 5 (-3)) (ir_quantity_increment dev_rule) = Inr False"
    "length (digits_of (ir_updated_at_ms dev_rule)) \<le> 4300"
    "dval (ir_min_quantity dev_rule) \<le> dval (Decimal 5 (-3))"
    "dval (Decimal 5 (-3)) \<le> dval (ir_max_quantity dev_rule)"
    by code_simp+
  moreover have "filter (\<lambda>e. ev_kind e = ''venue_instrument'') (in_evidence (canary_intent (Decimal 5 (-3)))) =
      [rule_evidence flat_sha dev_rule]"
    "in_metadata (canary_intent (Decimal 5 (-3))) = canary_metadata flat_sha ''acc'' dev_rule (Decimal 5 (-3))"
    by (simp_all add: canary_intent_def rule_evidence_def)
  ultimately show ?thesis using canary_binding_roundtrip [OF dev_rule_valid] by blast
qed

text \<open>And nothing else is accepted.\<close>

lemma read_allD:
  "read_all f ks = Inr ds \<Longrightarrow> list_all2 (\<lambda>k d. f k = Inr d) ks ds"
  by (induction ks arbitrary: ds) (auto split: sum.splits)

lemma read_canonicalD: "read_canonical md k = Inr d \<Longrightarrow> meta md k = dec_text d \<and> dec_finite d \<and> 0 < dval d"
  by (auto simp: read_canonical_def decimal_arg_def positive_decimal_def dec_text_def
      split: option.splits if_split_asm sum.splits)

lemma meta_Some:
  assumes "k \<in> set (map fst md)"
  shows "map_of (rev md) k = Some (meta md k)"
proof -
  have "map_of (rev md) k \<noteq> None" using assms by (simp add: map_of_eq_None_iff)
  then show ?thesis by (auto simp: meta_def)
qed

lemma bound_rule_pairs:
  assumes "bound_rule md = Inr r" "bound_quantity md r = Inr q" "check_metadata acct md = Inr ()"
    and "meta md ''instrument_rules_sha256'' = rules_sha256 sha r"
    and "(k, v) \<in> set (plain_pairs sha acct r q)"
  shows "meta md k = v"
proof -
  obtain n ds where n: "read_updated md = Inr n"
    and ds: "read_all (read_canonical md) RULE_DECIMAL_FIELDS = Inr ds"
    and r: "r = rule_with (meta md ''venue_symbol'') (meta md ''venue_trading'') (meta md ''venue_market_state'') n ds n"
    using assms(1) by (auto simp: bound_rule_def mk_rule_Inr split: sum.splits)
  have "text_of_int n = meta md ''venue_updated_at_ms''"
    using n by (auto simp: read_updated_def split: option.splits if_split_asm)
  moreover have "list_all2 (\<lambda>k d. meta md k = dec_text d) RULE_DECIMAL_FIELDS ds"
    using read_allD [OF ds] by (rule list_all2_mono) (simp add: read_canonicalD)
  moreover have "meta md ''canary_quantity'' = dec_text q"
    using assms(2) by (auto simp: bound_quantity_def Let_def dest: read_canonicalD split: sum.splits if_split_asm)
  ultimately show ?thesis
    using assms(3-5) unfolding r
    by (auto simp: plain_pairs_def rule_with_def check_metadata_def RULE_DECIMAL_FIELDS_def list_all2_Cons1
        split: if_split_asm)
qed


lemma example_binding:
  "bound_canary_instrument flat_sha (canary_intent (Decimal 5 (-3))) ''acc'' =
     Inr (plain_rule dev_rule, Decimal 5 (-3))"
  by code_simp


section \<open>The effective minimum quantity\<close>

text \<open>The least value a rounding of a non-negative number can take.\<close>

definition shrunk :: "rat \<Rightarrow> rat" where
  "shrunk x = x * (1 - 10 powi (-27) / 2) - 10 powi decimal_etiny / 2"

lemma shrunk_mono: "x \<le> y \<Longrightarrow> shrunk x \<le> shrunk y"
  unfolding shrunk_def using d28.eps_half by (intro diff_right_mono mult_right_mono) auto

lemma rnd28_ge_shrunk: "0 \<le> x \<Longrightarrow> shrunk x \<le> rnd28 x"
  unfolding shrunk_def by (rule d28.rnd_lower)

lemma volume_minimum_bounds:
  assumes "volume_minimum r p = Inr m" "0 < p" "0 < dval (ir_min_volume_usd r)" "0 < dval (ir_quantity_increment r)"
  defines "V \<equiv> dval (ir_min_volume_usd r)" and "i \<equiv> dval (ir_quantity_increment r)"
  shows "shrunk (shrunk (shrunk (V / p) / i) * i) \<le> dval m"
    and "\<And>n. \<bar>n\<bar> < 10 ^ 28 \<Longrightarrow> rnd28 (of_int n * i) = of_int n * i \<Longrightarrow> V \<le> of_int n * i * p \<Longrightarrow>
      dval m \<le> of_int n * i"
    and "dec_finite m"
proof -
  have pos: "0 < V" "0 < i" using assms(3,4) by (simp_all add: V_def i_def)
  obtain per steps where per: "per = rnd28 (V / p)" and steps: "steps = rnd28 (per / i)"
    and mul: "dec_mul (Decimal \<lceil>steps\<rceil> 0) (ir_quantity_increment r) = Inr m"
    using assms(1) by (auto simp: volume_minimum_def V_def i_def dest!: dec_div_Inr split: sum.splits)
  have m: "dval m = rnd28 (of_int \<lceil>steps\<rceil> * i)" "dec_finite m"
    using dec_mul_value [OF mul] by (simp_all add: i_def)
  have nn: "0 \<le> V / p" "0 \<le> per" "0 \<le> per / i" "0 \<le> steps"
    using pos assms(2) by (simp_all add: per steps d28.rnd_nonneg)
  have "shrunk (shrunk (V / p) / i) \<le> shrunk (per / i)"
    using rnd28_ge_shrunk [OF nn(1)] pos(2) by (intro shrunk_mono divide_right_mono) (auto simp: per)
  also have "\<dots> \<le> steps" using rnd28_ge_shrunk [OF nn(3)] by (simp add: steps)
  also have "\<dots> \<le> of_int \<lceil>steps\<rceil>" by simp
  finally have "shrunk (shrunk (shrunk (V / p) / i) * i) \<le> shrunk (of_int \<lceil>steps\<rceil> * i)"
    using pos(2) by (intro shrunk_mono mult_right_mono) auto
  also have "\<dots> \<le> dval m"
  proof -
    have "0 \<le> of_int \<lceil>steps\<rceil> * i" using nn(4) pos(2) by (intro mult_nonneg_nonneg) auto
    then show ?thesis using m(1) rnd28_ge_shrunk by simp
  qed
  finally show "shrunk (shrunk (shrunk (V / p) / i) * i) \<le> dval m" .
  show "dec_finite m" by (rule m(2))
  show "dval m \<le> of_int n * i"
    if n: "\<bar>n\<bar> < 10 ^ 28" "rnd28 (of_int n * i) = of_int n * i" "V \<le> of_int n * i * p" for n
  proof -
    have "V / p \<le> of_int n * i" using n(3) assms(2) by (simp add: pos_divide_le_eq)
    then have "per \<le> of_int n * i" unfolding per by (rule d28.rnd_le_fixed) (rule n(2))
    then have "per / i \<le> of_int n" using pos(2) by (simp add: pos_divide_le_eq)
    then have "steps \<le> of_int n" unfolding steps by (rule d28.rnd_le_fixed) (rule rnd28_of_int [OF n(1)])
    then have "\<lceil>steps\<rceil> \<le> n" by (simp add: ceiling_le_iff)
    then have "of_int \<lceil>steps\<rceil> * i \<le> of_int n * i" using pos(2) by (intro mult_right_mono) auto
    then show ?thesis unfolding m(1) by (rule d28.rnd_le_fixed) (rule n(2))
  qed
qed

text \<open>
  The effective minimum quantity meets the venue's minimum and is the least that does. At a
  price inside the venue's bounds and on its tick, the quantity lies within the venue's
  quantity bounds; its notional reaches the minimum volume up to the three 28-digit roundings
  of the computation; and no multiple of the increment (of at most 28 digits) that is at least
  the minimum quantity and reaches the minimum volume in exact arithmetic is smaller.
\<close>

theorem effective_minimum_is_least:
  assumes "mk_rule r = Inr r" "effective_min_quantity r price = Inr q"
  defines "V \<equiv> dval (ir_min_volume_usd r)" and "i \<equiv> dval (ir_quantity_increment r)" and "p \<equiv> dval price"
  shows "dval (ir_min_price r) \<le> p \<and> p \<le> dval (ir_max_price r) \<and>
    misaligned price (ir_price_increment r) = Inr False \<and>
    dval (ir_min_quantity r) \<le> dval q \<and> dval q \<le> dval (ir_max_quantity r) \<and>
    shrunk (shrunk (shrunk (V / p) / i) * i) \<le> dval q \<and>
    (\<forall>n. \<bar>n\<bar> < 10 ^ 28 \<longrightarrow> rnd28 (of_int n * i) = of_int n * i \<longrightarrow> dval (ir_min_quantity r) \<le> of_int n * i \<longrightarrow>
       V \<le> of_int n * i * p \<longrightarrow> dval q \<le> of_int n * i)"
proof -
  obtain m where *: "volume_minimum r p = Inr m" "q = dec_max (ir_min_quantity r) m" "0 < p"
      "dval (ir_min_price r) \<le> p" "p \<le> dval (ir_max_price r)" "dval q \<le> dval (ir_max_quantity r)"
      "misaligned price (ir_price_increment r) = Inr False"
    using assms(2)
    by (auto simp: effective_min_quantity_def positive_decimal_def require_aligned_Inr Let_def not_less p_def
        split: sum.splits if_split_asm)
  have pos: "0 < V" "0 < i" using rule_positive [OF assms(1)] by (simp_all add: rule_decimals_def V_def i_def)
  note bounds = volume_minimum_bounds [OF *(1,3), folded V_def i_def, OF pos]
  have "dval (ir_min_quantity r) \<le> dval q" "dval m \<le> dval q" "dval q = dval (ir_min_quantity r) \<or> dval q = dval m"
    using *(2) by (auto simp: dec_max_def)
  then show ?thesis using * bounds by fastforce
qed

theorem effective_minimum_is_least_witness:
  "effective_min_quantity dev_rule (Decimal 2000 0) = Inr (Decimal 30 (-4)) \<and>
   dval (Decimal 30 (-4)) \<le> of_int 3 * dval (ir_quantity_increment dev_rule)"
proof -
  have q: "effective_min_quantity dev_rule (Decimal 2000 0) = Inr (Decimal 30 (-4))" by code_simp
  have "\<bar>3 :: int\<bar> < 10 ^ 28" "dval (ir_min_quantity dev_rule) \<le> of_int 3 * dval (ir_quantity_increment dev_rule)"
    "rnd28 (of_int 3 * dval (ir_quantity_increment dev_rule)) = of_int 3 * dval (ir_quantity_increment dev_rule)"
    "dval (ir_min_volume_usd dev_rule) \<le> of_int 3 * dval (ir_quantity_increment dev_rule) * dval (Decimal 2000 0)"
    by code_simp+
  then show ?thesis using effective_minimum_is_least [OF dev_rule_valid q] q by blast
qed

section \<open>The bound quantity and its errors\<close>

lemma bound_canary_quantity_Inr:
  "bound_canary_quantity sha intent acct px = Inr x \<longleftrightarrow>
     (\<exists>r q e. bound_canary_instrument sha intent acct = Inr (r, q) \<and>
        effective_min_quantity r (decimal_of_float px) = Inr e \<and> dval q = dval e \<and>
        x = float_of_decimal q \<and> isfinite x \<and> Fin 0 < x)"
  by (auto simp: bound_canary_quantity_def Let_def float_not_le isfinite_not_NaN
      dest: float_less_not_le split: sum.splits prod.splits if_split_asm)

text \<open>
  Every failure of the binding is a \<open>ValueError\<close> or an arithmetic error of the decimal
  context, and the second kind is real: a price bound of \<open>10 ^ 28\<close> increments or more makes
  the remainder impossible.
\<close>

definition value_or_arithmetic :: "pyerr \<Rightarrow> bool" where
  "value_or_arithmetic e \<longleftrightarrow> (\<exists>t. e = ValueError t) \<or> (\<exists>t. e = ArithmeticError t)"

lemma value_or_arithmetic_simps [simp]:
  "value_or_arithmetic (ValueError t)" "value_or_arithmetic (ArithmeticError t)"
  by (simp_all add: value_or_arithmetic_def)

lemma dec_context_errors: "dec_context q = Inl e \<Longrightarrow> value_or_arithmetic e"
  by (auto simp: dec_context_def Let_def split: if_split_asm)

lemma dec_div_errors: "dec_div p q = Inl e \<Longrightarrow> value_or_arithmetic e"
  by (auto simp: dec_div_def dec_context_errors split: if_split_asm)

lemma dec_fix_errors: "dec_fix c x = Inl e \<Longrightarrow> value_or_arithmetic e"
proof -
  have "(if P then Inl a else Inr b) = Inl e \<Longrightarrow> a = e" for P and a :: pyerr and b :: pydecimal
    by (simp split: if_split_asm)
  then show "dec_fix c x = Inl e \<Longrightarrow> value_or_arithmetic e"
    unfolding dec_fix_def Let_def by (metis value_or_arithmetic_simps(2))
qed

lemma dec_mul_errors: "dec_mul a b = Inl e \<Longrightarrow> value_or_arithmetic e"
  by (cases a; cases b) (auto dest: dec_fix_errors)

lemma require_aligned_errors: "require_aligned x s t = Inl e \<Longrightarrow> value_or_arithmetic e"
  by (auto simp: require_aligned_def misaligned_def dec_mod_def Let_def
      dest: dec_context_errors split: sum.splits if_split_asm)

lemma positive_decimal_errors: "positive_decimal n d = Inl e \<Longrightarrow> value_or_arithmetic e"
  by (auto simp: positive_decimal_def split: if_split_asm)

lemma read_canonical_errors: "read_canonical md k = Inl e \<Longrightarrow> value_or_arithmetic e"
  by (auto simp: read_canonical_def decimal_arg_def
      dest: positive_decimal_errors split: sum.splits option.splits if_split_asm)

lemma read_all_errors: "read_all (read_canonical md) ks = Inl e \<Longrightarrow> value_or_arithmetic e"
  by (induction ks) (auto dest: read_canonical_errors split: sum.splits)

lemma mk_rule_errors: "mk_rule r = Inl e \<Longrightarrow> value_or_arithmetic e"
  by (auto simp: mk_rule_def check_identity_def check_bounds_def check_alignment_def Let_def
      dest: require_aligned_errors split: sum.splits if_split_asm)

lemma volume_minimum_errors: "volume_minimum r p = Inl e \<Longrightarrow> value_or_arithmetic e"
  by (auto simp: volume_minimum_def dest: dec_div_errors dec_mul_errors split: sum.splits)

lemma effective_min_quantity_errors: "effective_min_quantity r p = Inl e \<Longrightarrow> value_or_arithmetic e"
  by (auto simp: effective_min_quantity_def Let_def
      dest: positive_decimal_errors require_aligned_errors volume_minimum_errors split: sum.splits if_split_asm)

lemma read_updated_errors: "read_updated md = Inl e \<Longrightarrow> value_or_arithmetic e"
  by (auto simp: read_updated_def split: option.splits if_split_asm)

lemma bound_rule_errors: "bound_rule md = Inl e \<Longrightarrow> value_or_arithmetic e"
  by (auto simp: bound_rule_def dest: read_updated_errors read_all_errors mk_rule_errors split: sum.splits)

lemma bound_quantity_errors: "bound_quantity md r = Inl e \<Longrightarrow> value_or_arithmetic e"
  by (auto simp: bound_quantity_def Let_def
      dest: read_canonical_errors require_aligned_errors split: sum.splits if_split_asm)

lemma check_metadata_errors: "check_metadata a md = Inl e \<Longrightarrow> value_or_arithmetic e"
  by (auto simp: check_metadata_def split: if_split_asm)

lemma bound_canary_instrument_errors: "bound_canary_instrument sha i a = Inl e \<Longrightarrow> value_or_arithmetic e"
  by (auto simp: bound_canary_instrument_def Let_def
      dest: bound_rule_errors bound_quantity_errors check_metadata_errors split: sum.splits if_split_asm)

lemma bound_canary_quantity_errors: "bound_canary_quantity sha i a px = Inl e \<Longrightarrow> value_or_arithmetic e"
  by (auto simp: bound_canary_quantity_def Let_def split: sum.splits if_split_asm prod.splits
      dest: bound_canary_instrument_errors effective_min_quantity_errors)


definition wide_rule :: instrument_rule where
  "wide_rule = dev_rule\<lparr>ir_max_price := Decimal 1 27\<rparr>"


end
