(* ===== verification/Paper.thy ===== *)
theory Paper
  imports Sizing Canary_Instrument
begin

text \<open>
  \<open>kairos_risk/paper.py\<close>: the decision on one reviewed candidate of the PAPER route, its
  account and allocation gates, the size of the position and its worst-case loss, and the
  reservations of approvals that reconciliation does not show yet.
\<close>

section \<open>Reservations\<close>

record reservations =
  pr_symbols :: "string set"
  pr_open_risk_usd :: pyfloat
  pr_notional_usd :: pyfloat
  pr_strategy_notional_usd :: "(string \<times> pyfloat) list"
  pr_active_canary_ideas :: int

definition no_reservations :: reservations where
  "no_reservations =
     \<lparr>pr_symbols = {}, pr_open_risk_usd = Fin 0, pr_notional_usd = Fin 0,
      pr_strategy_notional_usd = [], pr_active_canary_ideas = 0\<rparr>"

definition micro :: pyfloat where "micro = to_float (1 / 1000000)"

definition nano :: pyfloat where "nano = to_float (1 / 1000000000)"

definition pico :: pyfloat where "pico = to_float (1 / 1000000000000)"

definition non_negative :: "pyfloat \<Rightarrow> bool" where
  "non_negative x \<longleftrightarrow> isfinite x \<and> \<not> x < Fin 0"

text \<open>The names are unique when they are sorted, so sorting the pairs is sorting by name.\<close>

definition mk_reservations :: "reservations \<Rightarrow> reservations res" where
  "mk_reservations r =
     (let names = map fst (pr_strategy_notional_usd r); values = map snd (pr_strategy_notional_usd r) in
      if \<exists>symbol \<in> pr_symbols r. symbol \<notin> set (map snd PAPER_DEV_SYMBOL_MAP)
      then Inl (ValueError ''reserved PAPER symbols must belong to the fixed DEV universe'')
      else if \<not> non_negative (pr_open_risk_usd r)
      then Inl (ValueError ''reserved open risk must be finite and non-negative'')
      else if \<not> non_negative (pr_notional_usd r)
      then Inl (ValueError ''reserved notional must be finite and non-negative'')
      else if pr_active_canary_ideas r < 0
      then Inl (ValueError ''reserved active canary ideas must be a non-negative integer'')
      else if \<not> distinct names
      then Inl (ValueError ''reserved strategy notional names must be unique'')
      else if \<exists>name \<in> set names. \<not> normalized name
      then Inl (ValueError ''reserved strategy names must be normalized'')
      else if \<exists>v \<in> set values. \<not> non_negative v
      then Inl (ValueError ''reserved strategy notional must be finite and non-negative'')
      else if pr_notional_usd r + micro < fsum values
      then Inl (ValueError ''reserved strategy notional cannot exceed total reserved notional'')
      else Inr (r\<lparr>pr_strategy_notional_usd := sort_key fst (pr_strategy_notional_usd r)\<rparr>))"

definition notional_for_strategy :: "reservations \<Rightarrow> string \<Rightarrow> pyfloat" where
  "notional_for_strategy r strategy_id =
     (case map_of (pr_strategy_notional_usd r) strategy_id of Some v \<Rightarrow> v | None \<Rightarrow> Fin 0)"

definition add_total :: "(string \<times> pyfloat) list \<Rightarrow> risk_decision \<Rightarrow> (string \<times> pyfloat) list" where
  "add_total totals d =
     (let name = in_strategy_id (rd_intent d);
          old = (case map_of totals name of Some v \<Rightarrow> v | None \<Rightarrow> Fin 0)
      in AList.update name (old + rd_notional_usd d) totals)"

definition is_canary :: "risk_decision \<Rightarrow> bool" where
  "is_canary d \<longleftrightarrow> in_strategy_id (rd_intent d) = PAPER_CANARY_STRATEGY_ID"

definition reservation_view :: "risk_decision list \<Rightarrow> reservations res" where
  "reservation_view decisions =
     (let approved = filter rd_approved decisions in
      mk_reservations
        \<lparr>pr_symbols = set (map rd_venue_symbol approved),
         pr_open_risk_usd = fsum (map rd_worst_case_loss_usd approved),
         pr_notional_usd = fsum (map rd_notional_usd approved),
         pr_strategy_notional_usd = sort_key fst (foldl add_total [] approved),
         pr_active_canary_ideas = int (length (filter is_canary approved))\<rparr>)"

section \<open>The account gate\<close>

definition reason_if :: "bool \<Rightarrow> string \<Rightarrow> rejection list" where
  "reason_if c t = (if c then [Reason t] else [])"

record account_metrics =
  am_equity_usd :: pyfloat
  am_available_balance_usd :: pyfloat
  am_total_open_risk_usd :: pyfloat
  am_gross_notional_usd :: pyfloat
  am_strategy_notional_usd :: pyfloat

definition account_facts :: "risk_settings \<Rightarrow> account_v2 \<Rightarrow> int \<Rightarrow> rejection list" where
  "account_facts s a decided_at_ms =
     (let age_ms = decided_at_ms - a2_captured_at_ms a in
      reason_if (a2_trading_mode a \<noteq> PAPER \<or> a2_evedex_profile a \<noteq> DEV) ''account_environment_mismatch'' @
      reason_if (a2_account_id a \<noteq> rs_paper_account_id s) ''account_id_mismatch'' @
      reason_if (\<not> a2_reconciled a) ''account_not_reconciled'' @
      reason_if (a2_reconciliation_seq a \<le> 0) ''account_reconciliation_sequence_invalid'' @
      (if age_ms < 0 then [Reason ''account_snapshot_from_future'']
       else reason_if (rs_paper_account_snapshot_max_age_s s * Fin 1000 < float_of_int age_ms)
              ''account_snapshot_stale''))"

definition symbol_exclusivity :: "account_v2 \<Rightarrow> string \<Rightarrow> reservations \<Rightarrow> rejection list" where
  "symbol_exclusivity a venue_symbol r =
     reason_if (venue_symbol \<in> pr_symbols r) ''symbol_has_reserved_idea'' @
     reason_if (\<exists>p \<in> set (a2_positions a). ln_venue_symbol (p2_lineage p) = venue_symbol)
       ''symbol_has_active_position'' @
     reason_if (\<exists>ord \<in> set (a2_open_orders a). ln_venue_symbol (o2_lineage ord) = venue_symbol)
       ''symbol_has_open_order''"

definition active_canary_trades :: "account_v2 \<Rightarrow> string option set" where
  "active_canary_trades a =
     set (map (\<lambda>p. ln_trade_id (p2_lineage p))
            (filter (\<lambda>p. ln_strategy_id (p2_lineage p) = PAPER_CANARY_STRATEGY_ID) (a2_positions a)) @
          map (\<lambda>ord. ln_trade_id (o2_lineage ord))
            (filter (\<lambda>ord. ln_strategy_id (o2_lineage ord) = PAPER_CANARY_STRATEGY_ID \<and> o2_order_role ord = ENTRY)
              (a2_open_orders a)))"

definition canary_limit :: "account_v2 \<Rightarrow> string \<Rightarrow> reservations \<Rightarrow> rejection list" where
  "canary_limit a strategy_id r =
     reason_if (strategy_id = PAPER_CANARY_STRATEGY_ID \<and>
         1 \<le> int (card (active_canary_trades a)) + pr_active_canary_ideas r)
       ''global_canary_idea_limit_reached''"

definition position_stop_risk :: "position_v2 \<Rightarrow> pyfloat" where
  "position_stop_risk p =
     (let quantity = \<bar>p2_signed_quantity p\<bar>; entry = p2_entry_price p; stop = xp_stop_price (p2_exit_plan p) in
      if p2_side p = LONG then quantity * pymax (Fin 0) (entry - stop)
      else quantity * pymax (Fin 0) (stop - entry))"

definition open_risk_limit :: "risk_settings \<Rightarrow> account_v2 \<Rightarrow> reservations \<Rightarrow> rejection list" where
  "open_risk_limit s a r =
     (let position_risk = fsum (map position_stop_risk (a2_positions a)) in
      reason_if (a2_total_open_risk_usd a + micro < position_risk) ''account_open_risk_understated'' @
      reason_if (a2_equity_usd a * rs_paper_max_total_open_risk_fraction s - nano
           \<le> a2_total_open_risk_usd a + pr_open_risk_usd r)
        ''portfolio_open_risk_limit_exhausted'')"

text \<open>\<open>max\<close> of the four drawdowns; a zero equity in the snapshot makes a division raise.\<close>

definition paper_drawdown :: "account_v2 \<Rightarrow> pyfloat res" where
  "paper_drawdown a =
     (let day = a2_durable_day_start_equity_usd a; peak = a2_durable_peak_equity_usd a; equity = a2_equity_usd a in
      case py_div (day - equity) day of
        Inl e \<Rightarrow> Inl e
      | Inr since_day_start \<Rightarrow>
         (case py_div (- a2_daily_realized_pnl_usd a) day of
            Inl e \<Rightarrow> Inl e
          | Inr realized \<Rightarrow>
             (case py_div (peak - equity) peak of
                Inl e \<Rightarrow> Inl e
              | Inr since_peak \<Rightarrow> Inr (pymax (pymax (pymax (Fin 0) since_day_start) realized) since_peak))))"

definition position_notional_v2 :: "position_v2 \<Rightarrow> pyfloat" where
  "position_notional_v2 p = \<bar>p2_signed_quantity p\<bar> * p2_mark_price p"

text \<open>The loop over the open orders: reasons, gross notional and the strategy's notional.\<close>

definition order_step ::
    "string \<Rightarrow> rejection list \<times> pyfloat \<times> pyfloat \<Rightarrow> order_v2 \<Rightarrow> rejection list \<times> pyfloat \<times> pyfloat" where
  "order_step strategy_id acc ord =
     (case acc of (reasons, gross, own) \<Rightarrow>
        if o2_order_role ord \<noteq> ENTRY then acc
        else
          (let reasons = reasons @ [Reason ''pending_entry_order_present''] in
           if o2_quantity ord \<le> o2_filled_quantity ord then (reasons, gross, own)
           else case o2_price ord of
             None \<Rightarrow> (reasons @ [Reason ''unvalued_pending_entry_order''], gross, own)
           | Some price \<Rightarrow>
               (let pending = (o2_quantity ord - o2_filled_quantity ord) * price in
                (reasons, gross + pending,
                 if ln_strategy_id (o2_lineage ord) = strategy_id then own + pending else own))))"

definition account_gate ::
    "risk_settings \<Rightarrow> account_v2 option \<Rightarrow> string \<Rightarrow> string \<Rightarrow> int \<Rightarrow> reservations \<Rightarrow>
     (rejection list \<times> account_metrics option) res" where
  "account_gate s account venue_symbol strategy_id decided_at_ms r =
     (case account of
        None \<Rightarrow> Inr ([Reason ''account_snapshot_missing''], None)
      | Some a \<Rightarrow>
         (case paper_drawdown a of
            Inl e \<Rightarrow> Inl e
          | Inr drawdown \<Rightarrow>
             (let own = filter (\<lambda>p. ln_strategy_id (p2_lineage p) = strategy_id) (a2_positions a);
                  (order_reasons, gross, own_notional) =
                    foldl (order_step strategy_id)
                      ([], fsum (map position_notional_v2 (a2_positions a)), fsum (map position_notional_v2 own))
                      (a2_open_orders a)
              in Inr (account_facts s a decided_at_ms @ symbol_exclusivity a venue_symbol r @
                      canary_limit a strategy_id r @ open_risk_limit s a r @
                      reason_if (rs_max_daily_drawdown_pct s \<le> drawdown * Fin 100) ''daily_drawdown_limit_reached'' @
                      order_reasons,
                    Some \<lparr>am_equity_usd = a2_equity_usd a, am_available_balance_usd = a2_available_balance_usd a,
                      am_total_open_risk_usd = a2_total_open_risk_usd a, am_gross_notional_usd = gross,
                      am_strategy_notional_usd = own_notional\<rparr>))))"

section \<open>The allocation gates\<close>

record allocation_metrics =
  lm_strategy_id :: string
  lm_stable_reserve_fraction :: pyfloat
  lm_strategy_weight :: pyfloat
  lm_max_gross_leverage :: pyfloat

definition strategy_weight_of :: "strategic_allocation \<Rightarrow> string \<Rightarrow> pyfloat" where
  "strategy_weight_of a strategy_id =
     (case map_of (sa_strategy_weights a) strategy_id of Some w \<Rightarrow> w | None \<Rightarrow> Fin 0)"

definition legacy_regime_reasons :: "market_regime \<Rightarrow> side \<Rightarrow> rejection list" where
  "legacy_regime_reasons regime sd =
     (if regime = CHOP then [Reason ''macro_regime_chop'']
      else if regime = BEAR \<and> sd = LONG then [Reason ''macro_regime_forbids_long'']
      else if regime = BULL \<and> sd = SHORT then [Reason ''macro_regime_forbids_short'']
      else [])"

definition allocation_gate ::
    "risk_settings \<Rightarrow> strategic_allocation option \<Rightarrow> string \<Rightarrow> side \<Rightarrow> int \<Rightarrow> bool \<Rightarrow>
     rejection list \<times> allocation_metrics option" where
  "allocation_gate s allocation strategy_id sd decided_at_ms enforce_legacy_regime =
     (case allocation of
        None \<Rightarrow> ([Reason ''strategic_allocation_missing''], None)
      | Some a \<Rightarrow>
         (let aware = is_aware (sa_produced_at a);
              produced_at_ms = (if aware then timestamp_ms (sa_produced_at a) else decided_at_ms + 1);
              age_ms = decided_at_ms - produced_at_ms;
              weight = strategy_weight_of a strategy_id
          in (reason_if (allocation_error a \<noteq> None) ''strategic_allocation_invalid'' @
              reason_if (\<not> aware) ''strategic_allocation_naive_timestamp'' @
              (if age_ms < 0 then [Reason ''strategic_allocation_from_future'']
               else reason_if (rs_strategic_allocation_max_age_s s * Fin 1000 < float_of_int age_ms)
                      ''strategic_allocation_stale'') @
              reason_if (weight \<le> Fin 0) ''strategy_has_no_macro_allocation'' @
              (if enforce_legacy_regime then legacy_regime_reasons (sa_regime a) sd else []),
              Some \<lparr>lm_strategy_id = strategy_id, lm_stable_reserve_fraction = sa_stable_reserve_pct a,
                lm_strategy_weight = weight, lm_max_gross_leverage = sa_max_gross_leverage a\<rparr>)))"

text \<open>
  What the route uses of \<open>kairos_core\<close>: the canonical hash, \<open>model_validate_json\<close> of a
  dumped regime allocation (\<open>None\<close> if it raises), the policy's check of an observation, and
  the validators of \<open>RiskTradeDecisionV1\<close>, which fill in its two identities or raise.
\<close>

record paper_core =
  pc_sha :: sha
  pc_reparse :: "regime_allocation \<Rightarrow> regime_allocation option"
  pc_valid_observation :: "regime_policy \<Rightarrow> regime_observation \<Rightarrow> bool"
  pc_seal :: "risk_decision \<Rightarrow> risk_decision res"

text \<open>\<open>PaperRiskPipeline\<close>: the settings and the policy loaded once from them.\<close>

record paper_pipeline =
  pl_settings :: risk_settings
  pl_regime_policy :: "regime_policy option"

definition regime_binding_ok ::
    "paper_core \<Rightarrow> paper_pipeline \<Rightarrow> strategy_intent \<Rightarrow> account_v2 option \<Rightarrow> int \<Rightarrow> regime_allocation \<Rightarrow> bool" where
  "regime_binding_ok core pl intent account decided_at_ms b =
     (case pl_regime_policy pl of
        None \<Rightarrow> False
      | Some policy \<Rightarrow>
          pc_valid_observation core policy (ra_observation b) \<and>
          ra_policy_sha256 b = rp_policy_sha256 policy \<and>
          ob_intent (ra_observation b) = intent \<and>
          ra_source b = rs_paper_regime_macro_source (pl_settings pl) \<and>
          ra_account_id b = rs_paper_account_id (pl_settings pl) \<and>
          (case account of None \<Rightarrow> False | Some a \<Rightarrow> ra_account_id b = a2_account_id a) \<and>
          ra_account_captured_at_ms b \<le> in_decision_ts_ms intent \<and>
          ra_bound_at_ms b \<le> decided_at_ms \<and> decided_at_ms \<le> ob_expires_at_ms (ra_observation b))"

definition adaptive_allocation_gate ::
    "paper_core \<Rightarrow> paper_pipeline \<Rightarrow> regime_allocation option \<Rightarrow> strategy_intent \<Rightarrow> account_v2 option \<Rightarrow> int \<Rightarrow>
     rejection list \<times> allocation_metrics option" where
  "adaptive_allocation_gate core pl allocation intent account decided_at_ms =
     (case allocation of
        None \<Rightarrow> ([Reason ''regime_bound_allocation_missing''], None)
      | Some given \<Rightarrow>
         (case pc_reparse core given of
            None \<Rightarrow> ([Reason ''regime_bound_allocation_invalid''], None)
          | Some b \<Rightarrow>
              if regime_binding_ok core pl intent account decided_at_ms b
              then allocation_gate (pl_settings pl) (Some (ra_allocation b)) (in_strategy_id intent)
                     (in_side intent) decided_at_ms False
              else ([Reason ''regime_bound_allocation_invalid''], None)))"

section \<open>Size and economics\<close>

definition side_slippage_bps :: "venue_quality \<Rightarrow> side \<Rightarrow> pyfloat" where
  "side_slippage_bps v sd = (if sd = LONG then vq_buy_slippage_bps v else vq_sell_slippage_bps v)"

definition bps :: "pyfloat \<Rightarrow> pyfloat" where
  "bps x = fquot x (Fin 10000)"

definition loss_per_unit :: "venue_quality \<Rightarrow> side \<Rightarrow> pyfloat \<Rightarrow> pyfloat \<Rightarrow> pyfloat" where
  "loss_per_unit v sd stop_price worst_entry =
     \<bar>worst_entry - stop_price\<bar> + bps ((worst_entry + stop_price) * vq_taker_fee_bps v) +
     bps (vq_mid_price v * side_slippage_bps v sd)"

definition notional_caps ::
    "risk_settings \<Rightarrow> venue_quality \<Rightarrow> pyfloat \<Rightarrow> account_metrics \<Rightarrow> allocation_metrics \<Rightarrow> reservations \<Rightarrow>
     pyfloat list" where
  "notional_caps s v leverage am lm r =
     (let reserve_free = am_equity_usd am * (Fin 1 - lm_stable_reserve_fraction lm);
          deployable_equity = pymin (am_available_balance_usd am) reserve_free;
          margin_notional_cap = pymax (Fin 0) (deployable_equity * leverage - pr_notional_usd r);
          gross_cap = reserve_free * lm_max_gross_leverage lm;
          remaining_gross = pymax (Fin 0) (gross_cap - am_gross_notional_usd am - pr_notional_usd r);
          strategy_cap = am_equity_usd am * lm_strategy_weight lm * lm_max_gross_leverage lm;
          remaining_strategy =
            pymax (Fin 0) (strategy_cap - am_strategy_notional_usd am - notional_for_strategy r (lm_strategy_id lm))
      in [rs_paper_max_position_notional_usd s, vq_assessed_notional_usd v, vq_depth_usd v,
          margin_notional_cap, remaining_gross, remaining_strategy])"

fun pymin_list :: "pyfloat list \<Rightarrow> pyfloat" where
  "pymin_list [] = NaN"
| "pymin_list (x # xs) = foldl pymin x xs"

definition size_quantity ::
    "risk_settings \<Rightarrow> venue_quality \<Rightarrow> side \<Rightarrow> pyfloat \<Rightarrow> pyfloat \<Rightarrow> pyfloat \<Rightarrow> pyfloat \<Rightarrow>
     account_metrics \<Rightarrow> allocation_metrics \<Rightarrow> reservations \<Rightarrow> pyfloat res" where
  "size_quantity s v sd stop_price worst_entry loss_budget leverage am lm r =
     (let unit = loss_per_unit v sd stop_price worst_entry in
      if \<not> isfinite unit \<or> unit \<le> Fin 0 \<or> loss_budget \<le> Fin 0 then Inr (Fin 0)
      else
        (let risk_quantity = fquot loss_budget unit;
             notional_cap = pymin_list (notional_caps s v leverage am lm r)
         in if \<not> isfinite notional_cap \<or> notional_cap \<le> Fin 0 then Inr (Fin 0)
            else case py_div notional_cap worst_entry of
              Inl e \<Rightarrow> Inl e
            | Inr cap_quantity \<Rightarrow> Inr (pymax (Fin 0) (pymin risk_quantity cap_quantity))))"

text \<open>Fees, slippage, and the loss at the stop with both.\<close>

definition economics :: "venue_quality \<Rightarrow> side \<Rightarrow> pyfloat \<Rightarrow> pyfloat \<Rightarrow> pyfloat \<Rightarrow> pyfloat \<times> pyfloat \<times> pyfloat" where
  "economics v sd stop_price worst_entry quantity =
     (let fees = bps (quantity * (worst_entry + stop_price) * vq_taker_fee_bps v);
          slippage = bps (quantity * vq_mid_price v * side_slippage_bps v sd)
      in (fees, slippage, quantity * \<bar>worst_entry - stop_price\<bar> + fees + slippage))"

section \<open>The decision\<close>

definition expected_symbol :: "strategy_intent \<Rightarrow> string option" where
  "expected_symbol intent = map_of PAPER_DEV_SYMBOL_MAP (in_symbol intent)"

definition review_reasons :: "risk_settings \<Rightarrow> candidate_review \<Rightarrow> system_mode \<Rightarrow> int \<Rightarrow> rejection list" where
  "review_reasons s review mode decided_at_ms =
     (let intent = cr_intent review in
      reason_if (rt_intent (cr_route review) \<noteq> intent) ''immutable_intent_mismatch'' @
      reason_if (in_contract_version intent = ''strategy-intent.observed-sim.v2'') ''SIM_ONLY_INTENT'' @
      (if cr_decision review \<noteq> ALLOW then [ReviewReason (cr_decision review)] else []) @
      reason_if (\<not> paper_strategy_allowed s (in_strategy_id intent) (in_strategy_revision intent))
        ''strategy_not_paper_approved'' @
      (if mode \<noteq> NORMAL then [ModeReason mode] else []) @
      reason_if (decided_at_ms < cr_reviewed_at_ms review) ''decision_clock_precedes_review'' @
      reason_if (decided_at_ms < in_entry_eligible_ts_ms intent) ''candidate_not_yet_eligible'' @
      reason_if (in_entry_expires_ts_ms intent < decided_at_ms) ''candidate_expired'')"

definition venue_reasons :: "strategy_intent \<Rightarrow> venue_quality \<Rightarrow> int \<Rightarrow> rejection list" where
  "venue_reasons intent v decided_at_ms =
     (case expected_symbol intent of
        None \<Rightarrow> [Reason ''unsupported_signal_symbol'']
      | Some symbol \<Rightarrow> reason_if (vq_symbol v \<noteq> symbol) ''venue_symbol_mismatch'') @
     reason_if (decided_at_ms < vq_observed_at_ms v) ''venue_observation_from_future'' @
     reason_if (vq_expires_at_ms v < decided_at_ms) ''venue_quality_stale'' @
     (if vq_entry_allowed v then [] else Reason ''venue_entry_blocked'' # map VenueReason (vq_reason_codes v))"

definition worst_entry_price :: "strategy_intent \<Rightarrow> venue_quality \<Rightarrow> pyfloat" where
  "worst_entry_price intent v = (if in_side intent = LONG then vq_best_ask v else vq_best_bid v)"

definition geometry_reasons :: "strategy_intent \<Rightarrow> venue_quality \<Rightarrow> rejection list" where
  "geometry_reasons intent v =
     (let entry = worst_entry_price intent v; stop = xp_stop_price (in_exit_plan intent);
          target = xp_target_price (in_exit_plan intent)
      in if in_side intent = LONG \<and> \<not> (stop < entry \<and> entry < target)
         then [Reason ''long_entry_exit_geometry_invalid'']
         else if in_side intent = SHORT \<and> \<not> (target < entry \<and> entry < stop)
         then [Reason ''short_entry_exit_geometry_invalid''] else [])"

text \<open>The loss budget, the leverage, and the reasons both can add.\<close>

definition budget ::
    "risk_settings \<Rightarrow> account_metrics option \<Rightarrow> allocation_metrics option \<Rightarrow> reservations \<Rightarrow>
     pyfloat \<times> pyfloat \<times> rejection list" where
  "budget s account allocation r =
     (case (account, allocation) of
        (Some am, Some lm) \<Rightarrow>
          (let remaining = pymax (Fin 0)
                 (am_equity_usd am * rs_paper_max_total_open_risk_fraction s - am_total_open_risk_usd am -
                  pr_open_risk_usd r);
               loss_budget = pymin (am_equity_usd am * rs_paper_per_trade_risk_fraction s) remaining;
               leverage = pymin (rs_paper_max_leverage s) (lm_max_gross_leverage lm)
           in (loss_budget, if leverage < Fin 1 then Fin 1 else leverage,
               reason_if (loss_budget \<le> Fin 0) ''portfolio_open_risk_limit_exhausted'' @
               reason_if (leverage < Fin 1) ''macro_leverage_below_one''))
      | _ \<Rightarrow> (Fin 0, Fin 1, []))"

text \<open>\<open>math.isclose(a, b, rel_tol=0, abs_tol=tol)\<close>.\<close>

definition isclose_abs :: "pyfloat \<Rightarrow> pyfloat \<Rightarrow> pyfloat \<Rightarrow> bool" where
  "isclose_abs a b tol \<longleftrightarrow> feq a b \<or> (isfinite a \<and> isfinite b \<and> \<bar>b - a\<bar> \<le> tol)"

definition canary_quantity ::
    "paper_core \<Rightarrow> risk_settings \<Rightarrow> strategy_intent \<Rightarrow> pyfloat \<Rightarrow> pyfloat \<Rightarrow> pyfloat \<Rightarrow>
     (pyfloat \<times> rejection list) res" where
  "canary_quantity core s intent worst_entry leverage capacity =
     (case bound_canary_quantity (pc_sha core) intent (rs_paper_account_id s) worst_entry of
        Inl (ValueError _) \<Rightarrow> Inr (Fin 0, [Reason ''canary_instrument_binding_invalid''])
      | Inl e \<Rightarrow> Inl e
      | Inr required \<Rightarrow>
          if \<not> isclose_abs leverage (Fin 1) pico then Inr (Fin 0, [Reason ''canary_leverage_must_equal_one''])
          else if capacity + pico < required
          then Inr (Fin 0, [Reason ''canary_minimum_exceeds_risk_capacity''])
          else Inr (required, []))"

definition min_notional_check :: "risk_settings \<Rightarrow> pyfloat \<Rightarrow> pyfloat \<Rightarrow> pyfloat \<times> rejection list" where
  "min_notional_check s worst_entry quantity =
     (if quantity \<le> Fin 0 then (quantity, [Reason ''position_capacity_exhausted''])
      else if quantity * worst_entry + nano < rs_paper_min_notional_usd s
      then (Fin 0, [Reason ''position_below_minimum_notional''])
      else (quantity, []))"

definition size_candidate ::
    "paper_core \<Rightarrow> risk_settings \<Rightarrow> strategy_intent \<Rightarrow> venue_quality \<Rightarrow> pyfloat \<Rightarrow> pyfloat \<Rightarrow>
     account_metrics \<Rightarrow> allocation_metrics \<Rightarrow> reservations \<Rightarrow> (pyfloat \<times> rejection list) res" where
  "size_candidate core s intent v loss_budget leverage am lm r =
     (let entry = worst_entry_price intent v in
      case size_quantity s v (in_side intent) (xp_stop_price (in_exit_plan intent)) entry loss_budget leverage am lm r of
        Inl e \<Rightarrow> Inl e
      | Inr capacity \<Rightarrow>
         (case (if in_strategy_id intent = PAPER_CANARY_STRATEGY_ID
                then canary_quantity core s intent entry leverage capacity else Inr (capacity, [])) of
            Inl e \<Rightarrow> Inl e
          | Inr (quantity, reasons) \<Rightarrow>
             (case min_notional_check s entry quantity of
                (quantity, extra) \<Rightarrow> Inr (quantity, reasons @ extra))))"

definition is_adaptive :: "paper_pipeline \<Rightarrow> strategy_intent \<Rightarrow> bool" where
  "is_adaptive pl intent \<longleftrightarrow>
     pl_regime_policy pl \<noteq> None \<and> in_strategy_id intent \<noteq> PAPER_CANARY_STRATEGY_ID"

definition allocation_reasons ::
    "paper_core \<Rightarrow> paper_pipeline \<Rightarrow> strategy_intent \<Rightarrow> account_v2 option \<Rightarrow> strategic_allocation option \<Rightarrow>
     regime_allocation option \<Rightarrow> int \<Rightarrow> rejection list \<times> allocation_metrics option" where
  "allocation_reasons core pl intent account allocation regime_binding decided_at_ms =
     (if is_adaptive pl intent
      then adaptive_allocation_gate core pl regime_binding intent account decided_at_ms
      else allocation_gate (pl_settings pl) allocation (in_strategy_id intent) (in_side intent) decided_at_ms True)"

text \<open>What the gates say before anything is sized, with the budget and the metrics.\<close>

record gate_result =
  gr_reasons :: "rejection list"
  gr_allocation_reasons :: "rejection list"
  gr_loss_budget :: pyfloat
  gr_leverage :: pyfloat
  gr_account :: "account_metrics option"
  gr_allocation :: "allocation_metrics option"

text \<open>The inputs of \<open>PaperRiskPipeline.evaluate\<close>.\<close>

record paper_case =
  pk_review :: candidate_review
  pk_venue :: venue_quality
  pk_account :: "account_v2 option"
  pk_allocation :: "strategic_allocation option"
  pk_decided_at_ms :: int
  pk_mode :: system_mode
  pk_reservations :: reservations
  pk_admission :: "string list"
  pk_regime :: "regime_allocation option"

text \<open>\<open>list(dict.fromkeys(xs))\<close> keeps the first of equal elements.\<close>

definition unique_in_order :: "'a list \<Rightarrow> 'a list" where
  "unique_in_order xs = rev (remdups (rev xs))"

definition run_gates :: "paper_core \<Rightarrow> paper_pipeline \<Rightarrow> paper_case \<Rightarrow> gate_result res" where
  "run_gates core pl k =
     (let s = pl_settings pl; review = pk_review k; intent = cr_intent review; v = pk_venue k;
          now = pk_decided_at_ms k
      in case account_gate s (pk_account k) (vq_symbol v) (in_strategy_id intent) now (pk_reservations k) of
           Inl e \<Rightarrow> Inl e
         | Inr (account_reasons, am) \<Rightarrow>
             (let (lm_reasons, lm) =
                    allocation_reasons core pl intent (pk_account k) (pk_allocation k) (pk_regime k) now;
                  (loss_budget, leverage, budget_reasons) = budget s am lm (pk_reservations k)
              in Inr \<lparr>gr_reasons = map Reason (unique_in_order (pk_admission k)) @
                     review_reasons s review (pk_mode k) now @ venue_reasons intent v now @
                     account_reasons @ lm_reasons @ geometry_reasons intent v @ budget_reasons,
                   gr_allocation_reasons = lm_reasons, gr_loss_budget = loss_budget, gr_leverage = leverage,
                   gr_account = am, gr_allocation = lm\<rparr>))"

definition sized ::
    "paper_core \<Rightarrow> paper_pipeline \<Rightarrow> paper_case \<Rightarrow> gate_result \<Rightarrow> (pyfloat \<times> rejection list) res" where
  "sized core pl k g =
     (if gr_reasons g = []
      then case (gr_account g, gr_allocation g) of
        (Some am, Some lm) \<Rightarrow>
          size_candidate core (pl_settings pl) (cr_intent (pk_review k)) (pk_venue k) (gr_loss_budget g)
            (gr_leverage g) am lm (pk_reservations k)
      | _ \<Rightarrow> Inr (Fin 0, [])
      else Inr (Fin 0, []))"

definition causation_of :: "paper_pipeline \<Rightarrow> paper_case \<Rightarrow> gate_result \<Rightarrow> string" where
  "causation_of pl k g =
     (case pk_regime k of
        Some b \<Rightarrow>
          if is_adaptive pl (cr_intent (pk_review k)) \<and> gr_allocation_reasons g = []
          then ra_message_id b else cr_message_id (pk_review k)
      | None \<Rightarrow> cr_message_id (pk_review k))"

text \<open>
  The last check: a loss above the budget becomes a rejection, and a rejection carries no
  quantity and no cost.
\<close>

definition settle ::
    "paper_case \<Rightarrow> gate_result \<Rightarrow> pyfloat \<Rightarrow> rejection list \<Rightarrow>
     rejection list \<times> pyfloat \<times> pyfloat \<times> pyfloat \<times> pyfloat" where
  "settle k g quantity reasons =
     (let intent = cr_intent (pk_review k); v = pk_venue k;
          (fees, slippage, loss) =
            economics v (in_side intent) (xp_stop_price (in_exit_plan intent)) (worst_entry_price intent v) quantity
      in if gr_loss_budget g + micro < loss
         then (reasons @ [Reason ''computed_loss_exceeds_budget''], Fin 0, Fin 0, Fin 0, Fin 0)
         else if reasons \<noteq> [] \<and> quantity \<noteq> Fin 0 then (reasons, Fin 0, Fin 0, Fin 0, Fin 0)
         else (reasons, quantity, fees, slippage, loss))"

definition draft_decision ::
    "paper_pipeline \<Rightarrow> paper_case \<Rightarrow> gate_result \<Rightarrow> pyfloat \<Rightarrow> rejection list \<Rightarrow> risk_decision" where
  "draft_decision pl k g quantity reasons =
     (let s = pl_settings pl; review = pk_review k; intent = cr_intent review; v = pk_venue k;
          entry = worst_entry_price intent v;
          (reasons, quantity, fees, slippage, loss) = settle k g quantity reasons
      in \<lparr>rd_source = rs_service_name s, rd_correlation_id = in_intent_id intent,
          rd_causation_id = causation_of pl k g, rd_intent = intent, rd_review = review, rd_venue_quality = v,
          rd_approved = (reasons = []), rd_rejection_reasons = reasons,
          rd_decided_at_ms = max (pk_decided_at_ms k) (cr_reviewed_at_ms review),
          rd_trading_mode = PAPER, rd_evedex_profile = DEV, rd_account_id = rs_paper_account_id s,
          rd_venue_symbol = vq_symbol v, rd_quantity = quantity, rd_leverage = gr_leverage g,
          rd_notional_usd = quantity * entry, rd_loss_budget_usd = gr_loss_budget g,
          rd_worst_case_loss_usd = loss, rd_worst_entry_price = entry, rd_estimated_fees_usd = fees,
          rd_estimated_slippage_usd = slippage, rd_exit_plan = in_exit_plan intent,
          rd_decision_id = None, rd_trade_id = None\<rparr>)"

definition evaluate_paper :: "paper_core \<Rightarrow> paper_pipeline \<Rightarrow> paper_case \<Rightarrow> risk_decision res" where
  "evaluate_paper core pl k =
     (if pk_decided_at_ms k < 0 then Inl (ValueError ''decided_at_ms must be a non-negative integer'')
      else if vq_profile (pk_venue k) \<noteq> DEV
      then Inl (ValueError ''PAPER risk accepts only EVEDEX DEV venue measurements'')
      else if \<exists>reason \<in> set (pk_admission k). \<not> normalized reason
      then Inl (ValueError ''admission rejection reasons must be normalized non-empty strings'')
      else case run_gates core pl k of
        Inl e \<Rightarrow> Inl e
      | Inr g \<Rightarrow>
         (case sized core pl k g of
            Inl e \<Rightarrow> Inl e
          | Inr (quantity, size_reasons) \<Rightarrow>
              pc_seal core (draft_decision pl k g quantity (gr_reasons g @ size_reasons))))"

section \<open>What an approval implies\<close>

text \<open>
  The contract's validators may refuse a decision; one they let through differs from the draft
  in its two identities only.
\<close>

definition seal_keeps :: "paper_core \<Rightarrow> bool" where
  "seal_keeps core \<longleftrightarrow>
     (\<forall>d d'. pc_seal core d = Inr d' \<longrightarrow>
        d' = d\<lparr>rd_decision_id := rd_decision_id d', rd_trade_id := rd_trade_id d'\<rparr>)"

lemma reason_if_Nil [simp]: "reason_if c t = [] \<longleftrightarrow> \<not> c"
  by (simp add: reason_if_def)

lemma seal_keepsD:
  assumes "seal_keeps core" "pc_seal core d = Inr d'"
  shows "rd_approved d' = rd_approved d" "rd_rejection_reasons d' = rd_rejection_reasons d"
    "rd_quantity d' = rd_quantity d" "rd_leverage d' = rd_leverage d" "rd_notional_usd d' = rd_notional_usd d"
    "rd_loss_budget_usd d' = rd_loss_budget_usd d" "rd_worst_case_loss_usd d' = rd_worst_case_loss_usd d"
    "rd_worst_entry_price d' = rd_worst_entry_price d" "rd_intent d' = rd_intent d" "rd_review d' = rd_review d"
    "rd_venue_symbol d' = rd_venue_symbol d" "rd_account_id d' = rd_account_id d"
    "rd_trading_mode d' = rd_trading_mode d" "rd_evedex_profile d' = rd_evedex_profile d"
    "rd_exit_plan d' = rd_exit_plan d" "rd_decided_at_ms d' = rd_decided_at_ms d"
proof -
  have "d' = d\<lparr>rd_decision_id := rd_decision_id d', rd_trade_id := rd_trade_id d'\<rparr>"
    using assms by (auto simp: seal_keeps_def)
  then obtain x y where "d' = d\<lparr>rd_decision_id := x, rd_trade_id := y\<rparr>" by blast
  then show "rd_approved d' = rd_approved d" "rd_rejection_reasons d' = rd_rejection_reasons d"
    "rd_quantity d' = rd_quantity d" "rd_leverage d' = rd_leverage d" "rd_notional_usd d' = rd_notional_usd d"
    "rd_loss_budget_usd d' = rd_loss_budget_usd d" "rd_worst_case_loss_usd d' = rd_worst_case_loss_usd d"
    "rd_worst_entry_price d' = rd_worst_entry_price d" "rd_intent d' = rd_intent d" "rd_review d' = rd_review d"
    "rd_venue_symbol d' = rd_venue_symbol d" "rd_account_id d' = rd_account_id d"
    "rd_trading_mode d' = rd_trading_mode d" "rd_evedex_profile d' = rd_evedex_profile d"
    "rd_exit_plan d' = rd_exit_plan d" "rd_decided_at_ms d' = rd_decided_at_ms d"
    by simp_all
qed

lemma evaluate_paper_Inr:
  assumes "evaluate_paper core pl k = Inr d"
  obtains g q rs where "run_gates core pl k = Inr g" "sized core pl k g = Inr (q, rs)"
    "pc_seal core (draft_decision pl k g q (gr_reasons g @ rs)) = Inr d"
    "0 \<le> pk_decided_at_ms k" "vq_profile (pk_venue k) = DEV" "\<forall>reason \<in> set (pk_admission k). normalized reason"
  using assms by (auto simp: evaluate_paper_def split: if_split_asm sum.splits prod.splits)

lemma draft_decision_simps:
  assumes "settle k g q rs = (rs', q', fees, slippage, loss)"
  shows "rd_approved (draft_decision pl k g q rs) = (rs' = [])"
    "rd_rejection_reasons (draft_decision pl k g q rs) = rs'"
    "rd_quantity (draft_decision pl k g q rs) = q'"
    "rd_leverage (draft_decision pl k g q rs) = gr_leverage g"
    "rd_notional_usd (draft_decision pl k g q rs) = q' * worst_entry_price (cr_intent (pk_review k)) (pk_venue k)"
    "rd_loss_budget_usd (draft_decision pl k g q rs) = gr_loss_budget g"
    "rd_worst_case_loss_usd (draft_decision pl k g q rs) = loss"
    "rd_worst_entry_price (draft_decision pl k g q rs) = worst_entry_price (cr_intent (pk_review k)) (pk_venue k)"
    "rd_intent (draft_decision pl k g q rs) = cr_intent (pk_review k)"
    "rd_review (draft_decision pl k g q rs) = pk_review k"
    "rd_venue_symbol (draft_decision pl k g q rs) = vq_symbol (pk_venue k)"
    "rd_account_id (draft_decision pl k g q rs) = rs_paper_account_id (pl_settings pl)"
    "rd_trading_mode (draft_decision pl k g q rs) = PAPER"
    "rd_evedex_profile (draft_decision pl k g q rs) = DEV"
    "rd_exit_plan (draft_decision pl k g q rs) = in_exit_plan (cr_intent (pk_review k))"
  by (simp_all add: draft_decision_def Let_def assms)

lemma settle_cases:
  obtains (over) "settle k g q rs = (rs @ [Reason ''computed_loss_exceeds_budget''], Fin 0, Fin 0, Fin 0, Fin 0)"
  | (refused) "settle k g q rs = (rs, Fin 0, Fin 0, Fin 0, Fin 0)" "rs \<noteq> []"
  | (kept) fees slippage loss where "settle k g q rs = (rs, q, fees, slippage, loss)" "rs = [] \<or> q = Fin 0"
      "(fees, slippage, loss) =
         economics (pk_venue k) (in_side (cr_intent (pk_review k)))
           (xp_stop_price (in_exit_plan (cr_intent (pk_review k))))
           (worst_entry_price (cr_intent (pk_review k)) (pk_venue k)) q"
      "\<not> gr_loss_budget g + micro < loss"
proof -
  obtain fees slippage loss where e: "economics (pk_venue k) (in_side (cr_intent (pk_review k)))
           (xp_stop_price (in_exit_plan (cr_intent (pk_review k))))
           (worst_entry_price (cr_intent (pk_review k)) (pk_venue k)) q = (fees, slippage, loss)"
    by (rule prod_cases3)
  have s: "settle k g q rs =
      (if gr_loss_budget g + micro < loss
       then (rs @ [Reason ''computed_loss_exceeds_budget''], Fin 0, Fin 0, Fin 0, Fin 0)
       else if rs \<noteq> [] \<and> q \<noteq> Fin 0 then (rs, Fin 0, Fin 0, Fin 0, Fin 0) else (rs, q, fees, slippage, loss))"
    by (simp add: settle_def Let_def e)
  show ?thesis
  proof (cases "gr_loss_budget g + micro < loss")
    case False
    then show ?thesis using s e kept refused by (cases "rs \<noteq> [] \<and> q \<noteq> Fin 0") auto
  qed (use s over in simp)
qed

lemma evaluate_paper_approvedE:
  assumes "seal_keeps core" "evaluate_paper core pl k = Inr d" "rd_approved d"
  obtains g q fees slippage loss where "run_gates core pl k = Inr g" "gr_reasons g = []"
    "sized core pl k g = Inr (q, [])"
    "(fees, slippage, loss) =
       economics (pk_venue k) (in_side (cr_intent (pk_review k)))
         (xp_stop_price (in_exit_plan (cr_intent (pk_review k))))
         (worst_entry_price (cr_intent (pk_review k)) (pk_venue k)) q"
    "\<not> gr_loss_budget g + micro < loss"
    "rd_quantity d = q" "rd_worst_case_loss_usd d = loss" "rd_loss_budget_usd d = gr_loss_budget g"
    "rd_leverage d = gr_leverage g"
    "rd_notional_usd d = q * worst_entry_price (cr_intent (pk_review k)) (pk_venue k)"
    "rd_venue_symbol d = vq_symbol (pk_venue k)" "rd_intent d = cr_intent (pk_review k)"
    "vq_profile (pk_venue k) = DEV"
proof -
  obtain g q rs where *: "run_gates core pl k = Inr g" "sized core pl k g = Inr (q, rs)"
    "pc_seal core (draft_decision pl k g q (gr_reasons g @ rs)) = Inr d" "vq_profile (pk_venue k) = DEV"
    using assms(2) by (rule evaluate_paper_Inr)
  note seal = seal_keepsD [OF assms(1) *(3)]
  show ?thesis
  proof (rule settle_cases [of k g q "gr_reasons g @ rs"])
    fix fees slippage loss
    assume s: "settle k g q (gr_reasons g @ rs) = (gr_reasons g @ rs, q, fees, slippage, loss)"
      and e: "(fees, slippage, loss) = economics (pk_venue k) (in_side (cr_intent (pk_review k)))
           (xp_stop_price (in_exit_plan (cr_intent (pk_review k))))
           (worst_entry_price (cr_intent (pk_review k)) (pk_venue k)) q"
      and l: "\<not> gr_loss_budget g + micro < loss"
    note draft = draft_decision_simps [OF s]
    have "gr_reasons g = []" "rs = []" using assms(3) seal(1) draft(1) by auto
    then show ?thesis
      using that [of g q fees slippage loss] * e l seal draft by simp
  qed (use assms(3) seal(1) draft_decision_simps(1) in auto)
qed

lemma run_gates_Inr:
  assumes "run_gates core pl k = Inr g"
  obtains ar am lr lm b lev br where
    "account_gate (pl_settings pl) (pk_account k) (vq_symbol (pk_venue k)) (in_strategy_id (cr_intent (pk_review k)))
       (pk_decided_at_ms k) (pk_reservations k) = Inr (ar, am)"
    "allocation_reasons core pl (cr_intent (pk_review k)) (pk_account k) (pk_allocation k) (pk_regime k)
       (pk_decided_at_ms k) = (lr, lm)"
    "budget (pl_settings pl) am lm (pk_reservations k) = (b, lev, br)"
    "gr_reasons g = map Reason (unique_in_order (pk_admission k)) @
       review_reasons (pl_settings pl) (pk_review k) (pk_mode k) (pk_decided_at_ms k) @
       venue_reasons (cr_intent (pk_review k)) (pk_venue k) (pk_decided_at_ms k) @ ar @ lr @
       geometry_reasons (cr_intent (pk_review k)) (pk_venue k) @ br"
    "gr_allocation_reasons g = lr" "gr_loss_budget g = b" "gr_leverage g = lev" "gr_account g = am" "gr_allocation g = lm"
proof -
  obtain ar am where a: "account_gate (pl_settings pl) (pk_account k) (vq_symbol (pk_venue k))
      (in_strategy_id (cr_intent (pk_review k))) (pk_decided_at_ms k) (pk_reservations k) = Inr (ar, am)"
    using assms by (auto simp: run_gates_def Let_def split: sum.splits)
  obtain lr lm where l: "allocation_reasons core pl (cr_intent (pk_review k)) (pk_account k) (pk_allocation k)
      (pk_regime k) (pk_decided_at_ms k) = (lr, lm)" by force
  obtain b lev br where b: "budget (pl_settings pl) am lm (pk_reservations k) = (b, lev, br)" by (rule prod_cases3)
  show ?thesis using assms by (intro that [OF a l b]) (auto simp: run_gates_def Let_def a l b)
qed

lemma unique_in_order_Nil [simp]: "unique_in_order xs = [] \<longleftrightarrow> xs = []"
  by (simp add: unique_in_order_def)

lemma order_step_fold:
  "fst (foldl (order_step strategy_id) acc ords) = [] \<Longrightarrow>
     fst acc = [] \<and> (\<forall>ord \<in> set ords. o2_order_role ord \<noteq> ENTRY)"
proof (induction ords arbitrary: acc)
  case (Cons ord ords)
  obtain rs gross own where acc: "acc = (rs, gross, own)" by (rule prod_cases3)
  have "fst (order_step strategy_id acc ord) = []" "\<forall>ord \<in> set ords. o2_order_role ord \<noteq> ENTRY"
    using Cons.IH [of "order_step strategy_id acc ord"] Cons.prems by simp_all
  then show ?case by (auto simp: order_step_def acc Let_def split: if_split_asm option.splits)
qed simp

text \<open>The account as an approval needs it.\<close>

definition admissible_account ::
    "risk_settings \<Rightarrow> account_v2 \<Rightarrow> string \<Rightarrow> string \<Rightarrow> int \<Rightarrow> reservations \<Rightarrow> bool" where
  "admissible_account s a venue_symbol strategy_id now r \<longleftrightarrow>
     a2_trading_mode a = PAPER \<and> a2_evedex_profile a = DEV \<and> a2_account_id a = rs_paper_account_id s \<and>
     a2_reconciled a \<and> 0 < a2_reconciliation_seq a \<and> a2_captured_at_ms a \<le> now \<and>
     \<not> rs_paper_account_snapshot_max_age_s s * Fin 1000 < float_of_int (now - a2_captured_at_ms a) \<and>
     venue_symbol \<notin> pr_symbols r \<and>
     (\<forall>p \<in> set (a2_positions a). ln_venue_symbol (p2_lineage p) \<noteq> venue_symbol) \<and>
     (\<forall>ord \<in> set (a2_open_orders a). ln_venue_symbol (o2_lineage ord) \<noteq> venue_symbol \<and> o2_order_role ord \<noteq> ENTRY) \<and>
     (strategy_id = PAPER_CANARY_STRATEGY_ID \<longrightarrow>
        int (card (active_canary_trades a)) + pr_active_canary_ideas r \<le> 0) \<and>
     \<not> a2_total_open_risk_usd a + micro < fsum (map position_stop_risk (a2_positions a)) \<and>
     \<not> a2_equity_usd a * rs_paper_max_total_open_risk_fraction s - nano
        \<le> a2_total_open_risk_usd a + pr_open_risk_usd r \<and>
     (\<exists>drawdown. paper_drawdown a = Inr drawdown \<and> \<not> rs_max_daily_drawdown_pct s \<le> drawdown * Fin 100)"

lemma account_gate_clear:
  assumes "account_gate s account symbol sid now r = Inr ([], am)"
  obtains a m where "account = Some a" "am = Some m" "admissible_account s a symbol sid now r"
    "am_equity_usd m = a2_equity_usd a" "am_available_balance_usd m = a2_available_balance_usd a"
    "am_total_open_risk_usd m = a2_total_open_risk_usd a"
proof -
  obtain a where a: "account = Some a" using assms by (cases account) (auto simp: account_gate_def)
  obtain dd where dd: "paper_drawdown a = Inr dd"
    using assms a by (auto simp: account_gate_def split: sum.splits)
  let ?own = "filter (\<lambda>p. ln_strategy_id (p2_lineage p) = sid) (a2_positions a)"
  obtain ors gross own where fold: "foldl (order_step sid)
      ([], fsum (map position_notional_v2 (a2_positions a)), fsum (map position_notional_v2 ?own))
      (a2_open_orders a) = (ors, gross, own)" by (rule prod_cases3)
  have gate: "account_facts s a now @ symbol_exclusivity a symbol r @ canary_limit a sid r @ open_risk_limit s a r @
      reason_if (rs_max_daily_drawdown_pct s \<le> dd * Fin 100) ''daily_drawdown_limit_reached'' @ ors = []"
    and am: "am = Some \<lparr>am_equity_usd = a2_equity_usd a, am_available_balance_usd = a2_available_balance_usd a,
                am_total_open_risk_usd = a2_total_open_risk_usd a, am_gross_notional_usd = gross,
                am_strategy_notional_usd = own\<rparr>"
    using assms a dd fold by (simp_all add: account_gate_def)
  have "\<forall>ord \<in> set (a2_open_orders a). o2_order_role ord \<noteq> ENTRY"
    using order_step_fold [of sid _ "a2_open_orders a"] fold gate by (metis append_is_Nil_conv fst_conv)
  then have "admissible_account s a symbol sid now r"
    using gate dd
    by (auto simp: admissible_account_def account_facts_def symbol_exclusivity_def canary_limit_def open_risk_limit_def
        Let_def not_le not_less split: if_split_asm)
  then show ?thesis using that [OF a am] by simp
qed

text \<open>The allocation that the gate judged.\<close>

definition used_allocation :: "paper_core \<Rightarrow> paper_pipeline \<Rightarrow> paper_case \<Rightarrow> strategic_allocation option" where
  "used_allocation core pl k =
     (if is_adaptive pl (cr_intent (pk_review k))
      then (case pk_regime k of
          None \<Rightarrow> None
        | Some given \<Rightarrow>
           (case pc_reparse core given of
              None \<Rightarrow> None
            | Some b \<Rightarrow>
                if regime_binding_ok core pl (cr_intent (pk_review k)) (pk_account k) (pk_decided_at_ms k) b
                then Some (ra_allocation b) else None))
      else pk_allocation k)"

definition admissible_allocation ::
    "risk_settings \<Rightarrow> strategic_allocation \<Rightarrow> string \<Rightarrow> side \<Rightarrow> int \<Rightarrow> bool \<Rightarrow> bool" where
  "admissible_allocation s a sid sd now legacy \<longleftrightarrow>
     allocation_error a = None \<and> is_aware (sa_produced_at a) \<and> timestamp_ms (sa_produced_at a) \<le> now \<and>
     \<not> rs_strategic_allocation_max_age_s s * Fin 1000 < float_of_int (now - timestamp_ms (sa_produced_at a)) \<and>
     \<not> strategy_weight_of a sid \<le> Fin 0 \<and>
     (legacy \<longrightarrow> sa_regime a \<noteq> CHOP \<and> \<not> (sa_regime a = BEAR \<and> sd = LONG) \<and> \<not> (sa_regime a = BULL \<and> sd = SHORT))"

lemma allocation_gate_clear:
  assumes "allocation_gate s allocation sid sd now legacy = ([], lm)"
  shows "\<exists>a. allocation = Some a \<and> admissible_allocation s a sid sd now legacy \<and>
    lm = Some \<lparr>lm_strategy_id = sid, lm_stable_reserve_fraction = sa_stable_reserve_pct a,
           lm_strategy_weight = strategy_weight_of a sid, lm_max_gross_leverage = sa_max_gross_leverage a\<rparr>"
  using assms
  by (auto simp: allocation_gate_def admissible_allocation_def legacy_regime_reasons_def Let_def not_less
      split: option.splits if_split_asm)

lemma allocation_reasons_clear:
  assumes "allocation_reasons core pl (cr_intent (pk_review k)) (pk_account k) (pk_allocation k) (pk_regime k)
      (pk_decided_at_ms k) = ([], lm)"
  shows "\<exists>a. used_allocation core pl k = Some a \<and>
    admissible_allocation (pl_settings pl) a (in_strategy_id (cr_intent (pk_review k)))
      (in_side (cr_intent (pk_review k))) (pk_decided_at_ms k) (\<not> is_adaptive pl (cr_intent (pk_review k))) \<and>
    lm = Some \<lparr>lm_strategy_id = in_strategy_id (cr_intent (pk_review k)),
           lm_stable_reserve_fraction = sa_stable_reserve_pct a,
           lm_strategy_weight = strategy_weight_of a (in_strategy_id (cr_intent (pk_review k))),
           lm_max_gross_leverage = sa_max_gross_leverage a\<rparr>"
  using assms
  by (auto simp: allocation_reasons_def adaptive_allocation_gate_def used_allocation_def
      dest!: allocation_gate_clear split: option.splits if_split_asm)

text \<open>
  C3. An approved PAPER trade passed every gate. Nothing outside the route objected; the review
  allows the very intent it was routed with, which is no simulation-only intent; the strategy
  revision is allowlisted and the mode is NORMAL; the decision lies after the review, inside the
  intent's entry window and inside the life of a DEV venue measurement of the mapped instrument
  that allows entry; the account is the configured one, reconciled, fresh, below its drawdown
  and open-risk limits, with no pending entry order at all and nothing held, ordered or reserved
  in that instrument (nor any other canary, for a canary); the allocation is sane, fresh, gives
  the strategy weight and, on the legacy profile, its regime permits the side; and the entry
  price lies between stop and target.
\<close>

theorem approved_paper_trade_passed_every_gate:
  assumes "seal_keeps core" "evaluate_paper core pl k = Inr d" "rd_approved d"
  shows "let review = pk_review k; intent = cr_intent review; v = pk_venue k; s = pl_settings pl;
      now = pk_decided_at_ms k; entry = worst_entry_price intent v;
      stop = xp_stop_price (in_exit_plan intent); target = xp_target_price (in_exit_plan intent)
    in pk_admission k = [] \<and> cr_decision review = ALLOW \<and> rt_intent (cr_route review) = intent \<and>
      in_contract_version intent \<noteq> ''strategy-intent.observed-sim.v2'' \<and>
      paper_strategy_allowed s (in_strategy_id intent) (in_strategy_revision intent) \<and> pk_mode k = NORMAL \<and>
      cr_reviewed_at_ms review \<le> now \<and> in_entry_eligible_ts_ms intent \<le> now \<and> now \<le> in_entry_expires_ts_ms intent \<and>
      vq_profile v = DEV \<and> expected_symbol intent = Some (vq_symbol v) \<and> vq_entry_allowed v \<and>
      vq_observed_at_ms v \<le> now \<and> now \<le> vq_expires_at_ms v \<and>
      (\<exists>a. pk_account k = Some a \<and>
         admissible_account s a (vq_symbol v) (in_strategy_id intent) now (pk_reservations k)) \<and>
      (\<exists>a. used_allocation core pl k = Some a \<and>
         admissible_allocation s a (in_strategy_id intent) (in_side intent) now (\<not> is_adaptive pl intent)) \<and>
      (in_side intent = LONG \<longrightarrow> stop < entry \<and> entry < target) \<and>
      (in_side intent = SHORT \<longrightarrow> target < entry \<and> entry < stop)"
proof -
  obtain g where g: "run_gates core pl k = Inr g" "gr_reasons g = []" and dev: "vq_profile (pk_venue k) = DEV"
    using evaluate_paper_approvedE [OF assms] by metis
  obtain ar am lr lm b lev br where
      acc: "account_gate (pl_settings pl) (pk_account k) (vq_symbol (pk_venue k))
        (in_strategy_id (cr_intent (pk_review k))) (pk_decided_at_ms k) (pk_reservations k) = Inr (ar, am)"
    and alloc: "allocation_reasons core pl (cr_intent (pk_review k)) (pk_account k) (pk_allocation k) (pk_regime k)
        (pk_decided_at_ms k) = (lr, lm)"
    and rs: "gr_reasons g = map Reason (unique_in_order (pk_admission k)) @
       review_reasons (pl_settings pl) (pk_review k) (pk_mode k) (pk_decided_at_ms k) @
       venue_reasons (cr_intent (pk_review k)) (pk_venue k) (pk_decided_at_ms k) @ ar @ lr @
       geometry_reasons (cr_intent (pk_review k)) (pk_venue k) @ br"
    using g(1) by (rule run_gates_Inr)
  have clear: "pk_admission k = []" "review_reasons (pl_settings pl) (pk_review k) (pk_mode k) (pk_decided_at_ms k) = []"
      "venue_reasons (cr_intent (pk_review k)) (pk_venue k) (pk_decided_at_ms k) = []"
      "geometry_reasons (cr_intent (pk_review k)) (pk_venue k) = []" "ar = []" "lr = []"
    using rs g(2) by auto
  have "\<exists>a. pk_account k = Some a \<and> admissible_account (pl_settings pl) a (vq_symbol (pk_venue k))
      (in_strategy_id (cr_intent (pk_review k))) (pk_decided_at_ms k) (pk_reservations k)"
    using account_gate_clear acc clear(5) by metis
  moreover have "\<exists>a. used_allocation core pl k = Some a \<and> admissible_allocation (pl_settings pl) a
      (in_strategy_id (cr_intent (pk_review k))) (in_side (cr_intent (pk_review k))) (pk_decided_at_ms k)
      (\<not> is_adaptive pl (cr_intent (pk_review k)))"
    using allocation_reasons_clear alloc clear(6) by blast
  moreover have "let stop = xp_stop_price (in_exit_plan (cr_intent (pk_review k)));
      target = xp_target_price (in_exit_plan (cr_intent (pk_review k)));
      entry = worst_entry_price (cr_intent (pk_review k)) (pk_venue k)
    in (in_side (cr_intent (pk_review k)) = LONG \<longrightarrow> stop < entry \<and> entry < target) \<and>
       (in_side (cr_intent (pk_review k)) = SHORT \<longrightarrow> target < entry \<and> entry < stop)"
    using clear(4) by (auto simp: geometry_reasons_def Let_def split: if_split_asm)
  ultimately show ?thesis
    using clear(1-3) dev
    by (auto simp: review_reasons_def venue_reasons_def Let_def not_less split: if_split_asm option.splits)
qed

section \<open>Size\<close>

lemma foldl_pymin_le:
  "foldl pymin x xs = Fin c \<Longrightarrow> Fin c \<le> x \<and> (\<forall>y \<in> set xs. y = NaN \<or> Fin c \<le> y)"
proof (induction xs arbitrary: x)
  case (Cons y ys)
  then have "Fin c \<le> pymin x y" "\<forall>z \<in> set ys. z = NaN \<or> Fin c \<le> z" by simp_all
  then show ?case by (cases x; cases y) (auto simp: pymin_def split: if_split_asm)
qed simp

lemma plus_finite: "isfinite (x + y) \<Longrightarrow> isfinite x \<and> isfinite (y :: pyfloat)"
  by (cases x; cases y) auto

lemma abs_finite: "isfinite \<bar>x\<bar> \<Longrightarrow> isfinite (x :: pyfloat)"
  by (cases x) auto

lemma minus_finite: "isfinite (x - y) \<Longrightarrow> isfinite x \<and> isfinite (y :: pyfloat)"
  by (cases x; cases y) (auto simp: minus_pyfloat_def)

lemma size_quantity_pos:
  assumes "size_quantity s v sd stop entry bg lev am lm r = Inr q" "Fin 0 < q"
  obtains u c e where "loss_per_unit v sd stop entry = Fin u" "0 < u" "entry = Fin e" "0 < e"
    "pymin_list (notional_caps s v lev am lm r) = Fin c" "0 < c" "\<not> bg \<le> Fin 0"
    "q = pymin (fquot bg (Fin u)) (fquot (Fin c) (Fin e))"
proof -
  let ?u = "loss_per_unit v sd stop entry" and ?c = "pymin_list (notional_caps s v lev am lm r)"
  have *: "isfinite ?u" "\<not> ?u \<le> Fin 0" "\<not> bg \<le> Fin 0" "isfinite ?c" "\<not> ?c \<le> Fin 0"
    using assms by (auto simp: size_quantity_def Let_def split: if_split_asm)
  obtain u c where uc: "?u = Fin u" "?c = Fin c" "0 < u" "0 < c"
    using * by (auto simp: isfinite_iff)
  obtain cap where cap: "py_div ?c entry = Inr cap" "q = pymax (Fin 0) (pymin (fquot bg ?u) cap)"
    using assms(1) * by (auto simp: size_quantity_def Let_def split: if_split_asm sum.splits)
  have "isfinite entry"
    using *(1) plus_finite abs_finite minus_finite unfolding loss_per_unit_def by blast
  then obtain e where e: "entry = Fin e" by (auto simp: isfinite_iff)
  have q: "q = pymin (fquot bg (Fin u)) cap" "Fin 0 < pymin (fquot bg (Fin u)) cap"
    using cap(2) assms(2) uc by (auto simp: pymax_def split: if_split_asm)
  have "cap = fquot (Fin c) (Fin e)" "e \<noteq> 0" using cap(1) uc e by (auto simp: py_div_def split: if_split_asm)
  moreover have "\<not> e < 0"
  proof
    assume "e < 0"
    then have "c / e \<le> 0" using uc(4) by (simp add: divide_le_0_iff)
    then have "to_float (c / e) \<le> Fin 0" using to_float_mono [of "c / e" 0] by simp
    then have "cap \<le> Fin 0" using \<open>cap = _\<close> \<open>e \<noteq> 0\<close> by simp
    then show False using q(2)
      by (cases cap; cases "fquot bg (Fin u)") (auto simp: pymin_def split: if_split_asm)
  qed
  ultimately show ?thesis using that [OF uc(1,3) e _ uc(2,4) *(3)] q(1) by simp
qed

text \<open>A quantity that is at most a quotient: in exact arithmetic, price times quantity is
  within one rounding of the amount.\<close>

lemma rounding_room_ge: "0 \<le> b \<Longrightarrow> 0 \<le> p \<Longrightarrow> b \<le> rounding_room b p"
proof -
  assume "0 \<le> b" "0 \<le> p"
  then have "b \<le> b * (1 + E) + p * F" if "0 \<le> E" "0 \<le> F" for E F
    using that mult_nonneg_nonneg [of b E] mult_nonneg_nonneg [of p F] by (simp add: distrib_left)
  then show ?thesis unfolding rounding_room_def using b64.eps_half(1) b64.eta_nonneg by blast
qed

lemma pymin_FinD: "pymin a b = Fin q \<Longrightarrow> b \<noteq> NaN \<Longrightarrow> Fin q \<le> a \<and> Fin q \<le> b"
  by (cases a; cases b) (auto simp: pymin_def split: if_split_asm)

lemma quotient_room:
  assumes "Fin x \<le> fquot (Fin b) (Fin p)" "is_b64 (Fin x)" "0 < p" "0 \<le> b"
  shows "x * p \<le> rounding_room b p"
proof (cases "fquot (Fin b) (Fin p)")
  case (Fin y)
  have "y * p \<le> rounding_room b p" using fquot_overshoot [OF Fin refl assms(3,4)] .
  moreover have "x * p \<le> y * p" using assms Fin by (intro mult_right_mono) auto
  ultimately show ?thesis by simp
next
  case PInf
  then have big: "float_limit \<le> rnd64 (b / p)"
    using assms(3) by (auto simp: to_float_code Let_def split: if_split_asm)
  have small: "rnd64 x < float_limit"
    using assms(2) by (simp only: is_b64_code abs_less_iff)
  have "x < b / p" by (rule b64.rnd_less_cancel) (rule less_le_trans [OF small big])
  then have "x * p \<le> b" using assms(3) by (simp add: pos_less_divide_eq)
  then show ?thesis using rounding_room_ge [of b p] assms(3,4) by simp
qed (use assms in auto)

lemma size_candidate_plain:
  assumes "size_candidate core s intent v bg lev am lm r = Inr (q, [])"
    and "in_strategy_id intent \<noteq> PAPER_CANARY_STRATEGY_ID"
  shows "size_quantity s v (in_side intent) (xp_stop_price (in_exit_plan intent)) (worst_entry_price intent v) bg lev am lm r
      = Inr q \<and> \<not> q \<le> Fin 0 \<and> \<not> q * worst_entry_price intent v + nano < rs_paper_min_notional_usd s"
  using assms
  by (auto simp: size_candidate_def min_notional_check_def Let_def split: sum.splits if_split_asm prod.splits)

lemma size_quantity_not_NaN: "size_quantity s v sd stop entry bg lev am lm r = Inr q \<Longrightarrow> q \<noteq> NaN \<and> Fin 0 \<le> q"
  by (auto simp: size_quantity_def Let_def pymax_not_NaN split: if_split_asm sum.splits)

lemma budget_Some:
  assumes "budget s am lm r = (bg, lev, [])"
  shows "(am = None \<or> lm = None) \<and> bg = Fin 0 \<and> lev = Fin 1 \<or>
    (\<exists>m l. am = Some m \<and> lm = Some l \<and> \<not> bg \<le> Fin 0 \<and>
       bg = pymin (am_equity_usd m * rs_paper_per_trade_risk_fraction s)
         (pymax (Fin 0) (am_equity_usd m * rs_paper_max_total_open_risk_fraction s - am_total_open_risk_usd m -
            pr_open_risk_usd r)) \<and>
       lev = pymin (rs_paper_max_leverage s) (lm_max_gross_leverage l) \<and> \<not> lev < Fin 1)"
  using assms by (auto simp: budget_def Let_def split: option.splits if_split_asm)

lemma approved_sized:
  assumes "seal_keeps core" "evaluate_paper core pl k = Inr d" "rd_approved d"
  obtains a m l al where "pk_account k = Some a" "used_allocation core pl k = Some al"
    "admissible_account (pl_settings pl) a (vq_symbol (pk_venue k)) (in_strategy_id (cr_intent (pk_review k)))
       (pk_decided_at_ms k) (pk_reservations k)"
    "allocation_error al = None"
    "am_equity_usd m = a2_equity_usd a" "am_available_balance_usd m = a2_available_balance_usd a"
    "am_total_open_risk_usd m = a2_total_open_risk_usd a"
    "l = \<lparr>lm_strategy_id = in_strategy_id (cr_intent (pk_review k)),
           lm_stable_reserve_fraction = sa_stable_reserve_pct al,
           lm_strategy_weight = strategy_weight_of al (in_strategy_id (cr_intent (pk_review k))),
           lm_max_gross_leverage = sa_max_gross_leverage al\<rparr>"
    "\<not> rd_loss_budget_usd d \<le> Fin 0"
    "rd_loss_budget_usd d = pymin (a2_equity_usd a * rs_paper_per_trade_risk_fraction (pl_settings pl))
       (pymax (Fin 0) (a2_equity_usd a * rs_paper_max_total_open_risk_fraction (pl_settings pl) -
          a2_total_open_risk_usd a - pr_open_risk_usd (pk_reservations k)))"
    "rd_leverage d = pymin (rs_paper_max_leverage (pl_settings pl)) (sa_max_gross_leverage al)"
    "\<not> rd_leverage d < Fin 1"
    "size_candidate core (pl_settings pl) (cr_intent (pk_review k)) (pk_venue k) (rd_loss_budget_usd d) (rd_leverage d)
       m l (pk_reservations k) = Inr (rd_quantity d, [])"
    "\<not> rd_loss_budget_usd d + micro < rd_worst_case_loss_usd d"
    "rd_notional_usd d = rd_quantity d * worst_entry_price (cr_intent (pk_review k)) (pk_venue k)"
proof -
  let ?intent = "cr_intent (pk_review k)"
  obtain g q fees slippage loss where g: "run_gates core pl k = Inr g" "gr_reasons g = []"
    "sized core pl k g = Inr (q, [])" "\<not> gr_loss_budget g + micro < loss"
    "rd_quantity d = q" "rd_worst_case_loss_usd d = loss" "rd_loss_budget_usd d = gr_loss_budget g"
    "rd_leverage d = gr_leverage g" "rd_notional_usd d = q * worst_entry_price ?intent (pk_venue k)"
    using evaluate_paper_approvedE [OF assms] by metis
  obtain ar am lr lm b lev br where
      acc: "account_gate (pl_settings pl) (pk_account k) (vq_symbol (pk_venue k))
        (in_strategy_id ?intent) (pk_decided_at_ms k) (pk_reservations k) = Inr (ar, am)"
    and alloc: "allocation_reasons core pl ?intent (pk_account k) (pk_allocation k) (pk_regime k)
        (pk_decided_at_ms k) = (lr, lm)"
    and bg: "budget (pl_settings pl) am lm (pk_reservations k) = (b, lev, br)"
    and rs: "gr_reasons g = map Reason (unique_in_order (pk_admission k)) @
       review_reasons (pl_settings pl) (pk_review k) (pk_mode k) (pk_decided_at_ms k) @
       venue_reasons ?intent (pk_venue k) (pk_decided_at_ms k) @ ar @ lr @ geometry_reasons ?intent (pk_venue k) @ br"
    and gs: "gr_loss_budget g = b" "gr_leverage g = lev" "gr_account g = am" "gr_allocation g = lm"
    using g(1) by (rule run_gates_Inr)
  have nil: "ar = []" "lr = []" "br = []" using rs g(2) by auto
  obtain a m where am: "pk_account k = Some a" "am = Some m"
    "admissible_account (pl_settings pl) a (vq_symbol (pk_venue k)) (in_strategy_id ?intent)
       (pk_decided_at_ms k) (pk_reservations k)"
    "am_equity_usd m = a2_equity_usd a" "am_available_balance_usd m = a2_available_balance_usd a"
    "am_total_open_risk_usd m = a2_total_open_risk_usd a"
    using account_gate_clear acc nil(1) by metis
  obtain al where al: "used_allocation core pl k = Some al" "allocation_error al = None"
    "lm = Some \<lparr>lm_strategy_id = in_strategy_id ?intent, lm_stable_reserve_fraction = sa_stable_reserve_pct al,
           lm_strategy_weight = strategy_weight_of al (in_strategy_id ?intent),
           lm_max_gross_leverage = sa_max_gross_leverage al\<rparr>"
    using allocation_reasons_clear alloc nil(2) unfolding admissible_allocation_def by blast
  show ?thesis
    using budget_Some [of "pl_settings pl" am lm "pk_reservations k" b lev] bg nil(3) am(2) al(3) g(2-4)
    by (intro that [OF am(1) al(1) am(3) al(2) am(4-6) refl])
      (auto simp: g gs sized_def am(2,4,6) al(3))
qed

text \<open>A positive plain quantity fits the loss budget and every notional cap, up to one rounding.\<close>

lemma size_quantity_room:
  assumes "size_quantity s v side stop entry budget_usd leverage m l r = Inr (Fin q)"
    and "\<not> Fin q \<le> Fin 0" "\<not> budget_usd \<le> Fin 0"
  shows "\<exists>u c e. loss_per_unit v side stop entry = Fin u \<and> entry = Fin e \<and> 0 < e \<and> 0 < q \<and>
    (\<forall>b. budget_usd = Fin b \<longrightarrow> q * u \<le> rounding_room b u) \<and> q * e \<le> rounding_room c e \<and>
    (\<forall>cap \<in> set (notional_caps s v leverage m l r). cap = NaN \<or> Fin c \<le> cap)"
proof -
  have pos: "Fin 0 < Fin q" using assms(2) by simp
  obtain u c e where s: "loss_per_unit v side stop entry = Fin u" "0 < u" "entry = Fin e" "0 < e"
    "pymin_list (notional_caps s v leverage m l r) = Fin c" "0 < c"
    "Fin q = pymin (fquot budget_usd (Fin u)) (fquot (Fin c) (Fin e))"
    using size_quantity_pos [OF assms(1) pos] by metis
  have caps: "\<forall>cap \<in> set (notional_caps s v leverage m l r). cap = NaN \<or> Fin c \<le> cap"
    using s(5) by (auto simp: notional_caps_def Let_def dest!: foldl_pymin_le simp del: foldl_Cons)
  have "is_b64 (Fin q)" unfolding s(7) by simp
  then have q: "is_b64 (Fin q)" "0 < q" using pos by simp_all
  have le: "Fin q \<le> fquot budget_usd (Fin u)" "Fin q \<le> fquot (Fin c) (Fin e)"
    using s(7) [symmetric] pymin_FinD fquot_not_NaN [of "Fin c" e] s(4) by auto
  have "q * u \<le> rounding_room b u" if "budget_usd = Fin b" for b
    using quotient_room [of q b u] le(1) q(1) s(2) assms(3) that by simp
  moreover have "q * e \<le> rounding_room c e" using quotient_room [of q c e] le(2) q(1) s(4,6) by simp
  ultimately show ?thesis using s(1,3,4) q(2) caps by blast
qed


section \<open>A concrete case\<close>

definition plan_96_110 :: exit_plan where
  "plan_96_110 = \<lparr>xp_stop_price = Fin 96, xp_target_price = Fin 110, xp_max_holding_ms = 600000, xp_payload = []\<rparr>"

definition alpha_intent :: "string \<Rightarrow> strategy_intent" where
  "alpha_intent name =
     \<lparr>in_contract_version = ''strategy-intent.v1'', in_intent_id = Some name, in_message_id = name,
      in_source = ''parity'', in_symbol = ''BTCUSDT'', in_venue = ''BINANCE_UM'', in_side = LONG,
      in_strategy_id = ''alpha'', in_strategy_revision = ''1'', in_decision_ts_ms = 1000,
      in_entry_eligible_ts_ms = 1001, in_entry_expires_ts_ms = 61001, in_reference_price = Fin 100,
      in_signal_strength = Fin 1, in_gross_reward_bps = Fin 1000,
      in_exit_plan = plan_96_110, in_provenance =
        \<lparr>pv_strategy_code_sha256 = [], pv_config_sha256 = [], pv_input_window_sha256 = [], pv_features_sha256 = [],
         pv_input_bar_sha256s = []\<rparr>, in_evidence = [], in_metadata = [], in_payload = []\<rparr>"

definition alpha_review :: "string \<Rightarrow> candidate_review" where
  "alpha_review name =
     \<lparr>cr_message_id = ''m'' @ name, cr_review_id = Some (''r'' @ name), cr_source = ''review'', cr_correlation_id = None, cr_causation_id = ''q1'', cr_decision = ALLOW,
      cr_reviewed_at_ms = 2000, cr_intent = alpha_intent name, cr_route =
        \<lparr>rt_route_id = Some ''q1'', rt_message_id = ''q1'', rt_source = ''route'', rt_correlation_id = None,
         rt_causation_id = [], rt_intent = alpha_intent name, rt_review_tier = ''NORMAL'',
         rt_requested_reasoning_effort = ''MEDIUM'', rt_routed_at_ms = 1500, rt_review_deadline_ms = 61001,
         rt_evidence_ids = [], rt_payload = []\<rparr>,
      cr_priority = 0, cr_reviewer = ''LLM'', cr_model_provenance = None, cr_reason_codes = [],
      cr_evidence = [], cr_payload = []\<rparr>"

definition btc_venue :: venue_quality where
  "btc_venue =
     \<lparr>vq_symbol = ''BTCUSD:DEV'', vq_profile = DEV, vq_observed_at_ms = 2000,
      vq_book_timestamp_ms = 2000, vq_reference_timestamp_ms = 2000, vq_expires_at_ms = 90000,
      vq_measurement_id = Some ''v1'', vq_entry_allowed = True, vq_reason_codes = [], vq_best_bid = Fin 99,
      vq_best_ask = Fin 100, vq_mid_price = Fin 100, vq_buy_slippage_bps = Fin 0, vq_sell_slippage_bps = Fin 0,
      vq_taker_fee_bps = Fin 0, vq_assessed_notional_usd = Fin 5000, vq_depth_usd = Fin 100000\<rparr>"

definition clean_account :: "int \<Rightarrow> int \<Rightarrow> account_v2" where
  "clean_account seq captured =
     \<lparr>a2_snapshot_id = Some ''s1'', a2_trading_mode = PAPER, a2_evedex_profile = DEV,
      a2_account_id = ''acc'', a2_reconciled = True, a2_reconciliation_seq = seq,
      a2_captured_at_ms = captured, a2_positions = [], a2_open_orders = [], a2_equity_usd = Fin 100000,
      a2_available_balance_usd = Fin 100000, a2_total_open_risk_usd = Fin 0,
      a2_durable_day_start_equity_usd = Fin 100000, a2_durable_peak_equity_usd = Fin 100000,
      a2_daily_realized_pnl_usd = Fin 0, a2_unrealized_pnl_usd = Fin 0\<rparr>"

definition alpha_allocation :: strategic_allocation where
  "alpha_allocation =
     \<lparr>sa_source = ''macro'', sa_message_id = ''a1'', sa_correlation_id = None, sa_causation_id = None,
      sa_schema_version = ''1'', sa_produced_at = Aware 0, sa_regime = BULL,
      sa_stable_reserve_pct = Fin (1 / 2), sa_strategy_weights = [(''alpha'', Fin (1 / 2))],
      sa_max_gross_leverage = Fin 1, sa_triggered_by = [], sa_rationale = []\<rparr>"

definition naming_seal :: "risk_decision \<Rightarrow> risk_decision res" where
  "naming_seal d =
     Inr (d\<lparr>rd_decision_id := map_option (\<lambda>i. ''d'' @ i) (rd_correlation_id d),
            rd_trade_id := map_option (\<lambda>i. ''t'' @ i) (rd_correlation_id d)\<rparr>)"

definition plain_core :: paper_core where
  "plain_core = \<lparr>pc_sha = flat_sha, pc_reparse = Some, pc_valid_observation = (\<lambda>_ _. True), pc_seal = naming_seal\<rparr>"

text \<open>Settings within the validated ranges whose fractions are short in binary.\<close>

definition demo_settings :: risk_settings where
  "demo_settings =
     \<lparr>rs_service_name = ''risk'', rs_trading_mode = PAPER, rs_dry_run = None,
      rs_evedex_profile = DEV, rs_hard_leverage_limit = Fin 10, rs_safe_leverage_cap = Fin 5,
      rs_max_allowed_leverage = Fin 10, rs_max_daily_drawdown_pct = Fin 3,
      rs_per_trade_risk_fraction = Fin (1 / 64), rs_max_position_notional_usd = Fin 250000,
      rs_min_notional_usd = Fin 5, rs_require_reconciled_account = True,
      rs_account_snapshot_max_age_s = Fin 60, rs_require_strategic_allocation = True,
      rs_strategic_allocation_max_age_s = Fin 93600, rs_paper_strategy_allowlist = [''alpha@1'', ''technical-canary@3''],
      rs_paper_account_id = ''acc'', rs_paper_operator_scope_file = None,
      rs_paper_account_snapshot_max_age_s = Fin 30, rs_paper_per_trade_risk_fraction = Fin (1 / 512),
      rs_paper_max_total_open_risk_fraction = Fin (1 / 128), rs_paper_max_leverage = Fin 1,
      rs_paper_max_position_notional_usd = Fin 1000, rs_paper_min_notional_usd = Fin 5,
      rs_paper_decision_cache_size = 2, rs_paper_regime_policy_profile = ''legacy-v1'',
      rs_paper_regime_policy_file = None, rs_paper_regime_policy_sha256 = None,
      rs_paper_regime_source_set_sha256 = None, rs_paper_regime_macro_source = ''macro'',
      rs_breaker_max_consecutive_failures = 2, rs_breaker_cooldown_s = Fin 300,
      cs_environment = ''dev'', cs_bus_backend = ''redis'', cs_trading_symbols = [''BTCUSDT''],
      cs_symbol_allowed = (\<lambda>_. True)\<rparr>"

definition paper_route :: paper_pipeline where
  "paper_route = \<lparr>pl_settings = demo_settings, pl_regime_policy = None\<rparr>"

definition alpha_case :: paper_case where
  "alpha_case =
     \<lparr>pk_review = alpha_review ''i1'', pk_venue = btc_venue, pk_account = Some (clean_account 7 50000),
      pk_allocation = Some alpha_allocation, pk_decided_at_ms = 60000, pk_mode = NORMAL,
      pk_reservations = no_reservations, pk_admission = [], pk_regime = None\<rparr>"

lemma plain_core_keeps: "seal_keeps plain_core"
  by (auto simp: seal_keeps_def plain_core_def naming_seal_def)

lemma alpha_case_approved:
  "case evaluate_paper plain_core paper_route alpha_case of
     Inr d \<Rightarrow> rd_approved d \<and> rd_quantity d = Fin 10 | Inl _ \<Rightarrow> False"
  by code_simp

lemma alpha_caseE:
  obtains d where "evaluate_paper plain_core paper_route alpha_case = Inr d" "rd_approved d" "rd_quantity d = Fin 10"
  using alpha_case_approved by (auto split: sum.splits)

theorem approved_paper_trade_passed_every_gate_witness:
  "\<exists>d. evaluate_paper plain_core paper_route alpha_case = Inr d \<and> rd_approved d \<and> vq_entry_allowed (pk_venue alpha_case)"
proof -
  obtain d where d: "evaluate_paper plain_core paper_route alpha_case = Inr d" "rd_approved d"
    by (rule alpha_caseE)
  then show ?thesis
    using approved_paper_trade_passed_every_gate [OF plain_core_keeps d] by (auto simp: Let_def)
qed


section \<open>Rejections and errors\<close>

text \<open>
  A decision is an approval or a rejection, never something between. It is approved exactly
  when it has no rejection reason; a rejected one has quantity and notional zero (for a finite
  entry price); every decision is bound to the PAPER mode, the DEV profile, the configured
  account and the intent's own exit plan; and one that was refused by the world outside the
  route, or whose account or allocation is missing, is a rejection.
\<close>

theorem paper_decision_is_all_or_nothing:
  assumes "seal_keeps core" "evaluate_paper core pl k = Inr d"
  shows "(rd_approved d \<longleftrightarrow> rd_rejection_reasons d = []) \<and>
    (\<not> rd_approved d \<longrightarrow> rd_quantity d = Fin 0 \<and> (isfinite (rd_worst_entry_price d) \<longrightarrow> rd_notional_usd d = Fin 0)) \<and>
    rd_trading_mode d = PAPER \<and> rd_evedex_profile d = DEV \<and>
    rd_account_id d = rs_paper_account_id (pl_settings pl) \<and> rd_intent d = cr_intent (pk_review k) \<and>
    rd_exit_plan d = in_exit_plan (rd_intent d) \<and> rd_venue_symbol d = vq_symbol (pk_venue k) \<and>
    (pk_admission k \<noteq> [] \<or> pk_account k = None \<or> used_allocation core pl k = None \<longrightarrow> \<not> rd_approved d)"
proof -
  obtain g q rs where *: "run_gates core pl k = Inr g" "sized core pl k g = Inr (q, rs)"
    "pc_seal core (draft_decision pl k g q (gr_reasons g @ rs)) = Inr d"
    using assms(2) by (rule evaluate_paper_Inr)
  note seal = seal_keepsD [OF assms(1) *(3)]
  obtain rs' q' fees slippage loss where s: "settle k g q (gr_reasons g @ rs) = (rs', q', fees, slippage, loss)"
    by (metis prod_cases5)
  note draft = draft_decision_simps [OF s]
  have zero: "rs' \<noteq> [] \<Longrightarrow> q' = Fin 0"
    by (rule settle_cases [of k g q "gr_reasons g @ rs"]) (use s in auto)
  have prod: "Fin 0 * e = Fin 0" if "isfinite e" for e using that by (cases e) auto
  have "pk_account k \<noteq> None \<and> used_allocation core pl k \<noteq> None" if "rd_approved d"
    using approved_sized [OF assms that] by (metis option.distinct(1))
  moreover have "pk_admission k = []" if "rd_approved d"
    using evaluate_paper_approvedE [OF assms that] run_gates_Inr by (metis append_is_Nil_conv list.map_disc_iff unique_in_order_Nil)
  ultimately show ?thesis using seal draft zero prod by auto
qed

theorem paper_decision_is_all_or_nothing_witness:
  "\<exists>d. evaluate_paper plain_core paper_route alpha_case = Inr d \<and> rd_trading_mode d = PAPER"
proof -
  obtain d where d: "evaluate_paper plain_core paper_route alpha_case = Inr d" by (rule alpha_caseE)
  then show ?thesis using paper_decision_is_all_or_nothing [OF plain_core_keeps d] by blast
qed

lemma account_gate_errors:
  "account_gate s account symbol sid now r = Inl e \<Longrightarrow>
     \<exists>a. account = Some a \<and> (a2_durable_day_start_equity_usd a = Fin 0 \<or> a2_durable_peak_equity_usd a = Fin 0)"
  by (auto simp: account_gate_def paper_drawdown_def py_div_def Let_def
      split: option.splits sum.splits if_split_asm prod.splits)

lemma run_gates_errors:
  "run_gates core pl k = Inl e \<Longrightarrow>
     \<exists>a. pk_account k = Some a \<and> (a2_durable_day_start_equity_usd a = Fin 0 \<or> a2_durable_peak_equity_usd a = Fin 0)"
  by (auto simp: run_gates_def Let_def split: sum.splits prod.splits dest: account_gate_errors)

lemma size_quantity_errors: "size_quantity s v sd stop entry bg lev am lm r = Inl e \<Longrightarrow> entry = Fin 0"
  by (auto simp: size_quantity_def py_div_def Let_def split: sum.splits if_split_asm)

lemma canary_quantity_errors:
  "canary_quantity core s intent entry lev cap = Inl e \<Longrightarrow> \<exists>t. e = ArithmeticError t"
  by (auto simp: canary_quantity_def value_or_arithmetic_def split: sum.splits pyerr.splits if_split_asm
      dest!: bound_canary_quantity_errors)

lemma sized_errors:
  "sized core pl k g = Inl e \<Longrightarrow>
     worst_entry_price (cr_intent (pk_review k)) (pk_venue k) = Fin 0 \<or>
     in_strategy_id (cr_intent (pk_review k)) = PAPER_CANARY_STRATEGY_ID \<and> (\<exists>t. e = ArithmeticError t)"
  by (auto simp: sized_def size_candidate_def Let_def
      split: sum.splits if_split_asm option.splits prod.splits dest: size_quantity_errors canary_quantity_errors)



end
