(* ===== verification/Paper_Runtime.thy ===== *)
theory Paper_Runtime
  imports Paper
begin

text \<open>
  \<open>PaperRiskCoordinator\<close> of \<open>kairos_risk/paper_runtime.py\<close>: the latest account, venue
  measurements and regime allocations, the decision cache, and the reservations of approvals
  that reconciliation does not show yet. Every method runs under the condition's lock, so a run
  is a sequence of whole method calls. A method returns its value or exception together with
  the state it leaves behind, which is kept also when it raises.
\<close>

section \<open>State\<close>

record reservation =
  rv_decision :: risk_decision
  rv_seq :: int

text \<open>
  A \<open>dict\<close> is the list of its items in insertion order: \<open>AList.update\<close> overwrites in place
  or appends, \<open>AList.delete\<close> is \<open>pop\<close>. A regime allocation of \<open>None\<close> is a poisoned one.
\<close>

record coordinator =
  co_pipeline :: paper_pipeline
  co_account :: "account_v2 option"
  co_latest_seq :: "int option"
  co_latest_captured :: "int option"
  co_venue :: "(string \<times> venue_quality) list"
  co_venue_versions :: "(string \<times> int \<times> string option) list"
  co_decisions :: "(string \<times> risk_decision) list"
  co_reservations :: "(string \<times> reservation) list"
  co_recovery_loaded :: bool
  co_account_ready :: bool
  co_regime :: "(string \<times> regime_allocation option) list"

definition new_coordinator :: "paper_pipeline \<Rightarrow> coordinator" where
  "new_coordinator pl =
     \<lparr>co_pipeline = pl, co_account = None, co_latest_seq = None, co_latest_captured = None, co_venue = [],
      co_venue_versions = [], co_decisions = [], co_reservations = [], co_recovery_loaded = False,
      co_account_ready = False, co_regime = []\<rparr>"

definition co_settings :: "coordinator \<Rightarrow> risk_settings" where
  "co_settings co = pl_settings (co_pipeline co)"

definition recovery_complete :: "coordinator \<Rightarrow> bool" where
  "recovery_complete co \<longleftrightarrow> co_recovery_loaded co \<and> co_account_ready co"

definition needs_regime_binding :: "coordinator \<Rightarrow> candidate_review \<Rightarrow> bool" where
  "needs_regime_binding co review \<longleftrightarrow> is_adaptive (co_pipeline co) (cr_intent review)"

definition current_reservations :: "coordinator \<Rightarrow> reservations res" where
  "current_reservations co = reservation_view (map (rv_decision \<circ> snd) (co_reservations co))"

section \<open>Bounded caches\<close>

text \<open>
  Both caches drop their oldest entry that nothing retains until they fit, or until every
  entry left is retained.
\<close>

function evict :: "int \<Rightarrow> (string \<Rightarrow> bool) \<Rightarrow> (string \<times> 'v) list \<Rightarrow> (string \<times> 'v) list" where
  "evict limit retained xs =
     (if int (length xs) \<le> limit then xs
      else case find (\<lambda>(key, _). \<not> retained key) xs of
        None \<Rightarrow> xs
      | Some (key, _) \<Rightarrow> evict limit retained (AList.delete key xs))"
  by pat_completeness auto
termination
proof (relation "measure (\<lambda>(_, _, xs). length xs)")
  fix limit :: int and retained :: "string \<Rightarrow> bool" and xs :: "(string \<times> 'v) list" and p key and v :: 'v
  assume "find (\<lambda>(key, _). \<not> retained key) xs = Some p" "(key, v) = p"
  then have "(key, v) \<in> set xs" by (auto simp: find_Some_iff) (metis nth_mem)
  then have "length (AList.delete key xs) < length xs"
    by (induction xs) (auto simp: AList.delete_eq less_Suc_eq_le intro: length_filter_le)
  then show "((limit, retained, AList.delete key xs), (limit, retained, xs)) \<in> measure (\<lambda>(_, _, xs). length xs)"
    by simp
qed auto

declare evict.simps [simp del]

definition reserved_review :: "coordinator \<Rightarrow> string \<Rightarrow> bool" where
  "reserved_review co review_id \<longleftrightarrow>
     (\<exists>(_, rv) \<in> set (co_reservations co). cr_review_id (rd_review (rv_decision rv)) = Some review_id)"

definition trim_decision_cache :: "coordinator \<Rightarrow> coordinator" where
  "trim_decision_cache co =
     co\<lparr>co_decisions :=
          evict (rs_paper_decision_cache_size (co_settings co)) (reserved_review co) (co_decisions co)\<rparr>"

definition retained_intent :: "coordinator \<Rightarrow> string \<Rightarrow> bool" where
  "retained_intent co intent_id \<longleftrightarrow>
     (\<exists>(_, d) \<in> set (co_decisions co). in_intent_id (rd_intent d) = Some intent_id) \<or>
     (\<exists>(_, rv) \<in> set (co_reservations co). in_intent_id (rd_intent (rv_decision rv)) = Some intent_id)"

section \<open>Regime allocations\<close>

definition apply_regime_allocation ::
    "paper_core \<Rightarrow> regime_allocation \<Rightarrow> int \<Rightarrow> coordinator \<Rightarrow> bool res \<times> coordinator" where
  "apply_regime_allocation core given received_at_ms co =
     (if pl_regime_policy (co_pipeline co) = None
      then (Inl (ValueError ''adaptive regime policy is not enabled''), co)
      else case pc_reparse core given of
        None \<Rightarrow> (Inl (ValueError ''invalid regime allocation''), co)
      | Some b \<Rightarrow>
          if received_at_ms < ra_bound_at_ms b
          then (Inl (ValueError ''regime binding postdates the trusted local receipt clock''), co)
          else case in_intent_id (ob_intent (ra_observation b)) of
            None \<Rightarrow> (Inl (ValueError ''regime evidence has no immutable intent identity''), co)
          | Some intent_id \<Rightarrow>
             (case map_of (co_regime co) intent_id of
                Some existing \<Rightarrow>
                  if existing = Some b then (Inr False, co)
                  else (Inl (ValueError ''conflicting causal regime allocation for one intent''),
                        co\<lparr>co_regime := AList.update intent_id None (co_regime co)\<rparr>)
              | None \<Rightarrow>
                  (Inr True,
                   co\<lparr>co_regime := evict (rs_paper_decision_cache_size (co_settings co)) (retained_intent co)
                        (AList.update intent_id (Some b) (co_regime co))\<rparr>)))"

section \<open>Reconciliation\<close>

definition expected_lineage :: "risk_decision \<Rightarrow> lineage" where
  "expected_lineage d =
     \<lparr>ln_venue_symbol = rd_venue_symbol d, ln_strategy_id = in_strategy_id (rd_intent d),
      ln_strategy_revision = in_strategy_revision (rd_intent d), ln_intent_id = in_intent_id (rd_intent d),
      ln_risk_decision_id = rd_decision_id d, ln_trade_id = rd_trade_id d\<rparr>"

definition position_matches :: "risk_decision \<Rightarrow> position_v2 \<Rightarrow> bool" where
  "position_matches d p \<longleftrightarrow>
     p2_lineage p = expected_lineage d \<and> p2_side p = in_side (rd_intent d) \<and> p2_exit_plan p = rd_exit_plan d"

definition order_matches :: "risk_decision \<Rightarrow> order_v2 \<Rightarrow> bool" where
  "order_matches d ord \<longleftrightarrow> o2_lineage ord = expected_lineage d"

definition positions_of :: "account_v2 \<Rightarrow> string \<Rightarrow> position_v2 list" where
  "positions_of a trade_id = filter (\<lambda>p. ln_trade_id (p2_lineage p) = Some trade_id) (a2_positions a)"

definition orders_of :: "account_v2 \<Rightarrow> string \<Rightarrow> order_v2 list" where
  "orders_of a trade_id = filter (\<lambda>ord. ln_trade_id (o2_lineage ord) = Some trade_id) (a2_open_orders a)"

text \<open>One reservation: has the snapshot taken it over? A mismatch raises.\<close>

definition transferred :: "account_v2 \<Rightarrow> string \<Rightarrow> reservation \<Rightarrow> bool res" where
  "transferred a trade_id rv =
     (let d = rv_decision rv; positions = positions_of a trade_id; orders = orders_of a trade_id in
      if \<not> list_all (position_matches d) positions \<or> \<not> list_all (order_matches d) orders
      then Inl (ValueError ''reconciled trade representation conflicts with durable risk lineage'')
      else if positions \<noteq> [] \<or> list_ex (\<lambda>ord. o2_order_role ord = ENTRY) orders then Inr True
      else if orders \<noteq> []
      then Inl (ValueError
        ''reconciled trade representation has protective orders without a position or entry'')
      else Inr (rv_seq rv < a2_reconciliation_seq a \<and>
                in_entry_expires_ts_ms (rd_intent d) < a2_captured_at_ms a))"

fun transferred_ids :: "account_v2 \<Rightarrow> (string \<times> reservation) list \<Rightarrow> string list res" where
  "transferred_ids a [] = Inr []"
| "transferred_ids a ((trade_id, rv) # rest) =
     (case transferred a trade_id rv of
        Inl e \<Rightarrow> Inl e
      | Inr gone \<Rightarrow>
         (case transferred_ids a rest of
            Inl e \<Rightarrow> Inl e
          | Inr ids \<Rightarrow> Inr (if gone then trade_id # ids else ids)))"

text \<open>Nothing is removed when any reservation raises.\<close>

definition reconcile_reservations :: "account_v2 \<Rightarrow> coordinator \<Rightarrow> coordinator res" where
  "reconcile_reservations a co =
     (case transferred_ids a (co_reservations co) of
        Inl e \<Rightarrow> Inl e
      | Inr ids \<Rightarrow> Inr (co\<lparr>co_reservations := filter (\<lambda>(t, _). t \<notin> set ids) (co_reservations co)\<rparr>))"

definition account_is_authoritative :: "risk_settings \<Rightarrow> account_v2 \<Rightarrow> bool" where
  "account_is_authoritative s a \<longleftrightarrow>
     a2_trading_mode a = PAPER \<and> a2_evedex_profile a = DEV \<and> a2_account_id a = rs_paper_account_id s \<and>
     a2_reconciled a \<and> 0 < a2_reconciliation_seq a"

text \<open>The end of both methods that meet an account: reconcile, or poison the account.\<close>

definition settle_account :: "account_v2 \<Rightarrow> 'a \<Rightarrow> coordinator \<Rightarrow> 'a res \<times> coordinator" where
  "settle_account a result co =
     (let ready = account_is_authoritative (co_settings co) a; co = co\<lparr>co_account_ready := ready\<rparr> in
      if ready
      then case reconcile_reservations a co of
        Inl e \<Rightarrow> (Inl e, co\<lparr>co_account := None, co_account_ready := False\<rparr>)
      | Inr co' \<Rightarrow> (Inr result, co')
      else (Inr result, co))"

definition poison_account :: "coordinator \<Rightarrow> coordinator" where
  "poison_account co = co\<lparr>co_account := None, co_account_ready := False\<rparr>"

definition apply_account :: "account_v2 \<Rightarrow> coordinator \<Rightarrow> bool res \<times> coordinator" where
  "apply_account a co =
     (let newer = (case co_latest_seq co of None \<Rightarrow> True | Some l \<Rightarrow> l < a2_reconciliation_seq a);
          same = (co_latest_seq co = Some (a2_reconciliation_seq a))
      in if \<not> newer \<and> \<not> same then (Inr False, co)
         else if same
         then (case co_account co of
             Some held \<Rightarrow>
               if a2_snapshot_id held = a2_snapshot_id a then (Inr False, co)
               else (Inl (ValueError ''conflicting AccountSnapshotV2 reconciliation sequence''), poison_account co)
           | None \<Rightarrow>
               (Inl (ValueError ''conflicting AccountSnapshotV2 reconciliation sequence''), poison_account co))
         else if (case co_latest_captured co of None \<Rightarrow> False | Some t \<Rightarrow> a2_captured_at_ms a < t)
         then (Inl (ValueError ''AccountSnapshotV2 capture time moved backwards''),
               poison_account (co\<lparr>co_latest_seq := Some (a2_reconciliation_seq a)\<rparr>))
         else settle_account a True
                (co\<lparr>co_latest_seq := Some (a2_reconciliation_seq a),
                    co_latest_captured := Some (a2_captured_at_ms a), co_account := Some a\<rparr>))"

section \<open>Recovery\<close>

definition validate_recovered :: "risk_settings \<Rightarrow> risk_decision \<Rightarrow> unit res" where
  "validate_recovered s d =
     (if \<not> rd_approved d then Inl (ValueError ''only approved decisions may become PAPER reservations'')
      else if rd_trading_mode d \<noteq> PAPER \<or> rd_evedex_profile d \<noteq> DEV \<or>
         rd_account_id d \<noteq> rs_paper_account_id s \<or> rd_venue_symbol d \<notin> set (map snd PAPER_DEV_SYMBOL_MAP)
      then Inl (ValueError ''durable PAPER decision belongs to a different environment/account'')
      else Inr ())"

definition restore_one :: "risk_decision \<Rightarrow> coordinator \<Rightarrow> coordinator res" where
  "restore_one d co =
     (case validate_recovered (co_settings co) d of
        Inl e \<Rightarrow> Inl e
      | Inr _ \<Rightarrow>
         (case (rd_trade_id d, cr_review_id (rd_review d)) of
            (Some trade_id, Some review_id) \<Rightarrow>
              if (case map_of (co_reservations co) trade_id of
                    None \<Rightarrow> False | Some rv \<Rightarrow> rd_decision_id (rv_decision rv) \<noteq> rd_decision_id d)
              then Inl (ValueError ''conflicting durable approvals reuse one trade_id'')
              else Inr (co\<lparr>co_reservations :=
                             AList.update trade_id \<lparr>rv_decision = d, rv_seq = 0\<rparr> (co_reservations co),
                           co_decisions := AList.update review_id d (co_decisions co)\<rparr>)
          | _ \<Rightarrow> Inl (ValueError ''recovered PAPER decision has incomplete canonical lineage'')))"

fun restore_all :: "risk_decision list \<Rightarrow> coordinator \<Rightarrow> unit res \<times> coordinator" where
  "restore_all [] co = (Inr (), co)"
| "restore_all (d # ds) co =
     (case restore_one d co of Inl e \<Rightarrow> (Inl e, co) | Inr co' \<Rightarrow> restore_all ds co')"

definition restore_reservations :: "risk_decision list \<Rightarrow> coordinator \<Rightarrow> unit res \<times> coordinator" where
  "restore_reservations decisions co =
     (if co_recovery_loaded co then (Inl (RuntimeError ''PAPER reservations were already restored''), co)
      else case restore_all decisions co of
        (Inl e, co') \<Rightarrow> (Inl e, co')
      | (Inr _, co') \<Rightarrow>
         (let co' = (trim_decision_cache co')\<lparr>co_recovery_loaded := True\<rparr> in
          case co_account co' of
            None \<Rightarrow> (Inr (), co')
          | Some a \<Rightarrow> settle_account a () co'))"

section \<open>Venue measurements\<close>

definition apply_venue :: "venue_quality \<Rightarrow> coordinator \<Rightarrow> bool res \<times> coordinator" where
  "apply_venue v co =
     (if vq_profile v \<noteq> DEV
      then (Inl (ValueError ''PAPER venue quality must use the EVEDEX DEV profile''), co)
      else if vq_symbol v \<notin> set (map snd PAPER_DEV_SYMBOL_MAP)
      then (Inl (ValueError ''PAPER venue quality symbol is outside the fixed DEV universe''), co)
      else
        (let symbol = vq_symbol v; stamp = vq_observed_at_ms v;
             install = co\<lparr>co_venue_versions := AList.update symbol (stamp, vq_measurement_id v) (co_venue_versions co),
                         co_venue := AList.update symbol v (co_venue co)\<rparr>
         in case map_of (co_venue_versions co) symbol of
              None \<Rightarrow> (Inr True, install)
            | Some (seen_at, seen_id) \<Rightarrow>
                if stamp < seen_at then (Inr False, co)
                else if stamp = seen_at
                then if seen_id = vq_measurement_id v then (Inr False, co)
                     else (Inl (ValueError ''conflicting VenueQualityV1 observation timestamp''),
                           co\<lparr>co_venue := AList.delete symbol (co_venue co),
                              co_venue_versions := AList.update symbol (stamp, None) (co_venue_versions co)\<rparr>)
                else (Inr True, install)))"

section \<open>Waiting for inputs\<close>

datatype input_error =
    Raised pyerr
  | PaperInputUnavailable string
  | PaperInputDeadlineExceeded string

definition regime_ready :: "coordinator \<Rightarrow> candidate_review \<Rightarrow> bool" where
  "regime_ready co review \<longleftrightarrow>
     \<not> needs_regime_binding co review \<or>
     (case in_intent_id (cr_intent review) of
        None \<Rightarrow> False | Some intent_id \<Rightarrow> intent_id \<in> set (map fst (co_regime co)))"

definition inputs_ready :: "coordinator \<Rightarrow> candidate_review \<Rightarrow> bool" where
  "inputs_ready co review \<longleftrightarrow>
     recovery_complete co \<and>
     (case expected_symbol (cr_intent review) of
        None \<Rightarrow> False | Some symbol \<Rightarrow> symbol \<in> set (map fst (co_venue co))) \<and>
     regime_ready co review"

text \<open>
  One round of the loop sees the state and reads the clock; if it must wait, the condition is
  notified, or the wait runs into its timeout. The list holds the rounds so far; \<open>None\<close> says
  that the call still waits.
\<close>

record wait_round =
  wr_state :: coordinator
  wr_now_ms :: int
  wr_notified :: bool

definition deadline_exceeded :: input_error where
  "deadline_exceeded =
     PaperInputDeadlineExceeded ''PAPER admission inputs did not arrive before intent expiry''"

fun wait_for_inputs :: "candidate_review \<Rightarrow> wait_round list \<Rightarrow> (input_error + unit) option" where
  "wait_for_inputs review [] = None"
| "wait_for_inputs review (w # rounds) =
     (if inputs_ready (wr_state w) review then Some (Inr ())
      else if in_entry_expires_ts_ms (cr_intent review) - wr_now_ms w \<le> 0 then Some (Inl deadline_exceeded)
      else if wr_notified w then wait_for_inputs review rounds
      else Some (Inl deadline_exceeded))"

section \<open>Evaluation\<close>

definition move_to_end :: "string \<Rightarrow> (string \<times> 'v) list \<Rightarrow> (string \<times> 'v) list" where
  "move_to_end key xs =
     (case map_of xs key of None \<Rightarrow> xs | Some v \<Rightarrow> AList.delete key xs @ [(key, v)])"

text \<open>\<open>self._regime_allocations.get(intent_id or "")\<close>, and whether it is a poisoned one.\<close>

definition regime_of :: "coordinator \<Rightarrow> strategy_intent \<Rightarrow> regime_allocation option" where
  "regime_of co intent =
     (case map_of (co_regime co) (case in_intent_id intent of None \<Rightarrow> '''' | Some i \<Rightarrow> i) of
        None \<Rightarrow> None | Some held \<Rightarrow> held)"

definition regime_conflict :: "coordinator \<Rightarrow> candidate_review \<Rightarrow> bool" where
  "regime_conflict co review \<longleftrightarrow>
     needs_regime_binding co review \<and>
     (case in_intent_id (cr_intent review) of
        None \<Rightarrow> False | Some i \<Rightarrow> i \<in> set (map fst (co_regime co))) \<and>
     regime_of co (cr_intent review) = None"

text \<open>A fresh decision enters the cache, and an approved one becomes a reservation.\<close>

definition record_decision ::
    "string \<Rightarrow> risk_decision \<Rightarrow> coordinator \<Rightarrow> (input_error + risk_decision) \<times> coordinator" where
  "record_decision review_id d co =
     (let co = co\<lparr>co_decisions := move_to_end review_id (AList.update review_id d (co_decisions co))\<rparr> in
      if rd_approved d
      then case rd_trade_id d of
        None \<Rightarrow> (Inl (Raised (ValueError ''approved RiskTradeDecisionV1 has no trade_id'')), co)
      | Some trade_id \<Rightarrow>
         (Inr d,
          trim_decision_cache
            (co\<lparr>co_reservations :=
                 AList.update trade_id
                   \<lparr>rv_decision = d, rv_seq = (case co_latest_seq co of None \<Rightarrow> 0 | Some l \<Rightarrow> l)\<rparr>
                   (co_reservations co)\<rparr>))
      else (Inr d, trim_decision_cache co))"

record paper_request =
  rq_review :: candidate_review
  rq_allocation :: "strategic_allocation option"
  rq_decided_at_ms :: int
  rq_mode :: system_mode
  rq_admission :: "string list"

definition admission_of :: "coordinator \<Rightarrow> paper_request \<Rightarrow> string list" where
  "admission_of co rq =
     (if regime_conflict co (rq_review rq)
      then unique_in_order (rq_admission rq @ [''regime_bound_allocation_conflict''])
      else rq_admission rq)"

definition case_of :: "coordinator \<Rightarrow> paper_request \<Rightarrow> venue_quality \<Rightarrow> reservations \<Rightarrow> paper_case" where
  "case_of co rq v r =
     \<lparr>pk_review = rq_review rq, pk_venue = v, pk_account = co_account co, pk_allocation = rq_allocation rq,
      pk_decided_at_ms = rq_decided_at_ms rq, pk_mode = rq_mode rq, pk_reservations = r,
      pk_admission = admission_of co rq, pk_regime = regime_of co (cr_intent (rq_review rq))\<rparr>"

definition evaluate_fresh ::
    "paper_core \<Rightarrow> string \<Rightarrow> paper_request \<Rightarrow> coordinator \<Rightarrow> (input_error + risk_decision) \<times> coordinator" where
  "evaluate_fresh core review_id rq co =
     (case map_of (co_venue co) (case expected_symbol (cr_intent (rq_review rq)) of None \<Rightarrow> '''' | Some x \<Rightarrow> x) of
        None \<Rightarrow> (Inl (PaperInputUnavailable ''fresh fixed-symbol VenueQualityV1 is unavailable''), co)
      | Some v \<Rightarrow>
         (case current_reservations co of
            Inl e \<Rightarrow> (Inl (Raised e), co)
          | Inr r \<Rightarrow>
             (case evaluate_paper core (co_pipeline co) (case_of co rq v r) of
                Inl e \<Rightarrow> (Inl (Raised e), co)
              | Inr d \<Rightarrow>
                  if admission_of co rq \<noteq> [] then (Inr d, co) else record_decision review_id d co)))"

definition evaluate_review ::
    "paper_core \<Rightarrow> paper_request \<Rightarrow> coordinator \<Rightarrow> (input_error + risk_decision) \<times> coordinator" where
  "evaluate_review core rq co =
     (case cr_review_id (rq_review rq) of
        None \<Rightarrow> (Inl (Raised (ValueError ''CandidateReviewV1 has no canonical review_id'')), co)
      | Some review_id \<Rightarrow>
          if \<not> recovery_complete co
          then (Inl (PaperInputUnavailable ''PAPER durable/account recovery is incomplete''), co)
          else case map_of (co_decisions co) review_id of
            Some cached \<Rightarrow>
              if admission_of co rq = []
              then (Inr cached, co\<lparr>co_decisions := move_to_end review_id (co_decisions co)\<rparr>)
              else evaluate_fresh core review_id rq co
          | None \<Rightarrow> evaluate_fresh core review_id rq co)"

section \<open>Runs\<close>

text \<open>The method calls that change the coordinator, as one step each.\<close>

datatype paper_event =
    RestoreDurable
  | AccountArrived account_v2
  | VenueArrived venue_quality
  | RegimeArrived regime_allocation int
  | ReviewArrived paper_request

fun paper_step :: "paper_core \<Rightarrow> risk_decision list \<Rightarrow> paper_event \<Rightarrow> coordinator \<Rightarrow> coordinator" where
  "paper_step core durable RestoreDurable co = snd (restore_reservations durable co)"
| "paper_step core durable (AccountArrived a) co = snd (apply_account a co)"
| "paper_step core durable (VenueArrived v) co = snd (apply_venue v co)"
| "paper_step core durable (RegimeArrived b at_ms) co = snd (apply_regime_allocation core b at_ms co)"
| "paper_step core durable (ReviewArrived rq) co = snd (evaluate_review core rq co)"

inductive paper_reachable :: "paper_core \<Rightarrow> paper_pipeline \<Rightarrow> risk_decision list \<Rightarrow> coordinator \<Rightarrow> bool"
  for core pl durable where
  start: "paper_reachable core pl durable (new_coordinator pl)"
| step: "paper_reachable core pl durable co \<Longrightarrow> paper_reachable core pl durable (paper_step core durable ev co)"

end
