(* ===== verification/Paper_Ledger.thy ===== *)
theory Paper_Ledger
  imports Paper_Runtime Versioned
begin

text \<open>
  What the PAPER coordinator keeps over a run: the reservation ledger, the decision cache that
  can replay it, the versioned inputs, reconciliation, and waiting for inputs.
\<close>

section \<open>Lemmas on the caches\<close>

lemma find_first: "P x \<Longrightarrow> \<forall>y \<in> set as. \<not> P y \<Longrightarrow> find P (as @ x # bs) = Some x"
  by (induction as) auto

lemma evict_rule [case_names stop drop]:
  assumes stop: "\<And>xs. int (length xs) \<le> limit \<or> (\<forall>p \<in> set xs. retained (fst p)) \<Longrightarrow> P xs xs"
    and drop: "\<And>as key v bs ys. \<not> retained key \<Longrightarrow> \<forall>p \<in> set as. retained (fst p) \<Longrightarrow>
        P (AList.delete key (as @ (key, v) # bs)) ys \<Longrightarrow> P (as @ (key, v) # bs) ys"
  shows "P xs (evict limit retained xs)"
proof (induction "length xs" arbitrary: xs rule: less_induct)
  case less
  show ?case
  proof (cases "int (length xs) \<le> limit \<or> (\<forall>p \<in> set xs. retained (fst p))")
    case True
    have "evict limit retained xs = xs"
    proof (cases "int (length xs) \<le> limit")
      case False
      then have "find (\<lambda>(key, _). \<not> retained key) xs = None" using True by (auto simp: find_None_iff)
      then show ?thesis by (subst evict.simps) simp
    qed (subst evict.simps, simp)
    then show ?thesis using stop True by simp
  next
    case False
    then have "\<exists>p \<in> set xs. case p of (key, _) \<Rightarrow> \<not> retained key" by fastforce
    then obtain as p bs where xs: "xs = as @ p # bs" "case p of (key, _) \<Rightarrow> \<not> retained key"
      "\<forall>q \<in> set as. \<not> (case q of (key, _) \<Rightarrow> \<not> retained key)"
      using split_list_first_prop [of xs "\<lambda>(key, _). \<not> retained key"] by blast
    obtain key v where p: "p = (key, v)" by force
    have "evict limit retained xs = evict limit retained (AList.delete key xs)"
      using find_first [where P = "\<lambda>(key, _). \<not> retained key", OF xs(2,3)] False
      by (subst evict.simps) (simp add: xs(1) p)
    moreover have "length (AList.delete key xs) < length xs"
      unfolding xs(1) p AList.delete_eq filter_append length_append
      by (simp add: less_Suc_eq_le add_mono)
    then have "P (AList.delete key xs) (evict limit retained (AList.delete key xs))" by (rule less.hyps)
    moreover have "\<forall>p \<in> set as. retained (fst p)" using xs(3) by fastforce
    ultimately show ?thesis using drop [of key as v bs] xs(1,2) p by simp
  qed
qed

lemma evict_filter:
  "filter (\<lambda>p. retained (fst p)) (evict limit retained xs) = filter (\<lambda>p. retained (fst p)) xs"
proof (rule evict_rule [of limit retained "\<lambda>xs ys. filter (\<lambda>p. retained (fst p)) ys = filter (\<lambda>p. retained (fst p)) xs"])
  fix as bs ys :: "(string \<times> 'a) list" and key v
  assume "\<not> retained key" "filter (\<lambda>p. retained (fst p)) ys =
    filter (\<lambda>p. retained (fst p)) (AList.delete key (as @ (key, v) # bs))"
  moreover have "filter (\<lambda>p. retained (fst p)) (AList.delete key zs) = filter (\<lambda>p. retained (fst p)) zs"
    for zs :: "(string \<times> 'a) list"
    using \<open>\<not> retained key\<close> by (induction zs) (auto simp: AList.delete_eq)
  ultimately show "filter (\<lambda>p. retained (fst p)) ys = filter (\<lambda>p. retained (fst p)) (as @ (key, v) # bs)" by metis
qed simp

lemma evict_bound:
  "int (length (evict limit retained xs)) \<le> limit \<or> (\<forall>p \<in> set (evict limit retained xs). retained (fst p))"
  by (rule evict_rule [of limit retained "\<lambda>_ ys. int (length ys) \<le> limit \<or> (\<forall>p \<in> set ys. retained (fst p))"])

lemma delete_absent: "k \<notin> fst ` set xs \<Longrightarrow> AList.delete k xs = xs"
  by (induction xs) (auto simp: AList.delete_eq)

lemma delete_unmapped: "distinct (map fst (as @ (k, v) # bs)) \<Longrightarrow> AList.delete k (as @ (k, v) # bs) = as @ bs"
  using delete_absent [of k as] delete_absent [of k bs] by (auto simp: AList.delete_eq)

text \<open>What goes is the oldest of what nothing retains.\<close>

lemma evict_oldest_first:
  "distinct (map fst xs) \<Longrightarrow>
     \<exists>n. filter (\<lambda>p. \<not> retained (fst p)) (evict limit retained xs) =
         drop n (filter (\<lambda>p. \<not> retained (fst p)) xs)"
proof (rule evict_rule [of limit retained "\<lambda>xs ys. distinct (map fst xs) \<longrightarrow>
    (\<exists>n. filter (\<lambda>p. \<not> retained (fst p)) ys = drop n (filter (\<lambda>p. \<not> retained (fst p)) xs))", THEN mp])
  fix as bs ys :: "(string \<times> 'a) list" and key v
  assume *: "\<not> retained key" "\<forall>p \<in> set as. retained (fst p)"
    "distinct (map fst (AList.delete key (as @ (key, v) # bs))) \<longrightarrow> (\<exists>n. filter (\<lambda>p. \<not> retained (fst p)) ys =
      drop n (filter (\<lambda>p. \<not> retained (fst p)) (AList.delete key (as @ (key, v) # bs))))"
  show "distinct (map fst (as @ (key, v) # bs)) \<longrightarrow> (\<exists>n. filter (\<lambda>p. \<not> retained (fst p)) ys =
      drop n (filter (\<lambda>p. \<not> retained (fst p)) (as @ (key, v) # bs)))"
  proof
    assume d: "distinct (map fst (as @ (key, v) # bs))"
    have "filter (\<lambda>p. \<not> retained (fst p)) as = []" using *(2) by simp
    then obtain n where "filter (\<lambda>p. \<not> retained (fst p)) ys = drop n (filter (\<lambda>p. \<not> retained (fst p)) bs)"
      using *(3) delete_unmapped [OF d] d by auto
    then show "\<exists>n. filter (\<lambda>p. \<not> retained (fst p)) ys =
        drop n (filter (\<lambda>p. \<not> retained (fst p)) (as @ (key, v) # bs))"
      using *(1,2) by (intro exI [of _ "Suc n"]) simp
  qed
qed (auto intro: exI [of _ 0])

lemma evict_distinct: "distinct (map fst xs) \<Longrightarrow> distinct (map fst (evict limit retained xs))"
  by (rule evict_rule [of limit retained "\<lambda>xs ys. distinct (map fst xs) \<longrightarrow> distinct (map fst ys)", rule_format])
    (blast intro: AList.distinct_delete)+

lemma map_of_filter_key: "P k \<Longrightarrow> map_of (filter (\<lambda>p. P (fst p)) xs) k = map_of xs k"
  by (induction xs) auto

lemma evict_keeps: "retained k \<Longrightarrow> map_of (evict limit retained xs) k = map_of xs k"
  by (metis evict_filter map_of_filter_key)

lemma move_to_end_map_of [simp]: "map_of (move_to_end k xs) = map_of xs"
  by (auto simp: move_to_end_def AList.delete_conv' map_add_def restrict_map_def fun_eq_iff split: option.splits)

lemma move_to_end_distinct: "distinct (map fst xs) \<Longrightarrow> distinct (map fst (move_to_end k xs))"
  using AList.distinct_delete [of xs k] by (auto simp: move_to_end_def AList.delete_eq split: option.splits)

section \<open>The reservation ledger\<close>

declare map_of_eq_Some_iff [simp del]

lemma map_of_update: "map_of (AList.update k v xs) = (map_of xs)(k \<mapsto> v)"
  by (rule ext) (simp add: AList.update_conv')

definition reserved_ok :: "coordinator \<Rightarrow> string \<Rightarrow> risk_decision \<Rightarrow> bool" where
  "reserved_ok co trade_id d \<longleftrightarrow>
     rd_approved d \<and> rd_trading_mode d = PAPER \<and> rd_evedex_profile d = DEV \<and>
     rd_account_id d = rs_paper_account_id (co_settings co) \<and> rd_trade_id d = Some trade_id \<and>
     (\<exists>review_id. cr_review_id (rd_review d) = Some review_id \<and> map_of (co_decisions co) review_id = Some d)"

text \<open>Two approvals do not share an instrument, and are not both canaries.\<close>

definition exclusive :: "risk_decision \<Rightarrow> risk_decision \<Rightarrow> bool" where
  "exclusive d d' \<longleftrightarrow> rd_venue_symbol d \<noteq> rd_venue_symbol d' \<and> \<not> (is_canary d \<and> is_canary d')"

definition ledger_ok :: "risk_decision list \<Rightarrow> coordinator \<Rightarrow> bool" where
  "ledger_ok durable co \<longleftrightarrow>
     distinct (map fst (co_reservations co)) \<and> distinct (map fst (co_decisions co)) \<and>
     (\<forall>t rv. map_of (co_reservations co) t = Some rv \<longrightarrow>
        reserved_ok co t (rv_decision rv) \<and> (\<not> co_recovery_loaded co \<longrightarrow> rv_decision rv \<in> set durable)) \<and>
     (\<forall>t rv t' rv'. map_of (co_reservations co) t = Some rv \<longrightarrow> map_of (co_reservations co) t' = Some rv' \<longrightarrow>
        t \<noteq> t' \<longrightarrow> exclusive (rv_decision rv) (rv_decision rv'))"

text \<open>
  What the durable decisions must be for their reservations to be consistent: one approval per
  instrument, one canary, one per review. The same decision may occur twice.
\<close>

definition durable_ok :: "risk_decision list \<Rightarrow> bool" where
  "durable_ok durable \<longleftrightarrow>
     (\<forall>d \<in> set durable. \<forall>d' \<in> set durable. d \<noteq> d' \<longrightarrow>
        exclusive d d' \<and> cr_review_id (rd_review d) \<noteq> cr_review_id (rd_review d'))"

lemma ledger_okI:
  assumes "distinct (map fst (co_reservations co))" "distinct (map fst (co_decisions co))"
    "\<And>t rv. map_of (co_reservations co) t = Some rv \<Longrightarrow> reserved_ok co t (rv_decision rv)"
    "\<And>t rv. map_of (co_reservations co) t = Some rv \<Longrightarrow> \<not> co_recovery_loaded co \<Longrightarrow> rv_decision rv \<in> set durable"
    "\<And>t rv t' rv'. map_of (co_reservations co) t = Some rv \<Longrightarrow> map_of (co_reservations co) t' = Some rv' \<Longrightarrow>
        t \<noteq> t' \<Longrightarrow> exclusive (rv_decision rv) (rv_decision rv')"
  shows "ledger_ok durable co"
  using assms unfolding ledger_ok_def by blast

lemma ledger_okD:
  assumes "ledger_ok durable co"
  shows "distinct (map fst (co_reservations co))" "distinct (map fst (co_decisions co))"
    "map_of (co_reservations co) t = Some rv \<Longrightarrow> reserved_ok co t (rv_decision rv)"
    "map_of (co_reservations co) t = Some rv \<Longrightarrow> \<not> co_recovery_loaded co \<Longrightarrow> rv_decision rv \<in> set durable"
    "map_of (co_reservations co) t = Some rv \<Longrightarrow> map_of (co_reservations co) t' = Some rv' \<Longrightarrow>
        t \<noteq> t' \<Longrightarrow> exclusive (rv_decision rv) (rv_decision rv')"
  using assms unfolding ledger_ok_def by blast+

lemma ledger_ok_frame:
  assumes "ledger_ok durable co" "co_pipeline co' = co_pipeline co" "co_reservations co' = co_reservations co"
    "co_decisions co' = co_decisions co" "co_recovery_loaded co' = co_recovery_loaded co"
  shows "ledger_ok durable co'"
  using assms by (simp add: ledger_ok_def reserved_ok_def co_settings_def)

lemma ledger_ok_shrink:
  assumes "ledger_ok durable co" "co_pipeline co' = co_pipeline co"
    "\<And>t rv. map_of (co_reservations co') t = Some rv \<Longrightarrow> map_of (co_reservations co) t = Some rv"
    "distinct (map fst (co_reservations co'))" "distinct (map fst (co_decisions co'))"
    "\<And>r. reserved_review co r \<Longrightarrow> map_of (co_decisions co') r = map_of (co_decisions co) r"
    "co_recovery_loaded co \<Longrightarrow> co_recovery_loaded co'"
  shows "ledger_ok durable co'"
proof -
  have "reserved_ok co' t (rv_decision rv)" if m: "map_of (co_reservations co) t = Some rv" for t rv
  proof -
    have ok: "reserved_ok co t (rv_decision rv)" using assms(1) m by (auto simp: ledger_ok_def)
    then obtain r where r: "cr_review_id (rd_review (rv_decision rv)) = Some r"
      "map_of (co_decisions co) r = Some (rv_decision rv)" by (auto simp: reserved_ok_def)
    have "reserved_review co r" using map_of_SomeD [OF m] r(1) by (auto simp: reserved_review_def)
    then show ?thesis using ok r assms(2,6) by (auto simp: reserved_ok_def co_settings_def)
  qed
  then show ?thesis using assms(3-5,7) ledger_okD [OF assms(1)] by (intro ledger_okI) blast+
qed

lemma ledger_ok_add:
  assumes "ledger_ok durable co" "reserved_ok co' t d" "\<not> co_recovery_loaded co \<Longrightarrow> d \<in> set durable"
    and "co_pipeline co' = co_pipeline co" "co_recovery_loaded co' = co_recovery_loaded co"
    and "co_reservations co' = AList.update t \<lparr>rv_decision = d, rv_seq = n\<rparr> (co_reservations co)"
    and "distinct (map fst (co_decisions co'))"
    and "\<And>r. cr_review_id (rd_review d) \<noteq> Some r \<Longrightarrow> map_of (co_decisions co') r = map_of (co_decisions co) r"
    and "\<And>t' rv'. t' \<noteq> t \<Longrightarrow> map_of (co_reservations co) t' = Some rv' \<Longrightarrow>
      exclusive d (rv_decision rv') \<and> cr_review_id (rd_review d) \<noteq> cr_review_id (rd_review (rv_decision rv'))"
  shows "ledger_ok durable co'"
proof (rule ledger_okI)
  note ok = ledger_okD [OF assms(1)]
  show "distinct (map fst (co_reservations co'))" unfolding assms(6) by (rule AList.distinct_update [OF ok(1)])
  fix t1 rv1 assume m1: "map_of (co_reservations co') t1 = Some rv1"
  have old: "map_of (co_reservations co) t1 = Some rv1" if "t1 \<noteq> t"
    using m1 that by (simp add: assms(6) map_of_update)
  have new: "rv_decision rv1 = d" if "t1 = t" using m1 that by (auto simp: assms(6) map_of_update)
  show "reserved_ok co' t1 (rv_decision rv1)"
  proof (cases "t1 = t")
    case False
    have "reserved_ok co t1 (rv_decision rv1)" by (rule ok(3) [OF old [OF False]])
    moreover have "cr_review_id (rd_review d) \<noteq> cr_review_id (rd_review (rv_decision rv1))"
      using assms(9) [OF False old [OF False]] by simp
    ultimately show ?thesis using assms(8) by (auto simp: reserved_ok_def co_settings_def assms(4))
  qed (use new assms(2) in simp)
  show "rv_decision rv1 \<in> set durable" if "\<not> co_recovery_loaded co'"
    using that assms(3,5) new old ok(4) by (cases "t1 = t") auto
  fix t2 rv2 assume m2: "map_of (co_reservations co') t2 = Some rv2" and ne: "t1 \<noteq> t2"
  have old2: "map_of (co_reservations co) t2 = Some rv2" if "t2 \<noteq> t"
    using m2 that by (simp add: assms(6) map_of_update)
  have new2: "rv_decision rv2 = d" if "t2 = t" using m2 that by (auto simp: assms(6) map_of_update)
  show "exclusive (rv_decision rv1) (rv_decision rv2)"
  proof (cases "t1 = t")
    case True
    then show ?thesis using new assms(9) [of t2 rv2] old2 ne by auto
  next
    case False
    show ?thesis
    proof (cases "t2 = t")
      case True
      then show ?thesis using new2 assms(9) [of t1 rv1] old False by (auto simp: exclusive_def)
    qed (use ok(5) old old2 False ne in blast)
  qed
qed (rule assms(7))

lemma trim_keeps:
  "reserved_review co r \<Longrightarrow> map_of (co_decisions (trim_decision_cache co)) r = map_of (co_decisions co) r"
  by (simp add: trim_decision_cache_def evict_keeps)

lemma trim_fields [simp]:
  "co_pipeline (trim_decision_cache co) = co_pipeline co"
  "co_reservations (trim_decision_cache co) = co_reservations co"
  "co_recovery_loaded (trim_decision_cache co) = co_recovery_loaded co"
  "co_account (trim_decision_cache co) = co_account co"
  "co_latest_seq (trim_decision_cache co) = co_latest_seq co"
  "co_account_ready (trim_decision_cache co) = co_account_ready co"
  "co_venue (trim_decision_cache co) = co_venue co"
  "co_venue_versions (trim_decision_cache co) = co_venue_versions co"
  "co_regime (trim_decision_cache co) = co_regime co"
  by (simp_all add: trim_decision_cache_def)

lemma trim_ledger: "ledger_ok durable co \<Longrightarrow> ledger_ok durable (trim_decision_cache co)"
proof -
  assume ok: "ledger_ok durable co"
  show ?thesis
  proof (rule ledger_ok_shrink [OF ok])
  show "distinct (map fst (co_decisions (trim_decision_cache co)))"
    using ledger_okD(2) [OF ok] by (simp add: trim_decision_cache_def evict_distinct)
  show "distinct (map fst (co_reservations (trim_decision_cache co)))" using ledger_okD(1) [OF ok] by simp
  qed (simp_all only: trim_fields trim_keeps)
qed

lemma distinct_filter_keys: "distinct (map fst xs) \<Longrightarrow> distinct (map fst (filter P xs))"
  by (induction xs) auto

lemma map_of_filter_SomeD:
  "distinct (map fst xs) \<Longrightarrow> map_of (filter P xs) k = Some v \<Longrightarrow> map_of xs k = Some v"
  by (auto simp: map_of_eq_Some_iff distinct_filter_keys)

lemma reconcile_Inr:
  assumes "reconcile_reservations a co = Inr co'"
  obtains ids where "transferred_ids a (co_reservations co) = Inr ids"
    "co' = co\<lparr>co_reservations := filter (\<lambda>(t, _). t \<notin> set ids) (co_reservations co)\<rparr>"
  using assms by (auto simp: reconcile_reservations_def split: sum.splits)

lemma reconcile_ledger:
  assumes "reconcile_reservations a co = Inr co'" "ledger_ok durable co"
  shows "ledger_ok durable co'"
proof -
  note ok = ledger_okD(1,2) [OF assms(2)]
  obtain ids where co': "co' = co\<lparr>co_reservations := filter (\<lambda>(t, _). t \<notin> set ids) (co_reservations co)\<rparr>"
    using assms(1) by (rule reconcile_Inr)
  show ?thesis
  proof (rule ledger_ok_shrink [OF assms(2)])
    show "map_of (co_reservations co) t = Some rv" if "map_of (co_reservations co') t = Some rv" for t rv
      using map_of_filter_SomeD [OF ok(1)] that by (simp add: co')
  qed (simp_all add: co' ok distinct_filter_keys)
qed

lemma settle_cases2:
  assumes "settle_account a x co = (out, co')"
  obtains (reconciled) "account_is_authoritative (co_settings co) a"
      "reconcile_reservations a (co\<lparr>co_account_ready := True\<rparr>) = Inr co'" "out = Inr x"
  | (poisoned) e where "account_is_authoritative (co_settings co) a"
      "reconcile_reservations a (co\<lparr>co_account_ready := True\<rparr>) = Inl e"
      "co' = co\<lparr>co_account := None, co_account_ready := False\<rparr>" "out = Inl e"
  | (foreign) "\<not> account_is_authoritative (co_settings co) a" "co' = co\<lparr>co_account_ready := False\<rparr>" "out = Inr x"
  using assms by (auto simp: settle_account_def Let_def split: if_split_asm sum.splits)

lemma settle_ledger:
  assumes "ledger_ok durable co" shows "ledger_ok durable (snd (settle_account a x co))"
proof -
  obtain out co' where s: "settle_account a x co = (out, co')" by force
  have "ledger_ok durable co'"
    using s
  proof (cases rule: settle_cases2)
    case reconciled
    show ?thesis by (rule reconcile_ledger [OF reconciled(2)]) (rule ledger_ok_frame [OF assms], simp_all)
  qed (auto intro!: ledger_ok_frame [OF assms])
  then show ?thesis by (simp add: s)
qed

lemma account_ledger: "ledger_ok durable co \<Longrightarrow> ledger_ok durable (snd (apply_account a co))"
  by (auto simp: apply_account_def poison_account_def Let_def split: option.splits
      intro: ledger_ok_frame [of durable co] intro!: settle_ledger)

lemma venue_ledger: "ledger_ok durable co \<Longrightarrow> ledger_ok durable (snd (apply_venue v co))"
  by (auto simp: apply_venue_def Let_def split: option.splits intro: ledger_ok_frame [of durable co])

lemma regime_ledger: "ledger_ok durable co \<Longrightarrow> ledger_ok durable (snd (apply_regime_allocation core b t co))"
  by (auto simp: apply_regime_allocation_def Let_def split: option.splits intro: ledger_ok_frame [of durable co])

lemma restore_one_ledger:
  assumes "restore_one d co = Inr co'" "ledger_ok durable co" "durable_ok durable" "d \<in> set durable"
    "\<not> co_recovery_loaded co"
  shows "ledger_ok durable co' \<and> \<not> co_recovery_loaded co'"
proof -
  obtain t r where tr: "rd_trade_id d = Some t" "cr_review_id (rd_review d) = Some r"
    "validate_recovered (co_settings co) d = Inr ()"
    "co' = co\<lparr>co_reservations := AList.update t \<lparr>rv_decision = d, rv_seq = 0\<rparr> (co_reservations co),
              co_decisions := AList.update r d (co_decisions co)\<rparr>"
    using assms(1) by (auto simp: restore_one_def split: sum.splits option.splits if_split_asm)
  have "ledger_ok durable co'"
  proof (rule ledger_ok_add [OF assms(2)])
    show "reserved_ok co' t d" using tr
      by (auto simp: reserved_ok_def validate_recovered_def co_settings_def map_of_update split: if_split_asm)
    show "distinct (map fst (co_decisions co'))"
      using ledger_okD(2) [OF assms(2)] by (simp add: tr AList.distinct_update)
    fix t' rv' assume ne: "t' \<noteq> t" and m: "map_of (co_reservations co) t' = Some rv'"
    have "rv_decision rv' \<noteq> d" using ledger_okD(3) [OF assms(2) m] tr(1) ne by (auto simp: reserved_ok_def)
    then show "exclusive d (rv_decision rv') \<and>
        cr_review_id (rd_review d) \<noteq> cr_review_id (rd_review (rv_decision rv'))"
      using assms(3,4) ledger_okD(4) [OF assms(2) m assms(5)] unfolding durable_ok_def by metis
  qed (use assms tr in \<open>auto simp: map_of_update\<close>)
  then show ?thesis using assms(5) tr(4) by simp
qed

lemma restore_all_ledger:
  "set ds \<subseteq> set durable \<Longrightarrow> ledger_ok durable co \<Longrightarrow> durable_ok durable \<Longrightarrow> \<not> co_recovery_loaded co \<Longrightarrow>
     ledger_ok durable (snd (restore_all ds co)) \<and> \<not> co_recovery_loaded (snd (restore_all ds co))"
proof (induction ds arbitrary: co)
  case (Cons d ds)
  then show ?case using restore_one_ledger [of d co _ durable] by (auto split: sum.splits)
qed simp

lemma restore_ledger:
  assumes "ledger_ok durable co" "durable_ok durable"
  shows "ledger_ok durable (snd (restore_reservations durable co))"
proof (cases "co_recovery_loaded co")
  case False
  obtain out co' where r: "restore_all durable co = (out, co')" by force
  have ok: "ledger_ok durable co'" using restore_all_ledger [OF subset_refl assms False] by (simp add: r)
  let ?c = "(trim_decision_cache co')\<lparr>co_recovery_loaded := True\<rparr>"
  have c: "ledger_ok durable ?c"
    using ledger_okD [OF trim_ledger [OF ok]]
    by (intro ledger_ok_shrink [OF trim_ledger [OF ok]]) simp_all
  then show ?thesis
    using ok settle_ledger [OF c]
    by (auto simp: restore_reservations_def False r Let_def split: sum.splits option.splits)
qed (simp add: restore_reservations_def assms)

lemma reservation_view_Inr:
  assumes "reservation_view ds = Inr r" "\<forall>d \<in> set ds. rd_approved d"
  shows "pr_symbols r = set (map rd_venue_symbol ds)" "pr_active_canary_ideas r = int (length (filter is_canary ds))"
proof -
  have "filter rd_approved ds = ds" using assms(2) by simp
  then show "pr_symbols r = set (map rd_venue_symbol ds)"
    "pr_active_canary_ideas r = int (length (filter is_canary ds))"
    using assms(1) by (auto simp: reservation_view_def mk_reservations_def Let_def split: if_split_asm)
qed

lemma evaluate_paper_fields:
  assumes "seal_keeps core" "evaluate_paper core pl k = Inr d"
  shows "rd_trading_mode d = PAPER" "rd_evedex_profile d = DEV"
    "rd_account_id d = rs_paper_account_id (pl_settings pl)" "rd_intent d = cr_intent (pk_review k)"
    "rd_review d = pk_review k" "rd_venue_symbol d = vq_symbol (pk_venue k)"
proof -
  obtain g q rs where "pc_seal core (draft_decision pl k g q (gr_reasons g @ rs)) = Inr d"
    using assms(2) by (rule evaluate_paper_Inr)
  note seal = seal_keepsD [OF assms(1) this]
  obtain rs' q' fees slippage loss where s: "settle k g q (gr_reasons g @ rs) = (rs', q', fees, slippage, loss)"
    by (metis prod_cases5)
  show "rd_trading_mode d = PAPER" "rd_evedex_profile d = DEV"
    "rd_account_id d = rs_paper_account_id (pl_settings pl)" "rd_intent d = cr_intent (pk_review k)"
    "rd_review d = pk_review k" "rd_venue_symbol d = vq_symbol (pk_venue k)"
    using seal draft_decision_simps [OF s] by simp_all
qed

text \<open>A fresh approval excludes every reservation that is already there.\<close>

lemma fresh_approval_exclusive:
  assumes "seal_keeps core" "current_reservations co = Inr r"
    "evaluate_paper core (co_pipeline co) (case_of co rq v r) = Inr d" "rd_approved d"
    "ledger_ok durable co" "map_of (co_reservations co) t = Some rv"
  shows "exclusive d (rv_decision rv)"
proof -
  let ?ds = "map (rv_decision \<circ> snd) (co_reservations co)"
  have mem: "rv_decision rv \<in> set ?ds" using map_of_SomeD [OF assms(6)] by force
  have "\<forall>d \<in> set ?ds. rd_approved d"
    using ledger_okD(1,3) [OF assms(5)] by (auto simp: reserved_ok_def map_of_eq_Some_iff)
  note view = reservation_view_Inr [OF assms(2) [unfolded current_reservations_def] this]
  obtain a where "admissible_account (pl_settings (co_pipeline co)) a (vq_symbol v)
      (in_strategy_id (cr_intent (rq_review rq))) (rq_decided_at_ms rq) r"
    using approved_sized [OF assms(1,3,4)] unfolding case_of_def paper_case.simps by metis
  then have "vq_symbol v \<notin> pr_symbols r"
    "in_strategy_id (cr_intent (rq_review rq)) = PAPER_CANARY_STRATEGY_ID \<longrightarrow>
       int (card (active_canary_trades a)) + pr_active_canary_ideas r \<le> 0"
    unfolding admissible_account_def by blast+
  then have adm: "rd_venue_symbol d \<notin> pr_symbols r" "is_canary d \<longrightarrow> pr_active_canary_ideas r \<le> 0"
    using evaluate_paper_fields(4,6) [OF assms(1,3)] by (auto simp: case_of_def is_canary_def)
  have "0 < pr_active_canary_ideas r" if "is_canary (rv_decision rv)"
  proof -
    have "rv_decision rv \<in> set (filter is_canary ?ds)" using mem that by simp
    from length_pos_if_in_set [OF this] show ?thesis unfolding view(2) by (simp only: of_nat_0_less_iff)
  qed
  moreover have "rd_venue_symbol (rv_decision rv) \<in> pr_symbols r"
    unfolding view(1) set_map [of rd_venue_symbol] using mem by (rule imageI)
  ultimately show ?thesis using adm by (auto simp: exclusive_def)
qed

lemma record_ledger:
  assumes "ledger_ok durable co" "recovery_complete co" "cr_review_id (rd_review d) = Some r"
    "map_of (co_decisions co) r = None"
    "rd_approved d \<Longrightarrow> rd_trading_mode d = PAPER \<and> rd_evedex_profile d = DEV \<and>
       rd_account_id d = rs_paper_account_id (co_settings co)"
    "\<And>t rv. rd_approved d \<Longrightarrow> map_of (co_reservations co) t = Some rv \<Longrightarrow> exclusive d (rv_decision rv)"
  shows "ledger_ok durable (snd (record_decision r d co))"
proof -
  let ?c = "co\<lparr>co_decisions := move_to_end r (AList.update r d (co_decisions co))\<rparr>"
  have dist: "distinct (map fst (co_decisions ?c))"
    using ledger_okD(2) [OF assms(1)] by (simp add: move_to_end_distinct AList.distinct_update)
  have other: "map_of (co_decisions ?c) r' = map_of (co_decisions co) r'" if "r' \<noteq> r" for r'
    using that by (simp add: map_of_update)
  have unreserved: "cr_review_id (rd_review (rv_decision rv)) \<noteq> Some r" if "map_of (co_reservations co) t = Some rv" for t rv
    using ledger_okD(3) [OF assms(1) that] assms(4) by (auto simp: reserved_ok_def)
  have base: "ledger_ok durable ?c"
  proof (rule ledger_ok_shrink [OF assms(1)])
    show "distinct (map fst (co_decisions ?c))" by (rule dist)
    fix r' assume "reserved_review co r'"
    then have "r' \<noteq> r" using unreserved ledger_okD(1) [OF assms(1)]
      by (auto simp: reserved_review_def map_of_eq_Some_iff)
    then show "map_of (co_decisions ?c) r' = map_of (co_decisions co) r'" by (rule other)
  qed (use ledger_okD(1) [OF assms(1)] in auto)
  show ?thesis
  proof (cases "rd_approved d")
    case True
    show ?thesis
    proof (cases "rd_trade_id d")
      case (Some t)
      let ?d = "?c\<lparr>co_reservations := AList.update t
          \<lparr>rv_decision = d, rv_seq = (case co_latest_seq co of None \<Rightarrow> 0 | Some l \<Rightarrow> l)\<rparr> (co_reservations co)\<rparr>"
      have "ledger_ok durable ?d"
      proof (rule ledger_ok_add [OF assms(1)])
        show "reserved_ok ?d t d"
          using True assms(3) assms(5) [OF True] Some by (auto simp: reserved_ok_def co_settings_def map_of_update)
        show "distinct (map fst (co_decisions ?d))" using dist by simp
        fix r' assume "cr_review_id (rd_review d) \<noteq> Some r'"
        then show "map_of (co_decisions ?d) r' = map_of (co_decisions co) r'" using other assms(3) by auto
      next
        fix t' rv' assume "map_of (co_reservations co) t' = Some rv'"
        then show "exclusive d (rv_decision rv') \<and>
            cr_review_id (rd_review d) \<noteq> cr_review_id (rd_review (rv_decision rv'))"
          using assms(6) [OF True] unreserved [of t' rv'] assms(3) by simp
      qed (use assms(2) in \<open>auto simp: recovery_complete_def\<close>)
      then show ?thesis using trim_ledger by (simp add: record_decision_def True Some)
    qed (use base True in \<open>simp add: record_decision_def\<close>)
  qed (use base trim_ledger in \<open>simp add: record_decision_def\<close>)
qed

lemma evaluate_fresh_ledger:
  assumes "seal_keeps core" "ledger_ok durable co" "recovery_complete co" "cr_review_id (rq_review rq) = Some r"
    "map_of (co_decisions co) r = None \<or> admission_of co rq \<noteq> []"
  shows "ledger_ok durable (snd (evaluate_fresh core r rq co))"
proof (rule ccontr)
  assume bad: "\<not> ledger_ok durable (snd (evaluate_fresh core r rq co))"
  then obtain v rs d where e: "current_reservations co = Inr rs"
    "evaluate_paper core (co_pipeline co) (case_of co rq v rs) = Inr d" "admission_of co rq = []"
    "evaluate_fresh core r rq co = record_decision r d co"
    using assms(2) by (auto simp: evaluate_fresh_def split: option.splits sum.splits if_split_asm)
  have "ledger_ok durable (snd (record_decision r d co))"
  proof (rule record_ledger [OF assms(2,3)])
    show "cr_review_id (rd_review d) = Some r"
      using evaluate_paper_fields(5) [OF assms(1) e(2)] assms(4) by (simp add: case_of_def)
    show "map_of (co_decisions co) r = None" using assms(5) e(3) by blast
    show "rd_trading_mode d = PAPER \<and> rd_evedex_profile d = DEV \<and>
        rd_account_id d = rs_paper_account_id (co_settings co)"
      using evaluate_paper_fields [OF assms(1) e(2)] by (simp add: co_settings_def)
  qed (rule fresh_approval_exclusive [OF assms(1) e(1,2) _ assms(2)])
  then show False using bad e(4) by simp
qed

lemma evaluate_ledger:
  assumes "seal_keeps core" "ledger_ok durable co"
  shows "ledger_ok durable (snd (evaluate_review core rq co))"
proof -
  have "ledger_ok durable (co\<lparr>co_decisions := move_to_end r (co_decisions co)\<rparr>)" for r
    using ledger_okD(1,2) [OF assms(2)]
    by (intro ledger_ok_shrink [OF assms(2)]) (simp_all add: move_to_end_distinct)
  then show ?thesis
    using assms evaluate_fresh_ledger [OF assms]
    by (auto simp: evaluate_review_def split: option.splits)
qed

lemma reachable_ledger:
  assumes "paper_reachable core pl durable co" "seal_keeps core" "durable_ok durable"
  shows "ledger_ok durable co"
  using assms
proof (induction rule: paper_reachable.induct)
  case start
  show ?case by (intro ledger_okI) (simp_all add: new_coordinator_def)
next
  case (step co ev)
  then show ?case
    by (cases ev) (simp_all add: restore_ledger account_ledger venue_ledger regime_ledger evaluate_ledger)
qed

section \<open>Versioned inputs\<close>

fun account_offer :: "paper_event \<Rightarrow> int option" where
  "account_offer (AccountArrived a) = Some (a2_reconciliation_seq a)"
| "account_offer _ = None"

fun venue_offer :: "string \<Rightarrow> paper_event \<Rightarrow> int option" where
  "venue_offer symbol (VenueArrived v) = (if vq_symbol v = symbol then Some (vq_observed_at_ms v) else None)"
| "venue_offer symbol _ = None"

lemma settle_account_account:
  "co_account (snd (settle_account a x co)) = Some y \<Longrightarrow> co_account co = Some y"
  "co_latest_seq (snd (settle_account a x co)) = co_latest_seq co"
  "co_venue (snd (settle_account a x co)) = co_venue co"
  "co_venue_versions (snd (settle_account a x co)) = co_venue_versions co"
proof -
  obtain out co' where s: "settle_account a x co = (out, co')" by force
  have "(co_account co' = co_account co \<or> co_account co' = None) \<and> co_latest_seq co' = co_latest_seq co \<and>
      co_venue co' = co_venue co \<and> co_venue_versions co' = co_venue_versions co"
    using s by (cases rule: settle_cases2) (auto elim: reconcile_Inr)
  then show "co_account (snd (settle_account a x co)) = Some y \<Longrightarrow> co_account co = Some y"
    "co_latest_seq (snd (settle_account a x co)) = co_latest_seq co"
    "co_venue (snd (settle_account a x co)) = co_venue co"
    "co_venue_versions (snd (settle_account a x co)) = co_venue_versions co" by (simp_all add: s)
qed

lemma restore_all_frame:
  "co_account (snd (restore_all ds co)) = co_account co \<and> co_latest_seq (snd (restore_all ds co)) = co_latest_seq co \<and>
   co_venue (snd (restore_all ds co)) = co_venue co \<and>
   co_venue_versions (snd (restore_all ds co)) = co_venue_versions co \<and>
   co_account_ready (snd (restore_all ds co)) = co_account_ready co"
proof (induction ds arbitrary: co)
  case (Cons d ds)
  have "restore_one d co = Inr co' \<Longrightarrow> co_account co' = co_account co \<and> co_latest_seq co' = co_latest_seq co \<and>
      co_venue co' = co_venue co \<and> co_venue_versions co' = co_venue_versions co \<and>
      co_account_ready co' = co_account_ready co" for co'
    by (auto simp: restore_one_def split: sum.splits option.splits if_split_asm)
  then show ?case using Cons by (auto split: sum.splits)
qed simp

lemma restore_frame:
  "co_account (snd (restore_reservations ds co)) = Some y \<Longrightarrow> co_account co = Some y"
  "co_latest_seq (snd (restore_reservations ds co)) = co_latest_seq co"
  "co_venue (snd (restore_reservations ds co)) = co_venue co"
  "co_venue_versions (snd (restore_reservations ds co)) = co_venue_versions co"
proof -
  obtain out co' where r: "restore_all ds co = (out, co')" by force
  show "co_account (snd (restore_reservations ds co)) = Some y \<Longrightarrow> co_account co = Some y"
    "co_latest_seq (snd (restore_reservations ds co)) = co_latest_seq co"
    "co_venue (snd (restore_reservations ds co)) = co_venue co"
    "co_venue_versions (snd (restore_reservations ds co)) = co_venue_versions co"
    using restore_all_frame [of ds co]
    by (auto simp: restore_reservations_def r Let_def settle_account_account(2-4) split: sum.splits option.splits if_split_asm
        dest!: settle_account_account(1))
qed

lemma record_decision_frame:
  "co_account (snd (record_decision r d co)) = co_account co"
  "co_latest_seq (snd (record_decision r d co)) = co_latest_seq co"
  "co_venue (snd (record_decision r d co)) = co_venue co"
  "co_venue_versions (snd (record_decision r d co)) = co_venue_versions co"
  "co_account_ready (snd (record_decision r d co)) = co_account_ready co"
  "co_recovery_loaded (snd (record_decision r d co)) = co_recovery_loaded co"
  by (simp_all add: record_decision_def Let_def split: option.splits)

lemma evaluate_frame:
  "co_account (snd (evaluate_review core rq co)) = co_account co"
  "co_latest_seq (snd (evaluate_review core rq co)) = co_latest_seq co"
  "co_venue (snd (evaluate_review core rq co)) = co_venue co"
  "co_venue_versions (snd (evaluate_review core rq co)) = co_venue_versions co"
  "co_account_ready (snd (evaluate_review core rq co)) = co_account_ready co"
  by (simp_all add: evaluate_review_def evaluate_fresh_def record_decision_frame split: option.splits sum.splits)

lemma regime_frame:
  "co_account (snd (apply_regime_allocation core b t co)) = co_account co"
  "co_latest_seq (snd (apply_regime_allocation core b t co)) = co_latest_seq co"
  "co_venue (snd (apply_regime_allocation core b t co)) = co_venue co"
  "co_venue_versions (snd (apply_regime_allocation core b t co)) = co_venue_versions co"
  "co_account_ready (snd (apply_regime_allocation core b t co)) = co_account_ready co"
  by (simp_all add: apply_regime_allocation_def Let_def split: option.splits)

lemma venue_frame:
  "co_account (snd (apply_venue v co)) = co_account co"
  "co_latest_seq (snd (apply_venue v co)) = co_latest_seq co"
  "co_account_ready (snd (apply_venue v co)) = co_account_ready co"
  by (simp_all add: apply_venue_def Let_def split: option.splits)

lemma account_frame:
  "co_venue (snd (apply_account a co)) = co_venue co"
  "co_venue_versions (snd (apply_account a co)) = co_venue_versions co"
  by (simp_all add: apply_account_def Let_def poison_account_def settle_account_account(2-4) split: option.splits)

lemmas paper_frames = restore_frame(2-4) evaluate_frame regime_frame venue_frame account_frame

interpretation paper_account: versioned_view "paper_step core durable" co_account co_latest_seq account_offer
proof
  show "\<exists>t. account_offer ev = Some t \<and> (\<forall>l. co_latest_seq co = Some l \<longrightarrow> l < t)"
    if "co_account co = None" "co_account (paper_step core durable ev co) \<noteq> None" for co ev
  proof (cases ev)
    case RestoreDurable
    then show ?thesis using that restore_frame(1) [of durable co] by auto
  next
    case (AccountArrived a)
    then show ?thesis using that
      by (auto simp: apply_account_def poison_account_def Let_def split: option.splits if_split_asm)
  qed (use that in \<open>simp_all add: paper_frames\<close>)
  show "\<exists>l'. co_latest_seq (paper_step core durable ev co) = Some l' \<and> l \<le> l'"
    if "co_latest_seq co = Some l" for co ev l
  proof (cases ev)
    case (AccountArrived a)
    then show ?thesis using that
      by (auto simp: apply_account_def poison_account_def Let_def settle_account_account(2-4) split: option.splits)
  qed (use that in \<open>simp_all add: paper_frames\<close>)
qed

interpretation paper_venue: versioned_view "paper_step core durable" "\<lambda>co. map_of (co_venue co) symbol"
  "\<lambda>co. map_option fst (map_of (co_venue_versions co) symbol)" "venue_offer symbol"
proof
  show "\<exists>t. venue_offer symbol ev = Some t \<and>
      (\<forall>l. map_option fst (map_of (co_venue_versions co) symbol) = Some l \<longrightarrow> l < t)"
    if "map_of (co_venue co) symbol = None" "map_of (co_venue (paper_step core durable ev co)) symbol \<noteq> None" for co ev
  proof (cases ev)
    case (VenueArrived v)
    then show ?thesis using that
      by (auto simp: apply_venue_def Let_def map_of_update AList.delete_conv' restrict_map_def
          split: option.splits if_split_asm)
  qed (use that in \<open>simp_all add: paper_frames\<close>)
  show "\<exists>l'. map_option fst (map_of (co_venue_versions (paper_step core durable ev co)) symbol) = Some l' \<and> l \<le> l'"
    if "map_option fst (map_of (co_venue_versions co) symbol) = Some l" for co ev l
  proof (cases ev)
    case (VenueArrived v)
    then show ?thesis using that
      by (auto simp: apply_venue_def Let_def map_of_update split: option.splits if_split_asm)
  qed (use that in \<open>auto simp: paper_frames intro: exI [of _ l]\<close>)
qed

section \<open>Invariants of a run\<close>

definition account_ok :: "coordinator \<Rightarrow> bool" where
  "account_ok co \<longleftrightarrow>
     (co_account_ready co \<longrightarrow> (\<exists>a. co_account co = Some a \<and> account_is_authoritative (co_settings co) a))"

lemma restore_all_pipeline: "co_pipeline (snd (restore_all ds co)) = co_pipeline co"
proof (induction ds arbitrary: co)
  case (Cons d ds)
  show ?case
  proof (cases "restore_one d co")
    case (Inr co')
    then have "co_pipeline co' = co_pipeline co"
      by (auto simp: restore_one_def split: sum.splits option.splits if_split_asm)
    then show ?thesis using Cons Inr by simp
  qed simp
qed simp

lemma settle_account_ok:
  assumes "co_account co = Some a"
  shows "account_ok (snd (settle_account a x co)) \<and> co_pipeline (snd (settle_account a x co)) = co_pipeline co"
proof -
  obtain out co' where s: "settle_account a x co = (out, co')" by force
  have "account_ok co' \<and> co_pipeline co' = co_pipeline co"
    using s assms by (cases rule: settle_cases2) (auto elim!: reconcile_Inr simp: account_ok_def co_settings_def)
  then show ?thesis by (simp add: s)
qed

lemma restore_account_ok:
  assumes "account_ok co"
  shows "account_ok (snd (restore_reservations ds co)) \<and> co_pipeline (snd (restore_reservations ds co)) = co_pipeline co"
proof (cases "co_recovery_loaded co")
  case False
  obtain out co' where r: "restore_all ds co = (out, co')" by force
  have *: "co_pipeline co' = co_pipeline co" "co_account co' = co_account co" "co_account_ready co' = co_account_ready co"
    using restore_all_pipeline [of ds co] restore_all_frame [of ds co] by (simp_all add: r)
  let ?c = "trim_decision_cache co'\<lparr>co_recovery_loaded := True\<rparr>"
  have same: "account_ok co'" "account_ok ?c" using assms * by (simp_all add: account_ok_def co_settings_def)
  show ?thesis
  proof (cases out)
    case (Inl e)
    then show ?thesis using same * by (simp add: restore_reservations_def False r)
  next
    case (Inr u)
    then have "snd (restore_reservations ds co) =
        (case co_account ?c of None \<Rightarrow> ?c | Some a \<Rightarrow> snd (settle_account a () ?c))"
      by (simp add: restore_reservations_def False r Let_def split: option.splits)
    then show ?thesis
      using same(2) *(1) settle_account_ok [of ?c _ "()"] by (cases "co_account ?c") auto
  qed
qed (simp add: restore_reservations_def assms)

lemma poison_ok [simp]: "account_ok (poison_account co)" "co_pipeline (poison_account co) = co_pipeline co"
  by (simp_all add: account_ok_def poison_account_def)

lemma account_account_ok:
  "account_ok co \<Longrightarrow> account_ok (snd (apply_account a co)) \<and> co_pipeline (snd (apply_account a co)) = co_pipeline co"
  by (simp add: apply_account_def Let_def settle_account_ok split: option.split)

lemma evaluate_pipeline: "co_pipeline (snd (evaluate_review core rq co)) = co_pipeline co"
  by (simp add: evaluate_review_def evaluate_fresh_def record_decision_def Let_def split: option.splits sum.splits)

lemma reachable_account:
  "paper_reachable core pl durable co \<Longrightarrow> account_ok co \<and> co_pipeline co = pl"
proof (induction rule: paper_reachable.induct)
  case start
  show ?case by (simp add: account_ok_def new_coordinator_def)
next
  case (step co ev)
  show ?case
  proof (cases ev)
    case RestoreDurable
    then show ?thesis using step restore_account_ok [of co durable] by simp
  next
    case (AccountArrived a)
    then show ?thesis using step account_account_ok by simp
  next
    case (VenueArrived v)
    then show ?thesis using step
      by (auto simp: apply_venue_def Let_def account_ok_def co_settings_def split: option.splits)
  next
    case (RegimeArrived b t)
    then show ?thesis using step
      by (auto simp: apply_regime_allocation_def Let_def account_ok_def co_settings_def split: option.splits)
  next
    case (ReviewArrived rq)
    then show ?thesis using step
      by (auto simp: account_ok_def co_settings_def evaluate_frame evaluate_pipeline)
  qed
qed

lemma reachable_fold:
  "paper_reachable core pl durable co \<Longrightarrow> paper_reachable core pl durable (fold (paper_step core durable) evs co)"
  by (induction evs arbitrary: co) (auto intro: paper_reachable.step)

section \<open>A concrete run\<close>

definition alpha_request :: paper_request where
  "alpha_request =
     \<lparr>rq_review = alpha_review ''i1'', rq_allocation = Some alpha_allocation, rq_decided_at_ms = 60000,
      rq_mode = NORMAL, rq_admission = []\<rparr>"

definition demo_coordinator :: coordinator where
  "demo_coordinator =
     fold (paper_step plain_core []) [RestoreDurable, AccountArrived (clean_account 7 50000), VenueArrived btc_venue]
       (new_coordinator paper_route)"

lemma demo_reachable: "paper_reachable plain_core paper_route [] demo_coordinator"
  unfolding demo_coordinator_def by (rule reachable_fold) (rule paper_reachable.start)

lemma btc_venue_known: "vq_symbol btc_venue \<in> set (map snd PAPER_DEV_SYMBOL_MAP)" by code_simp

lemma demo_state:
  "demo_coordinator =
     (new_coordinator paper_route)\<lparr>co_account := Some (clean_account 7 50000), co_latest_seq := Some 7,
        co_latest_captured := Some 50000, co_venue := [(''BTCUSD:DEV'', btc_venue)],
        co_venue_versions := [(''BTCUSD:DEV'', 2000, Some ''v1'')], co_recovery_loaded := True,
        co_account_ready := True\<rparr>"
  using btc_venue_known
  by (simp add: Let_def demo_coordinator_def new_coordinator_def restore_reservations_def trim_decision_cache_def
      evict.simps co_settings_def paper_route_def demo_settings_def apply_account_def settle_account_def
      reconcile_reservations_def account_is_authoritative_def clean_account_def apply_venue_def btc_venue_def)

lemma demo_case: "current_reservations demo_coordinator = Inr no_reservations"
    "case_of demo_coordinator alpha_request btc_venue no_reservations = alpha_case"
    "admission_of demo_coordinator alpha_request = []"
    "map_of (co_venue demo_coordinator)
       (case expected_symbol (cr_intent (rq_review alpha_request)) of None \<Rightarrow> '''' | Some x \<Rightarrow> x) = Some btc_venue"
proof -
  show "current_reservations demo_coordinator = Inr no_reservations"
    by (simp add: demo_state new_coordinator_def current_reservations_def reservation_view_def mk_reservations_def
        no_reservations_def non_negative_def micro_def) code_simp
  have conflict: "\<not> regime_conflict demo_coordinator (rq_review alpha_request)"
    by (simp add: regime_conflict_def demo_state new_coordinator_def split: option.splits)
  then show "admission_of demo_coordinator alpha_request = []" by (simp add: admission_of_def alpha_request_def)
  then show "case_of demo_coordinator alpha_request btc_venue no_reservations = alpha_case"
    by (simp add: case_of_def alpha_case_def alpha_request_def regime_of_def demo_state new_coordinator_def)
  have "expected_symbol (cr_intent (rq_review alpha_request)) = Some ''BTCUSD:DEV''" by code_simp
  then show "map_of (co_venue demo_coordinator)
       (case expected_symbol (cr_intent (rq_review alpha_request)) of None \<Rightarrow> '''' | Some x \<Rightarrow> x) = Some btc_venue"
    by (simp add: demo_state)
qed

lemma naming_seal_id:
  assumes "evaluate_paper plain_core pl k = Inr d" "in_intent_id (cr_intent (pk_review k)) = Some i"
  shows "rd_trade_id d = Some (''t'' @ i)"
proof -
  obtain g q rs where "pc_seal plain_core (draft_decision pl k g q (gr_reasons g @ rs)) = Inr d"
    using assms(1) by (rule evaluate_paper_Inr)
  moreover have "rd_correlation_id (draft_decision pl k g q rs') = Some i" for rs'
    using assms(2) by (simp add: draft_decision_def Let_def split: prod.splits)
  ultimately show ?thesis by (auto simp: plain_core_def naming_seal_def)
qed

lemma demo_approval:
  obtains d where "evaluate_review plain_core alpha_request demo_coordinator =
      (Inr d, demo_coordinator\<lparr>co_decisions := [(''ri1'', d)],
         co_reservations := [(''ti1'', \<lparr>rv_decision = d, rv_seq = 7\<rparr>)]\<rparr>)"
    "rd_approved d" "rd_review d = alpha_review ''i1''" "rd_trade_id d = Some ''ti1''"
    "rd_intent d = alpha_intent ''i1''"
proof -
  obtain d where d: "evaluate_paper plain_core paper_route alpha_case = Inr d" "rd_approved d"
    by (rule alpha_caseE)
  have id: "rd_trade_id d = Some ''ti1''"
    using naming_seal_id [OF d(1), of "''i1''"] by (simp add: alpha_case_def alpha_review_def alpha_intent_def)
  have rv: "rd_review d = alpha_review ''i1''"
    using evaluate_paper_fields(5) [OF plain_core_keeps d(1)] by (simp add: alpha_case_def)
  have it: "rd_intent d = alpha_intent ''i1''"
    using evaluate_paper_fields(4) [OF plain_core_keeps d(1)] by (simp add: alpha_case_def alpha_review_def)
  have rid: "cr_review_id (rq_review alpha_request) = Some ''ri1''"
    by (simp add: alpha_request_def alpha_review_def)
  have pl: "co_pipeline demo_coordinator = paper_route" by (simp add: demo_state new_coordinator_def)
  have "evaluate_fresh plain_core ''ri1'' alpha_request demo_coordinator = record_decision ''ri1'' d demo_coordinator"
    unfolding evaluate_fresh_def demo_case(4) option.case demo_case(1,2) sum.case pl d(1) demo_case(3) by simp
  moreover have "record_decision ''ri1'' d demo_coordinator =
      (Inr d, demo_coordinator\<lparr>co_decisions := [(''ri1'', d)],
         co_reservations := [(''ti1'', \<lparr>rv_decision = d, rv_seq = 7\<rparr>)]\<rparr>)"
    by (simp add: record_decision_def d id demo_state new_coordinator_def trim_decision_cache_def evict.simps
        co_settings_def paper_route_def demo_settings_def move_to_end_def)
  ultimately have "evaluate_review plain_core alpha_request demo_coordinator =
      (Inr d, demo_coordinator\<lparr>co_decisions := [(''ri1'', d)],
         co_reservations := [(''ti1'', \<lparr>rv_decision = d, rv_seq = 7\<rparr>)]\<rparr>)"
    unfolding evaluate_review_def rid by (simp add: recovery_complete_def demo_state new_coordinator_def)
  then show ?thesis using that d(2) rv id it by blast
qed

lemma evict_fits: "int (length xs) \<le> limit \<Longrightarrow> evict limit retained xs = xs"
  by (simp add: evict.simps)

section \<open>Properties\<close>



text \<open>
  C24. An approval is replayed while it is reserved. In every state of a run, reviewing again the
  candidate of a reserved approval gives that very decision, unless something outside the
  decision cache objects, and leaves the reservations as they are.
\<close>

theorem reserved_approval_is_replayed:
  assumes "paper_reachable core pl durable co" "seal_keeps core" "durable_ok durable" "recovery_complete co"
    and "map_of (co_reservations co) t = Some rv" "rq_review rq = rd_review (rv_decision rv)"
    and "rq_admission rq = []" "\<not> regime_conflict co (rq_review rq)"
  shows "fst (evaluate_review core rq co) = Inr (rv_decision rv) \<and>
    co_reservations (snd (evaluate_review core rq co)) = co_reservations co"
  using ledger_okD(3) [OF reachable_ledger [OF assms(1-3)] assms(5)] assms(4,6-8)
  by (auto simp: reserved_ok_def evaluate_review_def admission_of_def)

theorem reserved_approval_is_replayed_witness:
  "\<exists>d. fst (evaluate_review plain_core (alpha_request\<lparr>rq_decided_at_ms := 70000\<rparr>)
         (paper_step plain_core [] (ReviewArrived alpha_request) demo_coordinator)) = Inr d \<and> rd_approved d"
proof -
  let ?co = "paper_step plain_core [] (ReviewArrived alpha_request) demo_coordinator"
  obtain d where d: "?co = demo_coordinator\<lparr>co_decisions := [(''ri1'', d)],
         co_reservations := [(''ti1'', \<lparr>rv_decision = d, rv_seq = 7\<rparr>)]\<rparr>"
      "rd_approved d" "rd_review d = alpha_review ''i1''"
    by (rule demo_approval) simp
  have "paper_reachable plain_core paper_route [] ?co" by (rule paper_reachable.step [OF demo_reachable])
  then have "fst (evaluate_review plain_core (alpha_request\<lparr>rq_decided_at_ms := 70000\<rparr>) ?co) = Inr d"
    using reserved_approval_is_replayed [OF _ plain_core_keeps, of paper_route "[]" ?co "''ti1''"
        "\<lparr>rv_decision = d, rv_seq = 7\<rparr>" "alpha_request\<lparr>rq_decided_at_ms := 70000\<rparr>"] d
    by (simp add: durable_ok_def recovery_complete_def regime_conflict_def demo_state new_coordinator_def
        alpha_request_def split: option.splits)
  then show ?thesis using d(2) by blast
qed

text \<open>
  C27. The bounded caches drop no more than they must. What is retained stays, in its order; what
  is not retained goes oldest first; and in the end the cache fits or holds retained entries
  only.
\<close>

theorem eviction_spares_retained:
  assumes "distinct (map fst xs)"
  shows "filter (\<lambda>p. retained (fst p)) (evict limit retained xs) = filter (\<lambda>p. retained (fst p)) xs \<and>
    (\<exists>n. filter (\<lambda>p. \<not> retained (fst p)) (evict limit retained xs) =
         drop n (filter (\<lambda>p. \<not> retained (fst p)) xs)) \<and>
    (int (length (evict limit retained xs)) \<le> limit \<or> (\<forall>p \<in> set (evict limit retained xs). retained (fst p))) \<and>
    (int (length xs) \<le> limit \<longrightarrow> evict limit retained xs = xs)"
  using evict_filter evict_oldest_first [OF assms] evict_bound evict_fits by blast

theorem eviction_spares_retained_witness:
  "evict 2 (\<lambda>k. k = ''a'') [(''a'', 1), (''b'', 2), (''c'', 3), (''d'', 4 :: int)] = [(''a'', 1), (''d'', 4)] \<and>
   filter (\<lambda>p. fst p = ''a'') (evict 2 (\<lambda>k. k = ''a'') [(''a'', 1), (''b'', 2), (''c'', 3), (''d'', 4 :: int)]) =
     [(''a'', 1)]"
  using eviction_spares_retained [of "[(''a'', 1), (''b'', 2), (''c'', 3), (''d'', 4 :: int)]" "\<lambda>k. k = ''a''" 2]
  by (simp add: evict.simps AList.delete_eq)

text \<open>
  How a snapshot can speak about a reservation: it misrepresents it (a position or order under
  the trade id whose lineage differs, or protective orders alone), it represents it, or it does
  not mention it.
\<close>

definition misrepresented :: "account_v2 \<Rightarrow> string \<Rightarrow> risk_decision \<Rightarrow> bool" where
  "misrepresented a t d \<longleftrightarrow>
     (\<exists>p \<in> set (positions_of a t). \<not> position_matches d p) \<or> (\<exists>ord \<in> set (orders_of a t). \<not> order_matches d ord) \<or>
     (positions_of a t = [] \<and> orders_of a t \<noteq> [] \<and> (\<forall>ord \<in> set (orders_of a t). o2_order_role ord \<noteq> ENTRY))"

definition represented :: "account_v2 \<Rightarrow> string \<Rightarrow> bool" where
  "represented a t \<longleftrightarrow> positions_of a t \<noteq> [] \<or> orders_of a t \<noteq> []"

definition released :: "account_v2 \<Rightarrow> string \<Rightarrow> reservation \<Rightarrow> bool" where
  "released a t rv \<longleftrightarrow>
     represented a t \<or>
     (rv_seq rv < a2_reconciliation_seq a \<and> in_entry_expires_ts_ms (rd_intent (rv_decision rv)) < a2_captured_at_ms a)"

lemma transferred_spec:
  "if misrepresented a t (rv_decision rv) then \<exists>e. transferred a t rv = Inl (ValueError e)
   else transferred a t rv = Inr (released a t rv)"
  by (auto simp: transferred_def misrepresented_def released_def represented_def Let_def list_all_iff list_ex_iff)

lemma transferred_ids_spec:
  "if \<exists>(t, rv) \<in> set rs. misrepresented a t (rv_decision rv) then \<exists>e. transferred_ids a rs = Inl (ValueError e)
   else transferred_ids a rs = Inr (map fst (filter (\<lambda>(t, rv). released a t rv) rs))"
proof (induction rs)
  case (Cons p rs)
  obtain t rv where p: "p = (t, rv)" by force
  show ?case
  proof (cases "misrepresented a t (rv_decision rv)")
    case True
    then obtain e where "transferred a t rv = Inl (ValueError e)" using transferred_spec [of a t rv] by auto
    then show ?thesis using True by (simp add: p)
  next
    case False
    then have t: "transferred a t rv = Inr (released a t rv)" using transferred_spec [of a t rv] by simp
    show ?thesis
    proof (cases "\<exists>(t, rv) \<in> set rs. misrepresented a t (rv_decision rv)")
      case True
      then obtain e where "transferred_ids a rs = Inl (ValueError e)" using Cons.IH by auto
      then show ?thesis using True by (auto simp: p t)
    next
      case no: False
      then have "transferred_ids a rs = Inr (map fst (filter (\<lambda>(t, rv). released a t rv) rs))"
        using Cons.IH by (simp only: if_False)
      moreover have "\<not> (\<exists>(t, rv) \<in> set (p # rs). misrepresented a t (rv_decision rv))"
        using no False by (simp add: p)
      ultimately show ?thesis by (simp only: if_False) (simp add: p t)
    qed
  qed
qed simp

lemma filter_unreleased:
  assumes "distinct (map fst rs)"
  shows "filter (\<lambda>(t, _). t \<notin> set (map fst (filter (\<lambda>(t, rv). P t rv) rs))) rs = filter (\<lambda>(t, rv). \<not> P t rv) rs"
proof (rule filter_cong [OF refl])
  fix p assume "p \<in> set rs"
  moreover obtain t rv where p: "p = (t, rv)" by force
  ultimately have mem: "(t, rv) \<in> set rs" by simp
  have "t \<in> set (map fst (filter (\<lambda>(t, rv). P t rv) rs)) \<longleftrightarrow> (\<exists>rv'. (t, rv') \<in> set rs \<and> P t rv')" by force
  moreover have "rv' = rv" if "(t, rv') \<in> set rs" for rv' using assms mem that by (rule eq_key_imp_eq_value [symmetric])
  ultimately have "t \<in> set (map fst (filter (\<lambda>(t, rv). P t rv) rs)) \<longleftrightarrow> P t rv" using mem by blast
  then show "(case p of (t, _) \<Rightarrow> t \<notin> set (map fst (filter (\<lambda>(t, rv). P t rv) rs))) = (case p of (t, rv) \<Rightarrow> \<not> P t rv)"
    unfolding p prod.case by simp
qed

text \<open>
  C11. Reconciliation releases exactly what the venue account owns or can no longer own. A newer
  authoritative snapshot (of the configured PAPER account, not captured before the last one)
  either misrepresents a reservation: then the call raises, every reservation stays, and there
  is no trusted account any more; or it becomes the trusted account, and of the reservations
  exactly those go whose trade it shows (every fact under the trade id with the approval's full
  lineage, side and exit plan), or whose entry had expired when it was captured and which are
  older than its sequence number.
\<close>

theorem reconciliation_releases_exactly:
  assumes "paper_reachable core pl durable co" "seal_keeps core" "durable_ok durable"
    and "account_is_authoritative (pl_settings pl) a"
    and "\<forall>l. co_latest_seq co = Some l \<longrightarrow> l < a2_reconciliation_seq a"
    and "\<forall>c. co_latest_captured co = Some c \<longrightarrow> c \<le> a2_captured_at_ms a"
  defines "co' \<equiv> snd (apply_account a co)"
  shows "co_latest_seq co' = Some (a2_reconciliation_seq a) \<and>
    (if \<exists>(t, rv) \<in> set (co_reservations co). misrepresented a t (rv_decision rv)
     then (\<exists>e. fst (apply_account a co) = Inl (ValueError e)) \<and> co_reservations co' = co_reservations co \<and>
       co_account co' = None \<and> \<not> recovery_complete co'
     else fst (apply_account a co) = Inr True \<and> co_account co' = Some a \<and> co_account_ready co' \<and>
       co_reservations co' = filter (\<lambda>(t, rv). \<not> released a t rv) (co_reservations co))"
proof -
  have pl: "co_settings co = pl_settings pl" using reachable_account [OF assms(1)] by (simp add: co_settings_def)
  have dist: "distinct (map fst (co_reservations co))" by (rule ledger_okD(1) [OF reachable_ledger [OF assms(1-3)]])
  let ?c = "co\<lparr>co_latest_seq := Some (a2_reconciliation_seq a), co_latest_captured := Some (a2_captured_at_ms a),
      co_account := Some a\<rparr>"
  have s: "apply_account a co = settle_account a True ?c"
    using assms(5,6) by (auto simp: apply_account_def Let_def split: option.splits)
  have auth: "account_is_authoritative (co_settings ?c) a" using assms(4) pl by (simp add: co_settings_def)
  show ?thesis
  proof (cases "\<exists>(t, rv) \<in> set (co_reservations co). misrepresented a t (rv_decision rv)")
    case True
    then obtain e where "transferred_ids a (co_reservations co) = Inl (ValueError e)"
      using transferred_ids_spec [of "co_reservations co" a] by auto
    then show ?thesis using True auth
      by (simp add: co'_def s settle_account_def Let_def reconcile_reservations_def recovery_complete_def)
  next
    case False
    then have "transferred_ids a (co_reservations co) =
        Inr (map fst (filter (\<lambda>(t, rv). released a t rv) (co_reservations co)))"
      using transferred_ids_spec [of "co_reservations co" a] by auto
    then show ?thesis using False auth filter_unreleased [OF dist, of "released a"]
      by (simp add: co'_def s settle_account_def Let_def reconcile_reservations_def)
  qed
qed

text \<open>A newer snapshot after the entry's expiry releases the demo reservation.\<close>

theorem reconciliation_releases_exactly_witness:
  "let co = paper_step plain_core [] (ReviewArrived alpha_request) demo_coordinator;
       co' = snd (apply_account (clean_account 8 70000) co)
   in length (co_reservations co) = 1 \<and> co_reservations co' = [] \<and> co_account co' = Some (clean_account 8 70000)"
proof -
  let ?co = "paper_step plain_core [] (ReviewArrived alpha_request) demo_coordinator"
  let ?a = "clean_account 8 70000"
  obtain d where d: "?co = demo_coordinator\<lparr>co_decisions := [(''ri1'', d)],
         co_reservations := [(''ti1'', \<lparr>rv_decision = d, rv_seq = 7\<rparr>)]\<rparr>" "rd_intent d = alpha_intent ''i1''"
    by (rule demo_approval) simp
  have reach: "paper_reachable plain_core paper_route [] ?co" by (rule paper_reachable.step [OF demo_reachable])
  have durable: "durable_ok []" by (simp add: durable_ok_def)
  have auth: "account_is_authoritative (pl_settings paper_route) ?a"
    by (simp add: account_is_authoritative_def clean_account_def paper_route_def demo_settings_def)
  have newer: "\<forall>l. co_latest_seq ?co = Some l \<longrightarrow> l < a2_reconciliation_seq ?a"
    "\<forall>c. co_latest_captured ?co = Some c \<longrightarrow> c \<le> a2_captured_at_ms ?a"
    unfolding d(1) by (simp_all add: demo_state clean_account_def)
  have "\<not> misrepresented ?a ''ti1'' d"
    by (simp add: misrepresented_def positions_of_def orders_of_def clean_account_def)
  moreover have "released ?a ''ti1'' \<lparr>rv_decision = d, rv_seq = 7\<rparr>"
    by (simp add: released_def d(2) alpha_intent_def clean_account_def)
  moreover have rs: "co_reservations ?co = [(''ti1'', \<lparr>rv_decision = d, rv_seq = 7\<rparr>)]" unfolding d(1) by simp
  ultimately show ?thesis
    using reconciliation_releases_exactly [OF reach plain_core_keeps durable auth newer]
    by (simp add: Let_def)
qed

text \<open>
  C10. An input that was lost comes back only in a newer version. While no account is trusted,
  every review is refused as retryable and changes nothing; no sequence of events makes an
  account trusted again unless one of its snapshots has a higher reconciliation sequence than
  every snapshot seen. Likewise an instrument's venue measurement, once dropped, returns only
  with an observation later than the last one seen, and until then its uncached reviews are
  refused.
\<close>

theorem lost_inputs_need_newer_versions:
  assumes "paper_reachable core pl durable co"
  shows "(co_account co = None \<and> co_latest_seq co = Some l \<and>
      (\<forall>ev \<in> set evs. \<forall>t. account_offer ev = Some t \<longrightarrow> t \<le> l) \<longrightarrow>
        (let co' = fold (paper_step core durable) evs co in
         co_account co' = None \<and>
         (\<forall>rq. cr_review_id (rq_review rq) \<noteq> None \<longrightarrow>
            (\<exists>t. evaluate_review core rq co' = (Inl (PaperInputUnavailable t), co'))))) \<and>
    (map_of (co_venue co) symbol = None \<and> map_of (co_venue_versions co) symbol = Some (m, x) \<and>
      (\<forall>ev \<in> set evs. \<forall>t. venue_offer symbol ev = Some t \<longrightarrow> t \<le> m) \<longrightarrow>
        (let co' = fold (paper_step core durable) evs co in
         map_of (co_venue co') symbol = None \<and>
         (\<forall>rq r. cr_review_id (rq_review rq) = Some r \<and> expected_symbol (cr_intent (rq_review rq)) = Some symbol \<and>
            map_of (co_decisions co') r = None \<longrightarrow>
            (\<exists>t. evaluate_review core rq co' = (Inl (PaperInputUnavailable t), co')))))"
proof (intro conjI impI, goal_cases)
  case 1
  let ?co = "fold (paper_step core durable) evs co"
  have none: "co_account ?co = None" by (rule conjunct1 [OF paper_account.stays_revoked]) (use 1 in auto)
  have "account_ok ?co" using reachable_account [OF reachable_fold [OF assms]] by blast
  then have "\<not> recovery_complete ?co" using none by (simp add: account_ok_def recovery_complete_def)
  then have "\<exists>t. evaluate_review core rq ?co = (Inl (PaperInputUnavailable t), ?co)"
    if "cr_review_id (rq_review rq) \<noteq> None" for rq
    using that by (auto simp: evaluate_review_def)
  then show ?case using none by (simp add: Let_def)
next
  case 2
  let ?co = "fold (paper_step core durable) evs co"
  have none: "map_of (co_venue ?co) symbol = None"
    using paper_venue.stays_revoked [of co symbol m evs core durable] 2 by auto
  have "\<exists>t. evaluate_review core rq ?co = (Inl (PaperInputUnavailable t), ?co)"
    if "cr_review_id (rq_review rq) = Some r" "expected_symbol (cr_intent (rq_review rq)) = Some symbol"
      "map_of (co_decisions ?co) r = None" for rq r
    using that none by (simp add: evaluate_review_def evaluate_fresh_def)
  then show ?case using none unfolding Let_def by blast
qed

text \<open>Two snapshots with one sequence number poison the account; the older events do not help.\<close>

theorem lost_inputs_need_newer_versions_witness:
  "\<exists>t. evaluate_review plain_core alpha_request
     (fold (paper_step plain_core []) [AccountArrived (clean_account 7 60000), VenueArrived btc_venue]
        (paper_step plain_core [] (AccountArrived ((clean_account 7 50000)\<lparr>a2_snapshot_id := Some ''s2''\<rparr>))
           demo_coordinator)) = 
     (Inl (PaperInputUnavailable t),
      fold (paper_step plain_core []) [AccountArrived (clean_account 7 60000), VenueArrived btc_venue]
        (paper_step plain_core [] (AccountArrived ((clean_account 7 50000)\<lparr>a2_snapshot_id := Some ''s2''\<rparr>))
           demo_coordinator))"
proof -
  let ?co = "paper_step plain_core [] (AccountArrived ((clean_account 7 50000)\<lparr>a2_snapshot_id := Some ''s2''\<rparr>))
    demo_coordinator"
  have "co_account ?co = None \<and> co_latest_seq ?co = Some 7"
    by (simp add: demo_state new_coordinator_def apply_account_def Let_def poison_account_def clean_account_def)
  moreover have "cr_review_id (rq_review alpha_request) \<noteq> None" by (simp add: alpha_request_def alpha_review_def)
  moreover have "paper_reachable plain_core paper_route [] ?co" by (rule paper_reachable.step [OF demo_reachable])
  ultimately show ?thesis
    using lost_inputs_need_newer_versions [of plain_core paper_route "[]" ?co 7
        "[AccountArrived (clean_account 7 60000), VenueArrived btc_venue]"]
    by (simp only: Let_def) (simp add: clean_account_def)
qed

text \<open>
  C26. Waiting for inputs ends. Once a round reads the clock at or after the intent's expiry, or
  its wait times out, the call has returned. It returns normally only when some round saw every
  input; otherwise it raises the deadline error. Once the inputs are there, a review with an
  identity is not refused as retryable.
\<close>

theorem waiting_ends_by_the_deadline:
  "((\<exists>w \<in> set rounds. in_entry_expires_ts_ms (cr_intent review) \<le> wr_now_ms w \<or> \<not> wr_notified w) \<longrightarrow>
      wait_for_inputs review rounds \<noteq> None) \<and>
   (wait_for_inputs review rounds = Some out \<longrightarrow>
      (case out of Inr _ \<Rightarrow> \<exists>w \<in> set rounds. inputs_ready (wr_state w) review
       | Inl e \<Rightarrow> e = deadline_exceeded \<and> (\<exists>w \<in> set rounds. \<not> inputs_ready (wr_state w) review \<and>
           (in_entry_expires_ts_ms (cr_intent review) \<le> wr_now_ms w \<or> \<not> wr_notified w)))) \<and>
   (inputs_ready co review \<and> cr_review_id review \<noteq> None \<and> rq_review rq = review \<longrightarrow>
      fst (evaluate_review core rq co) \<noteq> Inl (PaperInputUnavailable t))"
proof (intro conjI impI, goal_cases)
  case 1
  then show ?case by (induction rounds) auto
next
  case 2
  then show ?case by (induction rounds) (auto split: if_split_asm sum.splits)
next
  case 3
  then obtain symbol r where s: "expected_symbol (cr_intent review) = Some symbol" "symbol \<in> set (map fst (co_venue co))"
    "recovery_complete co" "cr_review_id (rq_review rq) = Some r" "rq_review rq = review"
    by (auto simp: inputs_ready_def split: option.splits)
  obtain v where v: "map_of (co_venue co) symbol = Some v"
    using s(2) by (cases "map_of (co_venue co) symbol") (auto simp: map_of_eq_None_iff)
  have "fst (evaluate_fresh core r rq co) \<noteq> Inl (PaperInputUnavailable t)"
    by (simp add: evaluate_fresh_def s(1,5) v record_decision_def Let_def split: sum.splits option.splits)
  then show ?case by (simp add: evaluate_review_def s(3,4) split: option.splits)
qed

theorem waiting_ends_by_the_deadline_witness:
  "wait_for_inputs (alpha_review ''i1'')
     [\<lparr>wr_state = new_coordinator paper_route, wr_now_ms = 60000, wr_notified = True\<rparr>,
      \<lparr>wr_state = demo_coordinator, wr_now_ms = 60500, wr_notified = True\<rparr>] = Some (Inr ()) \<and>
   wait_for_inputs (alpha_review ''i1'')
     [\<lparr>wr_state = new_coordinator paper_route, wr_now_ms = 61001, wr_notified = True\<rparr>] \<noteq> None"
proof
  have "expected_symbol (cr_intent (alpha_review ''i1'')) = Some ''BTCUSD:DEV''" by code_simp
  then have "inputs_ready demo_coordinator (alpha_review ''i1'')"
    by (simp add: inputs_ready_def demo_state new_coordinator_def recovery_complete_def regime_ready_def
        needs_regime_binding_def is_adaptive_def paper_route_def)
  moreover have "\<not> inputs_ready (new_coordinator paper_route) (alpha_review ''i1'')"
    by (simp add: inputs_ready_def new_coordinator_def recovery_complete_def)
  ultimately show "wait_for_inputs (alpha_review ''i1'')
     [\<lparr>wr_state = new_coordinator paper_route, wr_now_ms = 60000, wr_notified = True\<rparr>,
      \<lparr>wr_state = demo_coordinator, wr_now_ms = 60500, wr_notified = True\<rparr>] = Some (Inr ())"
    by (simp add: alpha_review_def alpha_intent_def)
  show "wait_for_inputs (alpha_review ''i1'')
     [\<lparr>wr_state = new_coordinator paper_route, wr_now_ms = 61001, wr_notified = True\<rparr>] \<noteq> None"
    using waiting_ends_by_the_deadline
      [of "[\<lparr>wr_state = new_coordinator paper_route, wr_now_ms = 61001, wr_notified = True\<rparr>]" "alpha_review ''i1''"]
    by (simp add: alpha_review_def alpha_intent_def)
qed

lemma regime_conflict_held:
  "regime_conflict co review \<longleftrightarrow> needs_regime_binding co review \<and>
     (\<exists>i. in_intent_id (cr_intent review) = Some i \<and> map_of (co_regime co) i = Some None)"
proof (cases "in_intent_id (cr_intent review)")
  case (Some i)
  then show ?thesis
    by (cases "map_of (co_regime co) i")
      (auto simp: regime_conflict_def regime_of_def map_of_eq_None_iff dest: map_of_SomeD intro: rev_image_eqI)
qed (simp add: regime_conflict_def)

lemma evaluate_fresh_refused:
  assumes "evaluate_fresh core r rq co = (Inr d, co')" "admission_of co rq \<noteq> []"
  shows "\<exists>v rs. evaluate_paper core (co_pipeline co) (case_of co rq v rs) = Inr d \<and> co' = co"
proof -
  obtain v where v: "map_of (co_venue co)
      (case expected_symbol (cr_intent (rq_review rq)) of None \<Rightarrow> '''' | Some x \<Rightarrow> x) = Some v"
    using assms(1) by (force simp: evaluate_fresh_def split: option.splits)
  obtain rs where rs: "current_reservations co = Inr rs"
    using assms(1) by (force simp: evaluate_fresh_def v split: sum.splits)
  have "evaluate_paper core (co_pipeline co) (case_of co rq v rs) = Inr d \<and> co' = co"
    using assms by (simp add: evaluate_fresh_def v rs split: sum.splits)
  then show ?thesis by blast
qed

lemma evaluate_refused:
  assumes "evaluate_review core rq co = (Inr d, co')" "admission_of co rq \<noteq> []"
  shows "\<exists>v rs. evaluate_paper core (co_pipeline co) (case_of co rq v rs) = Inr d \<and> co' = co"
proof -
  obtain r where "evaluate_fresh core r rq co = (Inr d, co')"
    using assms by (force simp: evaluate_review_def split: option.splits if_split_asm)
  then show ?thesis using assms(2) by (rule evaluate_fresh_refused)
qed

text \<open>A review of a poisoned intent is rejected with the conflict and changes nothing.\<close>

lemma conflicted_review_rejected:
  assumes "seal_keeps core" "is_adaptive (co_pipeline co) (cr_intent (rq_review rq))"
    and "in_intent_id (cr_intent (rq_review rq)) = Some i" "map_of (co_regime co) i = Some None"
    and "evaluate_review core rq co = (Inr d, co')"
  shows "\<not> rd_approved d \<and> Reason ''regime_bound_allocation_conflict'' \<in> set (rd_rejection_reasons d) \<and> co' = co"
proof -
  have adm: "''regime_bound_allocation_conflict'' \<in> set (admission_of co rq)"
    using assms(2-4) by (auto simp: admission_of_def regime_conflict_held needs_regime_binding_def unique_in_order_def)
  then have ne: "admission_of co rq \<noteq> []" by auto
  obtain v r where e: "evaluate_paper core (co_pipeline co) (case_of co rq v r) = Inr d" "co' = co"
    using evaluate_refused [OF assms(5) ne] by blast
  obtain g q rs where g: "run_gates core (co_pipeline co) (case_of co rq v r) = Inr g"
    "pc_seal core (draft_decision (co_pipeline co) (case_of co rq v r) g q (gr_reasons g @ rs)) = Inr d"
    using e(1) by (rule evaluate_paper_Inr)
  have reason: "Reason ''regime_bound_allocation_conflict'' \<in> set (gr_reasons g)"
    using g(1)
  proof (rule run_gates_Inr)
    fix ar lr br assume "gr_reasons g = map Reason (unique_in_order (pk_admission (case_of co rq v r))) @
       review_reasons (pl_settings (co_pipeline co)) (pk_review (case_of co rq v r)) (pk_mode (case_of co rq v r))
         (pk_decided_at_ms (case_of co rq v r)) @
       venue_reasons (cr_intent (pk_review (case_of co rq v r))) (pk_venue (case_of co rq v r))
         (pk_decided_at_ms (case_of co rq v r)) @ ar @ lr @
       geometry_reasons (cr_intent (pk_review (case_of co rq v r))) (pk_venue (case_of co rq v r)) @ br"
    then show ?thesis using adm by (simp add: case_of_def unique_in_order_def)
  qed
  obtain rs' q' fees slippage loss where
    s: "settle (case_of co rq v r) g q (gr_reasons g @ rs) = (rs', q', fees, slippage, loss)"
    by (metis prod_cases5)
  have "set (gr_reasons g) \<subseteq> set rs'"
    using s by (auto simp: settle_def Let_def split: prod.splits if_split_asm)
  then show ?thesis
    using reason seal_keepsD(1,2) [OF assms(1) g(2)] draft_decision_simps(1,2) [OF s] e(2) by auto
qed

text \<open>
  C25. Contradictory regime evidence is final for an intent. A second, different binding of one
  intent raises and poisons it. A poisoned intent stays so through every later binding, as long
  as a cached or reserved decision refers to it; and every review of it, cached or not, that
  gets a decision at all gets a rejection that names the conflict, and nothing is recorded.
\<close>

theorem regime_conflict_is_final:
  assumes "seal_keeps core"
  shows "(pl_regime_policy (co_pipeline co) \<noteq> None \<and> pc_reparse core b = Some b' \<and> ra_bound_at_ms b' \<le> now \<and>
      in_intent_id (ob_intent (ra_observation b')) = Some i \<and> map_of (co_regime co) i = Some (Some old) \<and> old \<noteq> b' \<longrightarrow>
        (\<exists>e. fst (apply_regime_allocation core b now co) = Inl (ValueError e)) \<and>
        map_of (co_regime (snd (apply_regime_allocation core b now co))) i = Some None) \<and>
    (map_of (co_regime co) i = Some None \<and> retained_intent co i \<longrightarrow>
        map_of (co_regime (snd (apply_regime_allocation core b now co))) i = Some None) \<and>
    (is_adaptive (co_pipeline co) (cr_intent (rq_review rq)) \<and> in_intent_id (cr_intent (rq_review rq)) = Some i \<and>
      map_of (co_regime co) i = Some None \<and> evaluate_review core rq co = (Inr d, co') \<longrightarrow>
        \<not> rd_approved d \<and> Reason ''regime_bound_allocation_conflict'' \<in> set (rd_rejection_reasons d) \<and> co' = co)"
proof -
  have "map_of (co_regime (snd (apply_regime_allocation core b now co))) i = Some None"
    if "map_of (co_regime co) i = Some None" "retained_intent co i"
    using that by (auto simp: apply_regime_allocation_def Let_def map_of_update evict_keeps split: option.splits)
  moreover have "(\<exists>e. fst (apply_regime_allocation core b now co) = Inl (ValueError e)) \<and>
      map_of (co_regime (snd (apply_regime_allocation core b now co))) i = Some None"
    if "pl_regime_policy (co_pipeline co) \<noteq> None" "pc_reparse core b = Some b'" "ra_bound_at_ms b' \<le> now"
      "in_intent_id (ob_intent (ra_observation b')) = Some i" "map_of (co_regime co) i = Some (Some old)" "old \<noteq> b'"
    using that by (simp add: apply_regime_allocation_def map_of_update not_less)
  ultimately show ?thesis using conflicted_review_rejected [OF assms] by blast
qed

text \<open>The poisoned intent of a run with a policy, reviewed.\<close>

definition adaptive_route :: paper_pipeline where
  "adaptive_route =
     \<lparr>pl_settings = demo_settings, pl_regime_policy = Some \<lparr>rp_policy_sha256 = ''p'', rp_payload = []\<rparr>\<rparr>"

definition demo_binding :: "string \<Rightarrow> regime_allocation" where
  "demo_binding name =
     \<lparr>ra_message_id = name, ra_source = ''macro'', ra_bound_at_ms = 1500, ra_policy_sha256 = ''p'',
      ra_account_id = ''acc'', ra_account_captured_at_ms = 50000, ra_allocation = alpha_allocation,
      ra_observation = \<lparr>ob_intent = alpha_intent ''i1'', ob_expires_at_ms = 90000, ob_payload = []\<rparr>, ra_payload = []\<rparr>"

theorem regime_conflict_is_final_witness:
  "map_of (co_regime (snd (apply_regime_allocation plain_core (demo_binding ''b2'') 1600
     ((new_coordinator adaptive_route)\<lparr>co_regime := [(''i1'', Some (demo_binding ''b1''))]\<rparr>)))) ''i1'' = Some None"
  using regime_conflict_is_final [OF plain_core_keeps, THEN conjunct1,
      of "(new_coordinator adaptive_route)\<lparr>co_regime := [(''i1'', Some (demo_binding ''b1''))]\<rparr>"
        "demo_binding ''b2''" "demo_binding ''b2''" 1600 "''i1''" "demo_binding ''b1''"]
  by (simp add: new_coordinator_def adaptive_route_def plain_core_def demo_binding_def alpha_intent_def)

end
