(* ===== verification/Timestamps.thy ===== *)
theory Timestamps
  imports Decimals
begin

text \<open>
  When a time stamp survives \<open>int(dt.timestamp() * 1_000)\<close>. Both the seconds and the product are
  rounded to 53 bits, so the milliseconds come back exactly as long as a thousand half-quanta of
  the seconds stay below half a quantum of the milliseconds.
\<close>

lemma round_half_even_near: "\<bar>y - of_int k\<bar> < 1 / 2 \<Longrightarrow> round_half_even y = k"
  using round_half_even_error [of y] by linarith

text \<open>
  A multiple \<open>k\<close> of the quantum of the binade that holds \<open>x\<close> is what \<open>x\<close> rounds to when it is
  closer than half a quantum.
\<close>

lemma rnd64_near:
  assumes "2 powi m \<le> x" "x < 2 powi (m + 1)" "-1022 \<le> m" "\<bar>x - of_int k * 2 powi (m - 52)\<bar> < 2 powi (m - 52) / 2"
  shows "rnd64 x = of_int k * 2 powi (m - 52)"
proof -
  have x: "0 < x" using assms(1) by (rule less_le_trans [rotated]) simp
  have "expo 2 x = m" using assms(1,2) x by (intro expo_unique) auto
  then have u: "quantum 2 53 (-1074) x = 2 powi (m - 52)" using assms(3) by (simp add: quantum_def)
  have "\<bar>x / 2 powi (m - 52) - of_int k\<bar> < 1 / 2"
    using assms(4) by (simp add: abs_less_iff field_simps)
  then have "round_half_even (x / 2 powi (m - 52)) = k" by (rule round_half_even_near)
  then show ?thesis using x by (simp add: rnd64_def fl_round_def u Let_def)
qed

lemma scaled_distance: "0 < u \<Longrightarrow> \<bar>r - x / u\<bar> * u = \<bar>r * u - (x :: rat)\<bar>"
  using abs_mult [of "r - x / u" u] by (simp add: left_diff_distrib)

lemma rnd64_half_quantum:
  assumes "2 powi m \<le> x" "x < 2 powi (m + 1)" "-1022 \<le> m"
  shows "\<bar>rnd64 x - x\<bar> \<le> 2 powi (m - 52) / 2"
proof -
  have x: "0 < x" using assms(1) by (rule less_le_trans [rotated]) simp
  have "expo 2 x = m" using assms(1,2) x by (intro expo_unique) auto
  then have u: "quantum 2 53 (-1074) x = 2 powi (m - 52)" using assms(3) by (simp add: quantum_def)
  let ?u = "2 powi (m - 52) :: rat"
  have "\<bar>of_int (round_half_even (x / ?u)) - x / ?u\<bar> * ?u \<le> 1 / 2 * ?u"
    using round_half_even_error [of "x / ?u"] by (intro mult_right_mono) auto
  moreover have "\<bar>of_int (round_half_even (x / ?u)) - x / ?u\<bar> * ?u = \<bar>of_int (round_half_even (x / ?u)) * ?u - x\<bar>"
    by (rule scaled_distance) simp
  ultimately show ?thesis using x by (simp add: rnd64_def fl_round_def u Let_def)
qed

text \<open>From November 2004 to January 2038 a stamp of whole milliseconds is read back exactly.\<close>

lemma timestamp_ms_exact:
  assumes "1099511627776 < ms" "ms < 2147483648000"
  shows "timestamp_ms (Aware (ms * 1000)) = ms"
proof -
  let ?s = "of_int ms / 1000 :: rat" and ?x = "rnd64 (of_int ms / 1000) * 1000 :: rat"
  have ms: "1099511627777 \<le> (of_int ms :: rat)" "(of_int ms :: rat) < 2147483648000"
    using assms by linarith+
  have "\<bar>rnd64 ?s - ?s\<bar> \<le> 2 powi (30 - 52) / 2"
    using ms by (intro rnd64_half_quantum) auto
  then have d: "\<bar>rnd64 ?s - ?s\<bar> \<le> 1 / 8388608" by (simp add: power_int_minus)
  then have x: "\<bar>?x - of_int ms\<bar> \<le> 1000 / 8388608" unfolding abs_le_iff by linarith
  have "rnd64 ?x = of_int (ms * 4096) * 2 powi (40 - 52)"
  proof (rule rnd64_near)
    show "2 powi 40 \<le> ?x" "?x < 2 powi (40 + 1)" using x ms unfolding abs_le_iff by simp_all
    have "of_int (ms * 4096) * 2 powi (40 - 52) = (of_int ms :: rat)" by (simp add: power_int_minus)
    then show "\<bar>?x - of_int (ms * 4096) * 2 powi (40 - 52)\<bar> < 2 powi (40 - 52) / 2"
      using x by (simp add: power_int_minus)
  qed simp
  then have r: "rnd64 ?x = of_int ms" by (simp add: power_int_minus)
  have "total_seconds (ms * 1000) = Fin (rnd64 ?s)"
  proof -
    have "\<bar>rnd64 ?s\<bar> < 2 ^ 1024"
    proof -
      have "\<bar>rnd64 ?s\<bar> < 2 ^ 32" using d ms unfolding abs_le_iff abs_less_iff by simp
      also have "\<dots> \<le> (2 ^ 1024 :: rat)" by (intro power_increasing) auto
      finally show ?thesis .
    qed
    then show ?thesis by (auto simp: total_seconds_def to_float_def Let_def abs_less_iff)
  qed
  moreover have "to_float ?x = Fin (of_int ms)"
  proof -
    have "\<bar>of_int ms :: rat\<bar> < 2 ^ 42" using ms by simp
    also have "\<dots> \<le> (2 ^ 1024 :: rat)" by (intro power_increasing) auto
    finally show ?thesis using r by (auto simp: to_float_def Let_def abs_less_iff)
  qed
  ultimately show ?thesis using assms by (simp add: timestamp_ms_def)
qed

end
