(* ===== verification/Canary_Authorization.thy ===== *)
theory Canary_Authorization
  imports Canary_Instrument Timestamps
begin

text \<open>
  \<open>kairos_risk/canary_authorization.py\<close>: what Risk checks of a manually armed canary before it
  is armed and after it is consumed. The durable repository is a parameter of the components that
  call it; here its record is an argument. \<open>model_dump\<close> forgets nothing of a contract, so two
  dumps are equal exactly when the models are, and \<open>canonical_sha256\<close> is a function of the
  JSON document it is given.
\<close>

section \<open>Canonical documents\<close>

text \<open>
  The documents whose digest the program takes, a dumped model being one constructor, and
  \<open>CDecimal\<close> the text that \<open>str\<close> gives for a decimal.
\<close>

datatype canon =
    CText string
  | CInt int
  | CFloat pyfloat
  | CBool bool
  | CDecimal pydecimal
  | CNull
  | CList "canon list"
  | CObject "(string \<times> canon) list"
  | CReview candidate_review
  | CAllocation strategic_allocation

type_synonym digest = "canon \<Rightarrow> string"

fun canon_of_value :: "payload_value \<Rightarrow> canon" where
  "canon_of_value (PText s) = CText s"
| "canon_of_value (PInt n) = CInt n"

definition rules_digest :: "digest \<Rightarrow> sha" where
  "rules_digest digest payload = digest (CObject (map (\<lambda>(k, v). (k, canon_of_value v)) payload))"

definition opt_text :: "string option \<Rightarrow> canon" where
  "opt_text x = (case x of None \<Rightarrow> CNull | Some s \<Rightarrow> CText s)"

fun regime_text :: "market_regime \<Rightarrow> string" where
  "regime_text BULL = ''BULL''"
| "regime_text BEAR = ''BEAR''"
| "regime_text CHOP = ''CHOP''"
| "regime_text (OtherRegime name) = name"

section \<open>Constants\<close>

definition CANARY_STRATEGY_REVISION :: string where "CANARY_STRATEGY_REVISION = ''1''"

definition CANARY_STRATEGY_REF :: string where
  "CANARY_STRATEGY_REF = PAPER_CANARY_STRATEGY_ID @ ''@'' @ CANARY_STRATEGY_REVISION"

definition CANARY_SOURCE :: string where "CANARY_SOURCE = ''kairos-paper-canary''"

definition CANARY_ALLOCATION_WEIGHT :: pyfloat where "CANARY_ALLOCATION_WEIGHT = to_float (25 / 10000)"

definition CANARY_ALLOCATION_RATIONALE :: string where
  "CANARY_ALLOCATION_RATIONALE = ''Manually armed EVEDEX DEV technical canary; no alpha or LLM claim.''"

definition CANARY_MAX_CLOCK_SKEW_MS :: int where "CANARY_MAX_CLOCK_SKEW_MS = 2000"

definition CANARY_REASON :: string where "CANARY_REASON = ''TECHNICAL_CANARY_MANUAL_POLICY''"

section \<open>The durable record\<close>

record canary_arm =
  ar_arm_id :: string
  ar_account_id :: string
  ar_review :: candidate_review
  ar_allocation :: strategic_allocation
  ar_status :: string
  ar_expires_at :: pydatetime
  ar_decided_at_ms :: "int option"
  ar_session_id :: "string option"
  ar_attempt_id :: "string option"
  ar_session_expires_at :: "pydatetime option"

definition unauthorized :: "string \<Rightarrow> pyerr" where
  "unauthorized text = RuntimeError (''CanaryAuthorizationError: '' @ text)"

text \<open>The placeholder repository: it arms nothing and finds nothing.\<close>

definition reject_all_arm :: "canary_arm res" where
  "reject_all_arm = Inl (unauthorized ''durable PAPER canary repository is unavailable'')"

definition reject_all_consume :: "canary_arm option res" where
  "reject_all_consume = Inr None"

section \<open>Identities\<close>

definition canary_arm_identity ::
    "digest \<Rightarrow> string \<Rightarrow> candidate_review \<Rightarrow> strategic_allocation \<Rightarrow> string" where
  "canary_arm_identity digest account_id review allocation =
     digest (CObject
       [(''account_id'', CText account_id), (''allocation'', CAllocation allocation),
        (''domain'', CText ''kairos.paper-canary-arm.v1''), (''review'', CReview review)])"

definition allocation_document :: "strategic_allocation \<Rightarrow> int \<Rightarrow> canon" where
  "allocation_document a produced_at_ms =
     CObject
       [(''causation_id'', opt_text (sa_causation_id a)),
        (''contract_version'', CText ''technical-canary-allocation.v1''),
        (''correlation_id'', opt_text (sa_correlation_id a)),
        (''max_gross_leverage'', CFloat (sa_max_gross_leverage a)),
        (''produced_at_ms'', CInt produced_at_ms),
        (''regime'', CText (regime_text (sa_regime a))),
        (''rationale'', CText (sa_rationale a)),
        (''schema_version'', CText (sa_schema_version a)),
        (''source'', CText (sa_source a)),
        (''stable_reserve_pct'', CFloat (sa_stable_reserve_pct a)),
        (''strategy_weights'', CObject (map (\<lambda>(k, w). (k, CFloat w)) (sa_strategy_weights a))),
        (''triggered_by'', CText (sa_triggered_by a))]"

definition allocation_identity :: "digest \<Rightarrow> strategic_allocation \<Rightarrow> string res" where
  "allocation_identity digest a =
     (if \<not> is_aware (sa_produced_at a)
      then Inl (ValueError ''canary allocation produced_at must be timezone-aware'')
      else Inr (digest (allocation_document a (timestamp_ms (sa_produced_at a)))))"

section \<open>The exact policy\<close>

text \<open>The allocation, check by check. A \<open>dict\<close> with one key is the list of its one pair.\<close>

definition check_allocation_lineage :: "strategic_allocation \<Rightarrow> strategy_intent \<Rightarrow> unit res" where
  "check_allocation_lineage a intent =
     require (sa_source a = CANARY_SOURCE \<and> sa_correlation_id a = in_intent_id intent \<and>
       sa_causation_id a = Some (in_message_id intent))
       (ValueError ''canary allocation lineage does not match the intent'')"

definition canary_regime :: "side \<Rightarrow> market_regime" where
  "canary_regime sd = (if sd = LONG then BULL else BEAR)"

definition validate_canary_allocation ::
    "digest \<Rightarrow> strategic_allocation \<Rightarrow> candidate_review \<Rightarrow> unit res" where
  "validate_canary_allocation digest a review =
     (let intent = cr_intent review in
      case check_allocation_lineage a intent of
        Inl e \<Rightarrow> Inl e
      | Inr _ \<Rightarrow>
     (case allocation_identity digest a of
        Inl e \<Rightarrow> Inl e
      | Inr identity \<Rightarrow>
          if sa_message_id a \<noteq> identity
          then Inl (ValueError ''canary allocation message identity does not match its full policy payload'')
          else if sa_schema_version a \<noteq> ''1.0''
          then Inl (ValueError ''canary allocation schema version is not exact'')
          else if sa_max_gross_leverage a \<noteq> Fin 1
          then Inl (ValueError ''canary allocation must be exactly 1x'')
          else if sa_strategy_weights a \<noteq> [(PAPER_CANARY_STRATEGY_ID, CANARY_ALLOCATION_WEIGHT)]
          then Inl (ValueError ''canary allocation must contain only the bounded technical-canary weight'')
          else if sa_stable_reserve_pct a \<noteq> Fin 1 - CANARY_ALLOCATION_WEIGHT
          then Inl (ValueError ''canary allocation stable reserve is not exact'')
          else if sa_regime a \<noteq> canary_regime (in_side intent)
          then Inl (ValueError ''canary allocation regime is not direction-compatible'')
          else if timestamp_ms (sa_produced_at a) \<noteq> in_entry_eligible_ts_ms intent
          then Inl (ValueError ''canary allocation timestamp does not match NEXT_BAR_MARKET eligibility'')
          else if sa_triggered_by a \<noteq> ''SCHEDULE''
          then Inl (ValueError ''canary allocation trigger must be deterministic'')
          else require (sa_rationale a = CANARY_ALLOCATION_RATIONALE)
            (ValueError ''canary allocation rationale is not the fixed manual policy'')))"

text \<open>The review's own policy, before its instrument is bound.\<close>

definition check_review_policy :: "candidate_review \<Rightarrow> unit res" where
  "check_review_policy review =
     (let intent = cr_intent review; route = cr_route review in
      if cr_decision review \<noteq> ALLOW
      then Inl (ValueError ''technical canary arm requires an ALLOW review'')
      else if cr_source review \<noteq> CANARY_SOURCE \<or> rt_source route \<noteq> CANARY_SOURCE \<or> in_source intent \<noteq> CANARY_SOURCE
      then Inl (ValueError ''technical canary arm requires the dedicated canary source lineage'')
      else if cr_reviewer review \<noteq> ''DETERMINISTIC'' \<or> cr_model_provenance review \<noteq> None
      then Inl (ValueError ''technical canary arm must be deterministic and model-free'')
      else if cr_reason_codes review \<noteq> [CANARY_REASON]
      then Inl (ValueError ''technical canary arm requires the exact manual policy reason'')
      else if cr_priority review \<noteq> 0 \<or> rt_review_tier route \<noteq> ''NORMAL'' \<or>
         rt_requested_reasoning_effort route \<noteq> ''MEDIUM''
      then Inl (ValueError ''technical canary review policy or tier is not exact'')
      else if rt_intent route \<noteq> intent
      then Inl (ValueError ''technical canary route changed its immutable intent'')
      else if in_strategy_id intent \<noteq> PAPER_CANARY_STRATEGY_ID \<or>
         in_strategy_revision intent \<noteq> CANARY_STRATEGY_REVISION
      then Inl (ValueError ''durable arm is restricted to technical-canary@1'')
      else if Some (cr_message_id review) \<noteq> cr_review_id review \<or> Some (in_message_id intent) \<noteq> in_intent_id intent
      then Inl (ValueError ''technical canary requires canonical review and intent identities'')
      else Inr ())"

text \<open>The bar behind the candidate and its timing.\<close>

definition bar_evidence :: "strategy_intent \<Rightarrow> evidence_ref list" where
  "bar_evidence intent = filter (\<lambda>e. ev_kind e = ''closed_bar'') (in_evidence intent)"

definition bar_exact :: "strategy_intent \<Rightarrow> string \<Rightarrow> evidence_ref \<Rightarrow> bool" where
  "bar_exact intent bar_hash ev \<longleftrightarrow>
     ev_content_sha256 ev = Some bar_hash \<and> ev_observed_at_ms ev = in_decision_ts_ms intent \<and>
     starts_with (''BINANCE_UM:'' @ in_symbol intent @ '':'') (ev_reference ev)"

definition route_exact :: "candidate_review \<Rightarrow> string \<Rightarrow> string \<Rightarrow> bool" where
  "route_exact review bar_hash rules_hash \<longleftrightarrow>
     (let intent = cr_intent review; route = cr_route review in
      cr_evidence review = in_evidence intent \<and> rt_evidence_ids route = sort [bar_hash, rules_hash] \<and>
      rt_routed_at_ms route = in_decision_ts_ms intent \<and>
      rt_review_deadline_ms route = in_entry_expires_ts_ms intent \<and>
      cr_reviewed_at_ms review = in_entry_eligible_ts_ms intent)"

definition evidence_exact :: "candidate_review \<Rightarrow> string \<Rightarrow> bool" where
  "evidence_exact review rules_hash \<longleftrightarrow>
     (let intent = cr_intent review in
      feq (in_signal_strength intent) (Fin 0) \<and> length (in_evidence intent) = 2 \<and>
      (case (pv_input_bar_sha256s (in_provenance intent), bar_evidence intent) of
         ([bar_hash], [ev]) \<Rightarrow> bar_exact intent bar_hash ev \<and> route_exact review bar_hash rules_hash
       | _ \<Rightarrow> False))"

text \<open>
  Only \<open>ValueError\<close> is turned into the binding's own message; \<open>decimal\<close>'s arithmetic
  errors pass through.
\<close>

definition bind_instrument ::
    "digest \<Rightarrow> strategy_intent \<Rightarrow> string \<Rightarrow> (instrument_rule \<times> pydecimal) res" where
  "bind_instrument digest intent account_id =
     (case bound_canary_instrument (rules_digest digest) intent account_id of
        Inl (ValueError _) \<Rightarrow> Inl (ValueError ''technical canary instrument binding is invalid'')
      | other \<Rightarrow> other)"

definition validate_canary_binding ::
    "digest \<Rightarrow> candidate_review \<Rightarrow> strategic_allocation \<Rightarrow> string \<Rightarrow> unit res" where
  "validate_canary_binding digest review allocation account_id =
     (let intent = cr_intent review in
      case check_review_policy review of
        Inl e \<Rightarrow> Inl e
      | Inr _ \<Rightarrow>
     (case bind_instrument digest intent account_id of
        Inl e \<Rightarrow> Inl e
      | Inr (instrument, _) \<Rightarrow>
          if map_of PAPER_DEV_SYMBOL_MAP (in_symbol intent) \<noteq> Some (ir_venue_symbol instrument)
          then Inl (ValueError ''technical canary signal/venue symbol binding is invalid'')
          else if \<not> evidence_exact review (rules_sha256 (rules_digest digest) instrument)
          then Inl (ValueError ''technical canary bar evidence or timing is not exact'')
          else validate_canary_allocation digest allocation review))"

section \<open>An armed and a consumed record\<close>

definition bounded_hash :: "string option \<Rightarrow> bool" where
  "bounded_hash x \<longleftrightarrow>
     (case x of None \<Rightarrow> False
      | Some s \<Rightarrow> length s = 64 \<and> (\<forall>c \<in> set s. c \<in> set ''0123456789abcdef''))"

definition validate_session_binding :: "canary_arm \<Rightarrow> int \<Rightarrow> unit res" where
  "validate_session_binding arm now_ms =
     (if \<not> bounded_hash (ar_session_id arm) \<or> \<not> bounded_hash (ar_attempt_id arm)
      then Inl (unauthorized ''durable canary arm has no bounded session/attempt binding'')
      else case ar_session_expires_at arm of
        None \<Rightarrow> Inl (unauthorized ''durable canary session has no timezone-aware deadline'')
      | Some deadline \<Rightarrow>
          if \<not> is_aware deadline
          then Inl (unauthorized ''durable canary session has no timezone-aware deadline'')
          else if timestamp_ms deadline \<le> now_ms \<or>
             timestamp_ms deadline < in_entry_expires_ts_ms (cr_intent (ar_review arm))
          then Inl (unauthorized ''durable canary session is expired or does not bound the entry'')
          else Inr ())"

definition arm_expiry :: "canary_arm \<Rightarrow> candidate_review \<Rightarrow> int \<Rightarrow> string \<Rightarrow> int res" where
  "arm_expiry arm review now_ms text =
     (if \<not> is_aware (ar_expires_at arm)
      then Inl (unauthorized ''durable canary expiry must be timezone-aware'')
      else
        (let expires_at_ms = timestamp_ms (ar_expires_at arm) in
         if expires_at_ms \<noteq> in_entry_expires_ts_ms (cr_intent review) \<or> expires_at_ms \<le> now_ms
         then Inl (unauthorized text) else Inr expires_at_ms))"

definition validate_armed_record ::
    "digest \<Rightarrow> canary_arm \<Rightarrow> candidate_review \<Rightarrow> strategic_allocation \<Rightarrow> string \<Rightarrow> int \<Rightarrow> string res" where
  "validate_armed_record digest arm review allocation account_id now_ms =
     (if ar_status arm \<notin> {''ARMED'', ''CONSUMED''} \<or> ar_account_id arm \<noteq> account_id
      then Inl (unauthorized ''persistence returned no active arm for this account'')
      else case validate_session_binding arm now_ms of
        Inl e \<Rightarrow> Inl e
      | Inr _ \<Rightarrow>
          if ar_review arm \<noteq> review \<or> ar_allocation arm \<noteq> allocation
          then Inl (unauthorized ''persistence returned a canary arm with conflicting payloads'')
          else if ar_arm_id arm \<noteq> canary_arm_identity digest account_id review allocation
          then Inl (unauthorized ''persistence returned a conflicting canary arm identity'')
          else (case arm_expiry arm review now_ms ''persistence returned an expired or conflicting canary arm'' of
              Inl e \<Rightarrow> Inl e
            | Inr _ \<Rightarrow>
                (case validate_canary_binding digest review allocation account_id of
                   Inl e \<Rightarrow> Inl e
                 | Inr _ \<Rightarrow> Inr (ar_arm_id arm))))"

definition decided_inside :: "candidate_review \<Rightarrow> int \<Rightarrow> int \<Rightarrow> int \<Rightarrow> bool" where
  "decided_inside review expires_at_ms now_ms decided_at_ms \<longleftrightarrow>
     in_entry_eligible_ts_ms (cr_intent review) \<le> decided_at_ms \<and> cr_reviewed_at_ms review \<le> decided_at_ms \<and>
     decided_at_ms < expires_at_ms \<and> decided_at_ms \<le> now_ms + CANARY_MAX_CLOCK_SKEW_MS"

definition bound_policy ::
    "digest \<Rightarrow> canary_arm \<Rightarrow> candidate_review \<Rightarrow> string \<Rightarrow> int \<Rightarrow> (strategic_allocation \<times> int) res" where
  "bound_policy digest arm review account_id decided_at_ms =
     (case validate_canary_binding digest review (ar_allocation arm) account_id of
        Inl (ValueError _) \<Rightarrow> Inl (unauthorized ''durable canary allocation is not the exact bound policy'')
      | Inl e \<Rightarrow> Inl e
      | Inr _ \<Rightarrow> Inr (ar_allocation arm, decided_at_ms))"

definition allocation_from_consumed_arm ::
    "digest \<Rightarrow> canary_arm \<Rightarrow> candidate_review \<Rightarrow> string \<Rightarrow> int \<Rightarrow> (strategic_allocation \<times> int) res" where
  "allocation_from_consumed_arm digest arm review account_id now_ms =
     (if ar_status arm \<noteq> ''CONSUMED'' \<or> ar_account_id arm \<noteq> account_id
      then Inl (unauthorized ''durable canary arm is not consumed for this account'')
      else case validate_session_binding arm now_ms of
        Inl e \<Rightarrow> Inl e
      | Inr _ \<Rightarrow>
          if ar_review arm \<noteq> review
          then Inl (unauthorized ''durable canary arm does not match the exact review'')
          else if ar_arm_id arm \<noteq> canary_arm_identity digest account_id (ar_review arm) (ar_allocation arm)
          then Inl (unauthorized ''durable canary arm identity is invalid'')
          else (case arm_expiry arm review now_ms ''durable canary arm is expired or has a conflicting expiry'' of
              Inl e \<Rightarrow> Inl e
            | Inr expires_at_ms \<Rightarrow>
                (case ar_decided_at_ms arm of
                   None \<Rightarrow> Inl (unauthorized ''durable canary decision time is outside the entry window'')
                 | Some decided_at_ms \<Rightarrow>
                     if \<not> decided_inside review expires_at_ms now_ms decided_at_ms
                     then Inl (unauthorized ''durable canary decision time is outside the entry window'')
                     else bound_policy digest arm review account_id decided_at_ms)))"


section \<open>What a consumed arm guarantees\<close>

text \<open>A step of a check: it goes on exactly when nothing was raised before it.\<close>

lemma after_unit: "(case m of Inl e \<Rightarrow> Inl e | Inr u \<Rightarrow> k u) = Inr y \<longleftrightarrow> (\<exists>u. m = Inr u \<and> k u = Inr y)"
  by (cases m) auto

lemma if_raise: "(if c then Inl e else m) = Inr y \<longleftrightarrow> \<not> c \<and> m = Inr y"
  by simp

lemma after_option: "(case m of None \<Rightarrow> Inl e | Some x \<Rightarrow> k x) = Inr y \<longleftrightarrow> (\<exists>x. m = Some x \<and> k x = Inr y)"
  by (cases m) auto

lemmas passed = after_unit after_option if_raise require_Inr not_not de_Morgan_disj

lemma validate_canary_allocation_Inr:
  assumes "validate_canary_allocation digest a review = Inr u"
  shows "sa_source a = CANARY_SOURCE \<and> sa_correlation_id a = in_intent_id (cr_intent review) \<and>
    sa_causation_id a = Some (in_message_id (cr_intent review)) \<and>
    sa_max_gross_leverage a = Fin 1 \<and>
    sa_strategy_weights a = [(PAPER_CANARY_STRATEGY_ID, CANARY_ALLOCATION_WEIGHT)] \<and>
    sa_stable_reserve_pct a = Fin 1 - CANARY_ALLOCATION_WEIGHT \<and>
    sa_regime a = canary_regime (in_side (cr_intent review)) \<and> is_aware (sa_produced_at a) \<and>
    timestamp_ms (sa_produced_at a) = in_entry_eligible_ts_ms (cr_intent review)"
  using assms unfolding validate_canary_allocation_def check_allocation_lineage_def allocation_identity_def Let_def passed
  by (elim exE conjE) (intro conjI, assumption+)

lemma validate_canary_binding_Inr:
  assumes "validate_canary_binding digest review a account_id = Inr u"
  obtains r q where "bound_canary_instrument (rules_digest digest) (cr_intent review) account_id = Inr (r, q)"
    "map_of PAPER_DEV_SYMBOL_MAP (in_symbol (cr_intent review)) = Some (ir_venue_symbol r)"
    "check_review_policy review = Inr ()" "evidence_exact review (rules_sha256 (rules_digest digest) r)"
    "validate_canary_allocation digest a review = Inr ()"
  using assms
  by (auto simp: validate_canary_binding_def bind_instrument_def Let_def after_unit split: if_split_asm sum.splits
      pyerr.splits)

lemma check_review_policy_Inr:
  assumes "check_review_policy review = Inr u"
  shows "cr_decision review = ALLOW \<and> cr_source review = CANARY_SOURCE \<and> cr_model_provenance review = None \<and>
    cr_reviewer review = ''DETERMINISTIC'' \<and> rt_intent (cr_route review) = cr_intent review \<and>
    in_strategy_id (cr_intent review) = PAPER_CANARY_STRATEGY_ID \<and>
    in_strategy_revision (cr_intent review) = CANARY_STRATEGY_REVISION"
  using assms by (auto simp: check_review_policy_def Let_def split: if_split_asm)

text \<open>The window a decision with this arm is bound to.\<close>

definition inside_window :: "canary_arm \<Rightarrow> candidate_review \<Rightarrow> int \<Rightarrow> int \<Rightarrow> bool" where
  "inside_window arm review now_ms decided_at_ms \<longleftrightarrow>
     (let intent = cr_intent review in
      in_entry_eligible_ts_ms intent \<le> decided_at_ms \<and> cr_reviewed_at_ms review \<le> decided_at_ms \<and>
      decided_at_ms < in_entry_expires_ts_ms intent \<and> decided_at_ms \<le> now_ms + CANARY_MAX_CLOCK_SKEW_MS \<and>
      now_ms < in_entry_expires_ts_ms intent \<and>
      (\<exists>deadline. ar_session_expires_at arm = Some deadline \<and> now_ms < timestamp_ms deadline \<and>
        in_entry_expires_ts_ms intent \<le> timestamp_ms deadline))"

lemma session_binding_Inr:
  "validate_session_binding arm now_ms = Inr u \<Longrightarrow>
     \<exists>deadline. ar_session_expires_at arm = Some deadline \<and> is_aware deadline \<and> now_ms < timestamp_ms deadline \<and>
       in_entry_expires_ts_ms (cr_intent (ar_review arm)) \<le> timestamp_ms deadline"
  by (auto simp: validate_session_binding_def split: if_split_asm option.splits)

lemma arm_expiry_Inr:
  "arm_expiry arm review now_ms text = Inr t \<Longrightarrow> t = in_entry_expires_ts_ms (cr_intent review) \<and> now_ms < t"
  by (auto simp: arm_expiry_def Let_def split: if_split_asm)

lemma bound_policy_Inr:
  "bound_policy digest arm review account_id t = Inr (a, d) \<longleftrightarrow>
     validate_canary_binding digest review (ar_allocation arm) account_id = Inr () \<and> a = ar_allocation arm \<and> d = t"
  by (auto simp: bound_policy_def split: sum.splits pyerr.splits)

lemma consumed_armE:
  assumes "allocation_from_consumed_arm digest arm review account_id now_ms = Inr (a, t)"
  obtains "ar_status arm = ''CONSUMED''" "ar_account_id arm = account_id" "ar_review arm = review"
    "a = ar_allocation arm" "ar_decided_at_ms arm = Some t"
    "ar_arm_id arm = canary_arm_identity digest account_id review a"
    "inside_window arm review now_ms t" "validate_canary_binding digest review a account_id = Inr ()"
proof -
  obtain u w where *: "ar_status arm = ''CONSUMED''" "ar_account_id arm = account_id"
    "validate_session_binding arm now_ms = Inr u" "ar_review arm = review"
    "ar_arm_id arm = canary_arm_identity digest account_id (ar_review arm) (ar_allocation arm)"
    "arm_expiry arm review now_ms ''durable canary arm is expired or has a conflicting expiry'' = Inr w"
    "ar_decided_at_ms arm = Some t" "decided_inside review w now_ms t"
    "a = ar_allocation arm" "validate_canary_binding digest review (ar_allocation arm) account_id = Inr ()"
    using assms unfolding allocation_from_consumed_arm_def passed bound_policy_Inr by blast
  have "inside_window arm review now_ms t"
    using session_binding_Inr [OF *(3)] arm_expiry_Inr [OF *(6)] *(4,8)
    by (auto simp: inside_window_def decided_inside_def Let_def)
  with * show ?thesis by (intro that) auto
qed

text \<open>
  C19. A consumed arm authorizes exactly one review at one time. When the risk service accepts the
  durable record, the record is the consumed one of this account and this very review, its
  identity is the digest of account, review and allocation, and the decision time it hands out
  lies inside the entry window, at most two seconds ahead of the local clock, while window and
  session are still open. The review is an ALLOW of the deterministic canary policy whose
  instrument binding checks out and whose venue symbol is the mapped one, and the allocation is
  the fixed one: 1x, the single canary weight, the regime of the intent's side.
\<close>

theorem consumed_arm_authorizes_one_review:
  assumes "allocation_from_consumed_arm digest arm review account_id now_ms = Inr (a, t)"
  shows "ar_status arm = ''CONSUMED'' \<and> ar_account_id arm = account_id \<and> ar_review arm = review \<and>
    a = ar_allocation arm \<and> ar_decided_at_ms arm = Some t \<and>
    ar_arm_id arm = canary_arm_identity digest account_id review a \<and> inside_window arm review now_ms t \<and>
    cr_decision review = ALLOW \<and> rt_intent (cr_route review) = cr_intent review \<and>
    in_strategy_id (cr_intent review) = PAPER_CANARY_STRATEGY_ID \<and>
    (\<exists>r q. bound_canary_instrument (rules_digest digest) (cr_intent review) account_id = Inr (r, q) \<and>
       map_of PAPER_DEV_SYMBOL_MAP (in_symbol (cr_intent review)) = Some (ir_venue_symbol r)) \<and>
    sa_max_gross_leverage a = Fin 1 \<and>
    sa_strategy_weights a = [(PAPER_CANARY_STRATEGY_ID, CANARY_ALLOCATION_WEIGHT)] \<and>
    sa_regime a = canary_regime (in_side (cr_intent review)) \<and>
    timestamp_ms (sa_produced_at a) = in_entry_eligible_ts_ms (cr_intent review)"
  using assms
proof (rule consumed_armE)
  assume *: "ar_status arm = ''CONSUMED''" "ar_account_id arm = account_id" "ar_review arm = review"
    "a = ar_allocation arm" "ar_decided_at_ms arm = Some t"
    "ar_arm_id arm = canary_arm_identity digest account_id review a" "inside_window arm review now_ms t"
  assume "validate_canary_binding digest review a account_id = Inr ()"
  then show ?thesis
  proof (rule validate_canary_binding_Inr)
    fix r q
    assume b: "bound_canary_instrument (rules_digest digest) (cr_intent review) account_id = Inr (r, q)"
      "map_of PAPER_DEV_SYMBOL_MAP (in_symbol (cr_intent review)) = Some (ir_venue_symbol r)"
      "check_review_policy review = Inr ()" "validate_canary_allocation digest a review = Inr ()"
    show ?thesis
      using * b(1,2) check_review_policy_Inr [OF b(3)] validate_canary_allocation_Inr [OF b(4)] by simp
  qed
qed

text \<open>A consumed arm for a candidate on \<open>BTCUSDT\<close>.\<close>

fun demo_digest :: digest where
  "demo_digest (CObject entries) = concat (map fst entries)"
| "demo_digest _ = []"

definition armed_intent :: strategy_intent where
  "armed_intent =
     (canary_intent (Decimal 5 (-3)))
       \<lparr>in_source := CANARY_SOURCE, in_strategy_revision := CANARY_STRATEGY_REVISION, in_decision_ts_ms := 1999,
        in_entry_eligible_ts_ms := 2000, in_entry_expires_ts_ms := 32000,
        in_evidence :=
          [\<lparr>ev_kind = ''closed_bar'', ev_reference = ''BINANCE_UM:BTCUSDT:0'', ev_content_sha256 = Some ''bar'',
            ev_observed_at_ms = 1999\<rparr>, rule_evidence flat_sha dev_rule]\<rparr>"

definition armed_review :: candidate_review where
  "armed_review =
     \<lparr>cr_message_id = ''r1'', cr_review_id = Some ''r1'', cr_source = CANARY_SOURCE, cr_correlation_id = Some ''i1'',
      cr_causation_id = ''q1'', cr_decision = ALLOW, cr_reviewed_at_ms = 2000, cr_intent = armed_intent,
      cr_route =
        \<lparr>rt_route_id = Some ''q1'', rt_message_id = ''q1'', rt_source = CANARY_SOURCE, rt_correlation_id = Some ''i1'',
         rt_causation_id = ''i1'', rt_intent = armed_intent, rt_review_tier = ''NORMAL'',
         rt_requested_reasoning_effort = ''MEDIUM'', rt_routed_at_ms = 1999, rt_review_deadline_ms = 32000,
         rt_evidence_ids = [''bar'', rules_sha256 flat_sha dev_rule], rt_payload = []\<rparr>,
      cr_priority = 0, cr_reviewer = ''DETERMINISTIC'', cr_model_provenance = None,
      cr_reason_codes = [CANARY_REASON], cr_evidence = in_evidence armed_intent, cr_payload = []\<rparr>"

definition armed_allocation :: strategic_allocation where
  "armed_allocation =
     (let a = \<lparr>sa_source = CANARY_SOURCE, sa_message_id = [], sa_correlation_id = Some ''i1'',
         sa_causation_id = Some ''i1'', sa_schema_version = ''1.0'', sa_produced_at = Aware 2000000,
         sa_regime = BULL, sa_stable_reserve_pct = Fin 1 - CANARY_ALLOCATION_WEIGHT,
         sa_strategy_weights = [(PAPER_CANARY_STRATEGY_ID, CANARY_ALLOCATION_WEIGHT)],
         sa_max_gross_leverage = Fin 1, sa_triggered_by = ''SCHEDULE'', sa_rationale = CANARY_ALLOCATION_RATIONALE\<rparr>
      in a\<lparr>sa_message_id := demo_digest (allocation_document a 2000)\<rparr>)"

definition consumed_arm :: canary_arm where
  "consumed_arm =
     \<lparr>ar_arm_id = canary_arm_identity demo_digest ''acc'' armed_review armed_allocation, ar_account_id = ''acc'',
      ar_review = armed_review, ar_allocation = armed_allocation, ar_status = ''CONSUMED'',
      ar_expires_at = Aware 32000000, ar_decided_at_ms = Some 2500, ar_session_id = Some (replicate 64 (CHR ''1'')),
      ar_attempt_id = Some (replicate 64 (CHR ''2'')), ar_session_expires_at = Some (Aware 60000000)\<rparr>"

lemma demo_rules_digest: "rules_digest demo_digest = flat_sha"
  by (rule ext) (simp add: rules_digest_def flat_sha_def comp_def case_prod_unfold)

lemma armed_fields:
  "cr_intent armed_review = armed_intent" "cr_reviewed_at_ms armed_review = 2000"
  "in_decision_ts_ms armed_intent = 1999" "in_entry_eligible_ts_ms armed_intent = 2000"
  "in_entry_expires_ts_ms armed_intent = 32000" "in_symbol armed_intent = ''BTCUSDT''" "in_side armed_intent = LONG"
  "in_intent_id armed_intent = Some ''i1''" "in_message_id armed_intent = ''i1''"
  by (simp_all add: armed_review_def armed_intent_def canary_intent_def)

lemma armed_stamps:
  "timestamp_ms (Aware 2000000) = 2000" "timestamp_ms (Aware 32000000) = 32000"
  "timestamp_ms (Aware 60000000) = 60000"
  by code_simp+

lemma dev_rule_hash: "rules_sha256 flat_sha (plain_rule dev_rule) = rules_sha256 flat_sha dev_rule"
  by code_simp

lemma armed_binding:
  "bound_canary_instrument flat_sha armed_intent ''acc'' = Inr (plain_rule dev_rule, Decimal 5 (-3))"
proof -
  have "in_metadata armed_intent = in_metadata (canary_intent (Decimal 5 (-3)))"
    by (simp add: armed_intent_def)
  moreover have "bound_evidence flat_sha armed_intent = bound_evidence flat_sha (canary_intent (Decimal 5 (-3)))"
    by (rule ext) (simp add: bound_evidence_def armed_intent_def canary_intent_def rule_evidence_def)
  ultimately have "bound_canary_instrument flat_sha armed_intent ''acc'' =
      bound_canary_instrument flat_sha (canary_intent (Decimal 5 (-3))) ''acc''"
    unfolding bound_canary_instrument_def by (simp only:)
  then show ?thesis using example_binding by simp
qed

lemma armed_review_policy: "check_review_policy armed_review = Inr ()"
  by (simp add: check_review_policy_def armed_review_def armed_intent_def canary_intent_def)

lemma armed_evidence: "evidence_exact armed_review (rules_sha256 flat_sha dev_rule)"
proof -
  have ev: "in_evidence armed_intent =
      [\<lparr>ev_kind = ''closed_bar'', ev_reference = ''BINANCE_UM:BTCUSDT:0'', ev_content_sha256 = Some ''bar'',
        ev_observed_at_ms = 1999\<rparr>, rule_evidence flat_sha dev_rule]"
    and bars: "pv_input_bar_sha256s (in_provenance armed_intent) = [''bar'']"
    and strength: "in_signal_strength armed_intent = Fin 0"
    by (simp_all add: armed_intent_def canary_intent_def)
  have "bar_evidence armed_intent = [hd (in_evidence armed_intent)]"
    by (simp add: bar_evidence_def ev rule_evidence_def)
  moreover have "sort [''bar'', rules_sha256 flat_sha dev_rule] = [''bar'', rules_sha256 flat_sha dev_rule]"
    by code_simp
  moreover have "cr_evidence armed_review = in_evidence armed_intent"
    "rt_evidence_ids (cr_route armed_review) = [''bar'', rules_sha256 flat_sha dev_rule]"
    "rt_routed_at_ms (cr_route armed_review) = 1999" "rt_review_deadline_ms (cr_route armed_review) = 32000"
    by (simp_all add: armed_review_def)
  ultimately show ?thesis
    by (simp add: evidence_exact_def armed_fields bar_exact_def route_exact_def ev bars strength feq_def starts_with_def)
qed

lemma armed_allocation_valid: "validate_canary_allocation demo_digest armed_allocation armed_review = Inr ()"
  by (simp add: validate_canary_allocation_def check_allocation_lineage_def allocation_identity_def require_def
      armed_allocation_def Let_def armed_fields canary_regime_def allocation_document_def armed_stamps)

lemma armed_policy: "validate_canary_binding demo_digest armed_review armed_allocation ''acc'' = Inr ()"
proof -
  have "ir_venue_symbol (plain_rule dev_rule) = ''BTCUSD:DEV''" by (simp add: plain_rule_def rule_with_def dev_rule_def)
  then show ?thesis
    by (simp add: validate_canary_binding_def bind_instrument_def demo_rules_digest armed_binding armed_fields
        armed_review_policy armed_evidence dev_rule_hash armed_allocation_valid PAPER_DEV_SYMBOL_MAP_def)
qed

lemma consumed_arm_accepted:
  "allocation_from_consumed_arm demo_digest consumed_arm armed_review ''acc'' 2600 = Inr (armed_allocation, 2500)"
proof -
  have "validate_session_binding consumed_arm 2600 = Inr ()"
    by (simp add: validate_session_binding_def consumed_arm_def bounded_hash_def armed_fields armed_stamps)
  moreover have "arm_expiry consumed_arm armed_review 2600 t = Inr 32000" for t
    by (simp add: arm_expiry_def consumed_arm_def armed_fields armed_stamps)
  moreover have "decided_inside armed_review 32000 2600 2500"
    by (simp add: decided_inside_def armed_fields CANARY_MAX_CLOCK_SKEW_MS_def)
  ultimately show ?thesis
    by (simp add: allocation_from_consumed_arm_def bound_policy_def consumed_arm_def armed_policy)
qed

theorem consumed_arm_authorizes_one_review_witness:
  "sa_max_gross_leverage armed_allocation = Fin 1 \<and> ar_decided_at_ms consumed_arm = Some 2500 \<and>
   inside_window consumed_arm armed_review 2600 2500"
  using consumed_arm_authorizes_one_review [OF consumed_arm_accepted] by blast

end
