(* ===== verification/Operator_Control.thy ===== *)
theory Operator_Control
  imports Config Contracts
begin

text \<open>
  \<open>kairos_risk/operator_control.py\<close>: the operator's authority over PAPER decisions. Scope and
  snapshot are contracts of \<open>kairos_persistence\<close>; the repository that serves them is a parameter
  of its callers, with the fail-closed placeholder below as one value of it.
\<close>

text \<open>\<open>CanaryScope\<close>, \<open>OperatorSnapshotV1\<close>.\<close>

record canary_scope =
  sc_account_id :: string
  sc_environment :: string
  sc_payload :: string

record operator_snapshot =
  os_version :: int
  os_payload :: string

record operator_repository =
  or_snapshot :: "canary_scope \<Rightarrow> operator_snapshot res"
  or_bind_decision :: "risk_decision \<Rightarrow> canary_scope \<Rightarrow> int \<Rightarrow> unit res"

definition control_refused :: pyerr where
  "control_refused = RuntimeError ''OperatorControlRefused: durable operator control is unavailable''"

definition reject_all_operator :: operator_repository where
  "reject_all_operator =
     \<lparr>or_snapshot = (\<lambda>_. Inl control_refused), or_bind_decision = (\<lambda>_ _ _. Inl control_refused)\<rparr>"

text \<open>
  The scope file as \<open>pathlib\<close> shows it: whether the path is absolute, its suffix, and its size and
  its parsed content, either of which may raise.
\<close>

record 'doc operator_file =
  of_absolute :: bool
  of_suffix :: string
  of_size :: "int res"
  of_content :: "'doc res"

definition bounded_artifact :: "'doc operator_file \<Rightarrow> bool res" where
  "bounded_artifact f =
     (if \<not> of_absolute f \<or> of_suffix f \<noteq> ''.json'' then Inr False
      else (case of_size f of Inl e \<Rightarrow> Inl e | Inr n \<Rightarrow> Inr (n \<le> 16384)))"

definition scope_document ::
    "(string \<Rightarrow> 'doc operator_file) \<Rightarrow> (canary_scope \<Rightarrow> 'doc) \<Rightarrow> risk_settings \<Rightarrow> canary_scope option \<Rightarrow> 'doc res" where
  "scope_document open_file dump s supplied =
     (let refused = Inl (ValueError ''operator scope requires a bounded independent absolute JSON artifact'') in
      case supplied of
        Some scope \<Rightarrow> Inr (dump scope)
      | None \<Rightarrow>
         (case rs_paper_operator_scope_file s of
            None \<Rightarrow> refused
          | Some path \<Rightarrow>
             (case bounded_artifact (open_file path) of
                Inl e \<Rightarrow> Inl e
              | Inr False \<Rightarrow> refused
              | Inr True \<Rightarrow> of_content (open_file path))))"

definition load_operator_scope ::
    "(string \<Rightarrow> 'doc operator_file) \<Rightarrow> (canary_scope \<Rightarrow> 'doc) \<Rightarrow> ('doc \<Rightarrow> canary_scope res) \<Rightarrow> risk_settings \<Rightarrow> canary_scope option \<Rightarrow> canary_scope res" where
  "load_operator_scope open_file dump validate s supplied =
     (case scope_document open_file dump s supplied of
        Inl e \<Rightarrow> Inl e
      | Inr doc \<Rightarrow>
         (case validate doc of
            Inl e \<Rightarrow> Inl e
          | Inr scope \<Rightarrow>
              if sc_account_id scope \<noteq> rs_paper_account_id s \<or> sc_environment scope \<noteq> cs_environment s
              then Inl (ValueError ''operator scope differs from the configured PAPER account/environment'')
              else Inr scope))"

lemma loaded_scope_matches:
  "load_operator_scope open_file dump validate s supplied = Inr scope \<Longrightarrow>
     sc_account_id scope = rs_paper_account_id s \<and> sc_environment scope = cs_environment s"
  by (auto simp: load_operator_scope_def split: sum.splits if_split_asm)

end
