(* ===== verification/Paper_Service.thy ===== *)
theory Paper_Service
  imports Service Paper_Ledger Canary_Authorization Operator_Control
begin

text \<open>
  The PAPER side of \<open>RiskService\<close> (\<open>kairos_risk/service.py\<close>): the consume loops around the
  coordinator, the handler of candidate reviews with its operator and canary authority, and the
  recovery before the first subscription. One task handles reviews, one at a time; the other
  tasks run between its awaits, and what they did there is a list of events. The answers of the
  durable repositories and of the bus are outcomes; a handler's calls to them are a list.
\<close>

section \<open>State and start\<close>

record paper_service =
  pv_service :: service
  pv_paper :: coordinator
  pv_scope :: "canary_scope option"

definition pv_settings :: "paper_service \<Rightarrow> risk_settings" where
  "pv_settings ps = co_settings (pv_paper ps)"

text \<open>What \<open>__init__\<close> asks of a bus that the caller supplies.\<close>

record injected_bus =
  ib_durable :: bool
  ib_redis :: bool
  ib_service_name :: string
  ib_verify_schema_only :: bool
  ib_controlled_profile :: bool
  ib_database_controlled :: bool

definition accept_bus :: "risk_settings \<Rightarrow> injected_bus \<Rightarrow> unit res" where
  "accept_bus s b =
     (if rs_trading_mode s = PAPER \<and>
         (\<not> ib_durable b \<or> \<not> ib_redis b \<or> ib_service_name b \<noteq> rs_service_name s \<or>
          \<not> ib_verify_schema_only b \<or> \<not> ib_controlled_profile b \<or> \<not> ib_database_controlled b)
      then Inl (ValueError ''PAPER injected bus requires exact Redis identity and verify-only controlled-runtime schema'')
      else Inr ())"

text \<open>An unusable scope artifact leaves the service without one; other exceptions escape.\<close>

fun scope_load_caught :: "pyerr \<Rightarrow> bool" where
  "scope_load_caught (ValueError _) = True"
| "scope_load_caught (TypeError _) = True"
| "scope_load_caught (RuntimeError t) = starts_with ''OSError'' t"
| "scope_load_caught _ = False"

definition operator_scope_of :: "risk_settings \<Rightarrow> canary_scope res \<Rightarrow> canary_scope option res" where
  "operator_scope_of s loaded =
     (if rs_trading_mode s \<noteq> PAPER then Inr None
      else case loaded of
        Inr scope \<Rightarrow> Inr (Some scope)
      | Inl e \<Rightarrow> if scope_load_caught e then Inr None else Inl e)"

definition new_paper_service :: "paper_pipeline \<Rightarrow> canary_scope option \<Rightarrow> paper_service" where
  "new_paper_service pl scope =
     \<lparr>pv_service = new_service (pl_settings pl), pv_paper = new_coordinator pl, pv_scope = scope\<rparr>"

text \<open>
  \<open>_recover_paper_state\<close>: \<open>fetch\<close> is the query for the committed approvals of the account that
  have not expired at the given time.
\<close>

definition recover_paper_state ::
    "bool \<Rightarrow> unit res \<Rightarrow> (string \<Rightarrow> int \<Rightarrow> risk_decision list res) \<Rightarrow> int \<Rightarrow> paper_service \<Rightarrow> unit res \<times> paper_service" where
  "recover_paper_state durable started fetch now ps =
     (if \<not> durable then (Inl (RuntimeError ''PAPER recovery requires DurableMessageBus''), ps)
      else case started of
        Inl e \<Rightarrow> (Inl e, ps)
      | Inr _ \<Rightarrow>
         (case fetch (rs_paper_account_id (pv_settings ps)) now of
            Inl e \<Rightarrow> (Inl e, ps)
          | Inr decisions \<Rightarrow>
             (let (result, co) = restore_reservations decisions (pv_paper ps)
              in (result, ps\<lparr>pv_paper := co\<rparr>))))"

text \<open>The tasks that \<open>run\<close> starts.\<close>

definition service_tasks :: "paper_pipeline \<Rightarrow> string list" where
  "service_tasks pl =
     [''llm-health'', ''strategic-allocation''] @
     (case rs_trading_mode (pl_settings pl) of
        DRY_RUN \<Rightarrow> [''tactical-commands'', ''account-snapshots'']
      | PAPER \<Rightarrow> [''paper-reviews'', ''paper-venue-quality'', ''paper-account-v2''] @
          (if pl_regime_policy pl \<noteq> None then [''paper-regime-allocation''] else [])
      | _ \<Rightarrow> [])"

section \<open>The other tasks\<close>

text \<open>
  One round of a consume loop: a message is acked when its handler returned and the bus takes the
  ack; \<open>None\<close> is a payload that the contract refuses.
\<close>

definition consume_paper_venue :: "bool \<Rightarrow> venue_quality option \<Rightarrow> coordinator \<Rightarrow> bool \<times> coordinator" where
  "consume_paper_venue acked event co =
     (case event of
        None \<Rightarrow> (False, co)
      | Some v \<Rightarrow> (case apply_venue v co of (Inl _, co') \<Rightarrow> (False, co') | (Inr _, co') \<Rightarrow> (acked, co')))"

definition consume_paper_account :: "bool \<Rightarrow> account_v2 option \<Rightarrow> coordinator \<Rightarrow> bool \<times> coordinator" where
  "consume_paper_account acked event co =
     (case event of
        None \<Rightarrow> (False, co)
      | Some a \<Rightarrow> (case apply_account a co of (Inl _, co') \<Rightarrow> (False, co') | (Inr _, co') \<Rightarrow> (acked, co')))"

text \<open>\<open>right_topic\<close> says whether the envelope bears the versioned topic.\<close>

definition consume_regime_allocation ::
    "paper_core \<Rightarrow> bool \<Rightarrow> bool \<Rightarrow> regime_allocation option \<Rightarrow> int \<Rightarrow> coordinator \<Rightarrow> bool \<times> coordinator" where
  "consume_regime_allocation core acked right_topic event now co =
     (if \<not> right_topic then (False, co)
      else case event of
        None \<Rightarrow> (False, co)
      | Some b \<Rightarrow>
         (case apply_regime_allocation core b now co of (Inl _, co') \<Rightarrow> (False, co') | (Inr _, co') \<Rightarrow> (acked, co')))"

datatype other_event =
    OtherVenue bool "venue_quality option"
  | OtherAccount bool "account_v2 option"
  | OtherRegime bool bool "regime_allocation option" int
  | OtherHealth bool "pyfloat \<times> (string \<Rightarrow> pyfloat)" timed_health
  | OtherAllocation "strategic_allocation option"

fun other_step :: "paper_core \<Rightarrow> other_event \<Rightarrow> paper_service \<Rightarrow> paper_service" where
  "other_step core (OtherVenue k e) ps = ps\<lparr>pv_paper := snd (consume_paper_venue k e (pv_paper ps))\<rparr>"
| "other_step core (OtherAccount k e) ps = ps\<lparr>pv_paper := snd (consume_paper_account k e (pv_paper ps))\<rparr>"
| "other_step core (OtherRegime k t e now) ps =
     ps\<lparr>pv_paper := snd (consume_regime_allocation core k t e now (pv_paper ps))\<rparr>"
| "other_step core (OtherHealth p clk e) ps = ps\<lparr>pv_service := snd (consume_health p clk e (pv_service ps))\<rparr>"
| "other_step core (OtherAllocation e) ps = ps\<lparr>pv_service := consume_allocation e (pv_service ps)\<rparr>"

definition others :: "paper_core \<Rightarrow> other_event list \<Rightarrow> paper_service \<Rightarrow> paper_service" where
  "others core es ps = fold (other_step core) es ps"

section \<open>A candidate review\<close>

text \<open>
  \<open>wait_for_inputs\<close> with the state in hand: each round reads the clock, says whether it was
  notified, and what the other tasks did while it waited.
\<close>

fun waiting ::
    "paper_core \<Rightarrow> candidate_review \<Rightarrow> (int \<times> bool \<times> other_event list) list \<Rightarrow> paper_service \<Rightarrow>
     ((input_error + unit) \<times> paper_service) option" where
  "waiting core review [] ps = None"
| "waiting core review ((now, notified, es) # rounds) ps =
     (if inputs_ready (pv_paper ps) review then Some (Inr (), ps)
      else if in_entry_expires_ts_ms (cr_intent review) - now \<le> 0 then Some (Inl deadline_exceeded, ps)
      else if notified then waiting core review rounds (others core es ps)
      else Some (Inl deadline_exceeded, others core es ps))"

text \<open>What the world answers in one pass of the handler's loop.\<close>

record review_pass =
  rp_rounds :: "(int \<times> bool \<times> other_event list) list"
  rp_now_ms :: int
  rp_snapshot :: "operator_snapshot res"
  rp_arm :: "canary_arm option res"
  rp_before :: "other_event list"
  rp_clock :: "pyfloat \<times> (string \<Rightarrow> pyfloat)"
  rp_bind :: "unit res"
  rp_during_bind :: "other_event list"
  rp_second_clock :: "pyfloat \<times> (string \<Rightarrow> pyfloat)"

datatype authority_call =
    ConsumeArm canary_arm int
  | NoArm
  | BindDecision risk_decision canary_scope int bool

text \<open>The local variables that outlive a pass.\<close>

record review_run =
  rr_checked :: bool
  rr_allocation :: "strategic_allocation option"
  rr_admission :: "string list"
  rr_calls :: "authority_call list"

definition new_run :: review_run where
  "new_run = \<lparr>rr_checked = False, rr_allocation = None, rr_admission = [], rr_calls = []\<rparr>"

fun is_authorization_error :: "pyerr \<Rightarrow> bool" where
  "is_authorization_error (RuntimeError t) = starts_with ''CanaryAuthorizationError'' t"
| "is_authorization_error _ = False"

definition operator_of :: "canary_scope option \<Rightarrow> operator_snapshot res \<Rightarrow> operator_snapshot option" where
  "operator_of scope answer =
     (case scope of None \<Rightarrow> None | Some _ \<Rightarrow> (case answer of Inl _ \<Rightarrow> None | Inr operator \<Rightarrow> Some operator))"

definition note_operator :: "operator_snapshot option \<Rightarrow> review_run \<Rightarrow> review_run" where
  "note_operator operator run =
     (if operator = None
      then run\<lparr>rr_admission := sort (remdups (rr_admission run @ [''operator_control_unavailable'']))\<rparr> else run)"

text \<open>The single-use arm, and the decision time that it carries.\<close>

definition use_arm ::
    "digest \<Rightarrow> string \<Rightarrow> candidate_review \<Rightarrow> int \<Rightarrow> canary_arm option res \<Rightarrow> review_run \<Rightarrow> int res \<times> review_run" where
  "use_arm digest account_id review now answer run =
     (case answer of
        Inl e \<Rightarrow> (Inl e, run)
      | Inr None \<Rightarrow>
          (Inr now, run\<lparr>rr_checked := True, rr_admission := [''technical_canary_arm_missing''],
                        rr_calls := rr_calls run @ [NoArm]\<rparr>)
      | Inr (Some arm) \<Rightarrow>
         (let run = run\<lparr>rr_checked := True, rr_calls := rr_calls run @ [ConsumeArm arm now]\<rparr> in
          case allocation_from_consumed_arm digest arm review account_id now of
            Inr (allocation, decided_at_ms) \<Rightarrow> (Inr decided_at_ms, run\<lparr>rr_allocation := Some allocation\<rparr>)
          | Inl e \<Rightarrow>
              if is_authorization_error e
              then (Inr now, run\<lparr>rr_admission := [''technical_canary_arm_invalid'']\<rparr>) else (Inl e, run)))"

definition is_canary_review :: "candidate_review \<Rightarrow> bool" where
  "is_canary_review review \<longleftrightarrow> in_strategy_id (cr_intent review) = PAPER_CANARY_STRATEGY_ID"

definition authorize_pass ::
    "digest \<Rightarrow> candidate_review \<Rightarrow> review_pass \<Rightarrow> operator_snapshot option \<Rightarrow> paper_service \<Rightarrow> review_run \<Rightarrow>
     int res \<times> review_run" where
  "authorize_pass digest review w operator ps run =
     (let run = note_operator operator run in
      if is_canary_review review \<and> \<not> rr_checked run \<and> operator \<noteq> None
      then use_arm digest (rs_paper_account_id (pv_settings ps)) review (rp_now_ms w) (rp_arm w) run
      else (Inr (rp_now_ms w), run))"

text \<open>One call of \<open>self.paper.evaluate\<close>; its arguments are read when it is made.\<close>

definition evaluate_now ::
    "paper_core \<Rightarrow> candidate_review \<Rightarrow> review_run \<Rightarrow> int \<Rightarrow> string list \<Rightarrow> pyfloat \<times> (string \<Rightarrow> pyfloat) \<Rightarrow>
     paper_service \<Rightarrow> (input_error + risk_decision) \<times> paper_service" where
  "evaluate_now core review run decided_at_ms admission clk ps =
     (let board = sv_board (pv_service ps);
          (mode, r) = registry_system_mode (fst clk) (snd clk) (mb_breakers board);
          allocation = (if is_canary_review review then rr_allocation run else sv_allocation (pv_service ps));
          (result, co) = evaluate_review core
            \<lparr>rq_review = review, rq_allocation = allocation, rq_decided_at_ms = decided_at_ms, rq_mode = mode,
             rq_admission = admission\<rparr> (pv_paper ps)
      in (result, ps\<lparr>pv_paper := co, pv_service := (pv_service ps)\<lparr>sv_board := board\<lparr>mb_breakers := r\<rparr>\<rparr>\<rparr>))"

text \<open>
  An approval is bound to the operator's version. When that fails, for whatever reason, the review
  is evaluated again with the external rejection.
\<close>

datatype pass_result = StillWaiting | TryAgain | Finished "input_error + risk_decision"

definition finish :: "input_error + risk_decision \<Rightarrow> pass_result" where
  "finish result = (case result of Inl (PaperInputUnavailable _) \<Rightarrow> TryAgain | _ \<Rightarrow> Finished result)"

definition bind_pass ::
    "paper_core \<Rightarrow> candidate_review \<Rightarrow> review_pass \<Rightarrow> operator_snapshot option \<Rightarrow> int \<Rightarrow> risk_decision \<Rightarrow>
     review_run \<Rightarrow> paper_service \<Rightarrow> pass_result \<times> review_run \<times> paper_service" where
  "bind_pass core review w operator decided_at_ms d run ps =
     (let again = (\<lambda>run ps.
            let (result, ps') = evaluate_now core review run decided_at_ms [''operator_control_changed''] (rp_second_clock w) ps
            in (finish result, run, ps'))
      in case (operator, pv_scope ps) of
        (Some op, Some scope) \<Rightarrow>
          (let bound = ok (rp_bind w); run = run\<lparr>rr_calls := rr_calls run @ [BindDecision d scope (os_version op) bound]\<rparr>;
               ps = others core (rp_during_bind w) ps
           in if bound then (Finished (Inr d), run, ps) else again run ps)
      | _ \<Rightarrow> again run ps)"

definition review_pass_step ::
    "paper_core \<Rightarrow> digest \<Rightarrow> candidate_review \<Rightarrow> review_pass \<Rightarrow> review_run \<Rightarrow> paper_service \<Rightarrow>
     pass_result \<times> review_run \<times> paper_service" where
  "review_pass_step core digest review w run ps =
     (case waiting core review (rp_rounds w) ps of
        None \<Rightarrow> (StillWaiting, run, ps)
      | Some (Inl e, ps) \<Rightarrow> (Finished (Inl e), run, ps)
      | Some (Inr _, ps) \<Rightarrow>
         (let operator = operator_of (pv_scope ps) (rp_snapshot w) in
          case authorize_pass digest review w operator ps run of
            (Inl e, run) \<Rightarrow> (Finished (Inl (Raised e)), run, ps)
          | (Inr decided_at_ms, run) \<Rightarrow>
             (case evaluate_now core review run decided_at_ms (rr_admission run) (rp_clock w) (others core (rp_before w) ps) of
                (Inr d, ps) \<Rightarrow>
                  if rd_approved d then bind_pass core review w operator decided_at_ms d run ps
                  else (Finished (Inr d), run, ps)
              | (result, ps) \<Rightarrow> (finish result, run, ps))))"

text \<open>The handler's loop; the list holds what the world answered in each pass so far.\<close>

fun review_loop ::
    "paper_core \<Rightarrow> digest \<Rightarrow> candidate_review \<Rightarrow> review_pass list \<Rightarrow> review_run \<Rightarrow> paper_service \<Rightarrow>
     (input_error + risk_decision) option \<times> review_run \<times> paper_service" where
  "review_loop core digest review [] run ps = (None, run, ps)"
| "review_loop core digest review (w # ws) run ps =
     (case review_pass_step core digest review w run ps of
        (StillWaiting, run', ps') \<Rightarrow> (None, run', ps')
      | (TryAgain, run', ps') \<Rightarrow> review_loop core digest review ws run' ps'
      | (Finished result, run', ps') \<Rightarrow> (Some result, run', ps'))"

text \<open>
  What becomes of the message: acked after the decision was published, or dropped at its deadline;
  otherwise it stays pending. In the deadline branch an ack that raises ends the task.
\<close>

datatype review_outcome = Unsettled | Acked | Pending | TaskEnds pyerr

definition consume_paper_review ::
    "paper_core \<Rightarrow> digest \<Rightarrow> candidate_review option \<Rightarrow> review_pass list \<Rightarrow> unit res \<Rightarrow> unit res \<Rightarrow> paper_service \<Rightarrow>
     (review_outcome \<times> risk_decision list) \<times> review_run \<times> paper_service" where
  "consume_paper_review core digest event ws published acked ps =
     (case event of
        None \<Rightarrow> ((Pending, []), new_run, ps)
      | Some review \<Rightarrow>
         (case review_loop core digest review ws new_run ps of
            (None, run, ps') \<Rightarrow> ((Unsettled, []), run, ps')
          | (Some (Inl (PaperInputDeadlineExceeded _)), run, ps') \<Rightarrow>
              (((case acked of Inr _ \<Rightarrow> Acked | Inl e \<Rightarrow> TaskEnds e), []), run, ps')
          | (Some (Inl _), run, ps') \<Rightarrow> ((Pending, []), run, ps')
          | (Some (Inr d), run, ps') \<Rightarrow>
             (case published of
                Inl _ \<Rightarrow> ((Pending, []), run, ps')
              | Inr _ \<Rightarrow> (((if ok acked then Acked else Pending), [d]), run, ps'))))"


section \<open>The coordinator under the service\<close>

definition runs_to :: "paper_core \<Rightarrow> risk_decision list \<Rightarrow> coordinator \<Rightarrow> coordinator \<Rightarrow> bool" where
  "runs_to core durable co co' \<longleftrightarrow> (\<exists>evs. co' = fold (paper_step core durable) evs co)"

lemma runs_to_refl [simp]: "runs_to core durable co co"
  unfolding runs_to_def by (rule exI [of _ "[]"]) simp

lemma runs_to_trans:
  assumes "runs_to core durable a b" "runs_to core durable b c"
  shows "runs_to core durable a c"
proof -
  obtain xs ys where "b = fold (paper_step core durable) xs a" "c = fold (paper_step core durable) ys b"
    using assms by (auto simp: runs_to_def)
  then show ?thesis unfolding runs_to_def by (intro exI [of _ "xs @ ys"]) simp
qed

lemma runs_to_step: "runs_to core durable co (paper_step core durable e co)"
  unfolding runs_to_def by (rule exI [of _ "[e]"]) simp

lemma runs_to_reachable: "paper_reachable core pl durable co \<Longrightarrow> runs_to core durable co co' \<Longrightarrow> paper_reachable core pl durable co'"
  by (auto simp: runs_to_def intro: reachable_fold)

lemma runs_to_steps:
  "runs_to core durable co (snd (apply_venue v co))" "runs_to core durable co (snd (apply_account a co))"
  "runs_to core durable co (snd (apply_regime_allocation core b now co))"
  "runs_to core durable co (snd (evaluate_review core rq co))"
  "runs_to core durable co (snd (restore_reservations durable co))"
  using runs_to_step [of core durable co "VenueArrived v"] runs_to_step [of core durable co "AccountArrived a"]
    runs_to_step [of core durable co "RegimeArrived b now"] runs_to_step [of core durable co "ReviewArrived rq"]
    runs_to_step [of core durable co RestoreDurable]
  by simp_all

lemma consume_fields:
  "snd (consume_paper_venue k v co) = (case v of None \<Rightarrow> co | Some v \<Rightarrow> snd (apply_venue v co))"
  "snd (consume_paper_account k a co) = (case a of None \<Rightarrow> co | Some a \<Rightarrow> snd (apply_account a co))"
  "snd (consume_regime_allocation core k t b now co) =
     (if t then (case b of None \<Rightarrow> co | Some b \<Rightarrow> snd (apply_regime_allocation core b now co)) else co)"
  by (auto simp: consume_paper_venue_def consume_paper_account_def consume_regime_allocation_def
      split: option.splits prod.splits sum.splits)

lemma consume_runs:
  "runs_to core durable co (snd (consume_paper_venue k v co))"
  "runs_to core durable co (snd (consume_paper_account k a co))"
  "runs_to core durable co (snd (consume_regime_allocation core k t b now co))"
  by (auto simp: consume_fields runs_to_steps split: option.split)

text \<open>What every step of the service keeps: the coordinator runs, the views stay sound, the scope stays.\<close>

definition follows :: "paper_core \<Rightarrow> risk_decision list \<Rightarrow> paper_service \<Rightarrow> paper_service \<Rightarrow> bool" where
  "follows core durable ps ps' \<longleftrightarrow>
     runs_to core durable (pv_paper ps) (pv_paper ps') \<and> pv_scope ps' = pv_scope ps \<and>
     (\<forall>s. service_inv s (pv_service ps) \<longrightarrow> service_inv s (pv_service ps'))"

lemma follows_refl [simp]: "follows core durable ps ps"
  by (simp add: follows_def)

lemma follows_trans: "follows core durable a b \<Longrightarrow> follows core durable b c \<Longrightarrow> follows core durable a c"
  by (auto simp: follows_def intro: runs_to_trans)

lemma other_step_follows: "follows core durable ps (other_step core e ps)"
  using service_step_inv [of _ "pv_service ps" id "HealthEvent p clk h" for p clk h]
    service_step_inv [of _ "pv_service ps" id "AllocationEvent a" for a]
  by (cases e) (auto simp: follows_def consume_runs)

lemma others_follow: "follows core durable ps (others core es ps)"
  unfolding others_def
  by (induction es arbitrary: ps) (auto intro: follows_trans other_step_follows)

lemma waiting_follows: "waiting core review rounds ps = Some (r, ps') \<Longrightarrow> follows core durable ps ps'"
  by (induction core review rounds ps rule: waiting.induct)
    (auto split: if_split_asm intro: others_follow follows_trans)

lemma waiting_ready: "waiting core review rounds ps = Some (Inr (), ps') \<Longrightarrow> inputs_ready (pv_paper ps') review"
  by (induction core review rounds ps rule: waiting.induct) (auto split: if_split_asm)


lemma evaluate_now_follows:
  assumes "evaluate_now core review run t adm clk ps = (r, ps')"
  shows "follows core durable ps ps'"
proof -
  let ?board = "sv_board (pv_service ps)"
  obtain mode reg where m: "registry_system_mode (fst clk) (snd clk) (mb_breakers ?board) = (mode, reg)" by force
  let ?rq = "\<lparr>rq_review = review,
    rq_allocation = (if is_canary_review review then rr_allocation run else sv_allocation (pv_service ps)),
    rq_decided_at_ms = t, rq_mode = mode, rq_admission = adm\<rparr>"
  obtain res co where e: "evaluate_review core ?rq (pv_paper ps) = (res, co)" by force
  have "co = snd (evaluate_review core ?rq (pv_paper ps))" using e by simp
  then have run: "runs_to core durable (pv_paper ps) co" by (simp only: runs_to_steps)
  have "registry_ok (mb_breakers ?board) \<Longrightarrow> registry_ok reg"
    using registry_mode_frame(3) [of "mb_breakers ?board" "fst clk" "snd clk"] m by simp
  then have "service_inv s (pv_service ps) \<Longrightarrow>
      service_inv s ((pv_service ps)\<lparr>sv_board := ?board\<lparr>mb_breakers := reg\<rparr>\<rparr>)" for s
    by (intro service_inv_board) (auto simp: service_inv_def)
  moreover have "ps' = ps\<lparr>pv_paper := co, pv_service := (pv_service ps)\<lparr>sv_board := ?board\<lparr>mb_breakers := reg\<rparr>\<rparr>\<rparr>"
    using assms m e by (simp add: evaluate_now_def Let_def)
  ultimately show ?thesis using run by (simp add: follows_def)
qed

lemma bind_pass_follows:
  assumes "bind_pass core review w operator t d run ps = (r, run', ps')"
  shows "follows core durable ps ps'"
proof -
  have "follows core durable ps (others core (rp_during_bind w) ps)" by (rule others_follow)
  then show ?thesis
    using assms evaluate_now_follows follows_trans
    by (auto simp: bind_pass_def Let_def split: option.splits if_split_asm prod.splits)
qed

lemma review_pass_follows:
  assumes "review_pass_step core digest review w run ps = (r, run', ps')"
  shows "follows core durable ps ps'"
proof (cases "waiting core review (rp_rounds w) ps")
  case None
  then show ?thesis using assms by (simp add: review_pass_step_def)
next
  case (Some x)
  obtain y ps1 where x: "x = (y, ps1)" by force
  have f: "follows core durable ps ps1" using waiting_follows Some x by blast
  show ?thesis
  proof (cases y)
    case (Inl e)
    then show ?thesis using assms Some x f by (simp add: review_pass_step_def)
  next
    case (Inr u)
    obtain t run1 where a: "authorize_pass digest review w (operator_of (pv_scope ps1) (rp_snapshot w)) ps1 run = (t, run1)"
      by force
    obtain ps2 where o: "ps2 = others core (rp_before w) ps1" by blast
    have f2: "follows core durable ps ps2" using follows_trans [OF f others_follow] by (simp add: o)
    show ?thesis
    proof (cases t)
      case (Inl e)
      then show ?thesis using assms Some x Inr a f by (simp add: review_pass_step_def Let_def)
    next
      case t: (Inr t')
      obtain z ps3 where e: "evaluate_now core review run1 t' (rr_admission run1) (rp_clock w) ps2 = (z, ps3)" by force
      have f3: "follows core durable ps ps3" using follows_trans [OF f2 evaluate_now_follows [OF e]] .
      have "r = finish z \<and> ps' = ps3 \<or> r = Finished z \<and> ps' = ps3 \<or>
          (\<exists>d. bind_pass core review w (operator_of (pv_scope ps1) (rp_snapshot w)) t' d run1 ps3 = (r, run', ps'))"
        using assms Some x Inr a t e o
        by (auto simp: review_pass_step_def Let_def split: sum.splits if_split_asm)
      then show ?thesis using f3 bind_pass_follows follows_trans by blast
    qed
  qed
qed

lemma review_loop_follows:
  "review_loop core digest review ws run ps = (r, run', ps') \<Longrightarrow> follows core durable ps ps'"
proof (induction ws arbitrary: run ps)
  case (Cons w ws)
  obtain p run1 ps1 where s: "review_pass_step core digest review w run ps = (p, run1, ps1)" by (metis prod_cases3)
  have "follows core durable ps ps1" by (rule review_pass_follows [OF s])
  then show ?case using Cons s by (cases p) (auto intro: follows_trans)
qed simp

lemma consume_review_follows:
  assumes "consume_paper_review core digest event ws published acked ps = (out, run, ps')"
  shows "follows core durable ps ps'"
proof (cases event)
  case None
  then show ?thesis using assms by (simp add: consume_paper_review_def)
next
  case (Some review)
  obtain r run1 ps1 where l: "review_loop core digest review ws new_run ps = (r, run1, ps1)" by (metis prod_cases3)
  then have "ps' = ps1"
    using assms Some by (auto simp: consume_paper_review_def split: option.splits sum.splits input_error.splits)
  then show ?thesis using review_loop_follows l by blast
qed


section \<open>What a published approval implies\<close>

lemma settle_pipeline: "co_pipeline (snd (settle_account a r co)) = co_pipeline co"
  by (auto simp: settle_account_def reconcile_reservations_def Let_def split: sum.splits)

lemma restore_pipeline: "co_pipeline (snd (restore_reservations ds co)) = co_pipeline co"
proof -
  obtain r co' where "restore_all ds co = (r, co')" by force
  then show ?thesis
    using restore_all_pipeline [of ds co]
    by (auto simp: restore_reservations_def Let_def settle_pipeline split: option.splits sum.splits)
qed

lemma step_pipeline: "co_pipeline (paper_step core durable e co) = co_pipeline co"
  by (cases e)
    (auto simp: evaluate_pipeline restore_pipeline apply_account_def settle_pipeline apply_venue_def
      apply_regime_allocation_def Let_def split: option.splits)

lemma follows_settings: "follows core durable ps ps' \<Longrightarrow> pv_settings ps' = pv_settings ps"
proof -
  assume "follows core durable ps ps'"
  then obtain evs where e: "pv_paper ps' = fold (paper_step core durable) evs (pv_paper ps)"
    by (auto simp: follows_def runs_to_def)
  have "co_pipeline (fold (paper_step core durable) evs co) = co_pipeline co" for co
    by (induction evs arbitrary: co) (auto simp: step_pipeline)
  then show ?thesis by (simp add: pv_settings_def co_settings_def e)
qed

text \<open>An external rejection excludes an approval, cached or fresh.\<close>

lemma refused_not_approved:
  assumes "seal_keeps core" "evaluate_review core rq co = (Inr d, co')" "rq_admission rq \<noteq> []"
  shows "\<not> rd_approved d"
proof
  assume approved: "rd_approved d"
  have "set (rq_admission rq) \<subseteq> set (admission_of co rq)"
    by (auto simp: admission_of_def unique_in_order_def)
  then have adm: "admission_of co rq \<noteq> []" using assms(3) by auto
  obtain v rs where e: "evaluate_paper core (co_pipeline co) (case_of co rq v rs) = Inr d"
    using evaluate_refused [OF assms(2) adm] by blast
  obtain g where g: "run_gates core (co_pipeline co) (case_of co rq v rs) = Inr g" "gr_reasons g = []"
    using evaluate_paper_approvedE [OF assms(1) e approved] by metis
  show False using run_gates_Inr [OF g(1)] g(2) adm by (auto simp: case_of_def)
qed

lemma evaluate_now_request:
  assumes "evaluate_now core review run t adm clk ps = (Inr d, ps')"
  shows "\<exists>rq co'. evaluate_review core rq (pv_paper ps) = (Inr d, co') \<and> rq_review rq = review \<and>
    rq_admission rq = adm \<and> (is_canary_review review \<longrightarrow> rq_allocation rq = rr_allocation run)"
  using assms
  by (auto simp: evaluate_now_def Let_def split: prod.splits intro!: exI)

definition arm_calls :: "review_run \<Rightarrow> authority_call list" where
  "arm_calls run = filter (\<lambda>c. case c of BindDecision _ _ _ _ \<Rightarrow> False | _ \<Rightarrow> True) (rr_calls run)"

definition arm_accepted :: "digest \<Rightarrow> string \<Rightarrow> candidate_review \<Rightarrow> review_run \<Rightarrow> bool" where
  "arm_accepted digest account_id review run \<longleftrightarrow>
     (\<exists>arm now allocation t. arm_calls run = [ConsumeArm arm now] \<and> rr_allocation run = Some allocation \<and>
        allocation_from_consumed_arm digest arm review account_id now = Inr (allocation, t))"

definition run_ok :: "digest \<Rightarrow> string \<Rightarrow> candidate_review \<Rightarrow> review_run \<Rightarrow> bool" where
  "run_ok digest account_id review run \<longleftrightarrow>
     length (arm_calls run) \<le> 1 \<and> (\<not> rr_checked run \<longrightarrow> arm_calls run = []) \<and>
     (rr_checked run \<longrightarrow> rr_admission run \<noteq> [] \<or> arm_accepted digest account_id review run)"

lemma new_run_ok: "run_ok digest account_id review new_run"
  by (simp add: run_ok_def new_run_def arm_calls_def)

lemma noted_outage: "rr_admission (note_operator None run) \<noteq> []"
proof -
  have "sort ys = [] \<Longrightarrow> ys = []" for ys :: "string list" by (metis length_0_conv length_sort)
  moreover have "remdups (rr_admission run @ [''operator_control_unavailable'']) \<noteq> []"
    unfolding remdups_eq_nil_iff by simp
  ultimately show ?thesis unfolding note_operator_def by force
qed

lemma note_operator_fields [simp]:
  "note_operator (Some x) run = run" "arm_calls (note_operator operator run) = arm_calls run"
  "rr_checked (note_operator operator run) = rr_checked run"
  "rr_allocation (note_operator operator run) = rr_allocation run" "rr_calls (note_operator operator run) = rr_calls run"
  by (simp_all add: note_operator_def arm_calls_def)

lemma run_ok_admission: "run_ok digest a review run \<Longrightarrow> run_ok digest a review (note_operator operator run)"
  using noted_outage [of run] by (cases operator) (auto simp: run_ok_def)

lemma use_arm_ok:
  assumes "use_arm digest a review now answer run = (t, run')" "run_ok digest a review run" "\<not> rr_checked run"
  shows "length (arm_calls run') \<le> 1 \<and> (ok t \<longrightarrow> run_ok digest a review run' \<and> rr_checked run' \<and>
    (rr_admission run' = [] \<longrightarrow> rr_admission run = []))"
  using assms
  by (auto simp: use_arm_def run_ok_def arm_accepted_def arm_calls_def Let_def ok_iff
      split: sum.splits option.splits if_split_asm)


lemma authorize_pass_ok:
  assumes "authorize_pass digest review w operator ps run = (t, run')"
    and "run_ok digest (rs_paper_account_id (pv_settings ps)) review run"
  shows "length (arm_calls run') \<le> 1 \<and>
    (ok t \<longrightarrow> run_ok digest (rs_paper_account_id (pv_settings ps)) review run' \<and>
      (rr_admission run' = [] \<longrightarrow> operator \<noteq> None \<and> (is_canary_review review \<longrightarrow> rr_checked run')))"
proof (cases "is_canary_review review \<and> \<not> rr_checked run \<and> operator \<noteq> None")
  case True
  then have "use_arm digest (rs_paper_account_id (pv_settings ps)) review (rp_now_ms w) (rp_arm w)
      (note_operator operator run) = (t, run')"
    using assms(1) by (simp add: authorize_pass_def Let_def)
  then show ?thesis using use_arm_ok [OF _ run_ok_admission [OF assms(2)]] True by auto
next
  case False
  then have r: "run' = note_operator operator run" "t = Inr (rp_now_ms w)"
    using assms(1) by (auto simp: authorize_pass_def Let_def)
  have "operator \<noteq> None" if "rr_admission run' = []" using that noted_outage [of run] by (cases operator) (auto simp: r(1))
  then show ?thesis using run_ok_admission [OF assms(2)] False r by (auto simp: run_ok_def)
qed

text \<open>An approval leaves a pass only when it was bound.\<close>

lemma evaluate_now_refused:
  "seal_keeps core \<Longrightarrow> evaluate_now core review run t adm clk ps = (Inr d, ps') \<Longrightarrow> rd_approved d \<Longrightarrow> adm = []"
  using evaluate_now_request refused_not_approved by metis

lemma bind_pass_bound:
  assumes "bind_pass core review w operator t d run ps = (r, run', ps')"
  shows "arm_calls run' = arm_calls run \<and> rr_allocation run' = rr_allocation run \<and> rr_checked run' = rr_checked run \<and>
    rr_admission run' = rr_admission run \<and>
    (\<forall>d'. r = Finished (Inr d') \<longrightarrow> rd_approved d' \<longrightarrow> seal_keeps core \<longrightarrow>
       (\<exists>op scope. operator = Some op \<and> pv_scope ps = Some scope \<and> d' = d \<and> ok (rp_bind w) \<and>
          rr_calls run' = rr_calls run @ [BindDecision d scope (os_version op) True]))"
proof -
  have fin: "finish x = Finished (Inr d') \<Longrightarrow> x = Inr d'" for x d'
    by (auto simp: finish_def split: sum.splits input_error.splits)
  show ?thesis
    using assms evaluate_now_refused
    by (fastforce simp: bind_pass_def Let_def arm_calls_def split: option.splits if_split_asm prod.splits dest!: fin)
qed

lemma review_pass_cases:
  assumes "review_pass_step core digest review w run ps = (r, run', ps')"
  obtains (stopped) "run' = run" "\<And>d. r \<noteq> Finished (Inr d)"
  | (raised) e where "r = Finished (Inl (Raised e))"
  | (evaluated) ps1 t run1 z ps2 where
      "waiting core review (rp_rounds w) ps = Some (Inr (), ps1)"
      "authorize_pass digest review w (operator_of (pv_scope ps1) (rp_snapshot w)) ps1 run = (Inr t, run1)"
      "evaluate_now core review run1 t (rr_admission run1) (rp_clock w) (others core (rp_before w) ps1) = (z, ps2)"
      "r = finish z \<and> run' = run1 \<and> (\<forall>d. z = Inr d \<longrightarrow> \<not> rd_approved d) \<or>
       (\<exists>d. z = Inr d \<and> rd_approved d \<and>
          bind_pass core review w (operator_of (pv_scope ps1) (rp_snapshot w)) t d run1 ps2 = (r, run', ps'))"
proof (cases "waiting core review (rp_rounds w) ps")
  case None
  then show ?thesis using stopped assms by (simp add: review_pass_step_def)
next
  case (Some x)
  obtain y ps1 where x: "x = (y, ps1)" by force
  show ?thesis
  proof (cases y)
    case (Inl e)
    then show ?thesis using stopped assms Some x by (force simp: review_pass_step_def)
  next
    case (Inr u)
    obtain t run1 where a: "authorize_pass digest review w (operator_of (pv_scope ps1) (rp_snapshot w)) ps1 run = (t, run1)"
      by force
    show ?thesis
    proof (cases t)
      case (Inl e)
      then show ?thesis using raised assms Some x Inr a by (force simp: review_pass_step_def Let_def)
    next
      case t: (Inr t')
      obtain z ps2 where e:
        "evaluate_now core review run1 t' (rr_admission run1) (rp_clock w) (others core (rp_before w) ps1) = (z, ps2)"
        by force
      have "r = finish z \<and> run' = run1 \<and> (\<forall>d. z = Inr d \<longrightarrow> \<not> rd_approved d) \<or>
         (\<exists>d. z = Inr d \<and> rd_approved d \<and>
            bind_pass core review w (operator_of (pv_scope ps1) (rp_snapshot w)) t' d run1 ps2 = (r, run', ps'))"
        using assms Some x Inr a t e
        by (auto simp: review_pass_step_def finish_def Let_def split: sum.splits if_split_asm)
      then show ?thesis using evaluated Some x Inr a t e by auto
    qed
  qed
qed


definition authorized ::
    "paper_core \<Rightarrow> digest \<Rightarrow> candidate_review \<Rightarrow> review_pass list \<Rightarrow> paper_service \<Rightarrow> risk_decision \<Rightarrow> review_run \<Rightarrow> bool" where
  "authorized core digest review ws ps d run \<longleftrightarrow>
     (\<exists>w \<in> set ws. \<exists>op scope rq co co'.
        pv_scope ps = Some scope \<and> rp_snapshot w = Inr op \<and> ok (rp_bind w) \<and>
        last (rr_calls run) = BindDecision d scope (os_version op) True \<and> length (arm_calls run) \<le> 1 \<and>
        (is_canary_review review \<longrightarrow> arm_accepted digest (rs_paper_account_id (pv_settings ps)) review run) \<and>
        (\<forall>durable. runs_to core durable (pv_paper ps) co) \<and> evaluate_review core rq co = (Inr d, co') \<and>
        rq_review rq = review \<and> rq_admission rq = [] \<and>
        (is_canary_review review \<longrightarrow> rq_allocation rq = rr_allocation run))"

lemma run_ok_cong:
  "arm_calls run' = arm_calls run \<Longrightarrow> rr_allocation run' = rr_allocation run \<Longrightarrow> rr_checked run' = rr_checked run \<Longrightarrow>
     rr_admission run' = rr_admission run \<Longrightarrow> run_ok digest a review run' = run_ok digest a review run"
  by (simp add: run_ok_def arm_accepted_def)

lemma review_pass_ok:
  assumes "review_pass_step core digest review w run ps = (r, run', ps')"
    and "run_ok digest (rs_paper_account_id (pv_settings ps)) review run" "\<And>e. r \<noteq> Finished (Inl (Raised e))"
  shows "run_ok digest (rs_paper_account_id (pv_settings ps)) review run'"
  using assms(1)
proof (cases rule: review_pass_cases)
  case (evaluated ps1 t run1 z ps2)
  have s: "pv_settings ps1 = pv_settings ps" using follows_settings waiting_follows [OF evaluated(1)] .
  have "run_ok digest (rs_paper_account_id (pv_settings ps)) review run1"
    using authorize_pass_ok [OF evaluated(2)] assms(2) s by simp
  moreover have "run' = run1 \<or> (\<exists>d. bind_pass core review w (operator_of (pv_scope ps1) (rp_snapshot w)) t d run1 ps2 = (r, run', ps'))"
    using evaluated(4) by blast
  ultimately show ?thesis using bind_pass_bound run_ok_cong by metis
qed (use assms(2,3) in auto)

lemma review_pass_authorized:
  assumes "seal_keeps core" "review_pass_step core digest review w run ps = (Finished (Inr d), run', ps')"
    and "run_ok digest (rs_paper_account_id (pv_settings ps)) review run" "rd_approved d"
  shows "authorized core digest review [w] ps d run'"
  using assms(2)
proof (cases rule: review_pass_cases)
  case (evaluated ps1 t run1 z ps2)
  have f: "follows core durable ps ps1" for durable by (rule waiting_follows [OF evaluated(1)])
  have s: "pv_settings ps1 = pv_settings ps" "pv_scope ps1 = pv_scope ps"
    using follows_settings [OF f] f by (auto simp: follows_def)
  have f2: "follows core durable ps (others core (rp_before w) ps1)" for durable
    using follows_trans [OF f others_follow] .
  have fin: "finish z = Finished (Inr d) \<Longrightarrow> z = Inr d" by (auto simp: finish_def split: sum.splits input_error.splits)
  obtain d' where d': "z = Inr d'" "rd_approved d'"
    "bind_pass core review w (operator_of (pv_scope ps1) (rp_snapshot w)) t d' run1 ps2 = (Finished (Inr d), run', ps')"
    using evaluated(4) fin assms(4) by metis
  note b = bind_pass_bound [OF d'(3)]
  have scope2: "pv_scope ps2 = pv_scope ps"
    using evaluate_now_follows [OF evaluated(3)] f2 by (auto simp: follows_def)
  obtain op scope where o: "operator_of (pv_scope ps1) (rp_snapshot w) = Some op" "pv_scope ps2 = Some scope" "d = d'"
    "ok (rp_bind w)" "rr_calls run' = rr_calls run1 @ [BindDecision d' scope (os_version op) True]"
    using b assms(1,4) by blast
  have adm: "rr_admission run1 = []"
    using evaluate_now_refused [OF assms(1)] evaluated(3) d'(1,2) by blast
  have okr: "run_ok digest (rs_paper_account_id (pv_settings ps)) review run1"
    "is_canary_review review \<Longrightarrow> rr_checked run1"
    using authorize_pass_ok [OF evaluated(2)] assms(3) s(1) adm by auto
  obtain rq co' where e: "evaluate_review core rq (pv_paper (others core (rp_before w) ps1)) = (Inr d', co')" "rq_review rq = review"
    "rq_admission rq = rr_admission run1" "is_canary_review review \<longrightarrow> rq_allocation rq = rr_allocation run1"
    using evaluate_now_request evaluated(3) d'(1) by blast
  have run: "runs_to core durable (pv_paper ps) (pv_paper (others core (rp_before w) ps1))" for durable
    using f2 by (simp add: follows_def)
  have same: "arm_calls run' = arm_calls run1" "rr_allocation run' = rr_allocation run1" using b by auto
  have "length (arm_calls run') \<le> 1" "is_canary_review review \<Longrightarrow> arm_accepted digest (rs_paper_account_id (pv_settings ps)) review run'"
    using okr adm same by (auto simp: run_ok_def arm_accepted_def)
  moreover have "rp_snapshot w = Inr op" using o(1) by (auto simp: operator_of_def split: option.splits sum.splits)
  ultimately show ?thesis
    using o scope2 e adm same(2) run unfolding authorized_def by (intro bexI [of _ w] exI conjI) auto
qed (use assms(4) in auto)

lemma review_loop_authorized:
  assumes "seal_keeps core" "review_loop core digest review ws run ps = (Some (Inr d), run', ps')"
    and "run_ok digest (rs_paper_account_id (pv_settings ps)) review run" "rd_approved d"
  shows "authorized core digest review ws ps d run'"
  using assms(2,3)
proof (induction ws arbitrary: run ps)
  case (Cons w ws)
  obtain p run1 ps1 where s: "review_pass_step core digest review w run ps = (p, run1, ps1)" by (metis prod_cases3)
  show ?case
  proof (cases p)
    case StillWaiting
    then show ?thesis using Cons.prems s by simp
  next
    case TryAgain
    have f: "follows core durable ps ps1" for durable by (rule review_pass_follows [OF s])
    have same: "pv_settings ps1 = pv_settings ps" "pv_scope ps1 = pv_scope ps"
      using follows_settings [OF f] f by (auto simp: follows_def)
    have "run_ok digest (rs_paper_account_id (pv_settings ps1)) review run1"
      using review_pass_ok [OF s Cons.prems(2)] TryAgain same by simp
    then have "authorized core digest review ws ps1 d run'" using Cons.IH Cons.prems(1) s TryAgain by simp
    then show ?thesis
      using f runs_to_trans unfolding authorized_def same follows_def by (meson list.set_intros(2))
  next
    case (Finished result)
    then have "result = Inr d" "run1 = run'" using Cons.prems s by auto
    then show ?thesis
      using review_pass_authorized [OF assms(1) _ Cons.prems(2) assms(4)] s Finished unfolding authorized_def by fastforce
  qed
qed simp


text \<open>
  C2. A published PAPER approval was authorized. When the review loop publishes an approved
  decision, the decision came from the coordinator's evaluation of this review, in a state that the
  coordinator reached, without any external rejection; in the same pass the operator repository had
  answered with a version under the service's own scope, and accepted the binding of exactly this
  decision to that version as the handler's last call; the single-use arm was asked for at most
  once per review, and for a canary it was consumed, passed every check of a consumed arm, and its
  allocation is the one that the decision was evaluated with.
\<close>

theorem published_paper_approval_is_authorized:
  assumes "seal_keeps core" "rd_approved d"
    and "consume_paper_review core digest (Some review) ws published acked ps = ((out, d # sent), run, ps')"
  shows "authorized core digest review ws ps d run \<and> sent = [] \<and> ok published \<and> out = (if ok acked then Acked else Pending)"
proof -
  obtain r run1 ps1 where l: "review_loop core digest review ws new_run ps = (r, run1, ps1)" by (metis prod_cases3)
  then have "r = Some (Inr d)" "run1 = run" "sent = []" "ok published" "out = (if ok acked then Acked else Pending)"
    using assms(3)
    by (auto simp: consume_paper_review_def ok_iff split: option.splits sum.splits input_error.splits)
  then show ?thesis using review_loop_authorized [OF assms(1) _ new_run_ok assms(2)] l by simp
qed

text \<open>Every failure on the way is an external rejection that no later pass takes back.\<close>

lemma admission_sticky:
  assumes "review_pass_step core digest review w run ps = (r, run', ps')" "rr_admission run \<noteq> []"
    and "\<And>e. r \<noteq> Finished (Inl (Raised e))"
  shows "rr_admission run' \<noteq> [] \<and> (\<forall>d. r = Finished (Inr d) \<longrightarrow> seal_keeps core \<longrightarrow> \<not> rd_approved d)"
  using assms(1)
proof (cases rule: review_pass_cases)
  case (evaluated ps1 t run1 z ps2)
  let ?op = "operator_of (pv_scope ps1) (rp_snapshot w)"
  have "rr_admission (note_operator ?op run) \<noteq> []" using assms(2) noted_outage [of run] by (cases ?op) auto
  then have adm: "rr_admission run1 \<noteq> []"
    using evaluated(2) by (auto simp: authorize_pass_def use_arm_def Let_def split: sum.splits option.splits if_split_asm)
  have fin: "finish z = Finished (Inr d) \<Longrightarrow> z = Inr d" for d by (auto simp: finish_def split: sum.splits input_error.splits)
  have "\<not> (seal_keeps core \<and> (\<exists>d. z = Inr d \<and> rd_approved d))"
    using evaluate_now_refused evaluated(3) adm by blast
  then show ?thesis using evaluated(4) adm fin bind_pass_bound by metis
qed (use assms in auto)

lemma refused_run_not_approved:
  assumes "seal_keeps core" "rr_admission run \<noteq> []" "review_loop core digest review ws run ps = (Some (Inr d), run', ps')"
  shows "\<not> rd_approved d"
  using assms(2,3)
proof (induction ws arbitrary: run ps)
  case (Cons w ws)
  obtain p run1 ps1 where s: "review_pass_step core digest review w run ps = (p, run1, ps1)" by (metis prod_cases3)
  show ?case
    using admission_sticky [OF s Cons.prems(1)] Cons.IH [of run1 ps1] Cons.prems(2) s assms(1) by (cases p) auto
qed simp

text \<open>
  An outage of the operator repository in a pass that is tried again settles the review: it is
  rejected whatever the later passes say. The arm is not yet spent then, and the next pass with an
  operator still consumes it.
\<close>

theorem operator_outage_spends_the_arm:
  assumes "seal_keeps core" "waiting core review (rp_rounds w) ps = Some (Inr (), ps1)"
    and "operator_of (pv_scope ps1) (rp_snapshot w) = None"
    and "review_pass_step core digest review w new_run ps = (TryAgain, run, ps2)"
  shows "(review_loop core digest review ws run ps2 = (Some (Inr d), run', ps') \<longrightarrow> \<not> rd_approved d) \<and>
    (is_canary_review review \<longrightarrow>
       arm_calls (snd (authorize_pass digest review (v\<lparr>rp_arm := Inr (Some arm)\<rparr>) (Some op) ps2 run)) =
         [ConsumeArm arm (rp_now_ms v)])"
proof -
  have none: "operator_of (pv_scope ps1) (rp_snapshot w) = None" by (rule assms(3))
  have run: "run = note_operator None new_run"
    using assms(2,4) bind_pass_bound
    by (auto simp: review_pass_step_def authorize_pass_def none bind_pass_def Let_def
        split: sum.splits if_split_asm prod.splits)
  then have "\<not> rr_checked run" "arm_calls run = []" by (simp_all add: new_run_def arm_calls_def)
  then have "arm_calls (snd (authorize_pass digest review (v\<lparr>rp_arm := Inr (Some arm)\<rparr>) (Some op) ps2 run)) =
       [ConsumeArm arm (rp_now_ms v)]" if "is_canary_review review"
    using that by (auto simp: authorize_pass_def use_arm_def arm_calls_def Let_def split: sum.split)
  then show ?thesis using refused_run_not_approved [OF assms(1)] noted_outage [of new_run] run by blast
qed

section \<open>Runs of the service\<close>

datatype paper_service_event =
    OtherTask other_event
  | ReviewTask "candidate_review option" "review_pass list" "unit res" "unit res"

fun paper_service_step :: "paper_core \<Rightarrow> digest \<Rightarrow> paper_service_event \<Rightarrow> paper_service \<Rightarrow> paper_service" where
  "paper_service_step core digest (OtherTask e) ps = other_step core e ps"
| "paper_service_step core digest (ReviewTask e ws published acked) ps =
     snd (snd (consume_paper_review core digest e ws published acked ps))"

text \<open>The query either fails or returns the committed approvals.\<close>

inductive paper_service_reachable ::
    "paper_core \<Rightarrow> digest \<Rightarrow> paper_pipeline \<Rightarrow> canary_scope option \<Rightarrow> risk_decision list \<Rightarrow> paper_service \<Rightarrow> bool"
  for core digest pl scope durable where
  start: "paper_service_reachable core digest pl scope durable (new_paper_service pl scope)"
| recover: "paper_service_reachable core digest pl scope durable ps \<Longrightarrow>
    (\<And>d. fetch (rs_paper_account_id (pv_settings ps)) now = Inr d \<Longrightarrow> d = durable) \<Longrightarrow>
    paper_service_reachable core digest pl scope durable (snd (recover_paper_state bus_ok started fetch now ps))"
| event: "paper_service_reachable core digest pl scope durable ps \<Longrightarrow>
    paper_service_reachable core digest pl scope durable (paper_service_step core digest e ps)"

lemma recover_follows:
  assumes "\<And>d. fetch (rs_paper_account_id (pv_settings ps)) now = Inr d \<Longrightarrow> d = durable"
  shows "follows core durable ps (snd (recover_paper_state bus_ok started fetch now ps))"
  using assms runs_to_steps(5) [of core durable "pv_paper ps"]
  by (auto simp: recover_paper_state_def follows_def Let_def split: sum.splits prod.splits)

lemma paper_service_step_follows: "follows core durable ps (paper_service_step core digest e ps)"
proof (cases e)
  case (ReviewTask r ws p a)
  obtain out run ps' where "consume_paper_review core digest r ws p a ps = (out, run, ps')" by (metis prod_cases3)
  then show ?thesis using consume_review_follows ReviewTask by fastforce
qed (simp add: other_step_follows)

lemma service_reachable_follows:
  "paper_service_reachable core digest pl scope durable ps \<Longrightarrow> follows core durable (new_paper_service pl scope) ps"
proof (induction rule: paper_service_reachable.induct)
  case (recover ps fetch now bus_ok started)
  then show ?case using follows_trans recover_follows by blast
next
  case (event ps e)
  then show ?case using follows_trans paper_service_step_follows by blast
qed simp



section \<open>A concrete review\<close>

definition demo_scope :: canary_scope where
  "demo_scope = \<lparr>sc_account_id = ''acc'', sc_environment = ''dev'', sc_payload = []\<rparr>"

definition bull_news :: other_event where
  "bull_news = OtherAllocation (Some alpha_allocation)"

definition demo_service :: paper_service where
  "demo_service =
     fold (paper_service_step plain_core demo_digest)
       [OtherTask bull_news, OtherTask (OtherAccount True (Some (clean_account 7 50000))),
        OtherTask (OtherVenue True (Some btc_venue))]
       (snd (recover_paper_state True (Inr ()) (\<lambda>_ _. Inr []) 50000 (new_paper_service paper_route (Some demo_scope))))"

definition calm_pass :: review_pass where
  "calm_pass =
     \<lparr>rp_rounds = [(60000, True, [])], rp_now_ms = 60000, rp_snapshot = Inr \<lparr>os_version = 3, os_payload = []\<rparr>,
      rp_arm = Inr None, rp_before = [], rp_clock = (Fin 0, \<lambda>_. Fin 0), rp_bind = Inr (), rp_during_bind = [],
      rp_second_clock = (Fin 0, \<lambda>_. Fin 0)\<rparr>"

lemma demo_service_reachable:
  "paper_service_reachable plain_core demo_digest paper_route (Some demo_scope) [] demo_service"
  unfolding demo_service_def fold.simps comp_def id_def
  by (intro paper_service_reachable.event paper_service_reachable.recover paper_service_reachable.start) simp

lemma demo_service_paper: "pv_paper demo_service = demo_coordinator"
proof -
  have "snd (restore_reservations [] (new_coordinator paper_route)) =
      paper_step plain_core [] RestoreDurable (new_coordinator paper_route)" by simp
  then show ?thesis
    unfolding demo_service_def demo_coordinator_def
    by (simp add: recover_paper_state_def new_paper_service_def bull_news_def consume_fields Let_def split_beta)
qed

lemma demo_service_views:
  "pv_scope demo_service = Some demo_scope" "sv_allocation (pv_service demo_service) = Some alpha_allocation"
  "sv_board (pv_service demo_service) = sv_board (new_service demo_settings)"
proof -
  have "allocation_error alpha_allocation = None" by code_simp
  then show "pv_scope demo_service = Some demo_scope" "sv_allocation (pv_service demo_service) = Some alpha_allocation"
    "sv_board (pv_service demo_service) = sv_board (new_service demo_settings)"
    by (simp_all add: demo_service_def recover_paper_state_def new_paper_service_def bull_news_def Let_def split_beta
        paper_route_def new_service_def consume_allocation_def handle_allocation_def alpha_allocation_def)
qed

lemma demo_mode:
  "fst (registry_system_mode (Fin 0) (\<lambda>_. Fin 0) (mb_breakers (sv_board (new_service demo_settings)))) = NORMAL"
  unfolding new_service_def by code_simp

lemma demo_ready: "inputs_ready demo_coordinator (alpha_review ''i1'')"
proof -
  have "expected_symbol (cr_intent (alpha_review ''i1'')) = Some ''BTCUSD:DEV''" by code_simp
  then show ?thesis
    by (simp add: inputs_ready_def demo_state new_coordinator_def recovery_complete_def regime_ready_def
        needs_regime_binding_def is_adaptive_def paper_route_def)
qed

lemma demo_published:
  obtains d run ps where
    "consume_paper_review plain_core demo_digest (Some (alpha_review ''i1'')) [calm_pass] (Inr ()) (Inr ()) demo_service =
       ((Acked, [d]), run, ps)" "rd_approved d"
proof -
  obtain d co where d: "evaluate_review plain_core alpha_request demo_coordinator = (Inr d, co)" "rd_approved d"
    using demo_approval by metis
  have plain: "\<not> is_canary_review (alpha_review ''i1'')" unfolding is_canary_review_def by code_simp
  obtain reg where m: "registry_system_mode (Fin 0) (\<lambda>_. Fin 0) (mb_breakers (sv_board (new_service demo_settings))) = (NORMAL, reg)"
    using demo_mode by (metis prod.collapse)
  have e: "fst (evaluate_now plain_core (alpha_review ''i1'') new_run 60000 [] (Fin 0, \<lambda>_. Fin 0) demo_service) = Inr d"
    using d(1) plain m
    by (simp add: evaluate_now_def demo_service_views demo_service_paper Let_def alpha_request_def)
  obtain ps where e2: "evaluate_now plain_core (alpha_review ''i1'') new_run 60000 [] (Fin 0, \<lambda>_. Fin 0) demo_service = (Inr d, ps)"
    using e by (metis prod.collapse)
  have scope: "pv_scope ps = Some demo_scope"
    using evaluate_now_follows [OF e2, of "[]"] by (simp add: follows_def demo_service_views)
  have "review_pass_step plain_core demo_digest (alpha_review ''i1'') calm_pass new_run demo_service =
      (Finished (Inr d), new_run\<lparr>rr_calls := [BindDecision d demo_scope 3 True]\<rparr>, ps)"
    using e2 d(2) demo_ready plain scope
    by (simp add: review_pass_step_def calm_pass_def demo_service_paper demo_service_views operator_of_def
        authorize_pass_def others_def bind_pass_def new_run_def Let_def)
  then show ?thesis using that d(2) by (simp add: consume_paper_review_def)
qed

theorem published_paper_approval_is_authorized_witness:
  "\<exists>d run. rd_approved d \<and> authorized plain_core demo_digest (alpha_review ''i1'') [calm_pass] demo_service d run"
proof -
  obtain d run ps where "consume_paper_review plain_core demo_digest (Some (alpha_review ''i1'')) [calm_pass] (Inr ()) (Inr ())
      demo_service = ((Acked, [d]), run, ps)" "rd_approved d"
    by (rule demo_published)
  then show ?thesis using published_paper_approval_is_authorized [OF plain_core_keeps] by blast
qed


end
