(* ===== verification/Simulation.thy ===== *)
theory Simulation
  imports Canary_Instrument
begin

text \<open>
  \<open>kairos_risk/simulation.py\<close>: the admission policy of the market-data simulator. Its decimals
  matter by value only, so a decimal is the rational it denotes; every operation rounds in the
  default context and may raise there. The contract's validators, which may refuse the decision,
  are the parameter \<open>seal\<close>.
\<close>

section \<open>Contracts\<close>

record simulation_session =
  ss_execution_environment :: string
  ss_tape_id :: string
  ss_started_at_ms :: int
  ss_ends_at_ms :: int
  ss_strategy_allowlist :: "(string \<times> string) list"
  ss_maximum_book_age_ms :: int
  ss_maximum_frame_latency_ms :: int
  ss_depth_participation_fraction :: pyfloat
  ss_quantity_step :: pyfloat
  ss_adverse_slippage_bps :: pyfloat
  ss_price_tick :: pyfloat
  ss_payload :: string

record book_level =
  bl_price :: pyfloat
  bl_quantity :: pyfloat

record book_frame =
  bf_execution_environment :: string
  bf_market_data_venue :: string
  bf_tape_id :: string
  bf_symbol :: string
  bf_continuity :: string
  bf_persisted_at_ms :: int
  bf_exchange_at_ms :: int
  bf_asks :: "book_level list"
  bf_bids :: "book_level list"
  bf_payload :: string

record simulation_decision =
  sd_source :: string
  sd_correlation_id :: "string option"
  sd_causation_id :: string
  sd_session :: simulation_session
  sd_intent :: strategy_intent
  sd_review :: candidate_review
  sd_frame :: "book_frame option"
  sd_approved :: bool
  sd_rejection_reasons :: "string list"
  sd_quantity :: pyfloat
  sd_price_cap :: "pyfloat option"
  sd_decided_at_ms :: int

section \<open>Decimals\<close>

text \<open>
  \<open>_as_decimal\<close> of a value that may be anything, and of a contract's number. \<open>math.isfinite\<close>
  raises \<open>OverflowError\<close> for an integer that is too large for a float.
\<close>

definition float_as_decimal :: "string \<Rightarrow> pyfloat \<Rightarrow> rat res" where
  "float_as_decimal name x =
     (if isfinite x then Inr (dval (decimal_of_float x)) else Inl (ValueError (name @ '' must be a finite number'')))"

fun as_decimal :: "string \<Rightarrow> json \<Rightarrow> rat res" where
  "as_decimal name (JFloat x) = float_as_decimal name x"
| "as_decimal name (JInt n) =
     (if isfinite (to_float (of_int n)) then Inr (of_int n) else Inl (ArithmeticError ''OverflowError''))"
| "as_decimal name _ = Inl (ValueError (name @ '' must be a finite number''))"

definition round_to_step :: "rat \<Rightarrow> rat \<Rightarrow> (rat \<Rightarrow> int) \<Rightarrow> rat res" where
  "round_to_step x step mode =
     (case dec_div x step of Inl e \<Rightarrow> Inl e | Inr n \<Rightarrow> dec_context (of_int (mode n) * step))"

section \<open>The policy\<close>

definition mk_policy :: "string \<Rightarrow> string res" where
  "mk_policy source =
     (if normalized source then Inr source
      else Inl (ValueError ''source must be a normalized non-empty string''))"

definition validate_decision_clock :: "simulation_session \<Rightarrow> candidate_review \<Rightarrow> int \<Rightarrow> unit res" where
  "validate_decision_clock session review now =
     (if now < 0 then Inl (ValueError ''decided_at_ms must be a non-negative integer'')
      else if \<not> (ss_started_at_ms session \<le> now \<and> now \<le> ss_ends_at_ms session)
      then Inl (ValueError ''decided_at_ms must lie inside the immutable simulation session'')
      else if now < cr_reviewed_at_ms review
      then Inl (ValueError ''decided_at_ms cannot predate the immutable candidate review'')
      else if now < in_entry_eligible_ts_ms (cr_intent review)
      then Inl (ValueError ''decided_at_ms cannot predate immutable next-bar eligibility'')
      else Inr ())"

definition text_if :: "bool \<Rightarrow> string \<Rightarrow> string list" where
  "text_if c t = (if c then [t] else [])"

definition environment_rejections :: "simulation_session \<Rightarrow> string \<Rightarrow> book_frame option \<Rightarrow> string list" where
  "environment_rejections session intent_venue frame =
     text_if (ss_execution_environment session \<noteq> ''SIMULATED'') ''SESSION_ENVIRONMENT_MISMATCH'' @
     text_if (intent_venue \<noteq> ''BINANCE_UM'') ''INTENT_VENUE_MISMATCH'' @
     (case frame of
        None \<Rightarrow> []
      | Some f \<Rightarrow>
          text_if (bf_execution_environment f \<noteq> ''SIMULATED'') ''BOOK_FRAME_ENVIRONMENT_MISMATCH'' @
          text_if (bf_market_data_venue f \<noteq> ''BINANCE_UM'') ''BOOK_FRAME_VENUE_MISMATCH'')"

definition SIM_SYMBOLS :: "string list" where
  "SIM_SYMBOLS = [''BTCUSDT'', ''ETHUSDT'', ''SOLUSDT'', ''BNBUSDT'', ''XRPUSDT'']"

fun review_text :: "review_decision \<Rightarrow> string" where
  "review_text ALLOW = ''ALLOW''"
| "review_text (OtherReview name) = name"

definition candidate_rejections :: "simulation_session \<Rightarrow> candidate_review \<Rightarrow> int \<Rightarrow> string list" where
  "candidate_rejections session review now =
     (let intent = cr_intent review in
      text_if (cr_decision review \<noteq> ALLOW) (''REVIEW_'' @ review_text (cr_decision review)) @
      text_if ((in_strategy_id intent, in_strategy_revision intent) \<notin> set (ss_strategy_allowlist session))
        ''STRATEGY_NOT_SESSION_ALLOWLISTED'' @
      text_if (in_symbol intent \<notin> set SIM_SYMBOLS) ''UNSUPPORTED_INTENT_SYMBOL'' @
      text_if (in_entry_expires_ts_ms intent < now) ''INTENT_EXPIRED'')"

definition book_rejections :: "simulation_session \<Rightarrow> string \<Rightarrow> book_frame option \<Rightarrow> int \<Rightarrow> string list" where
  "book_rejections session intent_symbol frame now =
     (case frame of
        None \<Rightarrow> [''NO_RECORDED_BOOK_FRAME'']
      | Some f \<Rightarrow>
          text_if (bf_tape_id f \<noteq> ss_tape_id session) ''BOOK_FRAME_TAPE_MISMATCH'' @
          text_if (bf_symbol f \<noteq> intent_symbol) ''BOOK_FRAME_SYMBOL_MISMATCH'' @
          text_if (bf_continuity f \<noteq> ''ADMITTED'') ''BOOK_FRAME_NOT_ADMITTED'' @
          (if now < bf_persisted_at_ms f then [''BOOK_FRAME_FROM_FUTURE'']
           else text_if (ss_maximum_book_age_ms session < now - bf_persisted_at_ms f) ''BOOK_FRAME_STALE'') @
          text_if (ss_maximum_frame_latency_ms session < bf_persisted_at_ms f - bf_exchange_at_ms f)
            ''BOOK_FRAME_LATENCY_EXCEEDED'')"

text \<open>The quantity, or the reason against it.\<close>

fun visible_sum :: "rat \<Rightarrow> book_level list \<Rightarrow> rat res" where
  "visible_sum acc [] = Inr acc"
| "visible_sum acc (l # ls) =
     (case float_as_decimal ''book_quantity'' (bl_quantity l) of
        Inl e \<Rightarrow> Inl e
      | Inr q \<Rightarrow> (case dec_context (acc + q) of Inl e \<Rightarrow> Inl e | Inr acc' \<Rightarrow> visible_sum acc' ls))"

definition levels_of :: "book_frame \<Rightarrow> side \<Rightarrow> book_level list" where
  "levels_of f sd = (if sd = LONG then bf_asks f else bf_bids f)"

definition step_quantity :: "simulation_session \<Rightarrow> rat \<Rightarrow> rat \<Rightarrow> (string + rat) res" where
  "step_quantity session requested visible =
     (case float_as_decimal ''depth_participation_fraction'' (ss_depth_participation_fraction session) of
        Inl e \<Rightarrow> Inl e
      | Inr participation \<Rightarrow>
     (case float_as_decimal ''quantity_step'' (ss_quantity_step session) of
        Inl e \<Rightarrow> Inl e
      | Inr step \<Rightarrow>
     (case dec_context (visible * participation) of
        Inl e \<Rightarrow> Inl e
      | Inr share \<Rightarrow>
     (case round_to_step (min requested share) step floor of
        Inl e \<Rightarrow> Inl e
      | Inr admitted \<Rightarrow>
          Inr (if admitted \<le> 0 then Inl ''REQUESTED_QUANTITY_NOT_EXECUTABLE'' else Inr admitted)))))"

definition admitted_quantity ::
    "simulation_session \<Rightarrow> json \<Rightarrow> book_frame \<Rightarrow> side \<Rightarrow> (string + rat) res" where
  "admitted_quantity session requested_quantity f sd =
     (case as_decimal ''requested_quantity'' requested_quantity of
        Inl (ValueError _) \<Rightarrow> Inr (Inl ''REQUESTED_QUANTITY_INVALID'')
      | Inl e \<Rightarrow> Inl e
      | Inr requested \<Rightarrow>
          if requested \<le> 0 then Inr (Inl ''REQUESTED_QUANTITY_INVALID'')
          else
            (case visible_sum 0 (levels_of f sd) of
               Inl e \<Rightarrow> Inl e
             | Inr visible \<Rightarrow> step_quantity session requested visible))"

text \<open>An empty book side would make \<open>[0]\<close> raise; without a level no quantity is admitted.\<close>

definition adverse_price :: "side \<Rightarrow> rat \<Rightarrow> rat \<Rightarrow> rat res" where
  "adverse_price sd best slippage =
     (case dec_context (if sd = LONG then 1 + slippage else 1 - slippage) of
        Inl e \<Rightarrow> Inl e
      | Inr multiplier \<Rightarrow> dec_context (best * multiplier))"

definition price_cap_of :: "simulation_session \<Rightarrow> book_frame \<Rightarrow> side \<Rightarrow> (string + rat) res" where
  "price_cap_of session f sd =
     (case levels_of f sd of
        [] \<Rightarrow> Inl (RuntimeError ''IndexError'')
      | level # _ \<Rightarrow>
     (case float_as_decimal (if sd = LONG then ''ask_price'' else ''bid_price'') (bl_price level) of
        Inl e \<Rightarrow> Inl e
      | Inr best \<Rightarrow>
     (case float_as_decimal ''adverse_slippage_bps'' (ss_adverse_slippage_bps session) of
        Inl e \<Rightarrow> Inl e
      | Inr points \<Rightarrow>
     (case dec_div points 10000 of
        Inl e \<Rightarrow> Inl e
      | Inr slippage \<Rightarrow>
     (case float_as_decimal ''price_tick'' (ss_price_tick session) of
        Inl e \<Rightarrow> Inl e
      | Inr tick \<Rightarrow>
     (case adverse_price sd best slippage of
        Inl e \<Rightarrow> Inl e
      | Inr unrounded \<Rightarrow>
     (case round_to_step unrounded tick (if sd = LONG then ceiling else floor) of
        Inl e \<Rightarrow> Inl e
      | Inr cap \<Rightarrow> Inr (if cap \<le> 0 then Inl ''PRICE_CAP_NOT_POSITIVE'' else Inr cap))))))))"

definition exit_geometry_valid :: "side \<Rightarrow> rat \<Rightarrow> exit_plan \<Rightarrow> bool res" where
  "exit_geometry_valid sd cap plan =
     (case float_as_decimal ''stop_price'' (xp_stop_price plan) of
        Inl e \<Rightarrow> Inl e
      | Inr stop \<Rightarrow>
         (case float_as_decimal ''target_price'' (xp_target_price plan) of
            Inl e \<Rightarrow> Inl e
          | Inr target \<Rightarrow>
              Inr (if sd = LONG then stop < cap \<and> cap < target else target < cap \<and> cap < stop)))"

text \<open>Quantity and price cap of a candidate without rejections, or the reason against it.\<close>

definition sized_entry ::
    "simulation_session \<Rightarrow> candidate_review \<Rightarrow> book_frame \<Rightarrow> json \<Rightarrow> (string + rat \<times> rat) res" where
  "sized_entry session review f requested =
     (let intent = cr_intent review; sd = in_side intent in
      case admitted_quantity session requested f sd of
        Inl e \<Rightarrow> Inl e
      | Inr (Inl reason) \<Rightarrow> Inr (Inl reason)
      | Inr (Inr quantity) \<Rightarrow>
         (case price_cap_of session f sd of
            Inl e \<Rightarrow> Inl e
          | Inr (Inl reason) \<Rightarrow> Inr (Inl reason)
          | Inr (Inr cap) \<Rightarrow>
             (case exit_geometry_valid sd cap (in_exit_plan intent) of
                Inl e \<Rightarrow> Inl e
              | Inr valid \<Rightarrow>
                  Inr (if valid then Inr (quantity, cap) else Inl ''PRICE_CAP_EXIT_GEOMETRY_INVALID''))))"

definition sim_rejections :: "simulation_session \<Rightarrow> candidate_review \<Rightarrow> book_frame option \<Rightarrow> int \<Rightarrow> string list" where
  "sim_rejections session review frame now =
     (let intent = cr_intent review in
      environment_rejections session (in_venue intent) frame @ candidate_rejections session review now @
      book_rejections session (in_symbol intent) frame now)"

definition sim_decision ::
    "string \<Rightarrow> simulation_session \<Rightarrow> candidate_review \<Rightarrow> book_frame option \<Rightarrow> int \<Rightarrow>
     string + rat \<times> rat \<Rightarrow> string list \<Rightarrow> simulation_decision" where
  "sim_decision source session review frame now entry rejections =
     (let reasons = (case entry of Inl reason \<Rightarrow> rejections @ [reason] | Inr _ \<Rightarrow> rejections);
          approved = (reasons = [])
      in \<lparr>sd_source = source, sd_correlation_id = in_intent_id (cr_intent review),
          sd_causation_id = cr_message_id review, sd_session = session, sd_intent = cr_intent review,
          sd_review = review, sd_frame = frame, sd_approved = approved,
          sd_rejection_reasons = sort (remdups reasons),
          sd_quantity = (case entry of Inr (q, _) \<Rightarrow> if approved then to_float q else Fin 0 | Inl _ \<Rightarrow> Fin 0),
          sd_price_cap = (case entry of Inr (_, cap) \<Rightarrow> if approved then Some (to_float cap) else None | Inl _ \<Rightarrow> None),
          sd_decided_at_ms = now\<rparr>)"

text \<open>Without a frame there is always a rejection, so a candidate that reaches sizing has one.\<close>

definition evaluate_simulation ::
    "(simulation_decision \<Rightarrow> simulation_decision res) \<Rightarrow> string \<Rightarrow> simulation_session \<Rightarrow> candidate_review \<Rightarrow>
     book_frame option \<Rightarrow> int \<Rightarrow> json \<Rightarrow> simulation_decision res" where
  "evaluate_simulation seal source session review frame now requested =
     (case validate_decision_clock session review now of
        Inl e \<Rightarrow> Inl e
      | Inr _ \<Rightarrow>
         (let rejections = sim_rejections session review frame now in
          case frame of
            Some f \<Rightarrow>
              if rejections = []
              then (case sized_entry session review f requested of
                  Inl e \<Rightarrow> Inl e
                | Inr entry \<Rightarrow> seal (sim_decision source session review frame now entry []))
              else seal (sim_decision source session review frame now (Inr (0, 0)) rejections)
          | None \<Rightarrow> seal (sim_decision source session review frame now (Inr (0, 0)) rejections)))"

section \<open>What an approval implies\<close>

definition sim_seal_keeps :: "(simulation_decision \<Rightarrow> simulation_decision res) \<Rightarrow> bool" where
  "sim_seal_keeps seal \<longleftrightarrow> (\<forall>d d'. seal d = Inr d' \<longrightarrow> d' = d)"

lemma text_if_Nil [simp]: "text_if c t = [] \<longleftrightarrow> \<not> c"
  by (simp add: text_if_def)

lemma dec_context_value: "dec_context q = Inr r \<longleftrightarrow> r = rnd28 q \<and> (rnd28 q = 0 \<or> expo 10 (rnd28 q) \<le> 999999)"
  by (auto simp: dec_context_def Let_def)

lemma round_to_step_Inr:
  assumes "round_to_step x step mode = Inr r"
  shows "step \<noteq> 0 \<and> r = rnd28 (of_int (mode (rnd28 (x / step))) * step)"
  using assms by (auto simp: round_to_step_def dest: dec_div_Inr dec_context_Inr split: sum.splits)

lemma times_step: "0 < (step :: rat) \<Longrightarrow> (x / step * a + b) * step = x * a + step * b"
  by (simp add: field_simps)

lemma times_step_le: "0 < step \<Longrightarrow> n \<le> x / step * a + b \<Longrightarrow> n * step \<le> x * a + step * (b :: rat)"
  using mult_right_mono [of n "x / step * a + b" step] by (simp only: times_step)

lemma times_step_ge: "0 < step \<Longrightarrow> x / step * a + b \<le> n \<Longrightarrow> x * a + step * (b :: rat) \<le> n * step"
  using mult_right_mono [of "x / step * a + b" n step] by (simp only: times_step)

text \<open>The relative and the absolute error of one rounding to 28 digits.\<close>

definition dec_eps :: rat where "dec_eps = 10 powi (-27) / 2"

definition dec_eta :: rat where "dec_eta = 10 powi decimal_etiny / 2"

lemma floor_step_le:
  assumes "0 < step" "0 \<le> x"
  shows "of_int \<lfloor>rnd28 (x / step)\<rfloor> * step \<le> x * (1 + dec_eps) + step * dec_eta"
proof (rule times_step_le [OF assms(1)])
  have "rnd28 (x / step) \<le> x / step * (1 + dec_eps) + dec_eta"
    unfolding dec_eps_def dec_eta_def using assms by (intro d28.rnd_upper) simp
  then show "of_int \<lfloor>rnd28 (x / step)\<rfloor> \<le> x / step * (1 + dec_eps) + dec_eta"
    by (rule order_trans [OF of_int_floor_le])
qed

lemma ceiling_step_ge:
  assumes "0 < step" "0 \<le> x"
  shows "x * (1 - dec_eps) + step * - dec_eta \<le> of_int \<lceil>rnd28 (x / step)\<rceil> * step"
proof (rule times_step_ge [OF assms(1)])
  have "x / step * (1 - dec_eps) - dec_eta \<le> rnd28 (x / step)"
    unfolding dec_eps_def dec_eta_def using assms by (intro d28.rnd_lower) simp
  then have "x / step * (1 - dec_eps) - dec_eta \<le> of_int \<lceil>rnd28 (x / step)\<rceil>"
    by (rule order_trans [OF _ le_of_int_ceiling])
  then show "x / step * (1 - dec_eps) + - dec_eta \<le> of_int \<lceil>rnd28 (x / step)\<rceil>"
    by simp
qed

text \<open>A positive multiple of a positive step comes from a positive quotient.\<close>

lemma round_to_step_pos:
  assumes "0 < step" "0 < rnd28 (of_int (mode (rnd28 (x / step))) * step)" "mode = floor \<or> mode = ceiling"
  shows "0 < x"
proof -
  have "0 < of_int (mode (rnd28 (x / step))) * step"
    using assms(2) d28.rnd_nonpos by (metis linorder_not_less)
  then have "0 < mode (rnd28 (x / step))" using assms(1) by (simp add: zero_less_mult_iff)
  then have "0 < rnd28 (x / step)" using assms(3) by auto
  then have "0 < x / step" using d28.rnd_nonpos by (metis linorder_not_less)
  then show ?thesis using assms(1) by (simp add: zero_less_divide_iff)
qed

lemma evaluate_simulation_approvedE:
  assumes "sim_seal_keeps seal" "evaluate_simulation seal source session review frame now requested = Inr d" "sd_approved d"
  obtains f q cap where "frame = Some f" "validate_decision_clock session review now = Inr ()"
    "sim_rejections session review frame now = []" "sized_entry session review f requested = Inr (Inr (q, cap))"
    "d = sim_decision source session review frame now (Inr (q, cap)) []"
proof -
  have keep: "seal x = Inr d \<Longrightarrow> d = x" for x using assms(1) by (simp add: sim_seal_keeps_def)
  have dec: "sd_approved d \<Longrightarrow> seal (sim_decision source session review frame now (Inr (0, 0)) rs) = Inr d \<Longrightarrow> rs = []" for rs
    by (drule keep) (simp add: sim_decision_def Let_def)
  obtain f where f: "frame = Some f" "sim_rejections session review frame now = []"
  proof (cases frame)
    case None
    then have "sim_rejections session review frame now \<noteq> []"
      by (simp add: sim_rejections_def Let_def book_rejections_def)
    then show ?thesis
      using assms(2) dec [OF assms(3)] None by (simp add: evaluate_simulation_def Let_def split: sum.splits)
  next
    case (Some f)
    then have "sim_rejections session review frame now = []"
      using assms(2) dec [OF assms(3)]
      by (cases "sim_rejections session review frame now = []")
        (auto simp: evaluate_simulation_def Let_def split: sum.splits)
    then show ?thesis using that Some by blast
  qed
  obtain entry where e: "sized_entry session review f requested = Inr entry"
    "d = sim_decision source session review frame now entry []"
    "validate_decision_clock session review now = Inr ()"
    using assms(2) f keep by (auto simp: evaluate_simulation_def Let_def split: sum.splits)
  then obtain q cap where "entry = Inr (q, cap)"
    using assms(3) by (cases entry) (auto simp: sim_decision_def Let_def)
  then show ?thesis using that f e by blast
qed

lemma admitted_quantity_Inr:
  assumes "admitted_quantity session requested f sd = Inr (Inr q)"
  obtains r visible p step where "as_decimal ''requested_quantity'' requested = Inr r" "0 < r"
    "visible_sum 0 (levels_of f sd) = Inr visible"
    "float_as_decimal ''depth_participation_fraction'' (ss_depth_participation_fraction session) = Inr p"
    "float_as_decimal ''quantity_step'' (ss_quantity_step session) = Inr step" "step \<noteq> 0" "0 < q"
    "q = rnd28 (of_int \<lfloor>rnd28 (min r (rnd28 (visible * p)) / step)\<rfloor> * step)"
  using assms
  by (auto simp: admitted_quantity_def step_quantity_def split: sum.splits pyerr.splits if_split_asm
      dest!: round_to_step_Inr dec_context_Inr)

lemma float_as_decimal_name: "float_as_decimal a x = Inr q \<Longrightarrow> float_as_decimal b x = Inr q"
  by (simp add: float_as_decimal_def split: if_splits)

lemma price_cap_Inr:
  assumes "price_cap_of session f sd = Inr (Inr cap)"
  obtains level rest best points tick u where "levels_of f sd = level # rest"
    "float_as_decimal ''price'' (bl_price level) = Inr best"
    "float_as_decimal ''adverse_slippage_bps'' (ss_adverse_slippage_bps session) = Inr points"
    "float_as_decimal ''price_tick'' (ss_price_tick session) = Inr tick" "tick \<noteq> 0" "0 < cap"
    "u = rnd28 (best * rnd28 (if sd = LONG then 1 + rnd28 (points / 10000) else 1 - rnd28 (points / 10000)))"
    "cap = rnd28 (of_int ((if sd = LONG then ceiling else floor) (rnd28 (u / tick))) * tick)"
  using assms
  by (auto simp: price_cap_of_def adverse_price_def split: sum.splits list.splits if_split_asm
      dest!: round_to_step_Inr dec_context_Inr dec_div_Inr dest: float_as_decimal_name [of _ _ _ "''price''"])

text \<open>The frame a causal decision may use.\<close>

definition causal_frame :: "simulation_session \<Rightarrow> strategy_intent \<Rightarrow> int \<Rightarrow> book_frame \<Rightarrow> bool" where
  "causal_frame session intent now f \<longleftrightarrow>
     bf_execution_environment f = ''SIMULATED'' \<and> bf_market_data_venue f = ''BINANCE_UM'' \<and>
     bf_tape_id f = ss_tape_id session \<and> bf_symbol f = in_symbol intent \<and> bf_continuity f = ''ADMITTED'' \<and>
     bf_persisted_at_ms f \<le> now \<and> now - bf_persisted_at_ms f \<le> ss_maximum_book_age_ms session \<and>
     bf_persisted_at_ms f - bf_exchange_at_ms f \<le> ss_maximum_frame_latency_ms session"

text \<open>
  A positive multiple of the step, within the request and the share of the visible depth; and a
  positive multiple of the tick beyond the slipped best price, between stop and target.
\<close>

definition within_depth :: "simulation_session \<Rightarrow> json \<Rightarrow> book_level list \<Rightarrow> rat \<Rightarrow> bool" where
  "within_depth session requested levels q \<longleftrightarrow>
     (\<exists>r visible p step n.
        as_decimal ''requested_quantity'' requested = Inr r \<and> visible_sum 0 levels = Inr visible \<and>
        float_as_decimal ''depth_participation_fraction'' (ss_depth_participation_fraction session) = Inr p \<and>
        float_as_decimal ''quantity_step'' (ss_quantity_step session) = Inr step \<and>
        q = rnd28 (of_int n * step) \<and> 0 < q \<and>
        (0 < step \<longrightarrow> of_int n * step \<le>
           min r (rnd28 (visible * p)) * (1 + dec_eps) + step * dec_eta))"

definition adverse_cap :: "simulation_session \<Rightarrow> book_level list \<Rightarrow> side \<Rightarrow> exit_plan \<Rightarrow> rat \<Rightarrow> bool" where
  "adverse_cap session levels sd plan cap \<longleftrightarrow>
     (\<exists>best points tick stop target n.
        levels \<noteq> [] \<and> float_as_decimal ''price'' (bl_price (hd levels)) = Inr best \<and>
        float_as_decimal ''adverse_slippage_bps'' (ss_adverse_slippage_bps session) = Inr points \<and>
        float_as_decimal ''price_tick'' (ss_price_tick session) = Inr tick \<and>
        float_as_decimal ''stop_price'' (xp_stop_price plan) = Inr stop \<and>
        float_as_decimal ''target_price'' (xp_target_price plan) = Inr target \<and>
        cap = rnd28 (of_int n * tick) \<and> 0 < cap \<and>
        (if sd = LONG then stop < cap \<and> cap < target \<and>
           (0 < tick \<longrightarrow> rnd28 (best * rnd28 (1 + rnd28 (points / 10000))) * (1 - dec_eps) +
              tick * - dec_eta \<le> of_int n * tick)
         else target < cap \<and> cap < stop \<and>
           (0 < tick \<longrightarrow> of_int n * tick \<le> rnd28 (best * rnd28 (1 - rnd28 (points / 10000))) * (1 + dec_eps) +
              tick * dec_eta)))"

lemma admitted_within_depth:
  assumes "admitted_quantity session requested f sd = Inr (Inr q)"
  shows "within_depth session requested (levels_of f sd) q"
  using assms
proof (rule admitted_quantity_Inr)
  fix r visible p step
  assume *: "as_decimal ''requested_quantity'' requested = Inr r" "0 < r"
    "visible_sum 0 (levels_of f sd) = Inr visible"
    "float_as_decimal ''depth_participation_fraction'' (ss_depth_participation_fraction session) = Inr p"
    "float_as_decimal ''quantity_step'' (ss_quantity_step session) = Inr step" "0 < q"
    "q = rnd28 (of_int \<lfloor>rnd28 (min r (rnd28 (visible * p)) / step)\<rfloor> * step)"
  have "of_int \<lfloor>rnd28 (min r (rnd28 (visible * p)) / step)\<rfloor> * step \<le>
      min r (rnd28 (visible * p)) * (1 + dec_eps) + step * dec_eta" if "0 < step"
  proof (rule floor_step_le [OF that])
    have "0 < rnd28 (of_int \<lfloor>rnd28 (min r (rnd28 (visible * p)) / step)\<rfloor> * step)" using *(6,7) by simp
    then show "0 \<le> min r (rnd28 (visible * p))" using round_to_step_pos [OF that, of floor] by (meson less_imp_le)
  qed
  then show ?thesis unfolding within_depth_def using * by blast
qed

lemma cap_adverse:
  assumes "price_cap_of session f sd = Inr (Inr cap)" "exit_geometry_valid sd cap plan = Inr True"
  shows "adverse_cap session (levels_of f sd) sd plan cap"
  using assms(1)
proof (rule price_cap_Inr)
  fix level rest best points tick u
  assume *: "levels_of f sd = level # rest" "float_as_decimal ''price'' (bl_price level) = Inr best"
    "float_as_decimal ''adverse_slippage_bps'' (ss_adverse_slippage_bps session) = Inr points"
    "float_as_decimal ''price_tick'' (ss_price_tick session) = Inr tick" "tick \<noteq> 0" "0 < cap"
    "u = rnd28 (best * rnd28 (if sd = LONG then 1 + rnd28 (points / 10000) else 1 - rnd28 (points / 10000)))"
    "cap = rnd28 (of_int ((if sd = LONG then ceiling else floor) (rnd28 (u / tick))) * tick)"
  obtain stop target where g: "float_as_decimal ''stop_price'' (xp_stop_price plan) = Inr stop"
    "float_as_decimal ''target_price'' (xp_target_price plan) = Inr target"
    "if sd = LONG then stop < cap \<and> cap < target else target < cap \<and> cap < stop"
    using assms(2) by (auto simp: exit_geometry_valid_def split: sum.splits)
  let ?mode = "if sd = LONG then ceiling else floor :: rat \<Rightarrow> int"
  have u: "0 \<le> u" if "0 < tick"
    using round_to_step_pos [OF that, of ?mode u] *(6,8) by (auto split: if_split_asm)
  have side: "levels_of f sd \<noteq> []" "float_as_decimal ''price'' (bl_price (hd (levels_of f sd))) = Inr best"
    using *(1,2) by simp_all
  show ?thesis
  proof (cases "sd = LONG")
    case True
    note u' = *(7) [unfolded if_P [OF True]] and n = *(8) [unfolded if_P [OF True]]
    have "0 < tick \<longrightarrow> rnd28 (best * rnd28 (1 + rnd28 (points / 10000))) * (1 - dec_eps) + tick * - dec_eta \<le>
        of_int \<lceil>rnd28 (u / tick)\<rceil> * tick"
      unfolding u' [symmetric] using ceiling_step_ge u by blast
    then show ?thesis unfolding adverse_cap_def if_P [OF True]
      using side *(3,4,6) g [unfolded if_P [OF True]] n by blast
  next
    case False
    note u' = *(7) [unfolded if_not_P [OF False]] and n = *(8) [unfolded if_not_P [OF False]]
    have "0 < tick \<longrightarrow> of_int \<lfloor>rnd28 (u / tick)\<rfloor> * tick \<le>
        rnd28 (best * rnd28 (1 - rnd28 (points / 10000))) * (1 + dec_eps) + tick * dec_eta"
      unfolding u' [symmetric] using floor_step_le u by blast
    then show ?thesis unfolding adverse_cap_def if_not_P [OF False]
      using side *(3,4,6) g [unfolded if_not_P [OF False]] n by blast
  qed
qed

text \<open>
  C18. What a simulated approval rests on. It is decided inside the session, not before the
  review or the intent's eligibility and not after its expiry, on an ALLOW review of an
  allowlisted strategy and a known symbol, from an admitted frame of the session's own tape that
  existed at that time and is neither stale nor late; nothing in it belongs to a real venue. Its
  quantity is a positive multiple of the step that exceeds neither the request nor the session's
  share of the visible depth; its price cap is a positive multiple of the tick on the adverse side
  of the slipped best price, strictly between stop and target: all in decimal arithmetic, up to one
  rounding of the quotient.
\<close>

theorem approved_simulation_is_causal_and_capped:
  assumes "sim_seal_keeps seal" "evaluate_simulation seal source session review frame now requested = Inr d" "sd_approved d"
  shows "let intent = cr_intent review; sd = in_side intent in
    ss_started_at_ms session \<le> now \<and> now \<le> ss_ends_at_ms session \<and> cr_reviewed_at_ms review \<le> now \<and>
    in_entry_eligible_ts_ms intent \<le> now \<and> now \<le> in_entry_expires_ts_ms intent \<and>
    ss_execution_environment session = ''SIMULATED'' \<and> in_venue intent = ''BINANCE_UM'' \<and>
    cr_decision review = ALLOW \<and> in_symbol intent \<in> set SIM_SYMBOLS \<and>
    (in_strategy_id intent, in_strategy_revision intent) \<in> set (ss_strategy_allowlist session) \<and>
    (\<exists>f q cap. frame = Some f \<and> causal_frame session intent now f \<and>
       sd_quantity d = to_float q \<and> within_depth session requested (levels_of f sd) q \<and>
       sd_price_cap d = Some (to_float cap) \<and> adverse_cap session (levels_of f sd) sd (in_exit_plan intent) cap)"
proof -
  obtain f q cap where e: "frame = Some f" "validate_decision_clock session review now = Inr ()"
    "sim_rejections session review frame now = []" "sized_entry session review f requested = Inr (Inr (q, cap))"
    "d = sim_decision source session review frame now (Inr (q, cap)) []"
    by (rule evaluate_simulation_approvedE [OF assms])
  have clock: "ss_started_at_ms session \<le> now \<and> now \<le> ss_ends_at_ms session \<and> cr_reviewed_at_ms review \<le> now \<and>
      in_entry_eligible_ts_ms (cr_intent review) \<le> now"
    using e(2) by (auto simp: validate_decision_clock_def split: if_split_asm)
  have "causal_frame session (cr_intent review) now f \<and> ss_execution_environment session = ''SIMULATED'' \<and>
      in_venue (cr_intent review) = ''BINANCE_UM'' \<and> cr_decision review = ALLOW \<and>
      in_symbol (cr_intent review) \<in> set SIM_SYMBOLS \<and> now \<le> in_entry_expires_ts_ms (cr_intent review) \<and>
      (in_strategy_id (cr_intent review), in_strategy_revision (cr_intent review)) \<in> set (ss_strategy_allowlist session)"
    using e(3)
    by (simp add: e(1) sim_rejections_def environment_rejections_def candidate_rejections_def book_rejections_def
        causal_frame_def Let_def not_less split: if_split_asm)
  moreover have "admitted_quantity session requested f (in_side (cr_intent review)) = Inr (Inr q)"
    "price_cap_of session f (in_side (cr_intent review)) = Inr (Inr cap)"
    "exit_geometry_valid (in_side (cr_intent review)) cap (in_exit_plan (cr_intent review)) = Inr True"
    using e(4) by (auto simp: sized_entry_def Let_def split: sum.splits if_split_asm)
  moreover have "sd_quantity d = to_float q" "sd_price_cap d = Some (to_float cap)"
    by (simp_all add: e(5) sim_decision_def)
  ultimately show ?thesis
    using clock e(1) admitted_within_depth [of session requested f "in_side (cr_intent review)" q]
      cap_adverse [of session f "in_side (cr_intent review)" cap "in_exit_plan (cr_intent review)"]
    unfolding Let_def by (intro conjI exI [of _ f] exI [of _ q] exI [of _ cap]) simp_all
qed

section \<open>Rejections and errors\<close>

lemma sim_decision_inert:
  "\<not> sd_approved (sim_decision source session review frame now entry rs) \<Longrightarrow>
     sd_quantity (sim_decision source session review frame now entry rs) = Fin 0 \<and>
     sd_price_cap (sim_decision source session review frame now entry rs) = None"
  by (cases entry) (auto simp: sim_decision_def Let_def split: prod.splits)

lemma evaluate_simulation_Inr:
  assumes "sim_seal_keeps seal" "evaluate_simulation seal source session review frame now requested = Inr d"
  obtains entry rs where "d = sim_decision source session review frame now entry rs"
    "validate_decision_clock session review now = Inr ()"
    "rs = sim_rejections session review frame now" "frame = None \<longrightarrow> rs \<noteq> []"
proof -
  have keep: "seal x = Inr d \<Longrightarrow> d = x" for x using assms(1) by (simp add: sim_seal_keeps_def)
  have none: "frame = None \<Longrightarrow> sim_rejections session review frame now \<noteq> []"
    by (simp add: sim_rejections_def Let_def book_rejections_def)
  have clock: "validate_decision_clock session review now = Inr ()"
    using assms(2) by (auto simp: evaluate_simulation_def split: sum.splits)
  have "\<exists>entry. d = sim_decision source session review frame now entry (sim_rejections session review frame now)"
  proof (cases "frame = None \<or> sim_rejections session review frame now \<noteq> []")
    case True
    then have "seal (sim_decision source session review frame now (Inr (0, 0)) (sim_rejections session review frame now)) = Inr d"
      using assms(2) clock by (auto simp: evaluate_simulation_def Let_def split: option.splits)
    then show ?thesis using keep by blast
  next
    case False
    then obtain f where "frame = Some f" by auto
    then show ?thesis using assms(2) clock False keep
      by (auto simp: evaluate_simulation_def Let_def split: sum.splits)
  qed
  then show ?thesis using that clock none by blast
qed

definition numeric_error :: "pyerr \<Rightarrow> bool" where
  "numeric_error e \<longleftrightarrow> (\<exists>t. e = ValueError t \<or> e = ArithmeticError t)"

lemma numeric_errors:
  "float_as_decimal name x = Inl e \<Longrightarrow> numeric_error e" "as_decimal name j = Inl e \<Longrightarrow> numeric_error e"
  "dec_context q = Inl e \<Longrightarrow> numeric_error e" "dec_div p q = Inl e \<Longrightarrow> numeric_error e"
  by (auto simp: float_as_decimal_def numeric_error_def dec_context_def dec_div_def Let_def split: if_split_asm
      elim: as_decimal.elims)

lemma step_errors: "round_to_step x step mode = Inl e \<Longrightarrow> numeric_error e"
  by (auto simp: round_to_step_def split: sum.splits dest: numeric_errors)

lemma visible_errors: "visible_sum acc ls = Inl e \<Longrightarrow> numeric_error e"
  by (induction ls arbitrary: acc) (auto split: sum.splits dest: numeric_errors)

lemma quantity_errors: "admitted_quantity session requested f sd = Inl e \<Longrightarrow> numeric_error e"
  by (auto simp: admitted_quantity_def step_quantity_def split: sum.splits pyerr.splits if_split_asm
      dest: numeric_errors step_errors visible_errors)

text \<open>Without a level nothing is admitted, so the best price is there when it is read.\<close>

lemma admitted_has_level: "admitted_quantity session requested f sd = Inr (Inr q) \<Longrightarrow> levels_of f sd \<noteq> []"
proof (elim admitted_quantity_Inr, rule notI)
  fix r visible p step
  assume "levels_of f sd = []" "visible_sum 0 (levels_of f sd) = Inr visible" "0 < r" "0 < q"
    "q = rnd28 (of_int \<lfloor>rnd28 (min r (rnd28 (visible * p)) / step)\<rfloor> * step)"
  then show False by simp
qed

lemma cap_errors: "levels_of f sd \<noteq> [] \<Longrightarrow> price_cap_of session f sd = Inl e \<Longrightarrow> numeric_error e"
  by (auto simp: price_cap_of_def adverse_price_def split: sum.splits list.splits if_split_asm
      dest: numeric_errors step_errors)

lemma sim_sized_errors: "sized_entry session review f requested = Inl e \<Longrightarrow> numeric_error e"
  by (auto simp: sized_entry_def exit_geometry_valid_def Let_def split: sum.splits if_split_asm
      dest: numeric_errors quantity_errors cap_errors [OF admitted_has_level])

lemma sort_remdups_Nil [simp]: "sort (remdups xs) = [] \<longleftrightarrow> xs = []"
  by (metis remdups_eq_nil_iff set_empty set_sort)


section \<open>A concrete session\<close>

definition demo_session :: simulation_session where
  "demo_session =
     \<lparr>ss_execution_environment = ''SIMULATED'', ss_tape_id = ''t1'', ss_started_at_ms = 0, ss_ends_at_ms = 90000,
      ss_strategy_allowlist = [(''alpha'', ''1'')], ss_maximum_book_age_ms = 1000, ss_maximum_frame_latency_ms = 500,
      ss_depth_participation_fraction = Fin (1 / 2), ss_quantity_step = Fin 1, ss_adverse_slippage_bps = Fin 0,
      ss_price_tick = Fin 1, ss_payload = []\<rparr>"

definition demo_frame :: book_frame where
  "demo_frame =
     \<lparr>bf_execution_environment = ''SIMULATED'', bf_market_data_venue = ''BINANCE_UM'', bf_tape_id = ''t1'',
      bf_symbol = ''BTCUSDT'', bf_continuity = ''ADMITTED'', bf_persisted_at_ms = 60000, bf_exchange_at_ms = 59900,
      bf_asks = [\<lparr>bl_price = Fin 100, bl_quantity = Fin 5\<rparr>], bf_bids = [\<lparr>bl_price = Fin 99, bl_quantity = Fin 5\<rparr>],
      bf_payload = []\<rparr>"

definition sim_intent :: strategy_intent where
  "sim_intent =
     \<lparr>in_contract_version = ''strategy-intent.v1'', in_intent_id = Some ''i1'', in_message_id = ''i1'',
      in_source = ''parity'', in_symbol = ''BTCUSDT'', in_venue = ''BINANCE_UM'', in_side = LONG,
      in_strategy_id = ''alpha'', in_strategy_revision = ''1'', in_decision_ts_ms = 1000,
      in_entry_eligible_ts_ms = 1001, in_entry_expires_ts_ms = 61001, in_reference_price = Fin 100,
      in_signal_strength = Fin 1, in_gross_reward_bps = Fin 1000,
      in_exit_plan = \<lparr>xp_stop_price = Fin 96, xp_target_price = Fin 110, xp_max_holding_ms = 600000, xp_payload = []\<rparr>,
      in_provenance =
        \<lparr>pv_strategy_code_sha256 = [], pv_config_sha256 = [], pv_input_window_sha256 = [], pv_features_sha256 = [],
         pv_input_bar_sha256s = []\<rparr>, in_evidence = [], in_metadata = [], in_payload = []\<rparr>"

definition sim_review :: candidate_review where
  "sim_review =
     \<lparr>cr_message_id = ''m1'', cr_review_id = Some ''r1'', cr_source = ''review'', cr_correlation_id = None, cr_causation_id = ''q1'', cr_decision = ALLOW,
      cr_reviewed_at_ms = 2000, cr_intent = sim_intent, cr_route =
        \<lparr>rt_route_id = Some ''q1'', rt_message_id = ''q1'', rt_source = ''route'', rt_correlation_id = None,
         rt_causation_id = [], rt_intent = sim_intent, rt_review_tier = ''NORMAL'',
         rt_requested_reasoning_effort = ''MEDIUM'', rt_routed_at_ms = 1500, rt_review_deadline_ms = 61001,
         rt_evidence_ids = [], rt_payload = []\<rparr>,
      cr_priority = 0, cr_reviewer = ''LLM'', cr_model_provenance = None, cr_reason_codes = [],
      cr_evidence = [], cr_payload = []\<rparr>"

lemma Inr_seal_keeps: "sim_seal_keeps Inr"
  by (simp add: sim_seal_keeps_def)

lemma demo_simulation:
  "case evaluate_simulation Inr ''sim'' demo_session sim_review (Some demo_frame) 60500 (JInt 10) of
     Inr d \<Rightarrow> sd_approved d \<and> sd_quantity d = Fin 2 \<and> sd_price_cap d = Some (Fin 100) | Inl _ \<Rightarrow> False"
  by code_simp

theorem approved_simulation_is_causal_and_capped_witness:
  "\<exists>d. evaluate_simulation Inr ''sim'' demo_session sim_review (Some demo_frame) 60500 (JInt 10) = Inr d \<and>
     sd_quantity d = Fin 2 \<and> causal_frame demo_session sim_intent 60500 demo_frame"
proof -
  obtain d where d: "evaluate_simulation Inr ''sim'' demo_session sim_review (Some demo_frame) 60500 (JInt 10) = Inr d"
    "sd_approved d" "sd_quantity d = Fin 2" using demo_simulation by (auto split: sum.splits)
  then show ?thesis
    using approved_simulation_is_causal_and_capped [OF Inr_seal_keeps d(1,2)] by (auto simp: Let_def sim_review_def)
qed


end
