(* ===== verification/Canary.thy ===== *)
theory Canary
  imports Canary_Authorization Sizing
begin

text \<open>
  \<open>kairos_risk/canary.py\<close>: the manually armed technical canary, from its plan and the durable
  facts to the review and the allocation it publishes. Its decimals matter by value only. The
  contracts' constructors, the digest, the strategy's source fingerprint, \<open>datetime_from_unix_ms\<close>
  of \<open>kairos_core\<close>, the input source and the durable repository are parameters.
\<close>

section \<open>Constants and errors\<close>

definition CANARY_ARM_PHRASE :: string where "CANARY_ARM_PHRASE = ''ARM EVEDEX DEV PAPER CANARY''"

definition MIN_STOP_BPS :: pyfloat where "MIN_STOP_BPS = Fin 25"

definition MAX_STOP_BPS :: pyfloat where "MAX_STOP_BPS = Fin 100"

definition MIN_TARGET_BPS :: pyfloat where "MIN_TARGET_BPS = Fin 25"

definition MAX_TARGET_BPS :: pyfloat where "MAX_TARGET_BPS = Fin 150"

definition MAX_TARGET_STOP_RATIO :: pyfloat where "MAX_TARGET_STOP_RATIO = Fin 2"

definition MIN_HOLDING_MS :: int where "MIN_HOLDING_MS = 60000"

definition MAX_HOLDING_MS :: int where "MAX_HOLDING_MS = 900000"

definition MIN_ENTRY_WINDOW_MS :: int where "MIN_ENTRY_WINDOW_MS = 5000"

definition MAX_ENTRY_WINDOW_MS :: int where "MAX_ENTRY_WINDOW_MS = 30000"

definition MIN_VENUE_TTL_MS :: int where "MIN_VENUE_TTL_MS = 1000"

definition MAX_INSTRUMENT_FETCH_AGE_MS :: int where "MAX_INSTRUMENT_FETCH_AGE_MS = 5000"

definition MAX_INSTRUMENT_FETCH_CLOCK_SKEW_MS :: int where "MAX_INSTRUMENT_FETCH_CLOCK_SKEW_MS = 2000"

definition preflight :: "string \<Rightarrow> pyerr" where
  "preflight text = RuntimeError (''CanaryPreflightError: '' @ text)"

definition arming :: "string \<Rightarrow> pyerr" where
  "arming text = RuntimeError (''CanaryArmingError: '' @ text)"

definition publish_failed :: pyerr where
  "publish_failed =
     RuntimeError ''CanaryPublishError: atomic canary arm/enqueue did not confirm completion; retrying the exact binding is idempotent''"

section \<open>The plan\<close>

record canary_plan =
  kp_symbol :: string
  kp_side :: side
  kp_stop_distance_bps :: pyfloat
  kp_target_distance_bps :: pyfloat
  kp_max_holding_ms :: int
  kp_entry_window_ms :: int

definition mk_canary_plan :: "canary_plan \<Rightarrow> canary_plan res" where
  "mk_canary_plan p =
     (let symbol = py_upper (py_strip (kp_symbol p)); stop = kp_stop_distance_bps p; target = kp_target_distance_bps p in
      if kp_symbol p \<noteq> symbol \<or> symbol \<notin> set (map fst PAPER_DEV_SYMBOL_MAP)
      then Inl (ValueError ''symbol must be one of BTCUSDT, ETHUSDT, SOLUSDT, BNBUSDT, XRPUSDT'')
      else if kp_side p \<notin> {LONG, SHORT}
      then Inl (ValueError ''technical canary side must be LONG or SHORT'')
      else if \<not> isfinite stop then Inl (ValueError ''stop_distance_bps must be a finite number'')
      else if \<not> isfinite target then Inl (ValueError ''target_distance_bps must be a finite number'')
      else if \<not> (MIN_STOP_BPS \<le> stop \<and> stop \<le> MAX_STOP_BPS)
      then Inl (ValueError ''stop distance must be in bps bounds'')
      else if \<not> (MIN_TARGET_BPS \<le> target \<and> target \<le> MAX_TARGET_BPS)
      then Inl (ValueError ''target distance must be in bps bounds'')
      else if stop * MAX_TARGET_STOP_RATIO < target
      then Inl (ValueError ''target distance cannot exceed 2x the bounded stop distance'')
      else if \<not> (MIN_HOLDING_MS \<le> kp_max_holding_ms p \<and> kp_max_holding_ms p \<le> MAX_HOLDING_MS)
      then Inl (ValueError ''holding timeout must be between 60 and 900 seconds'')
      else if \<not> (MIN_ENTRY_WINDOW_MS \<le> kp_entry_window_ms p \<and> kp_entry_window_ms p \<le> MAX_ENTRY_WINDOW_MS)
      then Inl (ValueError ''entry window must be between 5 and 30 seconds'')
      else Inr p)"

fun side_text :: "side \<Rightarrow> string" where
  "side_text LONG = ''LONG''"
| "side_text SHORT = ''SHORT''"
| "side_text FLAT = ''FLAT''"

definition identity_payload :: "canary_plan \<Rightarrow> canon" where
  "identity_payload p =
     CObject
       [(''entry_window_ms'', CInt (kp_entry_window_ms p)), (''max_holding_ms'', CInt (kp_max_holding_ms p)),
        (''side'', CText (side_text (kp_side p))), (''stop_distance_bps'', CFloat (kp_stop_distance_bps p)),
        (''strategy_ref'', CText CANARY_STRATEGY_REF), (''symbol'', CText (kp_symbol p)),
        (''target_distance_bps'', CFloat (kp_target_distance_bps p))]"

section \<open>Inputs and results\<close>

text \<open>
  \<open>cb_close\<close> is finite: the bar's contract refuses other prices. An infinite one would make
  \<open>quantize\<close> raise as below, and NaN would be refused by the exit plan's contract.
\<close>

record closed_bar =
  cb_symbol :: string
  cb_open_time_ms :: int
  cb_close_time_ms :: int
  cb_close :: pyfloat
  cb_bar_sha256 :: "string option"

record canary_inputs =
  kn_bar :: closed_bar
  kn_venue :: venue_quality
  kn_account :: account_v2
  kn_instrument :: instrument_rule
  kn_current_allocation :: "strategic_allocation option"
  kn_active_reservation_ids :: "string list"

record prepared_canary =
  pn_allocation :: strategic_allocation
  pn_review :: candidate_review
  pn_current_allocation_ready :: bool
  pn_current_allocation_reason :: string

record canary_run_result =
  rr_prepared :: prepared_canary
  rr_published :: bool
  rr_arm_id :: "string option"

text \<open>What \<open>kairos_core\<close> and the installation supply.\<close>

record canary_core =
  kc_digest :: digest
  kc_code_sha256 :: string
  kc_datetime :: "int \<Rightarrow> pydatetime"
  kc_intent :: "strategy_intent \<Rightarrow> strategy_intent res"
  kc_route :: "candidate_route \<Rightarrow> candidate_route res"
  kc_review :: "candidate_review \<Rightarrow> candidate_review res"
  kc_allocation :: "strategic_allocation \<Rightarrow> strategic_allocation res"

definition validate_now :: "int \<Rightarrow> unit res" where
  "validate_now now_ms =
     (if now_ms < 0 then Inl (ValueError ''now_ms must be a non-negative integer'') else Inr ())"

section \<open>Preflight\<close>

definition check_bar :: "canary_plan \<Rightarrow> closed_bar \<Rightarrow> int \<Rightarrow> unit res" where
  "check_bar plan bar now_ms =
     (let eligible_at_ms = cb_close_time_ms bar + 1 in
      if cb_symbol bar \<noteq> kp_symbol plan
      then Inl (preflight ''latest closed bar belongs to a different signal symbol'')
      else if now_ms \<le> cb_close_time_ms bar
      then Inl (preflight ''current clock has not advanced past the selected closed bar'')
      else if now_ms < eligible_at_ms
      then Inl (preflight ''NEXT_BAR_MARKET entry is not yet eligible'')
      else if eligible_at_ms + kp_entry_window_ms plan \<le> now_ms
      then Inl (preflight ''latest closed bar is stale for the bounded canary entry window'')
      else Inr ())"

definition check_venue :: "venue_quality \<Rightarrow> string \<Rightarrow> int \<Rightarrow> unit res" where
  "check_venue venue symbol now_ms =
     (if vq_profile venue \<noteq> DEV \<or> vq_symbol venue \<noteq> symbol
      then Inl (preflight ''venue quality is not the exact mapped EVEDEX DEV instrument'')
      else if now_ms < vq_observed_at_ms venue
      then Inl (preflight ''venue quality observation is from the future'')
      else if vq_expires_at_ms venue - now_ms < MIN_VENUE_TTL_MS
      then Inl (preflight ''venue quality is stale or has insufficient remaining TTL'')
      else if \<not> vq_entry_allowed venue
      then Inl (preflight ''venue quality gate does not allow entry'')
      else Inr ())"

definition canary_lineage :: "string \<Rightarrow> lineage \<Rightarrow> bool" where
  "canary_lineage symbol l \<longleftrightarrow> ln_strategy_id l = PAPER_CANARY_STRATEGY_ID \<or> ln_venue_symbol l = symbol"

definition check_canary_account :: "account_v2 \<Rightarrow> string \<Rightarrow> string \<Rightarrow> int \<Rightarrow> int \<Rightarrow> unit res" where
  "check_canary_account acct account_id symbol now_ms max_age_ms =
     (let account_age_ms = now_ms - a2_captured_at_ms acct in
      if a2_trading_mode acct \<noteq> PAPER \<or> a2_evedex_profile acct \<noteq> DEV \<or> a2_account_id acct \<noteq> account_id
      then Inl (preflight ''account snapshot is not authoritative for the dedicated PAPER/DEV account'')
      else if \<not> a2_reconciled acct \<or> a2_reconciliation_seq acct \<le> 0
      then Inl (preflight ''account snapshot is not a completed authoritative reconciliation'')
      else if account_age_ms < 0
      then Inl (preflight ''account snapshot is from the future'')
      else if max_age_ms < account_age_ms
      then Inl (preflight ''account snapshot is stale'')
      else if \<exists>p \<in> set (a2_positions acct). canary_lineage symbol (p2_lineage p)
      then Inl (preflight ''an active canary or same-symbol position already exists'')
      else if \<exists>r \<in> set (a2_open_orders acct). canary_lineage symbol (o2_lineage r)
      then Inl (preflight ''an active canary or same-symbol open order already exists'')
      else Inr ())"

definition check_instrument :: "instrument_rule \<Rightarrow> string \<Rightarrow> int \<Rightarrow> unit res" where
  "check_instrument r symbol now_ms =
     (let fetch_age_ms = now_ms - ir_fetched_at_ms r in
      if ir_venue_symbol r \<noteq> symbol
      then Inl (preflight ''instrument rule belongs to a different EVEDEX DEV instrument'')
      else if fetch_age_ms < - MAX_INSTRUMENT_FETCH_CLOCK_SKEW_MS
      then Inl (preflight ''instrument rule fetch time is from the future'')
      else if MAX_INSTRUMENT_FETCH_AGE_MS < fetch_age_ms
      then Inl (preflight ''instrument rule fetch is stale'')
      else if now_ms + MAX_INSTRUMENT_FETCH_CLOCK_SKEW_MS < ir_updated_at_ms r
      then Inl (preflight ''instrument rule update time is from the future'')
      else Inr ())"

text \<open>A plan's symbol is one of the map's keys, so the lookup does not raise.\<close>

definition validate_inputs :: "canary_plan \<Rightarrow> canary_inputs \<Rightarrow> string \<Rightarrow> int \<Rightarrow> int \<Rightarrow> unit res" where
  "validate_inputs plan inputs account_id now_ms account_max_age_ms =
     (case check_bar plan (kn_bar inputs) now_ms of
        Inl e \<Rightarrow> Inl e
      | Inr _ \<Rightarrow>
     (case map_of PAPER_DEV_SYMBOL_MAP (kp_symbol plan) of
        None \<Rightarrow> Inl (RuntimeError ''KeyError'')
      | Some symbol \<Rightarrow>
     (case check_venue (kn_venue inputs) symbol now_ms of
        Inl e \<Rightarrow> Inl e
      | Inr _ \<Rightarrow>
     (case check_canary_account (kn_account inputs) account_id symbol now_ms account_max_age_ms of
        Inl e \<Rightarrow> Inl e
      | Inr _ \<Rightarrow>
          if kn_active_reservation_ids inputs \<noteq> []
          then Inl (preflight ''another durable technical-canary approval is still reserved'')
          else check_instrument (kn_instrument inputs) symbol now_ms))))"

section \<open>The intent\<close>

text \<open>\<open>quantize\<close> to eight places raises when the result has more than 28 digits.\<close>

definition price_quantum :: "rat \<Rightarrow> rat res" where
  "price_quantum q =
     (let n = round_half_even (q * 100000000)
      in if 10 ^ 28 \<le> \<bar>n\<bar> then Inl (ArithmeticError ''InvalidOperation'') else Inr (of_int n / 100000000))"

definition offset_price :: "rat \<Rightarrow> bool \<Rightarrow> rat \<Rightarrow> rat res" where
  "offset_price reference upwards fraction =
     (case dec_context (if upwards then 1 + fraction else 1 - fraction) of
        Inl e \<Rightarrow> Inl e
      | Inr multiplier \<Rightarrow>
         (case dec_context (reference * multiplier) of Inl e \<Rightarrow> Inl e | Inr price \<Rightarrow> Inr price))"

definition bps_fraction :: "pyfloat \<Rightarrow> rat res" where
  "bps_fraction points = dec_div (dval (decimal_of_float points)) 10000"

definition exit_prices :: "canary_plan \<Rightarrow> rat \<Rightarrow> (pyfloat \<times> pyfloat) res" where
  "exit_prices plan reference =
     (let long = (kp_side plan = LONG) in
      case bps_fraction (kp_stop_distance_bps plan) of
        Inl e \<Rightarrow> Inl e
      | Inr stop_fraction \<Rightarrow>
     (case bps_fraction (kp_target_distance_bps plan) of
        Inl e \<Rightarrow> Inl e
      | Inr target_fraction \<Rightarrow>
     (case offset_price reference (\<not> long) stop_fraction of
        Inl e \<Rightarrow> Inl e
      | Inr stop \<Rightarrow>
     (case offset_price reference long target_fraction of
        Inl e \<Rightarrow> Inl e
      | Inr target \<Rightarrow>
     (case price_quantum stop of
        Inl e \<Rightarrow> Inl e
      | Inr stop_price \<Rightarrow>
     (case price_quantum target of
        Inl e \<Rightarrow> Inl e
      | Inr target_price \<Rightarrow> Inr (to_float stop_price, to_float target_price)))))))"

definition reward_bps :: "pyfloat \<Rightarrow> pyfloat \<Rightarrow> pyfloat res" where
  "reward_bps target_price reference_price =
     ebind (py_div \<bar>target_price - reference_price\<bar> reference_price) (\<lambda>r. Inr (r * Fin 10000))"


definition canary_features :: "digest \<Rightarrow> canary_plan \<Rightarrow> instrument_rule \<Rightarrow> pydecimal \<Rightarrow> pyfloat \<Rightarrow>
    pyfloat \<Rightarrow> pyfloat \<Rightarrow> pyfloat \<Rightarrow> canon" where
  "canary_features digest plan r quantity reward reference stop target =
     CObject
       [(''canary_quantity'', CDecimal quantity), (''gross_reward_bps'', CFloat reward),
        (''instrument_rules_sha256'', CText (rules_sha256 (rules_digest digest) r)),
        (''reference_price'', CFloat reference), (''side'', CText (side_text (kp_side plan))),
        (''stop_price'', CFloat stop), (''target_price'', CFloat target)]"

definition bar_reference :: "closed_bar \<Rightarrow> string \<Rightarrow> evidence_ref" where
  "bar_reference bar bar_hash =
     \<lparr>ev_kind = ''closed_bar'',
      ev_reference = ''BINANCE_UM:'' @ cb_symbol bar @ '':'' @ text_of_int (cb_open_time_ms bar),
      ev_content_sha256 = Some bar_hash, ev_observed_at_ms = cb_close_time_ms bar\<rparr>"

text \<open>
  The arguments of the constructor; identities, venue and version are the contract's to fill in.
\<close>

definition intent_draft ::
    "canary_core \<Rightarrow> canary_plan \<Rightarrow> closed_bar \<Rightarrow> string \<Rightarrow> instrument_rule \<Rightarrow> string \<Rightarrow> pydecimal \<Rightarrow>
     pyfloat \<Rightarrow> pyfloat \<Rightarrow> pyfloat \<Rightarrow> pyfloat \<Rightarrow> strategy_intent" where
  "intent_draft core plan bar bar_hash r account_id quantity reference stop target reward =
     (let digest = kc_digest core in
      \<lparr>in_contract_version = [], in_intent_id = None, in_message_id = [], in_source = CANARY_SOURCE,
       in_symbol = cb_symbol bar, in_venue = [], in_side = kp_side plan,
       in_strategy_id = PAPER_CANARY_STRATEGY_ID, in_strategy_revision = CANARY_STRATEGY_REVISION,
       in_decision_ts_ms = cb_close_time_ms bar, in_entry_eligible_ts_ms = cb_close_time_ms bar + 1,
       in_entry_expires_ts_ms = cb_close_time_ms bar + 1 + kp_entry_window_ms plan,
       in_reference_price = reference, in_signal_strength = Fin 0, in_gross_reward_bps = reward,
       in_exit_plan =
         \<lparr>xp_stop_price = stop, xp_target_price = target, xp_max_holding_ms = kp_max_holding_ms plan, xp_payload = []\<rparr>,
       in_provenance =
         \<lparr>pv_strategy_code_sha256 = kc_code_sha256 core, pv_config_sha256 = digest (identity_payload plan),
          pv_input_window_sha256 = digest (CObject [(''bar_sha256s'', CList [CText bar_hash])]),
          pv_features_sha256 = digest (canary_features digest plan r quantity reward reference stop target),
          pv_input_bar_sha256s = [bar_hash]\<rparr>,
       in_evidence = [bar_reference bar bar_hash, rule_evidence (rules_digest digest) r],
       in_metadata = canary_metadata (rules_digest digest) account_id r quantity, in_payload = []\<rparr>)"

definition worst_entry :: "side \<Rightarrow> venue_quality \<Rightarrow> pyfloat" where
  "worst_entry sd venue = (if sd = LONG then vq_best_ask venue else vq_best_bid venue)"

definition build_intent ::
    "canary_core \<Rightarrow> canary_plan \<Rightarrow> canary_inputs \<Rightarrow> string \<Rightarrow> strategy_intent res" where
  "build_intent core plan inputs account_id =
     (let bar = kn_bar inputs; r = kn_instrument inputs; close = decimal_of_float (cb_close bar) in
      if \<not> dec_finite close then Inl (ArithmeticError ''InvalidOperation'')
      else case exit_prices plan (dval close) of
        Inl e \<Rightarrow> Inl e
      | Inr (stop, target) \<Rightarrow>
     (let reference = float_of_decimal close in
      case reward_bps target reference of
        Inl e \<Rightarrow> Inl e
      | Inr reward \<Rightarrow>
     (case cb_bar_sha256 bar of
        None \<Rightarrow> Inl (preflight ''closed bar has no canonical SHA-256'')
      | Some bar_hash \<Rightarrow>
     (case effective_min_quantity r (decimal_of_float (worst_entry (kp_side plan) (kn_venue inputs))) of
        Inl e \<Rightarrow> Inl e
      | Inr quantity \<Rightarrow>
          kc_intent core
            (intent_draft core plan bar bar_hash r account_id quantity reference stop target reward)))))"

definition executable_geometry :: "strategy_intent \<Rightarrow> venue_quality \<Rightarrow> unit res" where
  "executable_geometry intent venue =
     (let stop = xp_stop_price (in_exit_plan intent); target = xp_target_price (in_exit_plan intent) in
      if in_side intent = LONG \<and> \<not> (stop < vq_best_ask venue \<and> vq_best_ask venue < target)
      then Inl (preflight ''LONG stop/target do not protect the current EVEDEX worst entry'')
      else if in_side intent = SHORT \<and> \<not> (target < vq_best_bid venue \<and> vq_best_bid venue < stop)
      then Inl (preflight ''SHORT stop/target do not protect the current EVEDEX worst entry'')
      else Inr ())"

section \<open>Route, review and allocation\<close>

definition canary_route :: "strategy_intent \<Rightarrow> closed_bar \<Rightarrow> candidate_route" where
  "canary_route intent bar =
     \<lparr>rt_route_id = None, rt_message_id = [], rt_source = CANARY_SOURCE,
      rt_correlation_id = in_intent_id intent, rt_causation_id = in_message_id intent, rt_intent = intent,
      rt_review_tier = ''NORMAL'', rt_requested_reasoning_effort = ''MEDIUM'',
      rt_routed_at_ms = cb_close_time_ms bar, rt_review_deadline_ms = in_entry_expires_ts_ms intent,
      rt_evidence_ids = List.map_filter ev_content_sha256 (in_evidence intent), rt_payload = []\<rparr>"

definition canary_review :: "strategy_intent \<Rightarrow> candidate_route \<Rightarrow> candidate_review" where
  "canary_review intent route =
     \<lparr>cr_message_id = [], cr_review_id = None, cr_source = CANARY_SOURCE,
      cr_correlation_id = in_intent_id intent, cr_causation_id = rt_message_id route, cr_decision = ALLOW,
      cr_reviewed_at_ms = in_entry_eligible_ts_ms intent, cr_intent = intent, cr_route = route,
      cr_priority = 0, cr_reviewer = ''DETERMINISTIC'', cr_model_provenance = None,
      cr_reason_codes = [CANARY_REASON], cr_evidence = in_evidence intent, cr_payload = []\<rparr>"

text \<open>The identity is computed from the arguments, the schema version as the literal \<open>1.0\<close>.\<close>

definition allocation_draft :: "canary_core \<Rightarrow> strategy_intent \<Rightarrow> side \<Rightarrow> strategic_allocation" where
  "allocation_draft core intent sd =
     \<lparr>sa_source = CANARY_SOURCE, sa_message_id = [], sa_correlation_id = in_intent_id intent,
      sa_causation_id = Some (in_message_id intent), sa_schema_version = [],
      sa_produced_at = kc_datetime core (in_entry_eligible_ts_ms intent), sa_regime = canary_regime sd,
      sa_stable_reserve_pct = Fin 1 - CANARY_ALLOCATION_WEIGHT,
      sa_strategy_weights = [(PAPER_CANARY_STRATEGY_ID, CANARY_ALLOCATION_WEIGHT)],
      sa_max_gross_leverage = Fin 1, sa_triggered_by = ''SCHEDULE'', sa_rationale = CANARY_ALLOCATION_RATIONALE\<rparr>"

definition build_canary_allocation ::
    "canary_core \<Rightarrow> strategy_intent \<Rightarrow> canary_plan \<Rightarrow> strategic_allocation res" where
  "build_canary_allocation core intent plan =
     (let draft = allocation_draft core intent (kp_side plan);
          message_id = kc_digest core (allocation_document (draft\<lparr>sa_schema_version := ''1.0''\<rparr>)
            (in_entry_eligible_ts_ms intent))
      in kc_allocation core (draft\<lparr>sa_message_id := message_id\<rparr>))"

text \<open>
  \<open>datetime.fromtimestamp(now_ms / 1_000, tz=UTC)\<close> of a non-negative clock: the fraction of
  the float quotient, times a million, rounded to even. \<open>now_ms\<close> within the datetime range.
\<close>

definition utc_from_ms :: "int \<Rightarrow> pydatetime res" where
  "utc_from_ms now_ms =
     (if 253402300800000 \<le> now_ms then Inl (ValueError ''year is out of range'')
      else
        (let s = rnd64 (of_int now_ms / 1000); whole = \<lfloor>s\<rfloor> in
         Inr (Aware (whole * 1000000 + round_half_even (rnd64 ((s - of_int whole) * 1000000))))))"

definition weight_of :: "strategic_allocation \<Rightarrow> string \<Rightarrow> pyfloat" where
  "weight_of a strategy_id =
     (case map_of (sa_strategy_weights a) strategy_id of None \<Rightarrow> Fin 0 | Some w \<Rightarrow> w)"

definition current_allocation_status :: "strategic_allocation \<Rightarrow> canary_plan \<Rightarrow> bool \<times> string" where
  "current_allocation_status a plan =
     (if weight_of a PAPER_CANARY_STRATEGY_ID \<le> Fin 0
      then (False, ''technical-canary has no positive weight'')
      else if Fin 1 < sa_max_gross_leverage a
      then (False, ''current allocation exceeds 1x canary leverage'')
      else if sa_regime a = CHOP then (False, ''CHOP blocks canary entry'')
      else if sa_regime a = BEAR \<and> kp_side plan = LONG then (False, ''BEAR blocks LONG'')
      else if sa_regime a = BULL \<and> kp_side plan = SHORT then (False, ''BULL blocks SHORT'')
      else (True, ''current allocation already permits this canary''))"

definition allocation_status ::
    "strategic_allocation option \<Rightarrow> canary_plan \<Rightarrow> int \<Rightarrow> pyfloat \<Rightarrow> (bool \<times> string) res" where
  "allocation_status allocation plan now_ms max_age_s =
     (case allocation of
        None \<Rightarrow> Inr (False, ''missing; an armed review will carry a bound deterministic canary allocation'')
      | Some a \<Rightarrow>
     (case allocation_error a of
        Some invalid \<Rightarrow> Inr (False, invalid)
      | None \<Rightarrow>
     (case utc_from_ms now_ms of
        Inl e \<Rightarrow> Inl e
      | Inr current \<Rightarrow>
          Inr (if \<not> is_fresh a max_age_s current then (False, ''stale'') else current_allocation_status a plan))))"

section \<open>Preparation\<close>

definition seal_review ::
    "canary_core \<Rightarrow> strategy_intent \<Rightarrow> closed_bar \<Rightarrow> candidate_review res" where
  "seal_review core intent bar =
     (case kc_route core (canary_route intent bar) of
        Inl e \<Rightarrow> Inl e
      | Inr route \<Rightarrow> kc_review core (canary_review intent route))"

definition prepare_canary ::
    "canary_core \<Rightarrow> canary_plan \<Rightarrow> canary_inputs \<Rightarrow> string \<Rightarrow> int \<Rightarrow> int \<Rightarrow> pyfloat \<Rightarrow> prepared_canary res" where
  "prepare_canary core plan inputs account_id now_ms account_max_age_ms allocation_max_age_s =
     ebind (validate_now now_ms) (\<lambda>_.
     ebind (validate_inputs plan inputs account_id now_ms account_max_age_ms) (\<lambda>_.
     ebind (build_intent core plan inputs account_id) (\<lambda>intent.
     ebind (executable_geometry intent (kn_venue inputs)) (\<lambda>_.
     ebind (seal_review core intent (kn_bar inputs)) (\<lambda>review.
     ebind (build_canary_allocation core intent plan) (\<lambda>allocation.
     ebind (allocation_status (kn_current_allocation inputs) plan now_ms allocation_max_age_s) (\<lambda>(ready, reason).
       Inr \<lparr>pn_allocation = allocation, pn_review = review, pn_current_allocation_ready = ready,
            pn_current_allocation_reason = reason\<rparr>)))))))"

section \<open>One session\<close>

text \<open>
  A session object holds whether it was used. \<open>load\<close> is the input source and \<open>arm_repository\<close>
  the durable one, each possibly raising; the third result lists the arm requests that reached the
  repository.
\<close>

record arm_request =
  aq_account_id :: string
  aq_review :: candidate_review
  aq_allocation :: strategic_allocation
  aq_session_id :: "string option"
  aq_slot_id :: "string option"

record run_request =
  rq_account_id :: string
  rq_now_ms :: int
  rq_publish :: bool
  rq_arm :: "string option"
  rq_account_max_age_ms :: int
  rq_allocation_max_age_s :: pyfloat
  rq_session_id :: "string option"
  rq_slot_id :: "string option"

type_synonym arm_repository = "arm_request \<Rightarrow> canary_arm res"

definition given :: "string option \<Rightarrow> bool" where
  "given x \<longleftrightarrow> x \<noteq> None \<and> x \<noteq> Some []"

definition publish_authority :: "arm_repository option \<Rightarrow> run_request \<Rightarrow> unit res" where
  "publish_authority repository q =
     (if rq_publish q \<and> rq_arm q \<noteq> Some CANARY_ARM_PHRASE
      then Inl (arming ''exact DEV PAPER canary arm phrase is required for publication'')
      else if rq_publish q \<and> repository = None
      then Inl (arming ''publication requested without a durable canary-arm repository'')
      else if rq_publish q \<and> (\<not> given (rq_session_id q) \<or> \<not> given (rq_slot_id q))
      then Inl (arming ''publication requires a verified bounded session_id and slot_id'')
      else Inr ())"

definition request_of :: "run_request \<Rightarrow> prepared_canary \<Rightarrow> arm_request" where
  "request_of q prepared =
     \<lparr>aq_account_id = rq_account_id q, aq_review = pn_review prepared, aq_allocation = pn_allocation prepared,
      aq_session_id = rq_session_id q, aq_slot_id = rq_slot_id q\<rparr>"

definition publish_prepared ::
    "digest \<Rightarrow> arm_repository option \<Rightarrow> run_request \<Rightarrow> prepared_canary \<Rightarrow> arm_request list \<times> canary_run_result res" where
  "publish_prepared digest repository q prepared =
     (case repository of
        None \<Rightarrow> ([], Inl (arming ''publication requested without a durable canary-arm repository''))
      | Some arm \<Rightarrow>
     (case validate_canary_binding digest (pn_review prepared) (pn_allocation prepared) (rq_account_id q) of
        Inl e \<Rightarrow> ([], Inl e)
      | Inr _ \<Rightarrow>
         (let request = request_of q prepared in
          case ebind (arm request) (\<lambda>record.
              validate_armed_record digest record (pn_review prepared) (pn_allocation prepared)
                (rq_account_id q) (rq_now_ms q)) of
            Inl _ \<Rightarrow> ([request], Inl publish_failed)
          | Inr arm_id \<Rightarrow>
              ([request], Inr \<lparr>rr_prepared = prepared, rr_published = True, rr_arm_id = Some arm_id\<rparr>))))"

definition session_run ::
    "canary_core \<Rightarrow> (canary_plan \<Rightarrow> string \<Rightarrow> canary_inputs res) \<Rightarrow> arm_repository option \<Rightarrow> bool \<Rightarrow>
     canary_plan \<Rightarrow> run_request \<Rightarrow> bool \<times> arm_request list \<times> canary_run_result res" where
  "session_run core load repository used plan q =
     (if used
      then (used, [], Inl (RuntimeError ''CanaryError: this canary session already prepared one candidate''))
      else
        (True,
         case publish_authority repository q of
           Inl e \<Rightarrow> ([], Inl e)
         | Inr _ \<Rightarrow>
        (case ebind (load plan (rq_account_id q)) (\<lambda>inputs.
            prepare_canary core plan inputs (rq_account_id q) (rq_now_ms q) (rq_account_max_age_ms q)
              (rq_allocation_max_age_s q)) of
           Inl e \<Rightarrow> ([], Inl e)
         | Inr prepared \<Rightarrow>
             if rq_publish q then publish_prepared (kc_digest core) repository q prepared
             else ([], Inr \<lparr>rr_prepared = prepared, rr_published = False, rr_arm_id = None\<rparr>))))"

definition validate_publish_settings :: "risk_settings \<Rightarrow> unit res" where
  "validate_publish_settings s =
     (if rs_trading_mode s \<noteq> PAPER then Inl (arming ''publication requires KAIROS_TRADING_MODE=PAPER'')
      else if rs_evedex_profile s \<noteq> DEV then Inl (arming ''publication requires the exact EVEDEX DEV profile'')
      else if cs_bus_backend s = ''memory'' then Inl (arming ''publication requires durable Redis/PostgreSQL transport'')
      else if \<not> paper_strategy_allowed s PAPER_CANARY_STRATEGY_ID CANARY_STRATEGY_REVISION
      then Inl (arming ''publication requires KAIROS_PAPER_STRATEGY_ALLOWLIST containing technical-canary@1'')
      else Inr ())"

text \<open>
  The command: its effects on the database in order, and its result. Files, settings, connection,
  migration, input source, repository and clock are parameters; a preview builds no repository.
\<close>

record cli_args =
  ca_symbol :: string
  ca_side :: side
  ca_stop_bps :: pyfloat
  ca_target_bps :: pyfloat
  ca_timeout_seconds :: int
  ca_entry_window_seconds :: int
  ca_publish :: bool
  ca_session_id :: "string option"
  ca_slot_id :: "string option"
  ca_arm :: "string option"

record cli_world =
  cw_settings :: "risk_settings res"
  cw_connect :: "unit res"
  cw_migrate :: "unit res"
  cw_now_ms :: int
  cw_core :: canary_core
  cw_load :: "canary_plan \<Rightarrow> string \<Rightarrow> canary_inputs res"
  cw_repository :: arm_repository

datatype cli_effect = CliConnected | CliMigrated | CliArm arm_request | CliClosed

definition cli_plan :: "cli_args \<Rightarrow> canary_plan res" where
  "cli_plan args =
     mk_canary_plan
       \<lparr>kp_symbol = ca_symbol args, kp_side = ca_side args, kp_stop_distance_bps = ca_stop_bps args,
        kp_target_distance_bps = ca_target_bps args, kp_max_holding_ms = ca_timeout_seconds args * 1000,
        kp_entry_window_ms = ca_entry_window_seconds args * 1000\<rparr>"

definition cli_request :: "cli_args \<Rightarrow> risk_settings \<Rightarrow> int \<Rightarrow> run_request" where
  "cli_request args s now_ms =
     \<lparr>rq_account_id = rs_paper_account_id s, rq_now_ms = now_ms, rq_publish = ca_publish args,
      rq_arm = (if ca_publish args then ca_arm args else None),
      rq_account_max_age_ms = py_int (rs_paper_account_snapshot_max_age_s s * Fin 1000),
      rq_allocation_max_age_s = rs_strategic_allocation_max_age_s s,
      rq_session_id = (if ca_publish args then ca_session_id args else None),
      rq_slot_id = (if ca_publish args then ca_slot_id args else None)\<rparr>"

definition cli_authority :: "cli_args \<Rightarrow> risk_settings \<Rightarrow> unit res" where
  "cli_authority args s =
     (if \<not> ca_publish args then Inr ()
      else if ca_arm args \<noteq> Some CANARY_ARM_PHRASE
      then Inl (arming ''exact DEV PAPER canary arm phrase is required for publication'')
      else if \<not> given (ca_session_id args) \<or> \<not> given (ca_slot_id args)
      then Inl (arming ''publication requires a verified bounded session_id and slot_id'')
      else validate_publish_settings s)"

definition run_connected :: "cli_world \<Rightarrow> cli_args \<Rightarrow> risk_settings \<Rightarrow> canary_plan \<Rightarrow> cli_effect list \<times> canary_run_result res" where
  "run_connected w args s plan =
     (let q = cli_request args s (cw_now_ms w) in
      case if ca_publish args then cw_migrate w else Inr () of
        Inl e \<Rightarrow> ([], Inl e)
      | Inr _ \<Rightarrow>
         (case session_run (cw_core w) (cw_load w) (if ca_publish args then Some (cw_repository w) else None) False plan q of
            (_, calls, outcome) \<Rightarrow>
              ((if ca_publish args then [CliMigrated] else []) @ map CliArm calls, outcome)))"

definition run_canary_cli :: "cli_world \<Rightarrow> cli_args \<Rightarrow> cli_effect list \<times> canary_run_result res" where
  "run_canary_cli w args =
     (case ebind (cw_settings w) (\<lambda>s. ebind (cli_plan args) (\<lambda>plan.
          ebind (cli_authority args s) (\<lambda>_. ebind (cw_connect w) (\<lambda>_. Inr (s, plan))))) of
        Inl e \<Rightarrow> ([], Inl e)
      | Inr (s, plan) \<Rightarrow>
         (case run_connected w args s plan of
            (effects, outcome) \<Rightarrow> (CliConnected # effects @ [CliClosed], outcome)))"

definition result_summary :: "canary_run_result \<Rightarrow> (string \<times> canon) list" where
  "result_summary result =
     (let prepared = rr_prepared result; review = pn_review prepared; intent = cr_intent review;
          stored = (\<lambda>key. opt_text (map_of (rev (in_metadata intent)) key))
      in
      [(''account_id'', stored ''account_id''), (''arm_id'', opt_text (rr_arm_id result)),
       (''allocation_message_id'', CText (sa_message_id (pn_allocation prepared))),
       (''current_allocation_ready'', CBool (pn_current_allocation_ready prepared)),
       (''current_allocation_reason'', CText (pn_current_allocation_reason prepared)),
       (''entry_eligible_ts_ms'', CInt (in_entry_eligible_ts_ms intent)),
       (''entry_expires_ts_ms'', CInt (in_entry_expires_ts_ms intent)),
       (''intent_id'', opt_text (in_intent_id intent)),
       (''instrument_rules_sha256'', stored ''instrument_rules_sha256''),
       (''mode'', CText (if rr_published result then ''PUBLISHED'' else ''PREVIEW'')),
       (''review_id'', opt_text (cr_review_id review)), (''route_id'', opt_text (rt_route_id (cr_route review))),
       (''side'', CText (side_text (in_side intent))), (''strategy'', CText CANARY_STRATEGY_REF),
       (''symbol'', CText (in_symbol intent)), (''quantity'', stored ''canary_quantity''),
       (''target_price'', CFloat (xp_target_price (in_exit_plan intent))),
       (''timeout_ms'', CInt (xp_max_holding_ms (in_exit_plan intent))),
       (''venue_symbol'', stored ''venue_symbol''), (''stop_price'', CFloat (xp_stop_price (in_exit_plan intent)))])"


section \<open>A prepared canary passes its own binding check\<close>

text \<open>
  What the contracts do with the arguments they are given: they assign the identities and fill in
  what the program leaves out, a route may put its evidence identifiers in canonical order, and
  \<open>datetime_from_unix_ms\<close> is the aware stamp of a number of milliseconds.
\<close>

definition keeps_intent :: "(strategy_intent \<Rightarrow> strategy_intent res) \<Rightarrow> bool" where
  "keeps_intent f \<longleftrightarrow>
     (\<forall>i i'. f i = Inr i' \<longrightarrow>
       (\<exists>m cv v p. i' = i\<lparr>in_intent_id := Some m, in_message_id := m, in_contract_version := cv, in_venue := v,
          in_payload := p\<rparr>))"

definition keeps_route :: "(candidate_route \<Rightarrow> candidate_route res) \<Rightarrow> bool" where
  "keeps_route f \<longleftrightarrow>
     (\<forall>r r'. f r = Inr r' \<longrightarrow>
       (\<exists>m p ids. mset ids = mset (rt_evidence_ids r) \<and>
          r' = r\<lparr>rt_route_id := Some m, rt_message_id := m, rt_evidence_ids := ids, rt_payload := p\<rparr>))"

definition keeps_review :: "(candidate_review \<Rightarrow> candidate_review res) \<Rightarrow> bool" where
  "keeps_review f \<longleftrightarrow>
     (\<forall>r r'. f r = Inr r' \<longrightarrow>
       (\<exists>m p. r' = r\<lparr>cr_review_id := Some m, cr_message_id := m, cr_payload := p\<rparr>))"

definition keeps_allocation :: "(strategic_allocation \<Rightarrow> strategic_allocation res) \<Rightarrow> bool" where
  "keeps_allocation f \<longleftrightarrow> (\<forall>a a'. f a = Inr a' \<longrightarrow> a' = a\<lparr>sa_schema_version := ''1.0''\<rparr>)"

definition lawful_core :: "canary_core \<Rightarrow> bool" where
  "lawful_core core \<longleftrightarrow>
     keeps_intent (kc_intent core) \<and> keeps_route (kc_route core) \<and> keeps_review (kc_review core) \<and>
     keeps_allocation (kc_allocation core) \<and> (\<forall>ms. kc_datetime core ms = Aware (ms * 1000))"

lemma prepareE:
  assumes "prepare_canary core plan inputs account_id now_ms max_age_ms max_age_s = Inr p"
  obtains i where "0 \<le> now_ms" "validate_inputs plan inputs account_id now_ms max_age_ms = Inr ()"
    "build_intent core plan inputs account_id = Inr i" "executable_geometry i (kn_venue inputs) = Inr ()"
    "seal_review core i (kn_bar inputs) = Inr (pn_review p)"
    "build_canary_allocation core i plan = Inr (pn_allocation p)"
  using assms by (auto simp: prepare_canary_def validate_now_def split: if_split_asm)

lemma build_intentE:
  assumes "build_intent core plan inputs account_id = Inr i"
  obtains bar_hash q ref stop target reward where
    "cb_bar_sha256 (kn_bar inputs) = Some bar_hash"
    "effective_min_quantity (kn_instrument inputs)
       (decimal_of_float (worst_entry (kp_side plan) (kn_venue inputs))) = Inr q"
    "kc_intent core (intent_draft core plan (kn_bar inputs) bar_hash (kn_instrument inputs) account_id q ref stop
       target reward) = Inr i"
  using assms by (auto simp: build_intent_def Let_def split: if_split_asm sum.splits prod.splits option.splits)

text \<open>The intent as the draft's fields.\<close>

lemma sealed_intent:
  assumes "keeps_intent (kc_intent core)"
    and "kc_intent core (intent_draft core plan bar bar_hash r account_id q ref stop target reward) = Inr i"
  shows "in_source i = CANARY_SOURCE \<and> in_symbol i = cb_symbol bar \<and> in_side i = kp_side plan \<and>
    in_strategy_id i = PAPER_CANARY_STRATEGY_ID \<and> in_strategy_revision i = CANARY_STRATEGY_REVISION \<and>
    in_intent_id i = Some (in_message_id i) \<and> in_decision_ts_ms i = cb_close_time_ms bar \<and>
    in_entry_eligible_ts_ms i = cb_close_time_ms bar + 1 \<and>
    in_entry_expires_ts_ms i = cb_close_time_ms bar + 1 + kp_entry_window_ms plan \<and> in_signal_strength i = Fin 0 \<and>
    pv_input_bar_sha256s (in_provenance i) = [bar_hash] \<and>
    in_evidence i = [bar_reference bar bar_hash, rule_evidence (rules_digest (kc_digest core)) r] \<and>
    in_metadata i = canary_metadata (rules_digest (kc_digest core)) account_id r q"
proof -
  obtain m cv v p where "i = (intent_draft core plan bar bar_hash r account_id q ref stop target reward)
      \<lparr>in_intent_id := Some m, in_message_id := m, in_contract_version := cv, in_venue := v, in_payload := p\<rparr>"
    using assms unfolding keeps_intent_def by blast
  then show ?thesis by (simp add: intent_draft_def Let_def)
qed

lemma sealed_review:
  assumes "keeps_route (kc_route core)" "keeps_review (kc_review core)" "seal_review core i bar = Inr review"
  shows "cr_intent review = i \<and> cr_decision review = ALLOW \<and> cr_source review = CANARY_SOURCE \<and>
    cr_reviewer review = ''DETERMINISTIC'' \<and> cr_model_provenance review = None \<and>
    cr_reason_codes review = [CANARY_REASON] \<and> cr_priority review = 0 \<and>
    cr_review_id review = Some (cr_message_id review) \<and> cr_reviewed_at_ms review = in_entry_eligible_ts_ms i \<and>
    cr_evidence review = in_evidence i \<and> rt_source (cr_route review) = CANARY_SOURCE \<and>
    rt_intent (cr_route review) = i \<and> rt_review_tier (cr_route review) = ''NORMAL'' \<and>
    rt_requested_reasoning_effort (cr_route review) = ''MEDIUM'' \<and>
    rt_routed_at_ms (cr_route review) = cb_close_time_ms bar \<and>
    rt_review_deadline_ms (cr_route review) = in_entry_expires_ts_ms i \<and>
    mset (rt_evidence_ids (cr_route review)) = mset (List.map_filter ev_content_sha256 (in_evidence i))"
proof -
  obtain route where r: "kc_route core (canary_route i bar) = Inr route"
    "kc_review core (canary_review i route) = Inr review"
    using assms(3) by (auto simp: seal_review_def split: sum.splits)
  obtain m p ids where route: "mset ids = mset (rt_evidence_ids (canary_route i bar))"
    "route = (canary_route i bar)\<lparr>rt_route_id := Some m, rt_message_id := m, rt_evidence_ids := ids, rt_payload := p\<rparr>"
    using assms(1) r(1) unfolding keeps_route_def by blast
  obtain m' p' where "review = (canary_review i route)\<lparr>cr_review_id := Some m', cr_message_id := m', cr_payload := p'\<rparr>"
    using assms(2) r(2) unfolding keeps_review_def by blast
  then show ?thesis using route by (simp add: canary_review_def canary_route_def)
qed

lemma sealed_allocation:
  assumes "lawful_core core" "build_canary_allocation core i plan = Inr a"
    and "in_side i = kp_side plan" "in_intent_id i = Some (in_message_id i)" "cr_intent review = i"
    and "1099511627776 < in_entry_eligible_ts_ms i" "in_entry_eligible_ts_ms i < 2147483648000"
  shows "validate_canary_allocation (kc_digest core) a review = Inr ()"
proof -
  have d: "kc_datetime core ms = Aware (ms * 1000)" for ms using assms(1) by (simp add: lawful_core_def)
  let ?draft = "allocation_draft core i (kp_side plan)"
  have "a = ?draft\<lparr>sa_message_id := kc_digest core (allocation_document (?draft\<lparr>sa_schema_version := ''1.0''\<rparr>)
      (in_entry_eligible_ts_ms i)), sa_schema_version := ''1.0''\<rparr>"
    using assms(1,2) by (simp add: build_canary_allocation_def Let_def lawful_core_def keeps_allocation_def)
  moreover have "timestamp_ms (Aware (in_entry_eligible_ts_ms i * 1000)) = in_entry_eligible_ts_ms i"
    by (rule timestamp_ms_exact [OF assms(6,7)])
  ultimately show ?thesis
    using assms(3,4,5)
    by (simp add: validate_canary_allocation_def check_allocation_lineage_def allocation_identity_def require_def
        allocation_draft_def allocation_document_def d Let_def)
qed

lemma minimum_within:
  "effective_min_quantity r x = Inr q \<Longrightarrow> dval (ir_min_quantity r) \<le> dval q \<and> dval q \<le> dval (ir_max_quantity r)"
  by (auto simp: effective_min_quantity_def Let_def dec_max_def split: sum.splits if_split_asm)

lemma starts_with_append: "starts_with p (p @ t)"
  by (simp add: starts_with_def)

lemma validate_inputsE:
  assumes "validate_inputs plan inputs account_id now_ms max_age_ms = Inr u"
  obtains symbol where "map_of PAPER_DEV_SYMBOL_MAP (kp_symbol plan) = Some symbol"
    "check_bar plan (kn_bar inputs) now_ms = Inr ()" "check_venue (kn_venue inputs) symbol now_ms = Inr ()"
    "check_canary_account (kn_account inputs) account_id symbol now_ms max_age_ms = Inr ()"
    "kn_active_reservation_ids inputs = []" "check_instrument (kn_instrument inputs) symbol now_ms = Inr ()"
  using assms unfolding validate_inputs_def passed by auto

lemma prepared_evidence:
  assumes "in_evidence i = [bar_reference bar bar_hash, rule_evidence sha r]"
  shows "bar_evidence i = [bar_reference bar bar_hash]"
    "filter (\<lambda>e. ev_kind e = ''venue_instrument'') (in_evidence i) = [rule_evidence sha r]"
    "List.map_filter ev_content_sha256 (in_evidence i) = [bar_hash, rules_sha256 sha r]"
  using assms by (simp_all add: bar_evidence_def bar_reference_def rule_evidence_def map_filter_simps)

lemma prepared_evidence_exact:
  assumes i: "in_symbol i = cb_symbol bar" "in_decision_ts_ms i = cb_close_time_ms bar" "in_signal_strength i = Fin 0"
    "pv_input_bar_sha256s (in_provenance i) = [bar_hash]"
    "in_evidence i = [bar_reference bar bar_hash, rule_evidence sha r]"
    and v: "cr_intent review = i" "cr_reviewed_at_ms review = in_entry_eligible_ts_ms i"
    "cr_evidence review = in_evidence i" "rt_routed_at_ms (cr_route review) = cb_close_time_ms bar"
    "rt_review_deadline_ms (cr_route review) = in_entry_expires_ts_ms i"
    "rt_evidence_ids (cr_route review) = sort [bar_hash, rules_sha256 sha r]"
  shows "evidence_exact review (rules_sha256 sha r)"
proof -
  have "starts_with (''BINANCE_UM:'' @ cb_symbol bar @ '':'') (ev_reference (bar_reference bar bar_hash))"
    using starts_with_append [of "''BINANCE_UM:'' @ cb_symbol bar @ '':''"] by (simp add: bar_reference_def)
  then have "bar_exact i bar_hash (bar_reference bar bar_hash)"
    using i by (simp add: bar_exact_def) (simp add: bar_reference_def)
  moreover have "route_exact review bar_hash (rules_sha256 sha r)" using i v by (simp add: route_exact_def)
  ultimately show ?thesis
    using i v by (simp add: evidence_exact_def prepared_evidence(1) feq_def)
qed

lemma prepared_binding_valid:
  assumes core: "lawful_core core" and rule: "mk_rule (kn_instrument inputs) = Inr (kn_instrument inputs)"
    "\<forall>d \<in> set (rule_decimals (kn_instrument inputs)). storable d"
    "length (digits_of (ir_updated_at_ms (kn_instrument inputs))) \<le> 4300"
    and q: "\<forall>q. effective_min_quantity (kn_instrument inputs)
        (decimal_of_float (worst_entry (kp_side plan) (kn_venue inputs))) = Inr q \<longrightarrow>
        storable q \<and> misaligned q (ir_quantity_increment (kn_instrument inputs)) = Inr False"
    and years: "1099511627776 \<le> cb_close_time_ms (kn_bar inputs)" "cb_close_time_ms (kn_bar inputs) + 1 < 2147483648000"
    and prepared: "prepare_canary core plan inputs account_id now_ms max_age_ms max_age_s = Inr p"
    and ascending: "sorted (rt_evidence_ids (cr_route (pn_review p)))"
  shows "validate_canary_binding (kc_digest core) (pn_review p) (pn_allocation p) account_id = Inr ()"
proof -
  let ?r = "kn_instrument inputs" and ?sha = "rules_digest (kc_digest core)" and ?v = "pn_review p"
  obtain i where *: "validate_inputs plan inputs account_id now_ms max_age_ms = Inr ()"
    "build_intent core plan inputs account_id = Inr i" "seal_review core i (kn_bar inputs) = Inr ?v"
    "build_canary_allocation core i plan = Inr (pn_allocation p)"
    using prepared by (rule prepareE)
  obtain bar_hash m where m: "effective_min_quantity ?r
      (decimal_of_float (worst_entry (kp_side plan) (kn_venue inputs))) = Inr m"
    and i: "in_source i = CANARY_SOURCE" "in_symbol i = cb_symbol (kn_bar inputs)" "in_side i = kp_side plan"
      "in_strategy_id i = PAPER_CANARY_STRATEGY_ID" "in_strategy_revision i = CANARY_STRATEGY_REVISION"
      "in_intent_id i = Some (in_message_id i)" "in_decision_ts_ms i = cb_close_time_ms (kn_bar inputs)"
      "in_entry_eligible_ts_ms i = cb_close_time_ms (kn_bar inputs) + 1" "in_signal_strength i = Fin 0"
      "pv_input_bar_sha256s (in_provenance i) = [bar_hash]"
      "in_evidence i = [bar_reference (kn_bar inputs) bar_hash, rule_evidence ?sha ?r]"
      "in_metadata i = canary_metadata ?sha account_id ?r m"
    using *(2) sealed_intent core unfolding lawful_core_def by (elim build_intentE) blast
  have v: "check_review_policy ?v = Inr ()" "cr_intent ?v = i"
    and w: "cr_reviewed_at_ms ?v = in_entry_eligible_ts_ms i" "cr_evidence ?v = in_evidence i"
      "rt_routed_at_ms (cr_route ?v) = cb_close_time_ms (kn_bar inputs)"
      "rt_review_deadline_ms (cr_route ?v) = in_entry_expires_ts_ms i"
      "mset (rt_evidence_ids (cr_route ?v)) = mset [bar_hash, rules_sha256 ?sha ?r]"
    using sealed_review [OF _ _ *(3)] core i prepared_evidence(3) [OF i(11)]
    by (simp_all add: check_review_policy_def lawful_core_def)
  have ids: "rt_evidence_ids (cr_route ?v) = sort [bar_hash, rules_sha256 ?sha ?r]"
    using ascending w(5) by (metis properties_for_sort)
  have hash: "rules_sha256 ?sha (plain_rule ?r) = rules_sha256 ?sha ?r"
    by (simp add: rules_sha256_def rule_payload_plain [OF rule(1)])
  have "bound_canary_instrument ?sha i account_id = Inr (plain_rule ?r, plain m)"
    using canary_binding_roundtrip [OF rule(1,2) _ _ _ _ rule(3) i(12) prepared_evidence(2) [OF i(11)]] q m
      minimum_within [OF m] by blast
  moreover have "evidence_exact ?v (rules_sha256 ?sha ?r)"
    by (rule prepared_evidence_exact [OF i(2,7,9-11) v(2) w(1-4) ids])
  moreover have "map_of PAPER_DEV_SYMBOL_MAP (in_symbol i) = Some (ir_venue_symbol (plain_rule ?r))"
    using *(1) i(2) by (elim validate_inputsE) (auto simp: check_bar_def check_instrument_def Let_def split: if_split_asm)
  moreover have "validate_canary_allocation (kc_digest core) (pn_allocation p) ?v = Inr ()"
    using years i(8) by (intro sealed_allocation [OF core *(4) i(3,6) v(2)]) auto
  ultimately show ?thesis by (simp add: validate_canary_binding_def bind_instrument_def v hash)
qed



section \<open>One publication per session object\<close>

text \<open>The runs asked of one session object, in order, with the arm requests of each.\<close>

fun session_history ::
    "canary_core \<Rightarrow> (canary_plan \<Rightarrow> string \<Rightarrow> canary_inputs res) \<Rightarrow> arm_repository option \<Rightarrow> bool \<Rightarrow>
     (canary_plan \<times> run_request) list \<Rightarrow> (arm_request list \<times> canary_run_result res) list" where
  "session_history core load repository used [] = []"
| "session_history core load repository used ((plan, q) # runs) =
     (case session_run core load repository used plan q of
        (used', outcome) \<Rightarrow> outcome # session_history core load repository used' runs)"

text \<open>The facts a candidate is prepared from, at the clock of the run.\<close>

definition fresh_facts :: "canary_plan \<Rightarrow> canary_inputs \<Rightarrow> run_request \<Rightarrow> bool" where
  "fresh_facts plan inputs q \<longleftrightarrow>
     (let now = rq_now_ms q; eligible = cb_close_time_ms (kn_bar inputs) + 1; acct = kn_account inputs;
          venue = kn_venue inputs; r = kn_instrument inputs
      in
      eligible \<le> now \<and> now < eligible + kp_entry_window_ms plan \<and> cb_symbol (kn_bar inputs) = kp_symbol plan \<and>
      map_of PAPER_DEV_SYMBOL_MAP (kp_symbol plan) = Some (vq_symbol venue) \<and> ir_venue_symbol r = vq_symbol venue \<and>
      vq_profile venue = DEV \<and> vq_entry_allowed venue \<and> vq_observed_at_ms venue \<le> now \<and>
      now + 1000 \<le> vq_expires_at_ms venue \<and>
      a2_trading_mode acct = PAPER \<and> a2_evedex_profile acct = DEV \<and> a2_account_id acct = rq_account_id q \<and>
      a2_reconciled acct \<and> 0 < a2_reconciliation_seq acct \<and> a2_captured_at_ms acct \<le> now \<and>
      now \<le> a2_captured_at_ms acct + rq_account_max_age_ms q \<and>
      (\<forall>l \<in> set (map p2_lineage (a2_positions acct) @ map o2_lineage (a2_open_orders acct)).
         ln_strategy_id l \<noteq> PAPER_CANARY_STRATEGY_ID \<and> ln_venue_symbol l \<noteq> vq_symbol venue) \<and>
      kn_active_reservation_ids inputs = [] \<and> now - 5000 \<le> ir_fetched_at_ms r \<and> ir_fetched_at_ms r \<le> now + 2000)"

text \<open>What stands behind an arm request: the operator's phrase, a slot, fresh facts, a valid binding.\<close>

definition authorized_request ::
    "canary_core \<Rightarrow> (canary_plan \<Rightarrow> string \<Rightarrow> canary_inputs res) \<Rightarrow> canary_plan \<Rightarrow> run_request \<Rightarrow> arm_request \<Rightarrow> bool" where
  "authorized_request core load plan q request \<longleftrightarrow>
     rq_publish q \<and> rq_arm q = Some CANARY_ARM_PHRASE \<and> given (rq_session_id q) \<and> given (rq_slot_id q) \<and>
     aq_account_id request = rq_account_id q \<and> aq_session_id request = rq_session_id q \<and>
     aq_slot_id request = rq_slot_id q \<and>
     validate_canary_binding (kc_digest core) (aq_review request) (aq_allocation request) (rq_account_id q) = Inr () \<and>
     (\<exists>inputs. load plan (rq_account_id q) = Inr inputs \<and> fresh_facts plan inputs q)"

text \<open>A reported publication: the repository's answer to the one request is a valid record of it.\<close>

definition confirmed ::
    "digest \<Rightarrow> arm_repository option \<Rightarrow> run_request \<Rightarrow> arm_request list \<Rightarrow> canary_run_result \<Rightarrow> bool" where
  "confirmed digest repository q calls res \<longleftrightarrow>
     (\<exists>request arm record. calls = [request] \<and> repository = Some arm \<and> arm request = Inr record \<and>
        validate_armed_record digest record (aq_review request) (aq_allocation request) (rq_account_id q)
          (rq_now_ms q) = Inr (the (rr_arm_id res)))"

lemma validate_inputs_fresh:
  "validate_inputs plan inputs (rq_account_id q) (rq_now_ms q) (rq_account_max_age_ms q) = Inr u \<Longrightarrow> fresh_facts plan inputs q"
  unfolding validate_inputs_def check_bar_def check_venue_def check_canary_account_def check_instrument_def Let_def passed
  by (auto simp: fresh_facts_def Let_def canary_lineage_def MIN_VENUE_TTL_MS_def MAX_INSTRUMENT_FETCH_AGE_MS_def
      MAX_INSTRUMENT_FETCH_CLOCK_SKEW_MS_def)

lemma publish_preparedD:
  assumes "publish_prepared digest repository q p = (calls, outcome)"
  shows "calls = [] \<and> (\<exists>e. outcome = Inl e) \<or>
    calls = [request_of q p] \<and>
      validate_canary_binding digest (pn_review p) (pn_allocation p) (rq_account_id q) = Inr () \<and>
      (\<forall>res. outcome = Inr res \<longrightarrow> confirmed digest repository q calls res)"
  using assms by (auto simp: publish_prepared_def Let_def confirmed_def request_of_def split: option.splits sum.splits)

lemma session_runD:
  assumes "session_run core load repository used plan q = (used', calls, outcome)"
  shows "used' \<and> (calls \<noteq> [] \<longrightarrow> \<not> used) \<and> length calls \<le> 1 \<and>
    (\<forall>request \<in> set calls. authorized_request core load plan q request) \<and>
    (\<forall>res. outcome = Inr res \<longrightarrow> (rr_published res \<longleftrightarrow> calls \<noteq> []) \<and>
       (rr_published res \<longrightarrow> confirmed (kc_digest core) repository q calls res))"
proof (cases "used \<or> publish_authority repository q \<noteq> Inr ()")
  case True
  then show ?thesis using assms by (auto simp: session_run_def split: if_split_asm sum.splits)
next
  case False
  show ?thesis
  proof (cases "ebind (load plan (rq_account_id q)) (\<lambda>inputs.
      prepare_canary core plan inputs (rq_account_id q) (rq_now_ms q) (rq_account_max_age_ms q)
        (rq_allocation_max_age_s q))")
    case (Inl e)
    then show ?thesis using assms False by (auto simp: session_run_def)
  next
    case (Inr p)
    then obtain inputs where l: "load plan (rq_account_id q) = Inr inputs"
      "prepare_canary core plan inputs (rq_account_id q) (rq_now_ms q) (rq_account_max_age_ms q)
        (rq_allocation_max_age_s q) = Inr p"
      by auto
    have fresh: "fresh_facts plan inputs q" using l(2) by (rule prepareE) (erule validate_inputs_fresh)
    show ?thesis
    proof (cases "rq_publish q")
      case False
      then show ?thesis using assms \<open>\<not> (used \<or> _)\<close> Inr by (auto simp: session_run_def)
    next
      case True
      then have pub: "publish_prepared (kc_digest core) repository q p = (calls, outcome)" "used'"
        using assms False Inr by (auto simp: session_run_def)
      have "rq_arm q = Some CANARY_ARM_PHRASE" "given (rq_session_id q)" "given (rq_slot_id q)"
        using False True by (auto simp: publish_authority_def split: if_split_asm)
      moreover have "outcome = Inr res \<Longrightarrow> rr_published res" for res
        using pub(1) by (auto simp: publish_prepared_def Let_def split: option.splits sum.splits)
      ultimately show ?thesis
        using publish_preparedD [OF pub(1)] pub(2) True False l(1) fresh
        by (auto simp: authorized_request_def request_of_def)
    qed
  qed
qed

lemma used_session_silent:
  "c \<in> set (session_history core load repository True runs) \<Longrightarrow> fst c = []"
  by (induction core load repository True runs rule: session_history.induct) (auto simp: session_run_def)

lemma session_history_calls:
  "length (concat (map fst (session_history core load repository used runs))) \<le> 1"
proof (cases runs)
  case (Cons run rest)
  obtain plan q where run: "run = (plan, q)" by force
  obtain used' calls outcome where r: "session_run core load repository used plan q = (used', calls, outcome)"
    using prod_cases3 by blast
  have silent: "concat (map fst (session_history core load repository True rest)) = []"
    using used_session_silent [of _ core load repository rest] by simp
  show ?thesis using r session_runD [OF r] by (simp add: Cons run silent)
qed simp

lemma session_history_member:
  "(calls, outcome) \<in> set (session_history core load repository used runs) \<Longrightarrow>
   \<exists>plan q u u'. (plan, q) \<in> set runs \<and> session_run core load repository u plan q = (u', calls, outcome)"
proof (induction runs arbitrary: used)
  case (Cons run rest)
  obtain plan q where run: "run = (plan, q)" by force
  obtain used' c out where r: "session_run core load repository used plan q = (used', c, out)"
    using prod_cases3 by blast
  show ?case
  proof (cases "(calls, outcome) = (c, out)")
    case True
    then show ?thesis using r run by (intro exI [of _ plan] exI [of _ q] exI [of _ used] exI [of _ used']) simp
  next
    case False
    then have "(calls, outcome) \<in> set (session_history core load repository used' rest)"
      using Cons.prems by (auto simp: run r)
    then show ?thesis using Cons.IH by fastforce
  qed
qed simp

text \<open>
  C9. One session object arms at most one candidate, and only on full authority. Whatever runs are
  asked of it, at most one arm request reaches the durable repository in all of them; that
  request comes from a run that asked for publication with the exact phrase, a session and a slot,
  and carries a review and an allocation that pass the binding check and were prepared from facts
  fresh at the run's clock, without an active canary, a position or an order on the symbol. A run
  reports a publication exactly when its request was made and answered by a valid record.
\<close>

theorem session_arms_at_most_one_authorized_candidate:
  "length (concat (map fst (session_history core load repository used runs))) \<le> 1 \<and>
   (\<forall>(calls, outcome) \<in> set (session_history core load repository used runs).
      (\<forall>request \<in> set calls. \<exists>(plan, q) \<in> set runs. authorized_request core load plan q request) \<and>
      (\<forall>res. outcome = Inr res \<longrightarrow> (rr_published res \<longleftrightarrow> calls \<noteq> []) \<and>
         (rr_published res \<longrightarrow> (\<exists>(plan, q) \<in> set runs. confirmed (kc_digest core) repository q calls res))))"
proof (intro conjI ballI session_history_calls)
  fix c
  assume c: "c \<in> set (session_history core load repository used runs)"
  obtain calls outcome where [simp]: "c = (calls, outcome)" by force
  obtain plan q u u' where r: "(plan, q) \<in> set runs" "session_run core load repository u plan q = (u', calls, outcome)"
    using c session_history_member by fastforce
  show "case c of (calls, outcome) \<Rightarrow>
      (\<forall>request \<in> set calls. \<exists>(plan, q) \<in> set runs. authorized_request core load plan q request) \<and>
      (\<forall>res. outcome = Inr res \<longrightarrow> (rr_published res \<longleftrightarrow> calls \<noteq> []) \<and>
         (rr_published res \<longrightarrow> (\<exists>(plan, q) \<in> set runs. confirmed (kc_digest core) repository q calls res)))"
    using session_runD [OF r(2)] r(1) by fastforce
qed


section \<open>A concrete candidate\<close>

definition demo_core :: canary_core where
  "demo_core =
     \<lparr>kc_digest = demo_digest, kc_code_sha256 = ''code'', kc_datetime = (\<lambda>ms. Aware (ms * 1000)),
      kc_intent = (\<lambda>i. Inr (i\<lparr>in_intent_id := Some ''i1'', in_message_id := ''i1'',
         in_contract_version := ''strategy-intent.v1'', in_venue := ''BINANCE_UM''\<rparr>)),
      kc_route = (\<lambda>r. Inr (r\<lparr>rt_route_id := Some ''q1'', rt_message_id := ''q1''\<rparr>)),
      kc_review = (\<lambda>r. Inr (r\<lparr>cr_review_id := Some ''r1'', cr_message_id := ''r1''\<rparr>)),
      kc_allocation = (\<lambda>a. Inr (a\<lparr>sa_schema_version := ''1.0''\<rparr>))\<rparr>"

lemma demo_core_lawful: "lawful_core demo_core"
proof -
  have "keeps_intent (kc_intent demo_core)"
    unfolding keeps_intent_def
  proof (intro allI impI)
    fix i i' :: strategy_intent
    assume "kc_intent demo_core i = Inr i'"
    then show "\<exists>m cv v p. i' = i\<lparr>in_intent_id := Some m, in_message_id := m, in_contract_version := cv, in_venue := v,
        in_payload := p\<rparr>"
      by (intro exI [of _ "''i1''"] exI [of _ "''strategy-intent.v1''"] exI [of _ "''BINANCE_UM''"]
        exI [of _ "in_payload i"]) (auto simp: demo_core_def)
  qed
  moreover have "keeps_route (kc_route demo_core)"
    unfolding keeps_route_def
  proof (intro allI impI)
    fix r r' :: candidate_route
    assume "kc_route demo_core r = Inr r'"
    then show "\<exists>m p ids. mset ids = mset (rt_evidence_ids r) \<and>
        r' = r\<lparr>rt_route_id := Some m, rt_message_id := m, rt_evidence_ids := ids, rt_payload := p\<rparr>"
      by (intro exI [of _ "''q1''"] exI [of _ "rt_payload r"] exI [of _ "rt_evidence_ids r"]) (auto simp: demo_core_def)
  qed
  moreover have "keeps_review (kc_review demo_core)"
    unfolding keeps_review_def
  proof (intro allI impI)
    fix r r' :: candidate_review
    assume "kc_review demo_core r = Inr r'"
    then show "\<exists>m p. r' = r\<lparr>cr_review_id := Some m, cr_message_id := m, cr_payload := p\<rparr>"
      by (intro exI [of _ "''r1''"] exI [of _ "cr_payload r"]) (auto simp: demo_core_def)
  qed
  ultimately show ?thesis by (auto simp: lawful_core_def keeps_allocation_def demo_core_def)
qed

definition morning_plan :: canary_plan where
  "morning_plan =
     \<lparr>kp_symbol = ''BTCUSDT'', kp_side = LONG, kp_stop_distance_bps = Fin 50, kp_target_distance_bps = Fin 75,
      kp_max_holding_ms = 300000, kp_entry_window_ms = 30000\<rparr>"

definition morning_rule :: instrument_rule where
  "morning_rule = dev_rule\<lparr>ir_fetched_at_ms := 1753401600500\<rparr>"

definition morning_venue :: venue_quality where
  "morning_venue =
     \<lparr>vq_symbol = ''BTCUSD:DEV'', vq_profile = DEV, vq_observed_at_ms = 1753401600000,
      vq_book_timestamp_ms = 1753401600000, vq_reference_timestamp_ms = 1753401600000,
      vq_expires_at_ms = 1753401609000, vq_measurement_id = Some ''v1'', vq_entry_allowed = True, vq_reason_codes = [],
      vq_best_bid = Fin 999, vq_best_ask = Fin 1000, vq_mid_price = Fin 1000, vq_buy_slippage_bps = Fin 0,
      vq_sell_slippage_bps = Fin 0, vq_taker_fee_bps = Fin 0, vq_assessed_notional_usd = Fin 5000,
      vq_depth_usd = Fin 100000\<rparr>"

definition morning_account :: account_v2 where
  "morning_account =
     \<lparr>a2_snapshot_id = Some ''s1'', a2_trading_mode = PAPER, a2_evedex_profile = DEV, a2_account_id = ''acc'',
      a2_reconciled = True, a2_reconciliation_seq = 1, a2_captured_at_ms = 1753401600000, a2_positions = [],
      a2_open_orders = [], a2_equity_usd = Fin 1000, a2_available_balance_usd = Fin 1000,
      a2_total_open_risk_usd = Fin 0, a2_durable_day_start_equity_usd = Fin 1000,
      a2_durable_peak_equity_usd = Fin 1000, a2_daily_realized_pnl_usd = Fin 0, a2_unrealized_pnl_usd = Fin 0\<rparr>"

definition morning_inputs :: canary_inputs where
  "morning_inputs =
     \<lparr>kn_bar = \<lparr>cb_symbol = ''BTCUSDT'', cb_open_time_ms = 1753401540000, cb_close_time_ms = 1753401599999,
        cb_close = Fin 1000, cb_bar_sha256 = Some ''bar''\<rparr>,
      kn_venue = morning_venue, kn_account = morning_account, kn_instrument = morning_rule,
      kn_current_allocation = None, kn_active_reservation_ids = []\<rparr>"

definition morning_intent :: strategy_intent where
  "morning_intent =
     (intent_draft demo_core morning_plan (kn_bar morning_inputs) ''bar'' morning_rule ''acc'' (Decimal 50 (-4))
        (Fin 1000) (Fin 995) (Fin (2015 / 2)) (Fin 75))
       \<lparr>in_intent_id := Some ''i1'', in_message_id := ''i1'', in_contract_version := ''strategy-intent.v1'',
        in_venue := ''BINANCE_UM''\<rparr>"

lemma morning_rule_facts:
  "mk_rule morning_rule = Inr morning_rule" "\<forall>d \<in> set (rule_decimals morning_rule). storable d"
  "length (digits_of (ir_updated_at_ms morning_rule)) \<le> 4300"
  "effective_min_quantity morning_rule (decimal_of_float (Fin 1000)) = Inr (Decimal 50 (-4))"
  "storable (Decimal 50 (-4))" "misaligned (Decimal 50 (-4)) (ir_quantity_increment morning_rule) = Inr False"
  by code_simp+

lemma morning_prices:
  "exit_prices morning_plan (dval (decimal_of_float (Fin 1000))) = Inr (Fin 995, Fin (2015 / 2))"
  "float_of_decimal (decimal_of_float (Fin 1000)) = Fin 1000" "dec_finite (decimal_of_float (Fin 1000))"
  "reward_bps (Fin (2015 / 2)) (Fin 1000) = Inr (Fin 75)"
  by code_simp+

lemma morning_intent_built: "build_intent demo_core morning_plan morning_inputs ''acc'' = Inr morning_intent"
  using morning_prices morning_rule_facts(4)
  by (simp add: build_intent_def morning_inputs_def worst_entry_def morning_plan_def morning_venue_def Let_def)
    (simp add: morning_intent_def demo_core_def morning_inputs_def morning_plan_def)

lemma morning_valid: "validate_inputs morning_plan morning_inputs ''acc'' 1753401601000 30000 = Inr ()"
  by code_simp

definition morning_prepared :: prepared_canary where
  "morning_prepared =
     (case prepare_canary demo_core morning_plan morning_inputs ''acc'' 1753401601000 30000 (Fin 90000) of Inr p \<Rightarrow> p)"

lemma morning_preparation:
  "prepare_canary demo_core morning_plan morning_inputs ''acc'' 1753401601000 30000 (Fin 90000) = Inr morning_prepared \<and>
   rt_evidence_ids (cr_route (pn_review morning_prepared)) = [''bar'', rules_sha256 flat_sha morning_rule]"
proof -
  have "executable_geometry morning_intent morning_venue = Inr ()"
    by (simp add: executable_geometry_def morning_intent_def intent_draft_def Let_def morning_plan_def morning_venue_def)
  moreover have "kn_venue morning_inputs = morning_venue" "kn_current_allocation morning_inputs = None"
    by (simp_all add: morning_inputs_def)
  moreover have "List.map_filter ev_content_sha256 (in_evidence morning_intent) =
      [''bar'', rules_sha256 flat_sha morning_rule]"
    by (simp add: morning_intent_def intent_draft_def Let_def map_filter_simps bar_reference_def rule_evidence_def
        demo_rules_digest demo_core_def)
  ultimately show ?thesis
    using morning_intent_built morning_valid
    by (simp add: morning_prepared_def prepare_canary_def validate_now_def seal_review_def
        build_canary_allocation_def allocation_status_def Let_def)
      (simp add: demo_core_def canary_review_def canary_route_def)
qed



text \<open>The same candidate published, and the second run of the session refused.\<close>

definition publish_request :: run_request where
  "publish_request =
     \<lparr>rq_account_id = ''acc'', rq_now_ms = 1753401601000, rq_publish = True, rq_arm = Some CANARY_ARM_PHRASE,
      rq_account_max_age_ms = 30000, rq_allocation_max_age_s = Fin 90000,
      rq_session_id = Some ''session'', rq_slot_id = Some ''slot-1''\<rparr>"

definition demo_repository :: arm_repository where
  "demo_repository request =
     Inr \<lparr>ar_arm_id = canary_arm_identity demo_digest (aq_account_id request) (aq_review request) (aq_allocation request),
          ar_account_id = aq_account_id request, ar_review = aq_review request,
          ar_allocation = aq_allocation request, ar_status = ''ARMED'',
          ar_expires_at = Aware (in_entry_expires_ts_ms (cr_intent (aq_review request)) * 1000),
          ar_decided_at_ms = None, ar_session_id = Some (replicate 64 (CHR ''1'')),
          ar_attempt_id = Some (replicate 64 (CHR ''2'')), ar_session_expires_at = Some (Aware 1753405200000000)\<rparr>"

lemma morning_binding:
  "validate_canary_binding demo_digest (pn_review morning_prepared) (pn_allocation morning_prepared) ''acc'' = Inr ()"
proof -
  have "sorted [''bar'', rules_sha256 flat_sha morning_rule]" by code_simp
  moreover have "kn_instrument morning_inputs = morning_rule" "kc_digest demo_core = demo_digest"
    "worst_entry (kp_side morning_plan) (kn_venue morning_inputs) = Fin 1000"
    "cb_close_time_ms (kn_bar morning_inputs) = 1753401599999"
    by (simp_all add: morning_inputs_def demo_core_def worst_entry_def morning_plan_def morning_venue_def)
  ultimately show ?thesis
    using prepared_binding_valid [of demo_core morning_inputs morning_plan "''acc''" 1753401601000 30000
        "Fin 90000" morning_prepared] demo_core_lawful morning_preparation morning_rule_facts
    by simp
qed

lemma morning_window: "in_entry_expires_ts_ms (cr_intent (pn_review morning_prepared)) = 1753401630000"
proof -
  have "seal_review demo_core morning_intent (kn_bar morning_inputs) = Inr (pn_review morning_prepared)"
    using morning_preparation morning_intent_built by (auto elim!: prepareE)
  then have "cr_intent (pn_review morning_prepared) = morning_intent"
    using sealed_review demo_core_lawful unfolding lawful_core_def by blast
  then show ?thesis
    by (simp add: morning_intent_def intent_draft_def Let_def morning_inputs_def morning_plan_def)
qed

lemma morning_armed:
  "ebind (demo_repository (request_of publish_request morning_prepared)) (\<lambda>record.
     validate_armed_record demo_digest record (pn_review morning_prepared) (pn_allocation morning_prepared) ''acc''
       1753401601000) =
   Inr (canary_arm_identity demo_digest ''acc'' (pn_review morning_prepared) (pn_allocation morning_prepared))"
proof -
  have "timestamp_ms (Aware (1753405200000 * 1000)) = 1753405200000"
    "timestamp_ms (Aware (1753401630000 * 1000)) = 1753401630000"
    by (rule timestamp_ms_exact; simp)+
  then show ?thesis
    by (simp add: demo_repository_def request_of_def publish_request_def validate_armed_record_def
        validate_session_binding_def bounded_hash_def arm_expiry_def morning_window morning_binding)
qed

lemma morning_run:
  "session_run demo_core (\<lambda>_ _. Inr morning_inputs) (Some demo_repository) False morning_plan publish_request =
     (True, [request_of publish_request morning_prepared],
      Inr \<lparr>rr_prepared = morning_prepared, rr_published = True,
           rr_arm_id = Some (canary_arm_identity demo_digest ''acc'' (pn_review morning_prepared)
             (pn_allocation morning_prepared))\<rparr>)"
proof -
  have q: "rq_account_id publish_request = ''acc''" "rq_now_ms publish_request = 1753401601000"
    "rq_account_max_age_ms publish_request = 30000" "rq_allocation_max_age_s publish_request = Fin 90000"
    "rq_publish publish_request" "publish_authority (Some demo_repository) publish_request = Inr ()"
    by (simp_all add: publish_request_def publish_authority_def given_def)
  have "kc_digest demo_core = demo_digest" by (simp add: demo_core_def)
  then show ?thesis
    using morning_preparation
    by (simp add: session_run_def q publish_prepared_def Let_def morning_armed morning_binding del: ebind_Inr_iff)
qed

definition morning_history :: "(arm_request list \<times> canary_run_result res) list" where
  "morning_history =
     session_history demo_core (\<lambda>_ _. Inr morning_inputs) (Some demo_repository) False
       [(morning_plan, publish_request), (morning_plan, publish_request)]"

lemma morning_history:
  "map fst morning_history = [[request_of publish_request morning_prepared], []] \<and>
   (\<exists>res. snd (hd morning_history) = Inr res \<and> rr_published res)"
  by (simp add: morning_history_def morning_run) (simp add: session_run_def)

theorem session_arms_at_most_one_authorized_candidate_witness:
  "length (concat (map fst morning_history)) = 1 \<and>
   authorized_request demo_core (\<lambda>_ _. Inr morning_inputs) morning_plan publish_request
     (request_of publish_request morning_prepared)"
proof -
  obtain calls outcome rest where h: "morning_history = (calls, outcome) # rest"
    using morning_history by (cases morning_history) auto
  have "map fst ((calls, outcome) # rest) = [[request_of publish_request morning_prepared], []]"
    using morning_history unfolding h by (rule conjunct1)
  then have c: "calls = [request_of publish_request morning_prepared]" by simp
  have "(calls, outcome) \<in> set morning_history" unfolding h by simp
  then have "authorized_request demo_core (\<lambda>_ _. Inr morning_inputs) morning_plan publish_request
      (request_of publish_request morning_prepared)"
    using session_arms_at_most_one_authorized_candidate
      [of demo_core "\<lambda>_ _. Inr morning_inputs" "Some demo_repository" False
        "[(morning_plan, publish_request), (morning_plan, publish_request)]"] c
    unfolding morning_history_def [symmetric] by fastforce
  then show ?thesis using morning_history by (simp del: length_concat)
qed

end
