(* ===== verification/Canary_Runner.thy ===== *)
theory Canary_Runner
  imports Canary Operator_Control
begin

text \<open>
  \<open>kairos_risk/canary_runner.py\<close>: the bounded session controller. A session's status, its plan and
  its attempts are documents of the durable session repository, which is a parameter. A command's
  effects on repository and database connection are listed in the order they happen.
\<close>

section \<open>Documents of the session repository\<close>

record session_slot =
  so_slot_id :: string
  so_symbol :: string
  so_side :: string
  so_stop_distance_bps :: pyfloat
  so_target_distance_bps :: pyfloat
  so_max_holding_ms :: int
  so_entry_window_ms :: int

record bounded_plan =
  bn_max_attempts :: int
  bn_slots :: "session_slot list"

record session_attempt =
  tt_attempt_id :: string
  tt_ordinal :: int
  tt_slot_id :: string
  tt_symbol :: string
  tt_state :: string
  tt_terminal_reason :: "string option"

text \<open>\<open>st_attempts\<close> is empty when the key is missing; the two last fields are not yet validated.\<close>

record 'doc session_status =
  st_session_id :: string
  st_receipt_id :: string
  st_state :: string
  st_armed_at :: "string option"
  st_entry_deadline_at :: "string option"
  st_attempts_reserved :: int
  st_max_attempts :: int
  st_last_progress_at :: "string option"
  st_stop_reason :: "string option"
  st_attempts :: "session_attempt list"
  st_plan :: 'doc
  st_scope :: 'doc

definition SESSION_ARM_PHRASE :: string where
  "SESSION_ARM_PHRASE = ''ARM ONE BOUNDED EVEDEX DEV CANARY SESSION''"

definition not_admitted :: "string \<Rightarrow> pyerr" where
  "not_admitted text = RuntimeError (''CanaryAdmissionError: '' @ text)"

section \<open>Checks\<close>

definition check_runtime_scope :: "canary_scope \<Rightarrow> risk_settings \<Rightarrow> unit res" where
  "check_runtime_scope scope s =
     (case validate_publish_settings s of
        Inl e \<Rightarrow> Inl e
      | Inr _ \<Rightarrow>
          if sc_account_id scope \<noteq> rs_paper_account_id s \<or> sc_environment scope \<noteq> cs_environment s
          then Inl (arming ''session scope does not match the configured PAPER account/environment'')
          else Inr ())"

definition side_of :: "string \<Rightarrow> side res" where
  "side_of name =
     (if name = ''LONG'' then Inr LONG else if name = ''SHORT'' then Inr SHORT
      else if name = ''FLAT'' then Inr FLAT else Inl (ValueError ''not a valid Side''))"

definition plan_of_slot :: "session_slot \<Rightarrow> canary_plan res" where
  "plan_of_slot slot =
     ebind (side_of (so_side slot)) (\<lambda>sd.
       mk_canary_plan
         \<lparr>kp_symbol = so_symbol slot, kp_side = sd, kp_stop_distance_bps = so_stop_distance_bps slot,
          kp_target_distance_bps = so_target_distance_bps slot, kp_max_holding_ms = so_max_holding_ms slot,
          kp_entry_window_ms = so_entry_window_ms slot\<rparr>)"

definition next_slot ::
    "('doc \<Rightarrow> bounded_plan res) \<Rightarrow> 'doc session_status \<Rightarrow> (string \<times> canary_plan) option res" where
  "next_slot validate_plan status =
     (case validate_plan (st_plan status) of
        Inl e \<Rightarrow> Inl e
      | Inr plan \<Rightarrow>
          if st_state status \<notin> {''ARMED'', ''RUNNING''}
          then Inl (not_admitted ''session is not admitting entries'')
          else if \<exists>a \<in> set (st_attempts status). tt_state a \<noteq> ''TERMINAL''
          then Inl (not_admitted ''previous attempt awaits authoritative Risk/execution completion'')
          else
            (let count = st_attempts_reserved status in
             if int (length (st_attempts status)) \<noteq> count
             then Inl (not_admitted ''session attempt counter differs from its ledger'')
             else if bn_max_attempts plan \<le> count \<or> int (length (bn_slots plan)) \<le> count then Inr None
             else
               (let slot = bn_slots plan ! nat count in
                case plan_of_slot slot of Inl e \<Rightarrow> Inl e | Inr p \<Rightarrow> Inr (Some (so_slot_id slot, p)))))"

definition safe_attempt :: "session_attempt \<Rightarrow> canon" where
  "safe_attempt a =
     CObject
       [(''attempt_id'', CText (tt_attempt_id a)), (''ordinal'', CInt (tt_ordinal a)),
        (''slot_id'', CText (tt_slot_id a)), (''symbol'', CText (tt_symbol a)), (''state'', CText (tt_state a)),
        (''terminal_reason'', opt_text (tt_terminal_reason a))]"

definition safe_status :: "'doc session_status \<Rightarrow> (string \<times> canon) list" where
  "safe_status s =
     [(''session_id'', CText (st_session_id s)), (''receipt_id'', CText (st_receipt_id s)),
      (''state'', CText (st_state s)), (''armed_at'', opt_text (st_armed_at s)),
      (''entry_deadline_at'', opt_text (st_entry_deadline_at s)),
      (''attempts_reserved'', CInt (st_attempts_reserved s)), (''max_attempts'', CInt (st_max_attempts s)),
      (''last_progress_at'', opt_text (st_last_progress_at s)), (''stop_reason'', opt_text (st_stop_reason s)),
      (''attempts'', CList (map safe_attempt (st_attempts s))), (''paper_qualified'', CBool False)]"

section \<open>Commands\<close>

text \<open>The arguments of one command; a file argument is the path it names.\<close>

datatype runner_command =
    PreviewPlan (plan_path: string)
  | ArmSession (plan_path: string) (scope_path: string) (receipt_id: string) (operator_nonce: string)
      (arm_phrase: string) (receipt_max_age_ms: int)
  | SessionStatus (session_id: string)
  | StopSession (session_id: string)
  | SubmitNext (session_id: string) (arm_phrase: string)

datatype runner_effect =
    Connected
  | Closed
  | ReadStatus string
  | RefreshedSession string
  | StoppedSession string
  | ArmedSession string string
  | RequestedArm arm_request

text \<open>
  Everything outside the module: files, settings, database and repositories, the clock, and the
  canary's own parameters.
\<close>

record 'doc runner_world =
  rw_read_plan :: "string \<Rightarrow> 'doc res"
  rw_read_scope :: "string \<Rightarrow> 'doc res"
  rw_validate_plan :: "'doc \<Rightarrow> bounded_plan res"
  rw_validate_scope :: "'doc \<Rightarrow> canary_scope res"
  rw_dump_plan :: "bounded_plan \<Rightarrow> (string \<times> canon) list"
  rw_settings :: "risk_settings res"
  rw_connect :: "unit res"
  rw_arm_session :: "string \<Rightarrow> canary_scope \<Rightarrow> bounded_plan \<Rightarrow> string \<Rightarrow> int \<Rightarrow> 'doc session_status res"
  rw_status :: "string \<Rightarrow> 'doc session_status res"
  rw_refresh :: "string \<Rightarrow> 'doc session_status res"
  rw_stop :: "string \<Rightarrow> 'doc session_status res"
  rw_now_ms :: int
  rw_core :: canary_core
  rw_load :: "canary_plan \<Rightarrow> string \<Rightarrow> canary_inputs res"
  rw_arm_repository :: arm_repository

type_synonym summary = "(string \<times> canon) list"

definition phrase_given :: "runner_command \<Rightarrow> bool" where
  "phrase_given c =
     (case c of
        ArmSession _ _ _ _ phrase _ \<Rightarrow> phrase = SESSION_ARM_PHRASE
      | SubmitNext _ phrase \<Rightarrow> phrase = SESSION_ARM_PHRASE
      | _ \<Rightarrow> True)"

definition arm_session ::
    "'doc runner_world \<Rightarrow> risk_settings \<Rightarrow> string \<Rightarrow> string \<Rightarrow> string \<Rightarrow> string \<Rightarrow> int \<Rightarrow>
     runner_effect list \<times> summary res" where
  "arm_session w s plan_file scope_file receipt nonce max_age =
     (case ebind (rw_read_scope w scope_file) (rw_validate_scope w) of
        Inl e \<Rightarrow> ([], Inl e)
      | Inr scope \<Rightarrow>
     (case check_runtime_scope scope s of
        Inl e \<Rightarrow> ([], Inl e)
      | Inr _ \<Rightarrow>
     (case ebind (rw_read_plan w plan_file) (rw_validate_plan w) of
        Inl e \<Rightarrow> ([], Inl e)
      | Inr plan \<Rightarrow>
         ([ArmedSession receipt nonce],
          ebind (rw_arm_session w receipt scope plan nonce max_age) (\<lambda>status. Inr (safe_status status))))))"

definition slot_request :: "'doc runner_world \<Rightarrow> risk_settings \<Rightarrow> string \<Rightarrow> string \<Rightarrow> run_request" where
  "slot_request w s sid slot_id =
     \<lparr>rq_account_id = rs_paper_account_id s, rq_now_ms = rw_now_ms w, rq_publish = True,
      rq_arm = Some CANARY_ARM_PHRASE,
      rq_account_max_age_ms = py_int (rs_paper_account_snapshot_max_age_s s * Fin 1000),
      rq_allocation_max_age_s = rs_strategic_allocation_max_age_s s, rq_session_id = Some sid,
      rq_slot_id = Some slot_id\<rparr>"

definition submit_next :: "'doc runner_world \<Rightarrow> risk_settings \<Rightarrow> string \<Rightarrow> runner_effect list \<times> summary res" where
  "submit_next w s sid =
     (case rw_refresh w sid of
        Inl e \<Rightarrow> ([RefreshedSession sid], Inl e)
      | Inr status \<Rightarrow>
     (case next_slot (rw_validate_plan w) status of
        Inl e \<Rightarrow> ([RefreshedSession sid], Inl e)
      | Inr None \<Rightarrow> ([RefreshedSession sid], Inr (safe_status status))
      | Inr (Some (slot_id, plan)) \<Rightarrow>
         (case session_run (rw_core w) (rw_load w) (Some (rw_arm_repository w)) False plan
             (slot_request w s sid slot_id) of
            (_, calls, outcome) \<Rightarrow>
              (RefreshedSession sid # map RequestedArm calls,
               ebind outcome (\<lambda>result. Inr (result_summary result @
                 [(''session_id'', CText sid), (''slot_id'', CText slot_id), (''paper_qualified'', CBool False)]))))))"

text \<open>A command on an existing session, after its scope was checked.\<close>

definition session_command ::
    "'doc runner_world \<Rightarrow> risk_settings \<Rightarrow> runner_command \<Rightarrow> runner_effect list \<times> summary res" where
  "session_command w s c =
     (let sid = session_id c in
      case rw_status w sid of
        Inl e \<Rightarrow> ([ReadStatus sid], Inl e)
      | Inr status \<Rightarrow>
     (case ebind (rw_validate_scope w (st_scope status)) (\<lambda>scope.
         check_runtime_scope scope s) of
        Inl e \<Rightarrow> ([ReadStatus sid], Inl e)
      | Inr _ \<Rightarrow>
         (case c of
            StopSession _ \<Rightarrow>
              ([ReadStatus sid, StoppedSession sid], ebind (rw_stop w sid) (\<lambda>stopped. Inr (safe_status stopped)))
          | SessionStatus _ \<Rightarrow> ([ReadStatus sid], Inr (safe_status status))
          | _ \<Rightarrow> (case submit_next w s sid of (effects, r) \<Rightarrow> (ReadStatus sid # effects, r)))))"

definition connected_command ::
    "'doc runner_world \<Rightarrow> risk_settings \<Rightarrow> runner_command \<Rightarrow> runner_effect list \<times> summary res" where
  "connected_command w s c =
     (case c of
        ArmSession plan_file scope_file receipt nonce _ max_age \<Rightarrow>
          arm_session w s plan_file scope_file receipt nonce max_age
      | _ \<Rightarrow> session_command w s c)"

definition run_cli :: "'doc runner_world \<Rightarrow> runner_command \<Rightarrow> runner_effect list \<times> summary res" where
  "run_cli w c =
     (case c of
        PreviewPlan path \<Rightarrow>
          ([], ebind (ebind (rw_read_plan w path) (rw_validate_plan w)) (\<lambda>plan. Inr (rw_dump_plan w plan)))
      | _ \<Rightarrow>
          if \<not> phrase_given c then ([], Inl (arming ''exact bounded DEV session arm phrase is required''))
          else
            (case ebind (rw_settings w) (\<lambda>s.
                 ebind (validate_publish_settings s) (\<lambda>_. ebind (rw_connect w) (\<lambda>_. Inr s))) of
               Inl e \<Rightarrow> ([], Inl e)
             | Inr s \<Rightarrow>
                (case connected_command w s c of
                   (effects, r) \<Rightarrow> (Connected # effects @ [Closed], r))))"


section \<open>What a command can do\<close>

lemma mk_canary_plan_Inr: "mk_canary_plan p = Inr p' \<Longrightarrow> p' = p \<and> kp_side p \<noteq> FLAT"
  by (simp add: mk_canary_plan_def Let_def split: if_split_asm) auto

text \<open>The slot a session offers: the first one no attempt has used, of a session that is open.\<close>

definition offers :: "bounded_plan \<Rightarrow> 'doc session_status \<Rightarrow> string \<Rightarrow> canary_plan \<Rightarrow> bool" where
  "offers plan status slot_id p \<longleftrightarrow>
     (let used = length (st_attempts status) in
      st_state status \<in> {''ARMED'', ''RUNNING''} \<and> (\<forall>a \<in> set (st_attempts status). tt_state a = ''TERMINAL'') \<and>
      int used = st_attempts_reserved status \<and> int used < bn_max_attempts plan \<and> used < length (bn_slots plan) \<and>
      slot_id = so_slot_id (bn_slots plan ! used) \<and> plan_of_slot (bn_slots plan ! used) = Inr p)"

lemma next_slot_offers:
  assumes "next_slot validate_plan status = Inr (Some (slot_id, p))"
  shows "\<exists>plan. validate_plan (st_plan status) = Inr plan \<and> offers plan status slot_id p"
  using assms
  by (auto simp: next_slot_def offers_def Let_def split: sum.splits if_split_asm) (metis nat_int)+

definition requests :: "runner_effect list \<Rightarrow> arm_request list" where
  "requests effects = List.map_filter (\<lambda>e. case e of RequestedArm q \<Rightarrow> Some q | _ \<Rightarrow> None) effects"

lemma requests_simps [simp]:
  "requests [] = []" "requests (RequestedArm q # es) = q # requests es" "requests (Connected # es) = requests es"
  "requests (ReadStatus s # es) = requests es" "requests (RefreshedSession s # es) = requests es"
  "requests (StoppedSession s # es) = requests es" "requests (ArmedSession r n # es) = requests es"
  "requests [Closed] = []" "requests (es @ [Closed]) = requests es" "requests (map RequestedArm qs) = qs"
proof -
  show "requests (map RequestedArm qs) = qs" by (induction qs) (simp_all add: requests_def map_filter_simps)
qed (simp_all add: requests_def map_filter_simps map_filter_def)

lemma submit_nextD:
  assumes "submit_next w s sid = (effects, r)"
  shows "length (requests effects) \<le> 1 \<and>
    (\<forall>request \<in> set (requests effects). \<exists>status plan slot_id p.
       rw_refresh w sid = Inr status \<and> rw_validate_plan w (st_plan status) = Inr plan \<and>
       offers plan status slot_id p \<and>
       authorized_request (rw_core w) (rw_load w) p (slot_request w s sid slot_id) request)"
proof (cases "rw_refresh w sid")
  case (Inl e)
  then show ?thesis using assms by (auto simp: submit_next_def)
next
  case (Inr status)
  show ?thesis
  proof (cases "\<exists>slot_id p. next_slot (rw_validate_plan w) status = Inr (Some (slot_id, p))")
    case False
    then have "requests effects = []" using assms Inr by (auto simp: submit_next_def split: sum.splits option.splits)
    then show ?thesis by simp
  next
    case True
    then obtain slot_id p where n: "next_slot (rw_validate_plan w) status = Inr (Some (slot_id, p))" by blast
    obtain u calls outcome where run: "session_run (rw_core w) (rw_load w) (Some (rw_arm_repository w)) False p
        (slot_request w s sid slot_id) = (u, calls, outcome)"
      using prod_cases3 by blast
    have "requests effects = calls" using assms Inr n run by (auto simp: submit_next_def)
    then show ?thesis using session_runD [OF run] next_slot_offers [OF n] Inr by auto
  qed
qed

text \<open>Only \<open>submit-next\<close> reaches the arm repository.\<close>

lemma session_command_requests:
  assumes "session_command w s c = (effects, r)" "c = SessionStatus sid \<or> c = StopSession sid"
  shows "requests effects = []"
  using assms by (auto simp: session_command_def Let_def split: sum.splits)

lemma session_submit_requests:
  assumes "session_command w s (SubmitNext sid phrase) = (effects, r)"
  shows "requests effects = [] \<or> requests effects = requests (fst (submit_next w s sid))"
proof (cases "submit_next w s sid")
  case (Pair rest r')
  then show ?thesis using assms by (auto simp: session_command_def Let_def split: sum.splits)
qed

lemma connected_commandD:
  assumes "connected_command w s c = (effects, r)" "\<And>path. c \<noteq> PreviewPlan path" "requests effects \<noteq> []"
  obtains sid phrase where "c = SubmitNext sid phrase" "requests effects = requests (fst (submit_next w s sid))"
proof (cases c)
  case (ArmSession plan_file scope_file receipt nonce phrase max_age)
  then have "requests effects = []"
    using assms(1) by (auto simp: connected_command_def arm_session_def split: sum.splits)
  then show ?thesis using assms(3) by simp
next
  case (SubmitNext sid phrase)
  then have c: "session_command w s (SubmitNext sid phrase) = (effects, r)"
    using assms(1) by (simp add: connected_command_def)
  show ?thesis using session_submit_requests [OF c] assms(3) SubmitNext by (intro that) auto
next
  case (SessionStatus sid)
  then have "session_command w s c = (effects, r)" using assms(1) by (simp add: connected_command_def)
  then show ?thesis using session_command_requests SessionStatus assms(3) by blast
next
  case (StopSession sid)
  then have "session_command w s c = (effects, r)" using assms(1) by (simp add: connected_command_def)
  then show ?thesis using session_command_requests StopSession assms(3) by blast
qed (use assms(2) in blast)

text \<open>
  C36. The bounded controller never reuses, skips or doubles a slot. Whatever the command and
  whatever the session repository answers, at most one arm request is made; a request is made only
  by \<open>submit-next\<close> with the exact session phrase, under settings that permit publication, for the
  first slot no recorded attempt has used, with every earlier attempt terminal and the plan's
  attempt limit not reached, and with the full authority that a canary publication needs. A
  command that touches the repositories opens the database first and closes it last.
\<close>

theorem runner_submits_only_the_next_free_slot:
  assumes "run_cli w c = (effects, r)"
  shows "length (requests effects) \<le> 1 \<and>
    (\<forall>request \<in> set (requests effects). \<exists>sid s status plan slot_id p.
       c = SubmitNext sid SESSION_ARM_PHRASE \<and> rw_settings w = Inr s \<and>
       validate_publish_settings s = Inr () \<and> rw_refresh w sid = Inr status \<and>
       rw_validate_plan w (st_plan status) = Inr plan \<and> offers plan status slot_id p \<and>
       aq_session_id request = Some sid \<and> aq_slot_id request = Some slot_id \<and>
       authorized_request (rw_core w) (rw_load w) p (slot_request w s sid slot_id) request) \<and>
    (effects \<noteq> [] \<longrightarrow> hd effects = Connected \<and> last effects = Closed)"
proof (cases "requests effects = []")
  case True
  then show ?thesis using assms by (auto simp: run_cli_def split: runner_command.splits if_split_asm sum.splits prod.splits)
next
  case False
  then have preview: "c \<noteq> PreviewPlan path" for path using assms by (auto simp: run_cli_def)
  obtain s inner r' where run: "rw_settings w = Inr s" "validate_publish_settings s = Inr ()"
    "connected_command w s c = (inner, r')" "effects = Connected # inner @ [Closed]" "phrase_given c"
    using assms False preview
    by (cases c) (auto simp: run_cli_def split: if_split_asm sum.splits prod.splits)
  have inner: "requests inner = requests effects" using run(4) by simp
  then obtain sid phrase where sub: "c = SubmitNext sid phrase" "requests effects = requests (fst (submit_next w s sid))"
    using connected_commandD [OF run(3) preview] False by metis
  then have phrase: "phrase = SESSION_ARM_PHRASE" using run(5) by (simp add: phrase_given_def)
  obtain rest r'' where n: "submit_next w s sid = (rest, r'')" by force
  show ?thesis
    using submit_nextD [OF n] run(1,2,4) sub phrase n by (fastforce simp: authorized_request_def slot_request_def)
qed


section \<open>A submitted slot\<close>

definition runner_settings :: risk_settings where
  "runner_settings =
     paper_defaults\<lparr>rs_paper_strategy_allowlist := [strategy_key PAPER_CANARY_STRATEGY_ID CANARY_STRATEGY_REVISION],
       rs_paper_account_id := ''acc'', rs_paper_account_snapshot_max_age_s := Fin 30,
       rs_strategic_allocation_max_age_s := Fin 90000\<rparr>"

definition runner_plan :: bounded_plan where
  "runner_plan =
     \<lparr>bn_max_attempts = 1,
      bn_slots = [\<lparr>so_slot_id = ''slot-1'', so_symbol = ''BTCUSDT'', so_side = ''LONG'', so_stop_distance_bps = Fin 50,
        so_target_distance_bps = Fin 75, so_max_holding_ms = 300000, so_entry_window_ms = 30000\<rparr>]\<rparr>"

definition open_status :: "unit session_status" where
  "open_status =
     \<lparr>st_session_id = ''session'', st_receipt_id = ''r'', st_state = ''ARMED'', st_armed_at = None,
      st_entry_deadline_at = None, st_attempts_reserved = 0, st_max_attempts = 1, st_last_progress_at = None,
      st_stop_reason = None, st_attempts = [], st_plan = (), st_scope = ()\<rparr>"

definition demo_world :: "unit runner_world" where
  "demo_world =
     \<lparr>rw_read_plan = (\<lambda>_. Inr ()), rw_read_scope = (\<lambda>_. Inr ()), rw_validate_plan = (\<lambda>_. Inr runner_plan),
      rw_validate_scope = (\<lambda>_. Inr \<lparr>sc_account_id = ''acc'', sc_environment = ''dev'', sc_payload = []\<rparr>),
      rw_dump_plan = (\<lambda>_. []), rw_settings = Inr runner_settings,
      rw_connect = Inr (), rw_arm_session = (\<lambda>_ _ _ _ _. Inr open_status),
      rw_status = (\<lambda>_. Inr open_status), rw_refresh = (\<lambda>_. Inr open_status), rw_stop = (\<lambda>_. Inr open_status),
      rw_now_ms = 1753401601000, rw_core = demo_core, rw_load = (\<lambda>_ _. Inr morning_inputs),
      rw_arm_repository = demo_repository\<rparr>"

lemma runner_settings_publish: "validate_publish_settings runner_settings = Inr ()"
  by code_simp

lemma runner_slot: "next_slot (rw_validate_plan demo_world) open_status = Inr (Some (''slot-1'', morning_plan))"
  by code_simp

lemma runner_request: "slot_request demo_world runner_settings ''session'' ''slot-1'' = publish_request"
proof -
  have "py_int (Fin 30 * Fin 1000) = 30000" by code_simp
  then show ?thesis by (simp add: slot_request_def publish_request_def runner_settings_def demo_world_def)
qed

lemma runner_submits:
  "requests (fst (run_cli demo_world (SubmitNext ''session'' SESSION_ARM_PHRASE))) =
     [request_of publish_request morning_prepared]"
proof -
  have w: "rw_core demo_world = demo_core" "rw_load demo_world = (\<lambda>_ _. Inr morning_inputs)"
    "rw_arm_repository demo_world = demo_repository" "rw_settings demo_world = Inr runner_settings"
    "rw_connect demo_world = Inr ()"
    "rw_refresh demo_world sid = Inr open_status" "rw_status demo_world sid = Inr open_status"
    "rw_validate_scope demo_world d = Inr \<lparr>sc_account_id = ''acc'', sc_environment = ''dev'', sc_payload = []\<rparr>" for sid d
    by (simp_all add: demo_world_def)
  have "rs_paper_account_id runner_settings = ''acc''" "cs_environment runner_settings = ''dev''"
    by (simp_all add: runner_settings_def paper_defaults_def default_settings_def)
  then show ?thesis
    by (simp add: run_cli_def phrase_given_def connected_command_def session_command_def Let_def w
        check_runtime_scope_def runner_settings_publish submit_next_def runner_slot runner_request morning_run)
qed

theorem runner_submits_only_the_next_free_slot_witness:
  "authorized_request demo_core (\<lambda>_ _. Inr morning_inputs) morning_plan publish_request
     (request_of publish_request morning_prepared)"
proof -
  obtain effects r where run: "run_cli demo_world (SubmitNext ''session'' SESSION_ARM_PHRASE) = (effects, r)" by force
  then have req: "requests effects = [request_of publish_request morning_prepared]" using runner_submits by simp
  obtain sid s status plan slot_id p where *:
    "SubmitNext ''session'' SESSION_ARM_PHRASE = SubmitNext sid SESSION_ARM_PHRASE"
    "rw_settings demo_world = Inr s" "rw_refresh demo_world sid = Inr status"
    "rw_validate_plan demo_world (st_plan status) = Inr plan" "offers plan status slot_id p"
    "authorized_request (rw_core demo_world) (rw_load demo_world) p (slot_request demo_world s sid slot_id)
      (request_of publish_request morning_prepared)"
    using runner_submits_only_the_next_free_slot [OF run] req by auto
  have "sid = ''session''" "s = runner_settings" "status = open_status" "plan = runner_plan"
    using *(1-4) by (simp_all add: demo_world_def)
  moreover have "slot_id = ''slot-1''" "plan_of_slot (hd (bn_slots runner_plan)) = Inr p"
    using *(5) calculation by (simp_all add: offers_def open_status_def runner_plan_def)
  moreover have "plan_of_slot (hd (bn_slots runner_plan)) = Inr morning_plan" by code_simp
  ultimately show ?thesis
    using *(6) runner_request by (simp add: demo_world_def)
qed

end
