(* ===== verification/Canary_Source.thy ===== *)
theory Canary_Source
  imports Canary
begin

text \<open>
  \<open>PostgresCanaryInputSource\<close> of \<open>kairos_risk/canary.py\<close>: the durable facts of a canary, selected
  from one snapshot of the audit log by the module's queries. A row gives the text of its payload's
  fields (\<open>->>\<close>) and the payload as the driver hands it over. Casts to \<open>bigint\<close>, the contracts'
  \<open>model_validate\<close> and the instrument loader are parameters.
\<close>

section \<open>Rows and their order\<close>

text \<open>A value of an \<open>ORDER BY\<close> column. Ascending, NULL is the last one; \<open>DESC\<close> reverses that.\<close>

datatype sql_key = Value int | Null

instantiation sql_key :: linorder
begin

fun less_eq_sql_key :: "sql_key \<Rightarrow> sql_key \<Rightarrow> bool" where
  "less_eq_sql_key (Value x) (Value y) = (x \<le> y)"
| "less_eq_sql_key Null (Value y) = False"
| "less_eq_sql_key a Null = True"

definition less_sql_key :: "sql_key \<Rightarrow> sql_key \<Rightarrow> bool" where
  "less_sql_key a b \<longleftrightarrow> a \<le> b \<and> \<not> b \<le> (a :: sql_key)"

instance
proof
  fix a b c :: sql_key
  show "(a < b) = (a \<le> b \<and> \<not> b \<le> a)" by (rule less_sql_key_def)
  show "a \<le> a" by (cases a) auto
  show "a \<le> b \<Longrightarrow> b \<le> c \<Longrightarrow> a \<le> c" by (cases a; cases b; cases c) auto
  show "a \<le> b \<Longrightarrow> b \<le> a \<Longrightarrow> a = b" by (cases a; cases b) auto
  show "a \<le> b \<or> b \<le> a" by (cases a; cases b) auto
qed

end

datatype audit_topic =
  ClosedBarTopic | VenueQualityTopic | AccountSnapshotTopic | AllocationTopic | RiskDecisionTopic | OtherTopic

text \<open>
  What \<open>row["payload"]\<close> is: a decoded object, a decoded value that is none, or text, given by what
  \<open>json.loads\<close> makes of it (\<open>None\<close> where it refuses the text).
\<close>

datatype 'doc payload = ObjectPayload 'doc | OtherPayload | TextPayload "'doc payload option"

record 'doc audit_row =
  er_topic :: audit_topic
  er_text :: "string list \<Rightarrow> string option"
  er_payload :: "'doc payload"
  er_produced_at :: int
  er_persisted_at :: int
  er_message_id :: string

fun decoded :: "'doc payload \<Rightarrow> 'doc payload res" where
  "decoded (TextPayload None) = Inl (ValueError ''JSONDecodeError'')"
| "decoded (TextPayload (Some p)) = Inr p"
| "decoded p = Inr p"

definition json_payload :: "string \<Rightarrow> 'doc audit_row option \<Rightarrow> 'doc res" where
  "json_payload label row =
     (case row of
        None \<Rightarrow> Inl (preflight (''latest durable '' @ label @ '' is unavailable''))
      | Some r \<Rightarrow>
          ebind (decoded (er_payload r)) (\<lambda>p. case p of
            ObjectPayload d \<Rightarrow> Inr d
          | _ \<Rightarrow> Inl (preflight (''latest durable '' @ label @ '' payload is not a JSON object''))))"

section \<open>The source\<close>

record 'doc source_world =
  sw_rows :: "'doc audit_row list"
  sw_bigint :: "string \<Rightarrow> int res"
  sw_now_ms :: int
  sw_instrument :: "string \<Rightarrow> int \<Rightarrow> instrument_rule res"
  sw_open :: "unit res"
  sw_fetch :: "audit_topic \<Rightarrow> unit res"
  sw_bar :: "'doc \<Rightarrow> closed_bar res"
  sw_venue :: "'doc \<Rightarrow> venue_quality res"
  sw_account :: "'doc \<Rightarrow> account_v2 res"
  sw_decision :: "'doc \<Rightarrow> risk_decision res"
  sw_allocation :: "'doc \<Rightarrow> strategic_allocation res"

definition has_text :: "'doc audit_row \<Rightarrow> string list \<Rightarrow> string \<Rightarrow> bool" where
  "has_text r path text \<longleftrightarrow> er_text r path = Some text"

definition int_key :: "(string \<Rightarrow> int res) \<Rightarrow> string list \<Rightarrow> 'doc audit_row \<Rightarrow> sql_key res" where
  "int_key cast path r =
     (case er_text r path of None \<Rightarrow> Inr Null | Some text \<Rightarrow> ebind (cast text) (\<lambda>n. Inr (Value n)))"

text \<open>The columns of \<open>ORDER BY\<close>: casts of payload fields, then \<open>persisted_at\<close>.\<close>

fun order_key :: "(string \<Rightarrow> int res) \<Rightarrow> string list list \<Rightarrow> 'doc audit_row \<Rightarrow> sql_key list res" where
  "order_key cast [] r = Inr [Value (er_persisted_at r)]"
| "order_key cast (path # paths) r =
     ebind (int_key cast path r) (\<lambda>k. ebind (order_key cast paths r) (\<lambda>ks. Inr (k # ks)))"

text \<open>
  \<open>ORDER BY key DESC LIMIT 1\<close>: a greatest row, the first one of equals in the order of the table. The
  key is computed for every row the query matches, so one that raises fails the query.
\<close>

fun latest :: "('row \<Rightarrow> sql_key list res) \<Rightarrow> 'row list \<Rightarrow> (sql_key list \<times> 'row) option res" where
  "latest key [] = Inr None"
| "latest key (r # rows) =
     ebind (key r) (\<lambda>k. ebind (latest key rows) (\<lambda>found.
       case found of
         None \<Rightarrow> Inr (Some (k, r))
       | Some (k', r') \<Rightarrow> Inr (Some (if k < k' then (k', r') else (k, r)))))"

definition fetchrow ::
    "'doc source_world \<Rightarrow> audit_topic \<Rightarrow> ('doc audit_row \<Rightarrow> bool) \<Rightarrow> ('doc audit_row \<Rightarrow> sql_key list res) \<Rightarrow>
     'doc audit_row option res" where
  "fetchrow w topic hit key =
     ebind (sw_fetch w topic) (\<lambda>_.
       ebind (latest key (filter (\<lambda>r. er_topic r = topic \<and> hit r) (sw_rows w))) (\<lambda>found.
         Inr (map_option snd found)))"

definition bar_hit :: "string \<Rightarrow> 'doc audit_row \<Rightarrow> bool" where
  "bar_hit symbol r \<longleftrightarrow> has_text r [''symbol''] symbol"

definition bar_key :: "(string \<Rightarrow> int res) \<Rightarrow> 'doc audit_row \<Rightarrow> sql_key list res" where
  "bar_key cast = order_key cast [[''close_time_ms'']]"

definition venue_hit :: "string \<Rightarrow> 'doc audit_row \<Rightarrow> bool" where
  "venue_hit venue_symbol r \<longleftrightarrow> has_text r [''profile''] ''DEV'' \<and> has_text r [''symbol''] venue_symbol"

definition venue_key :: "(string \<Rightarrow> int res) \<Rightarrow> 'doc audit_row \<Rightarrow> sql_key list res" where
  "venue_key cast = order_key cast [[''observed_at_ms'']]"

definition account_hit :: "string \<Rightarrow> 'doc audit_row \<Rightarrow> bool" where
  "account_hit account_id r \<longleftrightarrow>
     has_text r [''trading_mode''] ''PAPER'' \<and> has_text r [''evedex_profile''] ''DEV'' \<and>
     has_text r [''account_id''] account_id"

definition account_key :: "(string \<Rightarrow> int res) \<Rightarrow> 'doc audit_row \<Rightarrow> sql_key list res" where
  "account_key cast = order_key cast [[''reconciliation_seq''], [''captured_at_ms'']]"

definition allocation_key :: "'doc audit_row \<Rightarrow> sql_key list res" where
  "allocation_key r = Inr [Value (er_produced_at r), Value (er_persisted_at r)]"

definition reservation_hit :: "string \<Rightarrow> 'doc audit_row \<Rightarrow> bool" where
  "reservation_hit account_id r \<longleftrightarrow>
     er_topic r = RiskDecisionTopic \<and> has_text r [''approved''] ''true'' \<and> has_text r [''trading_mode''] ''PAPER'' \<and>
     has_text r [''evedex_profile''] ''DEV'' \<and> has_text r [''account_id''] account_id \<and>
     has_text r [''intent'', ''strategy_id''] PAPER_CANARY_STRATEGY_ID"

definition expiry_key :: "(string \<Rightarrow> int res) \<Rightarrow> 'doc audit_row \<Rightarrow> sql_key res" where
  "expiry_key cast = int_key cast [''intent'', ''entry_expires_ts_ms'']"

text \<open>The rows still open at a time: a NULL comparison selects nothing, a cast that raises fails the query.\<close>

fun unexpired :: "(string \<Rightarrow> int res) \<Rightarrow> int \<Rightarrow> 'doc audit_row list \<Rightarrow> 'doc audit_row list res" where
  "unexpired cast t [] = Inr []"
| "unexpired cast t (r # rows) =
     ebind (expiry_key cast r) (\<lambda>k. ebind (unexpired cast t rows) (\<lambda>kept.
       Inr (case k of Value n \<Rightarrow> if t \<le> n then r # kept else kept | Null \<Rightarrow> kept)))"

definition reservation_rows :: "'doc source_world \<Rightarrow> string \<Rightarrow> int \<Rightarrow> 'doc audit_row list res" where
  "reservation_rows w account_id captured_at_ms =
     ebind (sw_fetch w RiskDecisionTopic) (\<lambda>_.
       ebind (unexpired (sw_bigint w) captured_at_ms (filter (reservation_hit account_id) (sw_rows w))) (\<lambda>rows.
         Inr (sort_key er_produced_at (sort_key er_message_id rows))))"

fun reservation_ids :: "('doc \<Rightarrow> risk_decision res) \<Rightarrow> 'doc audit_row list \<Rightarrow> string list res" where
  "reservation_ids validate [] = Inr []"
| "reservation_ids validate (r # rows) =
     ebind (ebind (json_payload ''canary reservation'' (Some r)) validate) (\<lambda>d.
       ebind (reservation_ids validate rows) (\<lambda>ids.
         Inr (case rd_decision_id d of None \<Rightarrow> ids | Some i \<Rightarrow> i # ids)))"

definition load_snapshot :: "'doc source_world \<Rightarrow> canary_plan \<Rightarrow> string \<Rightarrow> string \<Rightarrow> instrument_rule \<Rightarrow> canary_inputs res" where
  "load_snapshot w plan account_id venue_symbol instrument =
     ebind (fetchrow w ClosedBarTopic (bar_hit (kp_symbol plan)) (bar_key (sw_bigint w))) (\<lambda>bar_row.
     ebind (fetchrow w VenueQualityTopic (venue_hit venue_symbol) (venue_key (sw_bigint w))) (\<lambda>venue_row.
     ebind (fetchrow w AccountSnapshotTopic (account_hit account_id) (account_key (sw_bigint w))) (\<lambda>account_row.
     ebind (fetchrow w AllocationTopic (\<lambda>_. True) allocation_key) (\<lambda>allocation_row.
     ebind (ebind (json_payload ''account snapshot'' account_row) (sw_account w)) (\<lambda>account.
     ebind (reservation_rows w account_id (a2_captured_at_ms account)) (\<lambda>rows.
     ebind (reservation_ids (sw_decision w) rows) (\<lambda>ids.
     ebind (case allocation_row of
              None \<Rightarrow> Inr None
            | Some r \<Rightarrow>
                ebind (ebind (json_payload ''strategic allocation'' (Some r)) (sw_allocation w)) (\<lambda>a. Inr (Some a)))
       (\<lambda>allocation.
     ebind (ebind (json_payload ''closed bar'' bar_row) (sw_bar w)) (\<lambda>bar.
     ebind (ebind (json_payload ''venue quality'' venue_row) (sw_venue w)) (\<lambda>venue.
       Inr \<lparr>kn_bar = bar, kn_venue = venue, kn_account = account, kn_instrument = instrument,
            kn_current_allocation = allocation, kn_active_reservation_ids = sort (remdups ids)\<rparr>))))))))))"

definition load_inputs :: "'doc source_world \<Rightarrow> canary_plan \<Rightarrow> string \<Rightarrow> canary_inputs res" where
  "load_inputs w plan account_id =
     (case map_of PAPER_DEV_SYMBOL_MAP (kp_symbol plan) of
        None \<Rightarrow> Inl (RuntimeError ''KeyError'')
      | Some venue_symbol \<Rightarrow>
          ebind (sw_instrument w venue_symbol (sw_now_ms w)) (\<lambda>instrument.
            ebind (sw_open w) (\<lambda>_. load_snapshot w plan account_id venue_symbol instrument)))"


section \<open>What a loaded candidate rests on\<close>

text \<open>The row a query for the latest one selects: no other matching row orders after it.\<close>

definition newest ::
    "'doc source_world \<Rightarrow> audit_topic \<Rightarrow> ('doc audit_row \<Rightarrow> bool) \<Rightarrow> ('doc audit_row \<Rightarrow> sql_key list res) \<Rightarrow>
     'doc audit_row \<Rightarrow> bool" where
  "newest w topic hit key r \<longleftrightarrow>
     r \<in> set (sw_rows w) \<and> er_topic r = topic \<and> hit r \<and>
     (\<exists>k. key r = Inr k \<and>
        (\<forall>s \<in> set (sw_rows w). er_topic s = topic \<and> hit s \<longrightarrow> (\<exists>l. key s = Inr l \<and> l \<le> k)))"

lemma latest_Inr:
  "latest key rows = Inr (Some (k, r)) \<Longrightarrow>
     r \<in> set rows \<and> key r = Inr k \<and> (\<forall>s \<in> set rows. \<exists>l. key s = Inr l \<and> l \<le> k)"
proof (induction rows arbitrary: k r)
  case (Cons r0 rows)
  then obtain k0 found where k0: "key r0 = Inr k0" and found: "latest key rows = Inr found" by auto
  show ?case
  proof (cases found)
    case None
    then have "rows = []" using found by (cases rows) (auto split: option.splits)
    then show ?thesis using Cons.prems k0 by auto
  next
    case (Some p)
    then obtain k' r' where p: "found = Some (k', r')" by (cases p) auto
    then show ?thesis using Cons.IH [of k' r'] Cons.prems k0 found
      by (auto simp: not_less split: if_split_asm intro: order.trans less_imp_le)
  qed
qed simp

lemma latest_None: "latest key rows = Inr None \<longleftrightarrow> rows = []"
  by (cases rows) (auto split: option.splits)

lemma fetchrow_newest:
  "fetchrow w topic hit key = Inr (Some r) \<Longrightarrow> newest w topic hit key r"
  by (auto simp: fetchrow_def newest_def dest!: latest_Inr)

lemma fetched_newest:
  "fetchrow w topic hit key = Inr row \<Longrightarrow> ebind (json_payload label row) validate = Inr x \<Longrightarrow>
     \<exists>r. newest w topic hit key r \<and> ebind (json_payload label (Some r)) validate = Inr x"
  by (cases row) (auto simp: json_payload_def dest: fetchrow_newest)

lemma ebindE:
  assumes "ebind m f = Inr y" obtains x where "m = Inr x" "f x = Inr y"
  using assms by (cases m) simp_all

lemma unexpired_iff:
  "unexpired cast t rows = Inr kept \<Longrightarrow>
     r \<in> set kept \<longleftrightarrow> r \<in> set rows \<and> (\<exists>n. expiry_key cast r = Inr (Value n) \<and> t \<le> n)"
proof (induction rows arbitrary: kept)
  case (Cons r0 rows)
  obtain k rest where k: "expiry_key cast r0 = Inr k" and rest: "unexpired cast t rows = Inr rest"
    and kept: "kept = (case k of Value n \<Rightarrow> if t \<le> n then r0 # rest else rest | Null \<Rightarrow> rest)"
    using Cons.prems by (auto elim!: ebindE simp del: ebind_Inr_iff)
  show ?case using Cons.IH [OF rest] k by (cases k) (auto simp: kept)
qed simp

lemma reservation_ids_Inr:
  "reservation_ids validate rows = Inr ids \<Longrightarrow> r \<in> set rows \<Longrightarrow>
     \<exists>d. ebind (json_payload ''canary reservation'' (Some r)) validate = Inr d \<and> set_option (rd_decision_id d) \<subseteq> set ids"
proof (induction rows arbitrary: ids)
  case (Cons r0 rows)
  obtain d rest where d: "ebind (json_payload ''canary reservation'' (Some r0)) validate = Inr d"
    and rest: "reservation_ids validate rows = Inr rest"
    and ids: "ids = (case rd_decision_id d of None \<Rightarrow> rest | Some i \<Rightarrow> i # rest)"
    using Cons.prems(1) [unfolded reservation_ids.simps] by (elim ebindE) (rule that, rule ebind_Inr_iff [THEN iffD2], auto simp del: ebind_Inr_iff)
  have sub: "set rest \<subseteq> set ids \<and> set_option (rd_decision_id d) \<subseteq> set ids"
    by (cases "rd_decision_id d") (auto simp: ids)
  show ?case
  proof (cases "r = r0")
    case True
    then show ?thesis using d sub by blast
  next
    case False
    then obtain d' where "ebind (json_payload ''canary reservation'' (Some r)) validate = Inr d'"
      "set_option (rd_decision_id d') \<subseteq> set rest"
      using Cons.IH [OF rest] Cons.prems(2) by auto
    then show ?thesis using sub by blast
  qed
qed simp

lemma load_inputsE:
  assumes "load_inputs w plan account_id = Inr inputs"
  obtains symbol bar_row venue_row account_row rows ids where
    "map_of PAPER_DEV_SYMBOL_MAP (kp_symbol plan) = Some symbol"
    "fetchrow w ClosedBarTopic (bar_hit (kp_symbol plan)) (bar_key (sw_bigint w)) = Inr bar_row"
    "ebind (json_payload ''closed bar'' bar_row) (sw_bar w) = Inr (kn_bar inputs)"
    "fetchrow w VenueQualityTopic (venue_hit symbol) (venue_key (sw_bigint w)) = Inr venue_row"
    "ebind (json_payload ''venue quality'' venue_row) (sw_venue w) = Inr (kn_venue inputs)"
    "fetchrow w AccountSnapshotTopic (account_hit account_id) (account_key (sw_bigint w)) = Inr account_row"
    "ebind (json_payload ''account snapshot'' account_row) (sw_account w) = Inr (kn_account inputs)"
    "sw_instrument w symbol (sw_now_ms w) = Inr (kn_instrument inputs)"
    "reservation_rows w account_id (a2_captured_at_ms (kn_account inputs)) = Inr rows"
    "reservation_ids (sw_decision w) rows = Inr ids"
    "kn_active_reservation_ids inputs = sort (remdups ids)"
proof -
  obtain symbol instrument where s: "map_of PAPER_DEV_SYMBOL_MAP (kp_symbol plan) = Some symbol"
    "sw_instrument w symbol (sw_now_ms w) = Inr instrument"
    "load_snapshot w plan account_id symbol instrument = Inr inputs"
    using assms by (auto simp: load_inputs_def split: option.splits)
  have i: "kn_instrument inputs = instrument"
    using s(3) by (auto simp: load_snapshot_def)
  show thesis
    using s(3) unfolding load_snapshot_def
    by (auto simp del: ebind_Inr_iff elim!: ebindE intro!: that [OF s(1)] simp: s(2) i)
qed


text \<open>No unexpired approval of a technical canary of this account is in the log with an identity.\<close>

definition no_open_canary :: "'doc source_world \<Rightarrow> string \<Rightarrow> int \<Rightarrow> bool" where
  "no_open_canary w account_id t \<longleftrightarrow>
     (\<forall>r \<in> set (sw_rows w). \<forall>n. reservation_hit account_id r \<and> expiry_key (sw_bigint w) r = Inr (Value n) \<and> t \<le> n \<longrightarrow>
        (\<exists>d. ebind (json_payload ''canary reservation'' (Some r)) (sw_decision w) = Inr d \<and> rd_decision_id d = None))"

lemma no_reservation_ids:
  assumes "reservation_rows w account_id t = Inr rows" "reservation_ids (sw_decision w) rows = Inr []"
  shows "no_open_canary w account_id t"
proof -
  obtain kept where kept: "unexpired (sw_bigint w) t (filter (reservation_hit account_id) (sw_rows w)) = Inr kept"
    and rows: "set rows = set kept"
    using assms(1) unfolding reservation_rows_def by (auto elim!: ebindE simp del: ebind_Inr_iff)
  have "\<exists>d. ebind (json_payload ''canary reservation'' (Some r)) (sw_decision w) = Inr d \<and> rd_decision_id d = None"
    if "r \<in> set kept" for r
    using reservation_ids_Inr [OF assms(2), of r] that rows by auto
  then show ?thesis
    unfolding no_open_canary_def using unexpired_iff [OF kept] by (auto simp del: ebind_Inr_iff)
qed

text \<open>
  C20. A canary is armed only on the newest durable facts. For every arm request a session makes with
  the PostgreSQL source, the bar, the venue measurement and the account snapshot it was prepared from
  are the validated payloads of rows of the audit log after which no other row of the same topic,
  symbol or account orders; the facts are fresh at the clock of the run; the instrument rule is the
  one just fetched for the plan's symbol; and no approved canary decision of this account in the log
  is unexpired at the snapshot's capture time.
\<close>
theorem armed_canary_rests_on_newest_facts:
  assumes "session_run core (load_inputs w) repository used plan q = (used', calls, outcome)" "calls \<noteq> []"
  shows "\<exists>inputs symbol bar venue account. fresh_facts plan inputs q \<and>
    map_of PAPER_DEV_SYMBOL_MAP (kp_symbol plan) = Some symbol \<and>
    sw_instrument w symbol (sw_now_ms w) = Inr (kn_instrument inputs) \<and>
    newest w ClosedBarTopic (bar_hit (kp_symbol plan)) (bar_key (sw_bigint w)) bar \<and>
    ebind (json_payload ''closed bar'' (Some bar)) (sw_bar w) = Inr (kn_bar inputs) \<and>
    newest w VenueQualityTopic (venue_hit symbol) (venue_key (sw_bigint w)) venue \<and>
    ebind (json_payload ''venue quality'' (Some venue)) (sw_venue w) = Inr (kn_venue inputs) \<and>
    newest w AccountSnapshotTopic (account_hit (rq_account_id q)) (account_key (sw_bigint w)) account \<and>
    ebind (json_payload ''account snapshot'' (Some account)) (sw_account w) = Inr (kn_account inputs) \<and>
    no_open_canary w (rq_account_id q) (a2_captured_at_ms (kn_account inputs))"
proof -
  obtain request where "request \<in> set calls" using assms(2) by (cases calls) auto
  then obtain inputs where l: "load_inputs w plan (rq_account_id q) = Inr inputs" and f: "fresh_facts plan inputs q"
    using session_runD [OF assms(1)] by (auto simp: authorized_request_def)
  obtain symbol bar_row venue_row account_row rows ids where s:
    "map_of PAPER_DEV_SYMBOL_MAP (kp_symbol plan) = Some symbol"
    "fetchrow w ClosedBarTopic (bar_hit (kp_symbol plan)) (bar_key (sw_bigint w)) = Inr bar_row"
    "ebind (json_payload ''closed bar'' bar_row) (sw_bar w) = Inr (kn_bar inputs)"
    "fetchrow w VenueQualityTopic (venue_hit symbol) (venue_key (sw_bigint w)) = Inr venue_row"
    "ebind (json_payload ''venue quality'' venue_row) (sw_venue w) = Inr (kn_venue inputs)"
    "fetchrow w AccountSnapshotTopic (account_hit (rq_account_id q)) (account_key (sw_bigint w)) = Inr account_row"
    "ebind (json_payload ''account snapshot'' account_row) (sw_account w) = Inr (kn_account inputs)"
    "sw_instrument w symbol (sw_now_ms w) = Inr (kn_instrument inputs)"
    "reservation_rows w (rq_account_id q) (a2_captured_at_ms (kn_account inputs)) = Inr rows"
    "reservation_ids (sw_decision w) rows = Inr ids" "kn_active_reservation_ids inputs = sort (remdups ids)"
    by (rule load_inputsE [OF l])
  have "sort (remdups ids) = []" using s(11) f by (simp add: fresh_facts_def Let_def)
  then have "set ids = {}" by (metis set_sort set_remdups set_empty)
  then have "ids = []" by simp
  then have "no_open_canary w (rq_account_id q) (a2_captured_at_ms (kn_account inputs))"
    using no_reservation_ids [OF s(9)] s(10) by simp
  then show ?thesis
    using f s(1,8) fetched_newest [OF s(2,3)] fetched_newest [OF s(4,5)] fetched_newest [OF s(6,7)] by blast
qed

section \<open>A log with a superseded and a current bar\<close>

definition log_row :: "audit_topic \<Rightarrow> (string list \<times> string) list \<Rightarrow> string \<Rightarrow> int \<Rightarrow> string audit_row" where
  "log_row topic texts payload persisted_at =
     \<lparr>er_topic = topic, er_text = map_of texts, er_payload = TextPayload (Some (ObjectPayload payload)),
      er_produced_at = persisted_at, er_persisted_at = persisted_at, er_message_id = payload\<rparr>"

definition morning_log :: "string audit_row list" where
  "morning_log =
     [log_row ClosedBarTopic [([''symbol''], ''BTCUSDT''), ([''close_time_ms''], ''1'')] ''old bar'' 9,
      log_row ClosedBarTopic [([''symbol''], ''BTCUSDT''), ([''close_time_ms''], ''2'')] ''bar'' 5,
      log_row VenueQualityTopic [([''profile''], ''DEV''), ([''symbol''], ''BTCUSD:DEV''), ([''observed_at_ms''], ''2'')] ''venue'' 6,
      log_row AccountSnapshotTopic
        [([''trading_mode''], ''PAPER''), ([''evedex_profile''], ''DEV''), ([''account_id''], ''acc''),
         ([''reconciliation_seq''], ''1''), ([''captured_at_ms''], ''2'')] ''account'' 7,
      log_row RiskDecisionTopic
        [([''approved''], ''true''), ([''trading_mode''], ''PAPER''), ([''evedex_profile''], ''DEV''),
         ([''account_id''], ''acc''), ([''intent'', ''strategy_id''], PAPER_CANARY_STRATEGY_ID),
         ([''intent'', ''entry_expires_ts_ms''], ''0'')] ''expired canary'' 3]"

definition small_bigint :: "string \<Rightarrow> int res" where
  "small_bigint text =
     (case map_of [(''0'', 0), (''1'', 1), (''2'', 2)] text of None \<Rightarrow> Inl (ValueError ''invalid bigint'') | Some n \<Rightarrow> Inr n)"

definition morning_source :: "string source_world" where
  "morning_source =
     \<lparr>sw_rows = morning_log, sw_bigint = small_bigint, sw_now_ms = 1753401601000,
      sw_instrument = (\<lambda>_ _. Inr morning_rule), sw_open = Inr (), sw_fetch = (\<lambda>_. Inr ()),
      sw_bar = (\<lambda>d. if d = ''bar'' then Inr (kn_bar morning_inputs) else Inl (ValueError ''old'')),
      sw_venue = (\<lambda>_. Inr (kn_venue morning_inputs)), sw_account = (\<lambda>_. Inr (kn_account morning_inputs)),
      sw_decision = (\<lambda>_. Inl (ValueError ''expired'')),
      sw_allocation = (\<lambda>_. Inl (ValueError ''none''))\<rparr>"

lemmas log_defs =
  fetchrow_def morning_source_def morning_log_def log_row_def has_text_def int_key_def small_bigint_def
  bar_hit_def bar_key_def venue_hit_def venue_key_def account_hit_def account_key_def less_sql_key_def

lemma morning_load: "load_inputs morning_source morning_plan ''acc'' = Inr morning_inputs"
proof -
  have bar: "fetchrow morning_source ClosedBarTopic (bar_hit ''BTCUSDT'') (bar_key small_bigint) = Inr (Some (morning_log ! 1))"
    by (simp add: log_defs del: ebind_Inr_iff)
  have venue: "fetchrow morning_source VenueQualityTopic (venue_hit ''BTCUSD:DEV'') (venue_key small_bigint) = Inr (Some (morning_log ! 2))"
    by (simp add: log_defs del: ebind_Inr_iff)
  have account: "fetchrow morning_source AccountSnapshotTopic (account_hit ''acc'') (account_key small_bigint) = Inr (Some (morning_log ! 3))"
    by (simp add: log_defs del: ebind_Inr_iff)
  have allocation: "fetchrow morning_source AllocationTopic (\<lambda>_. True) allocation_key = Inr None"
    by (simp add: log_defs del: ebind_Inr_iff)
  have rows: "reservation_rows morning_source ''acc'' 1753401600000 = Inr []"
    by (simp add: log_defs reservation_rows_def reservation_hit_def expiry_key_def PAPER_CANARY_STRATEGY_ID_def del: ebind_Inr_iff)
  show ?thesis
    using bar venue account allocation rows
    by (simp add: load_inputs_def load_snapshot_def morning_plan_def PAPER_DEV_SYMBOL_MAP_def morning_source_def
        morning_log_def log_row_def json_payload_def morning_inputs_def morning_account_def)
qed

theorem armed_canary_rests_on_newest_facts_witness:
  "\<exists>bar. newest morning_source ClosedBarTopic (bar_hit ''BTCUSDT'') (bar_key small_bigint) bar \<and>
     ebind (json_payload ''closed bar'' (Some bar)) (sw_bar morning_source) = Inr (kn_bar morning_inputs)"
proof -
  have "session_run demo_core (load_inputs morning_source) (Some demo_repository) False morning_plan publish_request =
      session_run demo_core (\<lambda>_ _. Inr morning_inputs) (Some demo_repository) False morning_plan publish_request"
  proof -
    have "load_inputs morning_source morning_plan (rq_account_id publish_request) = Inr morning_inputs"
      using morning_load by (simp add: publish_request_def)
    then show ?thesis unfolding session_run_def by (simp only: cong: sum.case_cong if_cong)
  qed
  then have run: "session_run demo_core (load_inputs morning_source) (Some demo_repository) False morning_plan
      publish_request = (True, [request_of publish_request morning_prepared],
      Inr \<lparr>rr_prepared = morning_prepared, rr_published = True,
           rr_arm_id = Some (canary_arm_identity demo_digest ''acc'' (pn_review morning_prepared)
             (pn_allocation morning_prepared))\<rparr>)"
    using morning_run by simp
  obtain inputs :: canary_inputs and bar :: "string audit_row" where b: "newest morning_source ClosedBarTopic (bar_hit (kp_symbol morning_plan))
      (bar_key (sw_bigint morning_source)) bar"
    "ebind (json_payload ''closed bar'' (Some bar)) (sw_bar morning_source) = Inr (kn_bar inputs)"
    using armed_canary_rests_on_newest_facts [OF run list.distinct(2)] by blast
  have "kn_bar inputs = kn_bar morning_inputs"
    using b(2) by (auto simp: morning_source_def split: if_split_asm)
  then show ?thesis using b by (auto simp: morning_plan_def morning_source_def simp del: ebind_Inr_iff)
qed

end
