(* ===== verification/Paper_Recovery.thy ===== *)
theory Paper_Recovery
  imports Paper_Service Canary_Source
begin

text \<open>
  \<open>RiskService._recover_paper_state\<close> (\<open>kairos_risk/service.py\<close>) with its query: what a restarted
  service reserves again, read from the audit log whose rows \<open>Canary_Source\<close> has.
\<close>

section \<open>The query and its decisions\<close>

definition recovery_hit :: "string \<Rightarrow> 'doc audit_row \<Rightarrow> bool" where
  "recovery_hit account_id r \<longleftrightarrow>
     er_topic r = RiskDecisionTopic \<and> has_text r [''approved''] ''true'' \<and> has_text r [''trading_mode''] ''PAPER'' \<and>
     has_text r [''evedex_profile''] ''DEV'' \<and> has_text r [''account_id''] account_id"

definition recovered_decision :: "('doc \<Rightarrow> risk_decision res) \<Rightarrow> 'doc audit_row \<Rightarrow> risk_decision res" where
  "recovered_decision parse r =
     ebind (decoded (er_payload r)) (\<lambda>p. case p of
       ObjectPayload d \<Rightarrow> parse d
     | _ \<Rightarrow> Inl (ValueError ''ValidationError''))"

fun recovered_decisions :: "('doc \<Rightarrow> risk_decision res) \<Rightarrow> 'doc audit_row list \<Rightarrow> risk_decision list res" where
  "recovered_decisions parse [] = Inr []"
| "recovered_decisions parse (r # rows) =
     ebind (recovered_decision parse r) (\<lambda>d. ebind (recovered_decisions parse rows) (\<lambda>ds. Inr (d # ds)))"

definition recovery_fetch :: "'doc source_world \<Rightarrow> string \<Rightarrow> int \<Rightarrow> risk_decision list res" where
  "recovery_fetch w account_id now =
     ebind (sw_fetch w RiskDecisionTopic) (\<lambda>_.
       ebind (unexpired (sw_bigint w) now (filter (recovery_hit account_id) (sw_rows w))) (\<lambda>rows.
         recovered_decisions (sw_decision w) (sort_key er_produced_at (sort_key er_message_id rows))))"

section \<open>What is reserved again\<close>

lemma recovered_decisions_iff:
  "recovered_decisions parse rows = Inr ds \<Longrightarrow>
     (\<forall>r \<in> set rows. \<exists>d \<in> set ds. recovered_decision parse r = Inr d) \<and>
     (\<forall>d \<in> set ds. \<exists>r \<in> set rows. recovered_decision parse r = Inr d)"
proof (induction rows arbitrary: ds)
  case (Cons r rows)
  obtain d rest where d: "recovered_decision parse r = Inr d" "recovered_decisions parse rows = Inr rest"
    "ds = d # rest"
    using Cons.prems [unfolded recovered_decisions.simps] by (elim ebindE) simp
  show ?case using Cons.IH [OF d(2)] d(1) by (auto simp: d(3))
qed simp

definition reserved_again :: "risk_decision \<Rightarrow> coordinator \<Rightarrow> bool" where
  "reserved_again d co \<longleftrightarrow>
     (\<exists>t rv. rd_trade_id d = Some t \<and> map_of (co_reservations co) t = Some rv \<and>
        rd_decision_id (rv_decision rv) = rd_decision_id d)"

lemma restore_one_Inr:
  assumes "restore_one d co = Inr co'"
  shows "reserved_again d co' \<and> validate_recovered (co_settings co) d = Inr () \<and> co_settings co' = co_settings co \<and>
    (\<forall>d'. reserved_again d' co \<longrightarrow> reserved_again d' co') \<and>
    (\<forall>t rv. map_of (co_reservations co') t = Some rv \<longrightarrow> map_of (co_reservations co) t = Some rv \<or> rv_decision rv = d)"
  using assms
  by (auto simp: restore_one_def reserved_again_def map_of_update co_settings_def
      split: sum.splits option.splits if_split_asm)

lemma restore_all_Inr:
  "restore_all ds co = (Inr (), co') \<Longrightarrow>
     (\<forall>d \<in> set ds. reserved_again d co' \<and> validate_recovered (co_settings co) d = Inr ()) \<and>
     (\<forall>d. reserved_again d co \<longrightarrow> reserved_again d co') \<and>
     (\<forall>t rv. map_of (co_reservations co') t = Some rv \<longrightarrow>
        map_of (co_reservations co) t = Some rv \<or> rv_decision rv \<in> set ds)"
proof (induction ds arbitrary: co)
  case (Cons d ds)
  obtain co1 where one: "restore_one d co = Inr co1" and rest: "restore_all ds co1 = (Inr (), co')"
    using Cons.prems by (auto split: sum.splits)
  have s: "co_settings co1 = co_settings co" using restore_one_Inr [OF one] by blast
  show ?case using Cons.IH [OF rest] restore_one_Inr [OF one] unfolding s by (simp, blast)
qed simp

lemma restored_distinct:
  "restore_all ds co = (Inr (), co') \<Longrightarrow> distinct (map fst (co_reservations co)) \<Longrightarrow>
     distinct (map fst (co_reservations co'))"
proof (induction ds arbitrary: co)
  case (Cons d ds)
  then obtain co1 where one: "restore_one d co = Inr co1" and rest: "restore_all ds co1 = (Inr (), co')"
    by (auto split: sum.splits)
  have "distinct (map fst (co_reservations co1))"
    using one Cons.prems(2) by (auto simp: restore_one_def distinct_update split: sum.splits option.splits if_split_asm)
  then show ?case by (rule Cons.IH [OF rest])
qed simp

text \<open>
  C5. A restart forgets no open approval and invents none. When a restarted service recovers
  without an error, every committed approval of the account on the PAPER route in the audit log that
  has not expired is reserved again under its trade and decision identity, and is an approved DEV
  decision of the configured account on a known instrument; every reservation is a decision of such a
  row; the account is unknown, so no review is decided until a snapshot arrives; and a second
  recovery raises and changes nothing.
\<close>
theorem restart_reserves_open_approvals:
  assumes "recover_paper_state True (Inr ()) (recovery_fetch w) now (new_paper_service pl scope) = (Inr (), ps)"
  shows "(\<forall>r \<in> set (sw_rows w). \<forall>n. recovery_hit (rs_paper_account_id (pl_settings pl)) r \<and>
        expiry_key (sw_bigint w) r = Inr (Value n) \<and> now \<le> n \<longrightarrow>
        (\<exists>d. recovered_decision (sw_decision w) r = Inr d \<and> reserved_again d (pv_paper ps) \<and>
           validate_recovered (pl_settings pl) d = Inr ())) \<and>
    (\<forall>(t, rv) \<in> set (co_reservations (pv_paper ps)). \<exists>r \<in> set (sw_rows w). \<exists>n.
        recovery_hit (rs_paper_account_id (pl_settings pl)) r \<and> expiry_key (sw_bigint w) r = Inr (Value n) \<and>
        now \<le> n \<and> recovered_decision (sw_decision w) r = Inr (rv_decision rv)) \<and>
    co_account (pv_paper ps) = None \<and>
    (\<exists>e. restore_reservations ds (pv_paper ps) = (Inl (RuntimeError e), pv_paper ps))"
proof -
  let ?acct = "rs_paper_account_id (pl_settings pl)" and ?new = "new_coordinator pl"
  have s: "co_settings ?new = pl_settings pl" by (simp add: co_settings_def new_coordinator_def)
  obtain found co where found: "recovery_fetch w ?acct now = Inr found"
    and co: "restore_reservations found ?new = (Inr (), co)" and ps: "pv_paper ps = co"
    using assms by (auto simp: recover_paper_state_def new_paper_service_def pv_settings_def s
        split: sum.splits prod.splits)
  obtain co1 where all: "restore_all found ?new = (Inr (), co1)"
    and co1: "co = (trim_decision_cache co1)\<lparr>co_recovery_loaded := True\<rparr>" "co_account co = None"
    using co restore_all_frame [of found ?new]
    by (auto simp: restore_reservations_def new_coordinator_def Let_def split: sum.splits prod.splits)
  obtain kept rows where kept: "unexpired (sw_bigint w) now (filter (recovery_hit ?acct) (sw_rows w)) = Inr kept"
    and rows: "recovered_decisions (sw_decision w) rows = Inr found" "set rows = set kept"
    using found unfolding recovery_fetch_def by (auto elim!: ebindE simp del: ebind_Inr_iff)
  note hit = unexpired_iff [OF kept, unfolded set_filter mem_Collect_eq] and dec = recovered_decisions_iff [OF rows(1)] and res = restore_all_Inr [OF all]
  have again: "reserved_again d co" if "reserved_again d co1" for d
    using that by (simp add: reserved_again_def co1(1))
  have open_row: "\<exists>d. recovered_decision (sw_decision w) r = Inr d \<and> reserved_again d co \<and>
      validate_recovered (pl_settings pl) d = Inr ()"
    if "r \<in> set (sw_rows w)" "recovery_hit ?acct r" "expiry_key (sw_bigint w) r = Inr (Value n)" "now \<le> n" for r n
  proof -
    have "r \<in> set kept" using hit [of r] that by blast
    then obtain d where "d \<in> set found" "recovered_decision (sw_decision w) r = Inr d"
      using dec rows(2) by blast
    then show ?thesis using conjunct1 [OF res] again [of d] unfolding s by blast
  qed
  have from_row: "\<exists>r \<in> set (sw_rows w). \<exists>n. recovery_hit ?acct r \<and> expiry_key (sw_bigint w) r = Inr (Value n) \<and>
      now \<le> n \<and> recovered_decision (sw_decision w) r = Inr (rv_decision rv)"
    if "(t, rv) \<in> set (co_reservations co)" for t rv
  proof -
    have "distinct (map fst (co_reservations co1))" by (rule restored_distinct [OF all]) (simp add: new_coordinator_def)
    then have "map_of (co_reservations co1) t = Some rv" using that by (simp add: co1(1) map_of_eq_Some_iff)
    then have "rv_decision rv \<in> set found" using res by (auto simp: new_coordinator_def)
    then obtain r where "r \<in> set kept" "recovered_decision (sw_decision w) r = Inr (rv_decision rv)"
      using dec rows(2) by blast
    then show ?thesis using hit [of r] by blast
  qed
  have "\<exists>e. restore_reservations ds co = (Inl (RuntimeError e), co)"
    by (simp add: restore_reservations_def co1(1))
  then show ?thesis using open_row from_row co1(2) unfolding ps by blast
qed


section \<open>A log with an open and an expired approval\<close>

definition approval_row :: "string \<Rightarrow> string \<Rightarrow> string audit_row" where
  "approval_row expires_at_ms payload =
     log_row RiskDecisionTopic
       [([''approved''], ''true''), ([''trading_mode''], ''PAPER''), ([''evedex_profile''], ''DEV''),
        ([''account_id''], ''acc''), ([''intent'', ''entry_expires_ts_ms''], expires_at_ms)] payload 3"

definition restart_source :: "risk_decision \<Rightarrow> string source_world" where
  "restart_source d =
     morning_source\<lparr>sw_rows := [approval_row ''0'' ''expired'', approval_row ''2'' ''open''],
       sw_decision := (\<lambda>p. if p = ''open'' then Inr d else Inl (ValueError ''expired''))\<rparr>"

lemma restart_fetch: "recovery_fetch (restart_source d) ''acc'' 1 = Inr [d]"
  by (simp add: recovery_fetch_def restart_source_def approval_row_def log_defs recovery_hit_def expiry_key_def
      recovered_decision_def del: ebind_Inr_iff)

theorem restart_reserves_open_approvals_witness:
  "\<exists>d ps. rd_approved d \<and>
     recover_paper_state True (Inr ()) (recovery_fetch (restart_source d)) 1 (new_paper_service paper_route None) =
       (Inr (), ps) \<and> reserved_again d (pv_paper ps)"
proof -
  obtain d where d: "evaluate_paper plain_core paper_route alpha_case = Inr d" "rd_approved d" by (rule alpha_caseE)
  have f: "rd_trading_mode d = PAPER" "rd_evedex_profile d = DEV" "rd_account_id d = ''acc''"
    "rd_review d = alpha_review ''i1''" "rd_venue_symbol d = ''BTCUSD:DEV''" "rd_trade_id d = Some ''ti1''"
    using evaluate_paper_fields [OF plain_core_keeps d(1)] naming_seal_id [OF d(1), of "''i1''"]
    by (simp_all add: alpha_case_def paper_route_def demo_settings_def alpha_review_def alpha_intent_def btc_venue_def)
  let ?new = "new_paper_service paper_route None"
  have acct: "rs_paper_account_id (pl_settings paper_route) = ''acc''" by (simp add: paper_route_def demo_settings_def)
  have "validate_recovered (co_settings (new_coordinator paper_route)) d = Inr ()"
    using d(2) f acct
    by (simp add: validate_recovered_def co_settings_def new_coordinator_def PAPER_DEV_SYMBOL_MAP_def)
  then obtain co1 where "restore_all [d] (new_coordinator paper_route) = (Inr (), co1)" "co_account co1 = None"
    using f by (auto simp: restore_one_def new_coordinator_def alpha_review_def)
  then obtain co where "restore_reservations [d] (new_coordinator paper_route) = (Inr (), co)"
    by (auto simp: restore_reservations_def new_coordinator_def Let_def)
  then obtain ps where run: "recover_paper_state True (Inr ()) (recovery_fetch (restart_source d)) 1 ?new = (Inr (), ps)"
    using acct
    by (auto simp: recover_paper_state_def new_paper_service_def pv_settings_def co_settings_def restart_fetch
        new_coordinator_def)
  let ?r = "approval_row ''2'' ''open''"
  have row: "?r \<in> set (sw_rows (restart_source d))" "recovery_hit ''acc'' ?r"
    "expiry_key (sw_bigint (restart_source d)) ?r = Inr (Value 2)"
    "recovered_decision (sw_decision (restart_source d)) ?r = Inr d"
    by (simp_all add: restart_source_def approval_row_def log_defs recovery_hit_def expiry_key_def
        recovered_decision_def del: ebind_Inr_iff)
  have "\<exists>d'. recovered_decision (sw_decision (restart_source d)) ?r = Inr d' \<and> reserved_again d' (pv_paper ps)"
    using conjunct1 [OF restart_reserves_open_approvals [OF run]] row(1-3) unfolding acct by fastforce
  then show ?thesis using d(2) run row(4) by auto
qed

end
