(* ===== verification/Live.thy ===== *)
theory Live
  imports Paper "HOL-Library.Product_Lexorder"
begin

text \<open>
  \<open>kairos_risk/live.py\<close>: the opt-in LIVE evaluator, which approves nothing without a registered
  verifier of account and inputs. Field constraints of the models are checked as pydantic does,
  before the model's own validator. Decimals matter by value only; the numbers of \<open>kairos_core\<close>'s
  contracts are finite, since those contracts refuse others and are validated again from JSON.
\<close>

section \<open>Decimals and floats\<close>

text \<open>
  \<open>_d\<close> of a finite float. Sums and products of a few such numbers stay far below the largest
  decimal exponent, so an operation on them is its rounding; only a division by a value that
  may be zero and an operation with an instrument's own decimals can raise.
\<close>

definition float_d :: "pyfloat \<Rightarrow> rat" where
  "float_d x = dval (decimal_of_float x)"

definition MAX_ACCOUNT_AGE_MS :: int where "MAX_ACCOUNT_AGE_MS = 5000"

definition MAX_VENUE_AGE_MS :: int where "MAX_VENUE_AGE_MS = 2000"

definition MAX_ALLOCATION_AGE_MS :: int where "MAX_ALLOCATION_AGE_MS = 93600000"

definition QUANTITY_QUANTUM :: rat where "QUANTITY_QUANTUM = 1 / 100000000"

text \<open>
  \<open>math.nextafter\<close> of a finite float, one step down and one step up. At a power of two the
  neighbour towards zero is half a quantum away, unless the numbers below are subnormal.
\<close>

definition least_float :: rat where "least_float = 2 powi (-1074)"

definition step_in :: "rat \<Rightarrow> rat" where
  "step_in q =
     (let u = quantum 2 53 (-1074) q
      in if q = 2 powi expo 2 q \<and> least_float < u then q - u / 2 else q - u)"

definition step_out :: "rat \<Rightarrow> rat" where
  "step_out q = (if q = 0 then least_float else q + quantum 2 53 (-1074) q)"

definition next_up :: "rat \<Rightarrow> pyfloat" where
  "next_up q =
     (if q < 0 then Fin (- step_in (- q))
      else if float_limit \<le> step_out q then PInf else Fin (step_out q))"

definition next_down :: "rat \<Rightarrow> pyfloat" where
  "next_down q = - next_up (- q)"

definition lower_float :: "rat \<Rightarrow> pyfloat res" where
  "lower_float v =
     (case to_float v of
        Fin q \<Rightarrow> Inr (pymax (Fin 0) (if v < float_d (Fin q) then next_down q else Fin q))
      | _ \<Rightarrow> Inl (ArithmeticError ''OverflowError''))"

definition upper_float :: "rat \<Rightarrow> pyfloat res" where
  "upper_float v =
     (case to_float v of
        Fin q \<Rightarrow> Inr (if float_d (Fin q) < v then next_up q else Fin q)
      | _ \<Rightarrow> Inl (ArithmeticError ''OverflowError''))"

section \<open>Scope and limits\<close>

definition hex64 :: "string \<Rightarrow> bool" where
  "hex64 s \<longleftrightarrow> length s = 64 \<and> (\<forall>c \<in> set s. c \<in> set ''0123456789abcdef'')"

definition bounded_text :: "nat \<Rightarrow> string \<Rightarrow> bool" where
  "bounded_text n s \<longleftrightarrow> s \<noteq> [] \<and> length s \<le> n"

definition venue_symbol_ok :: "string \<Rightarrow> bool" where
  "venue_symbol_ok s \<longleftrightarrow> s = py_upper (py_strip s) \<and> \<not> ends_with '':DEV'' s \<and> \<not> ends_with '':SIM'' s"

record live_scope =
  ls_context_sha256 :: string
  ls_source_set_sha256 :: string
  ls_policy_sha256 :: string
  ls_risk_limits_sha256 :: string
  ls_account_id :: string
  ls_strategy_id :: string
  ls_strategy_revision :: string
  ls_symbols :: "(string \<times> string) list"

definition check_pairs :: "(string \<times> string) list \<Rightarrow> unit res" where
  "check_pairs pairs =
     (if \<not> distinct (map fst pairs) then Inl (ValueError ''approved PROD signal symbols must be unique'')
      else if \<not> distinct (map snd pairs) then Inl (ValueError ''approved PROD venue symbols must be unique'')
      else if \<exists>(signal, venue) \<in> set pairs. signal = [] \<or> signal \<noteq> py_upper (py_strip signal) \<or>
          venue = [] \<or> \<not> venue_symbol_ok venue
      then Inl (ValueError ''approved symbols must be normalized uppercase, venues non-DEV/non-SIM'')
      else Inr ())"

definition mk_live_scope :: "live_scope \<Rightarrow> live_scope res" where
  "mk_live_scope s =
     (if \<not> (hex64 (ls_context_sha256 s) \<and> hex64 (ls_source_set_sha256 s) \<and> hex64 (ls_policy_sha256 s) \<and>
         hex64 (ls_risk_limits_sha256 s) \<and> bounded_text 128 (ls_account_id s) \<and>
         bounded_text 128 (ls_strategy_id s) \<and> bounded_text 128 (ls_strategy_revision s) \<and> ls_symbols s \<noteq> [])
      then Inl (ValueError ''field constraint'')
      else if \<exists>v \<in> {ls_account_id s, ls_strategy_id s, ls_strategy_revision s}. v \<noteq> py_strip v
      then Inl (ValueError ''scope text must be normalized'')
      else
        (let pairs = sort (ls_symbols s) in
         case check_pairs pairs of Inl e \<Rightarrow> Inl e | Inr _ \<Rightarrow> Inr (s\<lparr>ls_symbols := pairs\<rparr>)))"

definition venue_symbol_for :: "live_scope \<Rightarrow> string \<Rightarrow> string option" where
  "venue_symbol_for s signal = map_of (ls_symbols s) signal"

record live_limits =
  ll_per_trade_risk_fraction :: pyfloat
  ll_aggregate_open_risk_fraction :: pyfloat
  ll_max_leverage :: pyfloat
  ll_per_trade_dollar_cap_usd :: pyfloat
  ll_aggregate_dollar_cap_usd :: pyfloat
  ll_daily_loss_cap_usd :: pyfloat
  ll_max_account_equity_usd :: pyfloat
  ll_max_position_notional_usd :: pyfloat
  ll_min_notional_usd :: pyfloat

definition positive_float :: "pyfloat \<Rightarrow> bool" where
  "positive_float x \<longleftrightarrow> isfinite x \<and> Fin 0 < x"

definition limits_fields_ok :: "live_limits \<Rightarrow> bool" where
  "limits_fields_ok l \<longleftrightarrow>
     positive_float (ll_per_trade_risk_fraction l) \<and> ll_per_trade_risk_fraction l \<le> to_float (25 / 10000) \<and>
     positive_float (ll_aggregate_open_risk_fraction l) \<and> ll_aggregate_open_risk_fraction l \<le> to_float (1 / 100) \<and>
     Fin 1 \<le> ll_max_leverage l \<and> ll_max_leverage l \<le> Fin 1 \<and>
     list_all positive_float
       [ll_per_trade_dollar_cap_usd l, ll_aggregate_dollar_cap_usd l, ll_daily_loss_cap_usd l,
        ll_max_account_equity_usd l, ll_max_position_notional_usd l, ll_min_notional_usd l]"

definition mk_live_limits :: "live_limits \<Rightarrow> live_limits res" where
  "mk_live_limits l =
     (if \<not> limits_fields_ok l then Inl (ValueError ''field constraint'')
      else if pymin (ll_aggregate_dollar_cap_usd l) (ll_max_position_notional_usd l) < ll_min_notional_usd l
      then Inl (ValueError ''min_notional_usd exceeds a notional ceiling'')
      else Inr l)"

section \<open>Verified facts\<close>

record verified_account =
  va_source_id :: string
  va_scope_sha256 :: string
  va_evidence_sha256 :: string
  va_as_of_ms :: int
  va_account :: account_v2
  va_aggregate_open_risk_usd :: pyfloat
  va_aggregate_open_notional_usd :: pyfloat
  va_reserved_open_risk_usd :: pyfloat
  va_reserved_open_notional_usd :: pyfloat
  va_strategy_open_notional_usd :: pyfloat
  va_strategy_reserved_notional_usd :: pyfloat
  va_daily_adverse_loss_usd :: pyfloat

definition nonnegative_float :: "pyfloat \<Rightarrow> bool" where
  "nonnegative_float x \<longleftrightarrow> isfinite x \<and> Fin 0 \<le> x"

definition verified_fields_ok :: "verified_account \<Rightarrow> bool" where
  "verified_fields_ok v \<longleftrightarrow>
     bounded_text 160 (va_source_id v) \<and> hex64 (va_scope_sha256 v) \<and> hex64 (va_evidence_sha256 v) \<and>
     0 \<le> va_as_of_ms v \<and>
     list_all nonnegative_float
       [va_aggregate_open_risk_usd v, va_aggregate_open_notional_usd v, va_reserved_open_risk_usd v,
        va_reserved_open_notional_usd v, va_strategy_open_notional_usd v, va_strategy_reserved_notional_usd v,
        va_daily_adverse_loss_usd v]"

definition position_notionals :: "position_v2 list \<Rightarrow> pyfloat list" where
  "position_notionals ps = map (\<lambda>p. \<bar>p2_signed_quantity p\<bar> * p2_mark_price p) ps"

text \<open>An entry order without a price cannot be valued; other orders do not count.\<close>

fun add_entry_orders :: "pyfloat \<Rightarrow> order_v2 list \<Rightarrow> pyfloat res" where
  "add_entry_orders acc [] = Inr acc"
| "add_entry_orders acc (r # rs) =
     (if o2_order_role r \<noteq> ENTRY then add_entry_orders acc rs
      else case o2_price r of
        None \<Rightarrow> Inl (ValueError ''complete LIVE open-notional evidence cannot value an entry order'')
      | Some price \<Rightarrow> add_entry_orders (acc + (o2_quantity r - o2_filled_quantity r) * price) rs)"

definition minimum_adverse_loss :: "account_v2 \<Rightarrow> rat" where
  "minimum_adverse_loss a =
     rnd28 (max 0 (- float_d (a2_daily_realized_pnl_usd a)) + max 0 (- float_d (a2_unrealized_pnl_usd a)))"

definition mk_verified_account :: "verified_account \<Rightarrow> verified_account res" where
  "mk_verified_account v =
     (let a = va_account v in
      if \<not> verified_fields_ok v then Inl (ValueError ''field constraint'')
      else if va_source_id v \<noteq> py_strip (va_source_id v)
      then Inl (ValueError ''verified source_id must be normalized'')
      else if a2_trading_mode a \<noteq> LIVE then Inl (ValueError ''verified account must be LIVE'')
      else if a2_evedex_profile a \<noteq> evedex_profile.PROD then Inl (ValueError ''verified account must use EVEDEX PROD'')
      else if \<not> a2_reconciled a \<or> a2_reconciliation_seq a \<le> 0
      then Inl (ValueError ''verified account must be reconciled with a positive sequence'')
      else if a2_captured_at_ms a \<noteq> va_as_of_ms v
      then Inl (ValueError ''verified account as-of must equal snapshot captured_at_ms'')
      else if va_aggregate_open_risk_usd v < a2_total_open_risk_usd a
      then Inl (ValueError ''aggregate open risk cannot understate the account snapshot'')
      else case add_entry_orders (fsum (position_notionals (a2_positions a))) (a2_open_orders a) of
        Inl e \<Rightarrow> Inl e
      | Inr snapshot_notional \<Rightarrow>
          if va_aggregate_open_notional_usd v < snapshot_notional
          then Inl (ValueError ''aggregate open notional cannot understate the account snapshot'')
          else if float_d (va_daily_adverse_loss_usd v) < minimum_adverse_loss a
          then Inl (ValueError ''daily adverse loss cannot understate realized plus unrealized losses'')
          else Inr v)"

record verified_rules =
  vi_source_id :: string
  vi_scope_sha256 :: string
  vi_evidence_sha256 :: string
  vi_venue_symbol :: string
  vi_profile :: evedex_profile
  vi_observed_at_ms :: int
  vi_rules_updated_at_ms :: "int option"
  vi_price_increment :: rat
  vi_quantity_increment :: rat
  vi_min_price :: rat
  vi_max_price :: rat
  vi_min_quantity :: rat
  vi_max_quantity :: rat
  vi_min_notional_usd :: rat
  vi_max_notional_usd :: "rat option"
  vi_lot_size :: rat
  vi_multiplier :: rat

definition rules_fields_ok :: "verified_rules \<Rightarrow> bool" where
  "rules_fields_ok v \<longleftrightarrow>
     bounded_text 160 (vi_source_id v) \<and> hex64 (vi_scope_sha256 v) \<and> hex64 (vi_evidence_sha256 v) \<and>
     bounded_text 128 (vi_venue_symbol v) \<and> 0 \<le> vi_observed_at_ms v \<and>
     (case vi_rules_updated_at_ms v of None \<Rightarrow> True | Some t \<Rightarrow> 0 \<le> t) \<and>
     list_all (\<lambda>q. 0 < q)
       [vi_price_increment v, vi_quantity_increment v, vi_min_price v, vi_max_price v, vi_min_quantity v,
        vi_max_quantity v, vi_min_notional_usd v, vi_lot_size v, vi_multiplier v] \<and>
     (case vi_max_notional_usd v of None \<Rightarrow> True | Some q \<Rightarrow> 0 < q)"

definition mk_verified_rules :: "verified_rules \<Rightarrow> verified_rules res" where
  "mk_verified_rules v =
     (if \<not> rules_fields_ok v then Inl (ValueError ''field constraint'')
      else if vi_source_id v \<noteq> py_strip (vi_source_id v)
      then Inl (ValueError ''instrument source_id must be normalized'')
      else if vi_profile v \<noteq> evedex_profile.PROD \<or> \<not> venue_symbol_ok (vi_venue_symbol v)
      then Inl (ValueError ''instrument rules must identify one normalized PROD symbol'')
      else if vi_lot_size v \<noteq> 1 \<or> vi_multiplier v \<noteq> 1
      then Inl (ValueError ''instrument lot size/multiplier are unsupported'')
      else if vi_max_price v \<le> vi_min_price v \<or> vi_max_quantity v < vi_min_quantity v
      then Inl (ValueError ''instrument bounds are incoherent'')
      else if (case vi_max_notional_usd v of None \<Rightarrow> False | Some m \<Rightarrow> m < vi_min_notional_usd v)
      then Inl (ValueError ''instrument notional bounds are incoherent'')
      else if (case vi_rules_updated_at_ms v of None \<Rightarrow> False | Some t \<Rightarrow> vi_observed_at_ms v < t)
      then Inl (ValueError ''instrument rule-change timestamp postdates original capture'')
      else Inr v)"

record verified_inputs =
  vn_source_id :: string
  vn_scope_sha256 :: string
  vn_evidence_sha256 :: string
  vn_review_sha256 :: string
  vn_venue_sha256 :: string
  vn_allocation_sha256 :: "string option"
  vn_system_mode :: system_mode
  vn_observed_at_ms :: int
  vn_instrument_rules :: "verified_rules option"

definition mk_verified_inputs :: "verified_inputs \<Rightarrow> verified_inputs res" where
  "mk_verified_inputs v =
     (if \<not> (bounded_text 160 (vn_source_id v) \<and> hex64 (vn_scope_sha256 v) \<and> hex64 (vn_evidence_sha256 v) \<and>
         hex64 (vn_review_sha256 v) \<and> hex64 (vn_venue_sha256 v) \<and> 0 \<le> vn_observed_at_ms v)
      then Inl (ValueError ''field constraint'')
      else if (case vn_instrument_rules v of None \<Rightarrow> False | Some r \<Rightarrow> \<not> ok (mk_verified_rules r))
      then Inl (ValueError ''instrument rules'')
      else if vn_source_id v \<noteq> py_strip (vn_source_id v)
      then Inl (ValueError ''verified input source_id must be normalized'')
      else Inr v)"


section \<open>Sizing\<close>

text \<open>
  The instrument's own grid. \<open>dec_mod\<close> raises when the quotient has more than 28 digits.
\<close>

definition on_grid :: "rat \<Rightarrow> rat \<Rightarrow> bool res" where
  "on_grid x step = (case dec_mod x step of Inl e \<Rightarrow> Inl e | Inr r \<Rightarrow> Inr (r = 0))"

fun check_exit_prices :: "verified_rules \<Rightarrow> pyfloat list \<Rightarrow> unit res" where
  "check_exit_prices rules [] = Inr ()"
| "check_exit_prices rules (price # prices) =
     (let exact = float_d price; bad = Inl (ValueError ''immutable exit price violates authenticated instrument rules'') in
      if \<not> (vi_min_price rules \<le> exact \<and> exact \<le> vi_max_price rules) then bad
      else case on_grid exact (vi_price_increment rules) of
        Inl e \<Rightarrow> Inl e
      | Inr False \<Rightarrow> bad
      | Inr True \<Rightarrow> check_exit_prices rules prices)"

definition check_entry_price :: "strategy_intent \<Rightarrow> pyfloat \<Rightarrow> verified_rules \<Rightarrow> unit res" where
  "check_entry_price intent entry_price rules =
     (let entry = float_d entry_price; plan = in_exit_plan intent;
          stop = float_d (xp_stop_price plan); target = float_d (xp_target_price plan)
      in case on_grid entry (vi_price_increment rules) of
        Inl e \<Rightarrow> Inl e
      | Inr False \<Rightarrow> Inl (ValueError ''original executable book price violates instrument tick'')
      | Inr True \<Rightarrow>
          if \<not> (vi_min_price rules \<le> entry \<and> entry \<le> vi_max_price rules)
          then Inl (ValueError ''entry price violates authenticated instrument bounds'')
          else if in_side intent = LONG \<and> \<not> (stop < entry \<and> entry < target)
          then Inl (ValueError ''long entry violates immutable exit geometry'')
          else if in_side intent = SHORT \<and> \<not> (target < entry \<and> entry < stop)
          then Inl (ValueError ''short entry violates immutable exit geometry'')
          else Inr ())"

definition instrument_entry :: "strategy_intent \<Rightarrow> pyfloat \<Rightarrow> verified_rules \<Rightarrow> pyfloat res" where
  "instrument_entry intent entry_price rules =
     (let plan = in_exit_plan intent in
      case check_exit_prices rules [xp_stop_price plan, xp_target_price plan] of
        Inl e \<Rightarrow> Inl e
      | Inr _ \<Rightarrow> (case check_entry_price intent entry_price rules of Inl e \<Rightarrow> Inl e | Inr _ \<Rightarrow> Inr entry_price))"

text \<open>What one unit costs and what a quantity costs; every operation rounds to 28 digits.\<close>

record unit_terms =
  ut_entry :: rat
  ut_stop :: rat
  ut_mid :: rat
  ut_fee_rate :: rat
  ut_slippage_rate :: rat

definition terms_of :: "strategy_intent \<Rightarrow> venue_quality \<Rightarrow> pyfloat \<Rightarrow> unit_terms" where
  "terms_of intent venue entry_price =
     \<lparr>ut_entry = float_d entry_price, ut_stop = float_d (xp_stop_price (in_exit_plan intent)),
      ut_mid = float_d (vq_mid_price venue), ut_fee_rate = rnd28 (float_d (vq_taker_fee_bps venue) / 10000),
      ut_slippage_rate =
        rnd28 (float_d (if in_side intent = LONG then vq_buy_slippage_bps venue else vq_sell_slippage_bps venue) / 10000)\<rparr>"

definition stop_distance :: "unit_terms \<Rightarrow> rat" where
  "stop_distance t = \<bar>rnd28 (ut_entry t - ut_stop t)\<bar>"

definition unit_loss :: "unit_terms \<Rightarrow> rat" where
  "unit_loss t =
     rnd28 (rnd28 (stop_distance t + rnd28 (rnd28 (ut_entry t + ut_stop t) * ut_fee_rate t)) +
       rnd28 (ut_mid t * ut_slippage_rate t))"

definition notional_of :: "unit_terms \<Rightarrow> rat \<Rightarrow> rat" where
  "notional_of t q = rnd28 (q * ut_entry t)"

definition fees_of :: "unit_terms \<Rightarrow> rat \<Rightarrow> rat" where
  "fees_of t q = rnd28 (rnd28 (q * rnd28 (ut_entry t + ut_stop t)) * ut_fee_rate t)"

definition slippage_of :: "unit_terms \<Rightarrow> rat \<Rightarrow> rat" where
  "slippage_of t q = rnd28 (rnd28 (q * ut_mid t) * ut_slippage_rate t)"

definition loss_of :: "unit_terms \<Rightarrow> rat \<Rightarrow> rat" where
  "loss_of t q = rnd28 (rnd28 (rnd28 (q * stop_distance t) + fees_of t q) + slippage_of t q)"

text \<open>The caps on the position's notional.\<close>

record open_exposure =
  oe_open_notional :: pyfloat
  oe_reserved_notional :: pyfloat
  oe_strategy_notional :: pyfloat
  oe_strategy_reserved_notional :: pyfloat

definition room :: "rat \<Rightarrow> pyfloat \<Rightarrow> pyfloat \<Rightarrow> rat" where
  "room cap a b = max 0 (rnd28 (rnd28 (cap - float_d a) - float_d b))"

definition live_notional_cap ::
    "live_limits \<Rightarrow> strategy_intent \<Rightarrow> venue_quality \<Rightarrow> strategic_allocation \<Rightarrow> account_v2 \<Rightarrow> open_exposure \<Rightarrow>
     verified_rules option \<Rightarrow> rat res" where
  "live_notional_cap l intent venue a acct x rules =
     (let equity = float_d (a2_equity_usd acct);
          deployable = rnd28 (equity * rnd28 (1 - float_d (sa_stable_reserve_pct a)));
          gross = rnd28 (deployable * min 1 (float_d (sa_max_gross_leverage a)))
      in case map_of (sa_strategy_weights a) (in_strategy_id intent) of
        None \<Rightarrow> Inl (RuntimeError ''KeyError'')
      | Some weight \<Rightarrow>
          (let caps =
             [float_d (ll_max_position_notional_usd l),
              room (float_d (ll_aggregate_dollar_cap_usd l)) (oe_open_notional x) (oe_reserved_notional x),
              float_d (vq_assessed_notional_usd venue), float_d (vq_depth_usd venue),
              max 0 (rnd28 (float_d (a2_available_balance_usd acct) - float_d (oe_reserved_notional x))),
              room gross (oe_open_notional x) (oe_reserved_notional x),
              room (rnd28 (equity * float_d weight)) (oe_strategy_notional x) (oe_strategy_reserved_notional x)] @
             (case rules of Some r \<Rightarrow> (case vi_max_notional_usd r of Some m \<Rightarrow> [m] | None \<Rightarrow> []) | None \<Rightarrow> [])
           in Inr (Min (set caps))))"

record sizing_result =
  sz_quantity :: pyfloat
  sz_notional :: pyfloat
  sz_fees :: pyfloat
  sz_slippage :: pyfloat
  sz_worst_loss :: pyfloat

definition no_size :: sizing_result where
  "no_size = \<lparr>sz_quantity = Fin 0, sz_notional = Fin 0, sz_fees = Fin 0, sz_slippage = Fin 0, sz_worst_loss = Fin 0\<rparr>"

text \<open>A float as a decimal against a decimal limit; \<open>nextafter\<close> may have made it infinite.\<close>

definition exceeds :: "pyfloat \<Rightarrow> rat \<Rightarrow> bool" where
  "exceeds x limit = (if isfinite x then limit < float_d x else True)"

definition representable_lot :: "verified_rules option \<Rightarrow> rat \<Rightarrow> pyfloat \<Rightarrow> rat \<Rightarrow> unit res" where
  "representable_lot rules lot quantity q =
     (let bad = Inl (ValueError ''instrument quantity cannot be represented exactly in Core'') in
      case rules of
        None \<Rightarrow> Inr ()
      | Some r \<Rightarrow>
          if float_d quantity \<noteq> q then bad
          else (case on_grid (float_d quantity) lot of
              Inl e \<Rightarrow> Inl e
            | Inr False \<Rightarrow> bad
            | Inr True \<Rightarrow> if vi_max_quantity r < float_d quantity then bad else Inr ()))"

text \<open>One pass for a quantity: the floats it would be published with.\<close>

definition size_pass ::
    "unit_terms \<Rightarrow> verified_rules option \<Rightarrow> rat \<Rightarrow> rat \<Rightarrow> sizing_result res" where
  "size_pass t rules lot q =
     (case lower_float q of
        Inl e \<Rightarrow> Inl e
      | Inr quantity \<Rightarrow>
     (case representable_lot rules lot quantity q of
        Inl e \<Rightarrow> Inl e
      | Inr _ \<Rightarrow>
     (let displayed = rnd28 (float_d quantity * stop_distance t) in
      case upper_float (max (notional_of t q) (rnd28 (float_d quantity * ut_entry t))) of
        Inl e \<Rightarrow> Inl e
      | Inr notional \<Rightarrow>
     (case upper_float (fees_of t q) of
        Inl e \<Rightarrow> Inl e
      | Inr fees \<Rightarrow>
     (case upper_float (slippage_of t q) of
        Inl e \<Rightarrow> Inl e
      | Inr slippage \<Rightarrow>
          if \<not> isfinite fees \<or> \<not> isfinite slippage then Inl (ArithmeticError ''OverflowError'')
          else
            (case upper_float (max (loss_of t q) (rnd28 (rnd28 (displayed + float_d fees) + float_d slippage))) of
               Inl e \<Rightarrow> Inl e
             | Inr worst_loss \<Rightarrow>
                 Inr \<lparr>sz_quantity = quantity, sz_notional = notional, sz_fees = fees, sz_slippage = slippage,
                      sz_worst_loss = worst_loss\<rparr>))))))"

definition violates :: "unit_terms \<Rightarrow> rat \<Rightarrow> rat \<Rightarrow> rat \<Rightarrow> sizing_result \<Rightarrow> bool" where
  "violates t budget_usd cap q z \<longleftrightarrow>
     budget_usd < loss_of t q \<or> exceeds (sz_worst_loss z) budget_usd \<or> cap < notional_of t q \<or>
     exceeds (sz_notional z) cap \<or> cap < rnd28 (float_d (sz_quantity z) * ut_entry t)"

text \<open>At most three passes, each one increment lower than the last.\<close>

fun correction_loop ::
    "nat \<Rightarrow> unit_terms \<Rightarrow> verified_rules option \<Rightarrow> rat \<Rightarrow> rat \<Rightarrow> rat \<Rightarrow> rat \<Rightarrow> sizing_result res" where
  "correction_loop 0 t rules lot budget_usd cap q = Inr no_size"
| "correction_loop (Suc n) t rules lot budget_usd cap q =
     (if q \<le> 0 then Inr no_size
      else case size_pass t rules lot q of
        Inl e \<Rightarrow> Inl e
      | Inr z \<Rightarrow>
          if \<not> violates t budget_usd cap q z then Inr z
          else correction_loop n t rules lot budget_usd cap (rnd28 (q - lot)))"

definition first_quantity :: "rat \<Rightarrow> rat \<Rightarrow> rat res" where
  "first_quantity unrounded lot =
     (case dec_div unrounded lot of
        Inl e \<Rightarrow> Inl e
      | Inr n \<Rightarrow> dec_context (of_int (dec_truncate n) * lot))"

definition unrounded_quantity ::
    "unit_terms \<Rightarrow> verified_rules option \<Rightarrow> rat \<Rightarrow> rat \<Rightarrow> rat res" where
  "unrounded_quantity t rules budget_usd cap =
     (case dec_div budget_usd (unit_loss t) of
        Inl e \<Rightarrow> Inl e
      | Inr by_loss \<Rightarrow>
     (case dec_div cap (ut_entry t) of
        Inl e \<Rightarrow> Inl e
      | Inr by_notional \<Rightarrow>
          Inr (case rules of
              None \<Rightarrow> min by_loss by_notional
            | Some r \<Rightarrow> min (min by_loss by_notional) (vi_max_quantity r))))"

definition live_size ::
    "live_limits \<Rightarrow> strategy_intent \<Rightarrow> venue_quality \<Rightarrow> strategic_allocation \<Rightarrow> account_v2 \<Rightarrow> open_exposure \<Rightarrow>
     pyfloat \<Rightarrow> pyfloat \<Rightarrow> verified_rules option \<Rightarrow> sizing_result res" where
  "live_size l intent venue a acct x loss_budget entry_price rules =
     (let t = terms_of intent venue entry_price; budget_usd = float_d loss_budget;
          lot = (case rules of Some r \<Rightarrow> vi_quantity_increment r | None \<Rightarrow> QUANTITY_QUANTUM)
      in
      if unit_loss t \<le> 0 \<or> budget_usd \<le> 0 then Inr no_size
      else case live_notional_cap l intent venue a acct x rules of
        Inl e \<Rightarrow> Inl e
      | Inr cap \<Rightarrow>
     (case unrounded_quantity t rules budget_usd cap of
        Inl e \<Rightarrow> Inl e
      | Inr unrounded \<Rightarrow>
     (case first_quantity unrounded lot of
        Inl e \<Rightarrow> Inl e
      | Inr q \<Rightarrow> correction_loop 3 t rules lot budget_usd cap q)))"


section \<open>Admission gates\<close>

definition live_review_reasons ::
    "live_scope \<Rightarrow> candidate_review \<Rightarrow> int \<Rightarrow> system_mode \<Rightarrow> rejection list" where
  "live_review_reasons scope review now mode =
     (let intent = cr_intent review in
      reason_if (rt_intent (cr_route review) \<noteq> intent) ''immutable_intent_mismatch'' @
      reason_if (in_contract_version intent = ''strategy-intent.observed-sim.v2'') ''SIM_ONLY_INTENT'' @
      reason_if (in_strategy_id intent \<noteq> ls_strategy_id scope \<or> in_strategy_revision intent \<noteq> ls_strategy_revision scope)
        ''strategy_scope_mismatch'' @
      (if cr_decision review \<noteq> ALLOW then [ReviewReason (cr_decision review)] else []) @
      (if mode \<noteq> NORMAL then [ModeReason mode] else []) @
      reason_if (now < cr_reviewed_at_ms review \<or> now < in_entry_eligible_ts_ms intent) ''candidate_not_yet_eligible'' @
      reason_if (in_entry_expires_ts_ms intent < now) ''candidate_expired'')"

definition age_reasons :: "int \<Rightarrow> int \<Rightarrow> string \<Rightarrow> string \<Rightarrow> rejection list" where
  "age_reasons age limit future stale =
     (if age < 0 then [Reason future] else reason_if (limit < age) stale)"

definition live_venue_reasons :: "venue_quality \<Rightarrow> int \<Rightarrow> rejection list" where
  "live_venue_reasons venue now =
     (if vq_entry_allowed venue then []
      else Reason ''venue_entry_blocked'' # map VenueReason (vq_reason_codes venue)) @
     age_reasons (now - vq_observed_at_ms venue) MAX_VENUE_AGE_MS ''venue_observation_from_future'' ''venue_quality_stale'' @
     age_reasons (now - vq_book_timestamp_ms venue) MAX_VENUE_AGE_MS ''venue_book_from_future'' ''venue_book_stale'' @
     age_reasons (now - vq_reference_timestamp_ms venue) MAX_VENUE_AGE_MS ''venue_reference_from_future''
       ''venue_reference_stale'' @
     reason_if (vq_expires_at_ms venue < now) ''venue_quality_expired''"

definition strategy_snapshot_notional :: "string \<Rightarrow> account_v2 \<Rightarrow> pyfloat" where
  "strategy_snapshot_notional strategy_id a =
     fsum (position_notionals (filter (\<lambda>p. ln_strategy_id (p2_lineage p) = strategy_id) (a2_positions a))) +
     fsum (List.map_filter
       (\<lambda>r. if o2_order_role r = ENTRY \<and> ln_strategy_id (o2_lineage r) = strategy_id
            then map_option (\<lambda>price. (o2_quantity r - o2_filled_quantity r) * price) (o2_price r) else None)
       (a2_open_orders a))"

definition live_account_reasons ::
    "live_scope \<Rightarrow> live_limits \<Rightarrow> venue_quality \<Rightarrow> verified_account option \<Rightarrow> int \<Rightarrow> rejection list" where
  "live_account_reasons scope l venue verified now =
     (case verified of
        None \<Rightarrow> [Reason ''account_snapshot_missing'']
      | Some v \<Rightarrow>
         (let a = va_account v; open_risk = va_aggregate_open_risk_usd v + va_reserved_open_risk_usd v in
          reason_if (a2_trading_mode a \<noteq> LIVE \<or> a2_evedex_profile a \<noteq> evedex_profile.PROD) ''account_environment_mismatch'' @
          reason_if (a2_account_id a \<noteq> ls_account_id scope) ''account_id_mismatch'' @
          reason_if (ll_max_account_equity_usd l < a2_equity_usd a) ''account_equity_above_release_ceiling'' @
          age_reasons (now - va_as_of_ms v) MAX_ACCOUNT_AGE_MS ''account_snapshot_from_future'' ''account_snapshot_stale'' @
          reason_if (\<exists>p \<in> set (a2_positions a). ln_venue_symbol (p2_lineage p) = vq_symbol venue)
            ''symbol_has_active_position'' @
          reason_if (\<exists>r \<in> set (a2_open_orders a). ln_venue_symbol (o2_lineage r) = vq_symbol venue)
            ''symbol_has_open_order'' @
          reason_if (va_strategy_open_notional_usd v < strategy_snapshot_notional (ls_strategy_id scope) a)
            ''strategy_open_notional_understated'' @
          reason_if (a2_equity_usd a * ll_aggregate_open_risk_fraction l \<le> open_risk)
            ''aggregate_open_risk_limit_exhausted'' @
          reason_if (ll_daily_loss_cap_usd l \<le>
              va_daily_adverse_loss_usd v + va_aggregate_open_risk_usd v + va_reserved_open_risk_usd v)
            ''daily_loss_limit_exhausted''))"

definition live_regime_reasons :: "market_regime \<Rightarrow> side \<Rightarrow> rejection list" where
  "live_regime_reasons regime sd =
     (if regime = CHOP then [Reason ''macro_regime_chop'']
      else if regime = BEAR \<and> sd = LONG then [Reason ''macro_regime_forbids_long'']
      else reason_if (regime = BULL \<and> sd = SHORT) ''macro_regime_forbids_short'')"

definition live_allocation_reasons ::
    "live_scope \<Rightarrow> strategy_intent \<Rightarrow> strategic_allocation option \<Rightarrow> int \<Rightarrow> rejection list" where
  "live_allocation_reasons scope intent allocation now =
     (case allocation of
        None \<Rightarrow> [Reason ''strategic_allocation_missing'']
      | Some a \<Rightarrow>
          reason_if (allocation_error a \<noteq> None) ''strategic_allocation_invalid'' @
          (if \<not> is_aware (sa_produced_at a) then [Reason ''strategic_allocation_naive_timestamp'']
           else age_reasons (now - timestamp_ms (sa_produced_at a)) MAX_ALLOCATION_AGE_MS
             ''strategic_allocation_from_future'' ''strategic_allocation_stale'') @
          reason_if ((case map_of (sa_strategy_weights a) (ls_strategy_id scope) of None \<Rightarrow> Fin 0 | Some w \<Rightarrow> w) \<le> Fin 0)
            ''strategy_has_no_macro_allocation'' @
          live_regime_reasons (sa_regime a) (in_side intent) @
          reason_if (sa_max_gross_leverage a < Fin 1) ''macro_leverage_below_one'')"

definition admission_gates ::
    "live_scope \<Rightarrow> live_limits \<Rightarrow> candidate_review \<Rightarrow> venue_quality \<Rightarrow> strategic_allocation option \<Rightarrow>
     verified_account option \<Rightarrow> int \<Rightarrow> system_mode \<Rightarrow> rejection list" where
  "admission_gates scope l review venue allocation verified now mode =
     live_review_reasons scope review now mode @ live_venue_reasons venue now @
     geometry_reasons (cr_intent review) venue @ live_account_reasons scope l venue verified now @
     live_allocation_reasons scope (cr_intent review) allocation now"

section \<open>The evaluator\<close>

text \<open>
  The documents whose digest is compared, \<open>model_dump\<close> of a model being the model, and what
  \<open>kairos_core\<close> supplies: the digest, the validation from JSON, the decision's constructor.
\<close>

datatype live_document =
    DScope live_scope
  | DLimits live_limits
  | DReview candidate_review
  | DVenue venue_quality
  | DAllocation strategic_allocation
  | DFields "(string \<times> live_field) list"
and live_field =
    FText string
  | FInt int
  | FDecimal pydecimal
  | FItems "live_document list"

record live_core =
  lc_digest :: "live_document \<Rightarrow> string"
  lc_review :: "candidate_review \<Rightarrow> candidate_review res"
  lc_venue :: "venue_quality \<Rightarrow> venue_quality res"
  lc_account :: "account_v2 \<Rightarrow> account_v2 res"
  lc_decision :: "risk_decision \<Rightarrow> risk_decision res"

type_synonym 'raw account_verifier = "'raw \<Rightarrow> string \<Rightarrow> live_scope \<Rightarrow> verified_account res"

record 'raw input_request =
  iq_evidence :: 'raw
  iq_scope :: live_scope
  iq_review :: candidate_review
  iq_venue :: venue_quality
  iq_allocation :: "strategic_allocation option"
  iq_system_mode :: system_mode
  iq_decided_at_ms :: int

record 'raw live_evaluator =
  lx_scope :: live_scope
  lx_limits :: live_limits
  lx_account_verifiers :: "(string \<times> 'raw account_verifier) list"
  lx_input_verifier :: "('raw input_request \<Rightarrow> verified_inputs res) option"
  lx_require_rules :: bool

definition mk_live_evaluator :: "live_core \<Rightarrow> 'raw live_evaluator \<Rightarrow> 'raw live_evaluator res" where
  "mk_live_evaluator core x =
     (case mk_live_scope (lx_scope x) of
        Inl e \<Rightarrow> Inl e
      | Inr scope \<Rightarrow>
     (case mk_live_limits (lx_limits x) of
        Inl e \<Rightarrow> Inl e
      | Inr l \<Rightarrow>
          if ls_risk_limits_sha256 scope \<noteq> lc_digest core (DLimits l)
          then Inl (ValueError ''LIVE scope is not bound to the supplied immutable risk limits'')
          else if \<exists>k \<in> set (map fst (lx_account_verifiers x)). k = [] \<or> k \<noteq> py_strip k
          then Inl (ValueError ''registered account source IDs must be normalized'')
          else Inr (x\<lparr>lx_scope := scope, lx_limits := l\<rparr>)))"

definition scope_sha256 :: "live_core \<Rightarrow> live_scope \<Rightarrow> string" where
  "scope_sha256 core scope = lc_digest core (DScope scope)"

text \<open>Validating a verified account again validates the contract inside it.\<close>

definition revalidate_account :: "live_core \<Rightarrow> verified_account \<Rightarrow> verified_account res" where
  "revalidate_account core v =
     (case lc_account core (va_account v) of Inl e \<Rightarrow> Inl e | Inr a \<Rightarrow> mk_verified_account (v\<lparr>va_account := a\<rparr>))"

definition rules_bound :: "live_core \<Rightarrow> live_scope \<Rightarrow> verified_inputs \<Rightarrow> verified_rules \<Rightarrow> venue_quality \<Rightarrow> int \<Rightarrow> bool" where
  "rules_bound core scope v r venue now \<longleftrightarrow>
     vi_source_id r = vn_source_id v \<and> vi_scope_sha256 r = scope_sha256 core scope \<and>
     vi_evidence_sha256 r = vn_evidence_sha256 v \<and> vi_venue_symbol r = vq_symbol venue \<and>
     0 \<le> now - vi_observed_at_ms r \<and> now - vi_observed_at_ms r \<le> MAX_ACCOUNT_AGE_MS \<and>
     vi_observed_at_ms r \<le> vn_observed_at_ms v"

definition inputs_bound ::
    "live_core \<Rightarrow> live_scope \<Rightarrow> candidate_review \<Rightarrow> venue_quality \<Rightarrow> strategic_allocation option \<Rightarrow> system_mode \<Rightarrow>
     int \<Rightarrow> verified_inputs \<Rightarrow> bool" where
  "inputs_bound core scope review venue allocation mode now v \<longleftrightarrow>
     vn_scope_sha256 v = scope_sha256 core scope \<and> vn_review_sha256 v = lc_digest core (DReview review) \<and>
     vn_venue_sha256 v = lc_digest core (DVenue venue) \<and>
     vn_allocation_sha256 v = map_option (\<lambda>a. lc_digest core (DAllocation a)) allocation \<and>
     vn_system_mode v = mode \<and> 0 \<le> now - vn_observed_at_ms v \<and> now - vn_observed_at_ms v \<le> MAX_ACCOUNT_AGE_MS \<and>
     (case vn_instrument_rules v of None \<Rightarrow> True | Some r \<Rightarrow> rules_bound core scope v r venue now)"

text \<open>Any exception of a verifier or of a check means unverified.\<close>

definition verify_inputs ::
    "live_core \<Rightarrow> 'raw live_evaluator \<Rightarrow> 'raw option \<Rightarrow> candidate_review \<Rightarrow> venue_quality \<Rightarrow>
     strategic_allocation option \<Rightarrow> system_mode \<Rightarrow> int \<Rightarrow> verified_inputs option \<times> rejection list" where
  "verify_inputs core x raw review venue allocation mode now =
     (case (lx_input_verifier x, raw) of
        (None, _) \<Rightarrow> (None, [Reason ''input_source_unregistered''])
      | (Some _, None) \<Rightarrow> (None, [Reason ''input_source_proof_missing''])
      | (Some verifier, Some evidence) \<Rightarrow>
         (case ebind (verifier \<lparr>iq_evidence = evidence, iq_scope = lx_scope x, iq_review = review, iq_venue = venue,
             iq_allocation = allocation, iq_system_mode = mode, iq_decided_at_ms = now\<rparr>) mk_verified_inputs of
            Inl _ \<Rightarrow> (None, [Reason ''input_source_verification_failed''])
          | Inr v \<Rightarrow>
              if inputs_bound core (lx_scope x) review venue allocation mode now v then (Some v, [])
              else (None, [Reason ''input_source_verification_failed''])))"

definition verify_account ::
    "live_core \<Rightarrow> 'raw live_evaluator \<Rightarrow> 'raw \<Rightarrow> string \<Rightarrow> verified_account option \<times> rejection list" where
  "verify_account core x raw source_id =
     (case map_of (lx_account_verifiers x) source_id of
        None \<Rightarrow> (None, [Reason ''account_source_unregistered''])
      | Some verifier \<Rightarrow>
         (case ebind (verifier raw source_id (lx_scope x)) (revalidate_account core) of
            Inl _ \<Rightarrow> (None, [Reason ''account_source_verification_failed''])
          | Inr v \<Rightarrow>
              if va_source_id v = source_id \<and> va_scope_sha256 v = scope_sha256 core (lx_scope x) \<and>
                 a2_account_id (va_account v) = ls_account_id (lx_scope x)
              then (Some v, [])
              else (None, [Reason ''account_source_verification_failed''])))"

definition live_loss_budget :: "live_limits \<Rightarrow> verified_account \<Rightarrow> rat" where
  "live_loss_budget l v =
     (let equity = float_d (a2_equity_usd (va_account v)); open_risk = va_aggregate_open_risk_usd v;
          reserved = va_reserved_open_risk_usd v;
          daily_room = room (rnd28 (float_d (ll_daily_loss_cap_usd l) - float_d (va_daily_adverse_loss_usd v))) open_risk reserved;
          aggregate_room = room (rnd28 (equity * float_d (ll_aggregate_open_risk_fraction l))) open_risk reserved
      in min (min (rnd28 (equity * float_d (ll_per_trade_risk_fraction l))) (float_d (ll_per_trade_dollar_cap_usd l)))
           (min aggregate_room daily_room))"

text \<open>Reasons that a sized position adds, and those that failed sizing adds.\<close>

definition size_reasons :: "live_limits \<Rightarrow> verified_rules option \<Rightarrow> pyfloat \<Rightarrow> sizing_result \<Rightarrow> rejection list" where
  "size_reasons l rules entry_price z =
     (if sz_quantity z \<le> Fin 0 then [Reason ''position_capacity_exhausted'']
      else
        reason_if (float_d (sz_notional z) < float_d (ll_min_notional_usd l)) ''position_below_minimum_notional'') @
     (case rules of
        Some r \<Rightarrow>
          if Fin 0 < sz_quantity z
          then reason_if (float_d (sz_quantity z) < vi_min_quantity r) ''position_below_instrument_minimum_quantity'' @
               reason_if (rnd28 (float_d (sz_quantity z) * float_d entry_price) < vi_min_notional_usd r)
                 ''position_below_instrument_minimum_notional''
          else []
      | None \<Rightarrow> [])"

fun arithmetic_or_value :: "pyerr \<Rightarrow> bool" where
  "arithmetic_or_value (ArithmeticError _) = True"
| "arithmetic_or_value (ValueError _) = True"
| "arithmetic_or_value _ = False"

definition size_or_reject ::
    "live_limits \<Rightarrow> verified_rules option \<Rightarrow> pyfloat \<Rightarrow> sizing_result res \<Rightarrow> (sizing_result \<times> rejection list) res" where
  "size_or_reject l rules entry_price outcome =
     (case outcome of
        Inr z \<Rightarrow> Inr (z, size_reasons l rules entry_price z)
      | Inl e \<Rightarrow>
          if arithmetic_or_value e
          then Inr (no_size, Reason ''sizing_numeric_invalid'' # size_reasons l rules entry_price no_size)
          else Inl e)"

definition exposure_of :: "verified_account \<Rightarrow> open_exposure" where
  "exposure_of v =
     \<lparr>oe_open_notional = va_aggregate_open_notional_usd v, oe_reserved_notional = va_reserved_open_notional_usd v,
      oe_strategy_notional = va_strategy_open_notional_usd v,
      oe_strategy_reserved_notional = va_strategy_reserved_notional_usd v\<rparr>"

text \<open>
  Budget and size of a verified account with a valid allocation. Without one the gates have
  already rejected.
\<close>

definition budget_and_size ::
    "live_limits \<Rightarrow> strategy_intent \<Rightarrow> venue_quality \<Rightarrow> strategic_allocation option \<Rightarrow> verified_account option \<Rightarrow>
     pyfloat \<Rightarrow> verified_rules option \<Rightarrow> rejection list \<Rightarrow> (pyfloat \<times> sizing_result \<times> rejection list) res" where
  "budget_and_size l intent venue allocation verified entry_price rules reasons =
     (case (verified, allocation) of
        (Some v, Some a) \<Rightarrow>
          if allocation_error a \<noteq> None then Inr (Fin 0, no_size, reasons)
          else
            (case lower_float (live_loss_budget l v) of
               Inl e \<Rightarrow> Inl e
             | Inr loss_budget \<Rightarrow>
                (let reasons' = reasons @ reason_if (loss_budget \<le> Fin 0) ''risk_budget_exhausted'' in
                 if reasons' \<noteq> [] then Inr (loss_budget, no_size, reasons')
                 else
                   (case size_or_reject l rules entry_price
                       (live_size l intent venue a (va_account v) (exposure_of v) loss_budget entry_price rules) of
                      Inl e \<Rightarrow> Inl e
                    | Inr (z, more_reasons) \<Rightarrow>
                        Inr (loss_budget, z,
                          more_reasons @ reason_if (loss_budget < sz_worst_loss z) ''computed_loss_exceeds_budget''))))
      | _ \<Rightarrow> Inr (Fin 0, no_size, reasons))"


record live_evaluation =
  le_decision :: risk_decision
  le_scope_sha256 :: string
  le_source_id :: "string option"
  le_verified :: "verified_account option"
  le_account_snapshot_sha256 :: "string option"
  le_inputs :: "verified_inputs option"
  le_instrument_rules :: "verified_rules option"

text \<open>
  The evaluation's many optional fields are those of the verified account and of the verified
  inputs, each absent exactly when its record is.
\<close>

definition live_decision ::
    "live_scope \<Rightarrow> candidate_review \<Rightarrow> venue_quality \<Rightarrow> int \<Rightarrow> pyfloat \<Rightarrow> pyfloat \<Rightarrow> sizing_result \<Rightarrow>
     rejection list \<Rightarrow> risk_decision" where
  "live_decision scope review venue now entry_price loss_budget z reasons =
     (let intent = cr_intent review; approved = (reasons = []); y = (if approved then z else no_size) in
      \<lparr>rd_source = ''kairos-live-risk-evaluator'', rd_correlation_id = in_intent_id intent,
       rd_causation_id = cr_message_id review, rd_intent = intent, rd_review = review, rd_venue_quality = venue,
       rd_approved = approved, rd_rejection_reasons = (if approved then [] else reasons),
       rd_decided_at_ms = max now (cr_reviewed_at_ms review), rd_trading_mode = LIVE,
       rd_evedex_profile = evedex_profile.PROD, rd_account_id = ls_account_id scope,
       rd_venue_symbol = vq_symbol venue, rd_quantity = sz_quantity y, rd_leverage = Fin 1,
       rd_notional_usd = sz_notional y, rd_loss_budget_usd = (if approved then loss_budget else Fin 0),
       rd_worst_case_loss_usd = sz_worst_loss y, rd_worst_entry_price = entry_price,
       rd_estimated_fees_usd = sz_fees y, rd_estimated_slippage_usd = sz_slippage y,
       rd_exit_plan = in_exit_plan intent, rd_decision_id = None, rd_trade_id = None\<rparr>)"

definition check_live_venue :: "live_scope \<Rightarrow> candidate_review \<Rightarrow> venue_quality \<Rightarrow> unit res" where
  "check_live_venue scope review venue =
     (if vq_profile venue \<noteq> evedex_profile.PROD
      then Inl (ValueError ''LIVE risk requires an EVEDEX PROD venue measurement'')
      else case venue_symbol_for scope (in_symbol (cr_intent review)) of
        None \<Rightarrow> Inl (ValueError ''LIVE risk symbol is outside the frozen PROD scope'')
      | Some symbol \<Rightarrow>
          if vq_symbol venue \<noteq> symbol
          then Inl (ValueError ''LIVE venue symbol differs from frozen PROD scope'') else Inr ())"

text \<open>The entry price under the instrument's rules; an unusable one is a rejection.\<close>

definition entry_or_reject ::
    "strategy_intent \<Rightarrow> pyfloat \<Rightarrow> verified_rules option \<Rightarrow> rejection list res" where
  "entry_or_reject intent entry_price rules =
     (case rules of
        None \<Rightarrow> Inr []
      | Some r \<Rightarrow>
         (case instrument_entry intent entry_price r of
            Inr _ \<Rightarrow> Inr []
          | Inl e \<Rightarrow> if arithmetic_or_value e then Inr [Reason ''instrument_price_geometry_invalid''] else Inl e))"

definition evaluate_checked ::
    "live_core \<Rightarrow> 'raw live_evaluator \<Rightarrow> 'raw \<Rightarrow> 'raw option \<Rightarrow> string \<Rightarrow> candidate_review \<Rightarrow> venue_quality \<Rightarrow>
     strategic_allocation option \<Rightarrow> int \<Rightarrow> system_mode \<Rightarrow> live_evaluation res" where
  "evaluate_checked core x raw raw_inputs source_id review venue allocation now mode =
     (let intent = cr_intent review; scope = lx_scope x; l = lx_limits x;
          (inputs, input_reasons) = verify_inputs core x raw_inputs review venue allocation mode now;
          rules = (case inputs of None \<Rightarrow> None | Some v \<Rightarrow> vn_instrument_rules v);
          (verified, account_reasons) = verify_account core x raw source_id;
          entry_price = worst_entry_price intent venue;
          gates = input_reasons @ reason_if (lx_require_rules x \<and> rules = None) ''instrument_rules_missing'' @
            account_reasons @ admission_gates scope l review venue allocation verified now mode
      in case entry_or_reject intent entry_price rules of
        Inl e \<Rightarrow> Inl e
      | Inr entry_reasons \<Rightarrow>
     (case budget_and_size l intent venue allocation verified entry_price rules (gates @ entry_reasons) of
        Inl e \<Rightarrow> Inl e
      | Inr (loss_budget, z, reasons) \<Rightarrow>
     (case lc_decision core (live_decision scope review venue now entry_price loss_budget z reasons) of
        Inl e \<Rightarrow> Inl e
      | Inr d \<Rightarrow>
          Inr \<lparr>le_decision = d, le_scope_sha256 = scope_sha256 core scope,
               le_source_id = (case verified of Some v \<Rightarrow> Some (va_source_id v)
                 | None \<Rightarrow> if source_id = [] then None else Some source_id),
               le_verified = verified,
               le_account_snapshot_sha256 = (case verified of Some v \<Rightarrow> a2_snapshot_id (va_account v) | None \<Rightarrow> None),
               le_inputs = inputs, le_instrument_rules = rules\<rparr>)))"

definition evaluate_live ::
    "live_core \<Rightarrow> 'raw live_evaluator \<Rightarrow> 'raw \<Rightarrow> 'raw option \<Rightarrow> string \<Rightarrow> candidate_review \<Rightarrow> venue_quality \<Rightarrow>
     strategic_allocation option \<Rightarrow> int \<Rightarrow> system_mode \<Rightarrow> live_evaluation res" where
  "evaluate_live core x raw raw_inputs source_id review venue allocation now mode =
     (if now < 0 then Inl (ValueError ''decided_at_ms must be a non-negative integer'')
      else case lc_review core review of
        Inl e \<Rightarrow> Inl e
      | Inr review' \<Rightarrow>
     (case lc_venue core venue of
        Inl e \<Rightarrow> Inl e
      | Inr venue' \<Rightarrow>
     (case check_live_venue (lx_scope x) review' venue' of
        Inl e \<Rightarrow> Inl e
      | Inr _ \<Rightarrow> evaluate_checked core x raw raw_inputs source_id review' venue' allocation now mode)))"


section \<open>Conservative floats\<close>

lemma quantum_64: "quantum 2 53 (-1074) q = 2 powi max (expo 2 q - 52) (-1074)"
  by (simp add: quantum_def)

lemma mantissa_bound:
  assumes "0 < (q :: rat)" "rnd64 q = q"
  obtains m where "q = of_int m * quantum 2 53 (-1074) q" "1 \<le> m" "m < 2 ^ 53"
proof -
  let ?u = "quantum 2 53 (-1074) q" and ?k = "max (expo 2 q - 52) (-1074)"
  have u: "0 < ?u" by (rule quantum_pos) simp
  have q: "q = of_int (round_half_even (q / ?u)) * ?u"
    using assms by (simp add: rnd64_def fl_round_def Let_def)
  let ?m = "round_half_even (q / ?u)"
  have "0 < of_int ?m * ?u" using assms(1) q by simp
  then have "1 \<le> ?m" using u by (simp add: zero_less_mult_iff)
  moreover have "?m < 2 ^ 53"
  proof -
    have "q < 2 powi (expo 2 q + 1)" using expo_bounds [of 2 q] assms(1) by simp
    also have "\<dots> \<le> 2 powi (?k + 53)" by (rule power_int_increasing) auto
    also have "\<dots> = 2 ^ 53 * ?u" by (simp add: quantum_64 power_int_add)
    finally have "of_int ?m * ?u < 2 ^ 53 * ?u" using q by simp
    then have "(of_int ?m :: rat) < 2 ^ 53" using u by simp
    then have "(of_int ?m :: rat) < of_int (2 ^ 53)" by simp
    then show ?thesis by (simp only: of_int_less_iff)
  qed
  ultimately show ?thesis using q that by blast
qed

lemma multiple_fixed: "\<bar>m\<bar> < 2 ^ 53 \<Longrightarrow> -1074 \<le> k \<Longrightarrow> rnd64 (of_int m * 2 powi k) = of_int m * 2 powi k"
  by (rule rnd64_representable, rule representableI [of _ m _ k]) auto

lemma step_in_spec:
  assumes "0 < q" "rnd64 q = q"
  shows "0 \<le> step_in q \<and> step_in q < q \<and> rnd64 (step_in q) = step_in q"
proof -
  let ?u = "quantum 2 53 (-1074) q" and ?k = "max (expo 2 q - 52) (-1074)"
  obtain m where m: "q = of_int m * ?u" "1 \<le> m" "m < 2 ^ 53" using assms by (rule mantissa_bound)
  have u: "0 < ?u" "?u = 2 powi ?k" by (auto simp: quantum_64)
  show ?thesis
  proof (cases "q = 2 powi expo 2 q \<and> least_float < ?u")
    case True
    have "?k \<noteq> -1074"
    proof
      assume "?k = -1074"
      then have "?u = least_float" unfolding u(2) least_float_def by (rule arg_cong)
      then show False using True by simp
    qed
    then have k: "-1074 < ?k" by simp
    then have e: "?k = expo 2 q - 52" by auto
    have half: "?u / 2 = 2 powi (expo 2 q - 53)"
      using power_int_add [of "2 :: rat" "expo 2 q - 53" 1] by (simp add: u(2) e)
    have "q = 2 ^ 53 * 2 powi (expo 2 q - 53)"
      using True power_int_add [of "2 :: rat" 53 "expo 2 q - 53"] by simp
    then have p: "q - ?u / 2 = of_int (2 ^ 53 - 1) * 2 powi (expo 2 q - 53)" by (simp add: half algebra_simps)
    have "rnd64 (q - ?u / 2) = q - ?u / 2" unfolding p using k e by (intro multiple_fixed) auto
    moreover have "0 \<le> q - ?u / 2" unfolding p by simp
    ultimately show ?thesis using True u(1) by (simp add: step_in_def Let_def)
  next
    case False
    have p: "q - ?u = of_int (m - 1) * 2 powi ?k" using m(1) u(2) by (simp add: algebra_simps)
    have "rnd64 (q - ?u) = q - ?u" unfolding p using m by (intro multiple_fixed) auto
    moreover have "0 \<le> q - ?u" unfolding p using m(2) by simp
    ultimately show ?thesis using False u(1) by (auto simp: step_in_def Let_def)
  qed
qed

lemma step_out_spec:
  assumes "0 \<le> q" "rnd64 q = q"
  shows "q < step_out q \<and> rnd64 (step_out q) = step_out q"
proof (cases "q = 0")
  case True
  have "rnd64 least_float = least_float" using multiple_fixed [of 1 "-1074"] by (simp add: least_float_def)
  moreover have "0 < least_float" unfolding least_float_def by (rule zero_less_power_int) simp
  ultimately show ?thesis using True by (simp add: step_out_def)
next
  case False
  let ?u = "quantum 2 53 (-1074) q" and ?k = "max (expo 2 q - 52) (-1074)"
  obtain m where m: "q = of_int m * ?u" "1 \<le> m" "m < 2 ^ 53"
    using False assms mantissa_bound [of q] by force
  have u: "0 < ?u" "?u = 2 powi ?k" by (auto simp: quantum_64)
  have p: "q + ?u = of_int (m + 1) * 2 powi ?k" using m(1) u(2) by (simp add: algebra_simps)
  have "rnd64 (q + ?u) = q + ?u"
  proof (cases "m + 1 < 2 ^ 53")
    case True
    then show ?thesis unfolding p using m by (intro multiple_fixed) auto
  next
    case False
    then have "m + 1 = 2 ^ 53" using m(3) by simp
    then have "q + ?u = of_int 1 * 2 powi (?k + 53)" unfolding p by (simp add: power_int_add)
    then show ?thesis using multiple_fixed [of 1 "?k + 53"] by simp
  qed
  then show ?thesis using False u(1) by (simp add: step_out_def)
qed

lemma next_up_spec:
  assumes "rnd64 q = q" "\<bar>q\<bar> < 2 ^ 1024"
  shows "next_up q = PInf \<or> (\<exists>p. next_up q = Fin p \<and> q < p \<and> rnd64 p = p \<and> \<bar>p\<bar> < 2 ^ 1024)"
proof (cases "q < 0")
  case True
  have "rnd64 (- q) = - q" using assms(1) by (simp add: b64.rnd_minus)
  then have s: "0 \<le> step_in (- q)" "step_in (- q) < - q" "rnd64 (step_in (- q)) = step_in (- q)"
    using step_in_spec [of "- q"] True by auto
  then show ?thesis using assms(2) True by (simp add: next_up_def b64.rnd_minus)
next
  case False
  then show ?thesis using step_out_spec [of q] assms by (auto simp: next_up_def float_limit)
qed

lemma next_down_spec:
  assumes "rnd64 q = q" "\<bar>q\<bar> < 2 ^ 1024"
  shows "next_down q = NInf \<or> (\<exists>p. next_down q = Fin p \<and> p < q \<and> rnd64 p = p \<and> \<bar>p\<bar> < 2 ^ 1024)"
  using next_up_spec [of "- q"] assms by (auto simp: next_down_def b64.rnd_minus)

lemma next_down_pos: "0 < q \<Longrightarrow> rnd64 q = q \<Longrightarrow> next_down q = Fin (step_in q)"
  by (simp add: next_down_def next_up_def)

lemma next_down_nonpos: "q \<le> 0 \<Longrightarrow> rnd64 q = q \<Longrightarrow> \<bar>q\<bar> < 2 ^ 1024 \<Longrightarrow> pymax (Fin 0) (next_down q) = Fin 0"
  using next_down_spec [of q] by (auto simp: pymax_def)

text \<open>A finite float's decimal rounds back to it, so decimals are ordered like their floats.\<close>

lemma float_d_back: "rnd64 q = q \<Longrightarrow> \<bar>q\<bar> < 2 ^ 1024 \<Longrightarrow> rnd64 (float_d (Fin q)) = q"
  using decimal_of_float_back [of q] by (simp add: float_d_def)

lemma float_d_zero [simp]: "float_d (Fin 0) = 0"
  by (simp add: float_d_def)

lemma lower_float_Inr:
  assumes "lower_float v = Inr x" "0 \<le> v"
  shows "isfinite x \<and> Fin 0 \<le> x \<and> float_d x \<le> v \<and> is_b64 x"
proof -
  obtain q where q: "to_float v = Fin q" using assms(1) by (auto simp: lower_float_def split: pyfloat.splits)
  have r: "q = rnd64 v" "\<bar>q\<bar> < 2 ^ 1024" using to_float_FinD [OF q] by auto
  have fixed: "rnd64 q = q" and q0: "0 \<le> q" using assms(2) by (auto simp: r(1) b64.rnd_nonneg)
  show ?thesis
  proof (cases "v < float_d (Fin q)")
    case False
    then show ?thesis using assms(1) q q0 fixed r(2) by (auto simp: lower_float_def pymax_def)
  next
    case True
    then have "q \<noteq> 0" using assms(2) by auto
    then have q1: "0 < q" using q0 by simp
    let ?p = "step_in q"
    have p: "0 \<le> ?p" "?p < q" "rnd64 ?p = ?p" using step_in_spec [OF q1 fixed] by auto
    have big: "\<bar>?p\<bar> < 2 ^ 1024" using p r(2) by simp
    have "rnd64 (float_d (Fin ?p)) < rnd64 v" using float_d_back [OF p(3) big] p(2) r(1) by simp
    then have "float_d (Fin ?p) < v" by (rule b64.rnd_less_cancel)
    moreover have "x = Fin ?p"
      using assms(1) q True p(1) next_down_pos [OF q1 fixed] by (auto simp: lower_float_def pymax_def)
    ultimately show ?thesis using p big by simp
  qed
qed

lemma lower_float_nonpos:
  assumes "lower_float v = Inr x" "v \<le> 0"
  shows "x = Fin 0"
proof -
  obtain q where q: "to_float v = Fin q" using assms(1) by (auto simp: lower_float_def split: pyfloat.splits)
  have r: "q = rnd64 v" "\<bar>q\<bar> < 2 ^ 1024" using to_float_FinD [OF q] by auto
  have fixed: "rnd64 q = q" and q0: "q \<le> 0" using assms(2) by (auto simp: r(1) b64.rnd_nonpos)
  show ?thesis
  proof (cases "v < float_d (Fin q)")
    case True
    then have "x = pymax (Fin 0) (next_down q)" using assms(1) by (simp add: lower_float_def q)
    then show ?thesis using next_down_nonpos [OF q0 fixed r(2)] by simp
  next
    case False
    then have "x = pymax (Fin 0) (Fin q)" using assms(1) by (simp add: lower_float_def q)
    then show ?thesis using q0 by (simp add: pymax_def)
  qed
qed

lemma upper_float_Inr:
  assumes "upper_float v = Inr x" "isfinite x"
  shows "v \<le> float_d x"
proof -
  obtain q where q: "to_float v = Fin q" using assms(1) by (auto simp: upper_float_def split: pyfloat.splits)
  have r: "q = rnd64 v" "\<bar>q\<bar> < 2 ^ 1024" using to_float_FinD [OF q] by auto
  have fixed: "rnd64 q = q" by (simp add: r(1))
  show ?thesis
  proof (cases "float_d (Fin q) < v")
    case False
    then show ?thesis using assms(1) q by (auto simp: upper_float_def)
  next
    case True
    then have x: "x = next_up q" using assms(1) q by (simp add: upper_float_def)
    then obtain p where p: "x = Fin p" "q < p" "rnd64 p = p" "\<bar>p\<bar> < 2 ^ 1024"
      using next_up_spec [OF fixed r(2)] assms(2) by auto
    have "rnd64 v < rnd64 (float_d (Fin p))" using float_d_back [OF p(3,4)] p(2) r(1) by simp
    then have "v < float_d (Fin p)" by (rule b64.rnd_less_cancel)
    then show ?thesis using p by simp
  qed
qed


section \<open>What an approval of the LIVE evaluator implies\<close>

text \<open>The decision's contract fills in the two identities and keeps the rest.\<close>

definition live_seal_keeps :: "live_core \<Rightarrow> bool" where
  "live_seal_keeps core \<longleftrightarrow>
     (\<forall>d d'. lc_decision core d = Inr d' \<longrightarrow>
        (\<exists>i t. d' = d\<lparr>rd_decision_id := i, rd_trade_id := t\<rparr>))"

lemma age_reasons_Nil [simp]: "age_reasons age limit future stale = [] \<longleftrightarrow> 0 \<le> age \<and> age \<le> limit"
  by (auto simp: age_reasons_def)

lemma budget_and_size_gates:
  "budget_and_size l intent venue allocation verified px rules reasons = Inr (b, z, rs) \<Longrightarrow> rs = [] \<Longrightarrow> reasons = []"
  by (auto simp: budget_and_size_def Let_def split: option.splits prod.splits if_split_asm sum.splits)

lemma budget_and_size_Nil:
  assumes "budget_and_size l intent venue (Some a) (Some v) px rules [] = Inr (b, z, [])" "allocation_error a = None"
  shows "lower_float (live_loss_budget l v) = Inr b \<and> \<not> b \<le> Fin 0 \<and> size_reasons l rules px z = [] \<and>
    \<not> b < sz_worst_loss z \<and>
    live_size l intent venue a (va_account v) (exposure_of v) b px rules = Inr z"
  using assms
  by (auto simp: budget_and_size_def size_or_reject_def Let_def split: if_split_asm sum.splits prod.splits)

lemma live_account_reasons_None [simp]: "live_account_reasons scope l venue None now \<noteq> []"
  by (simp add: live_account_reasons_def)

lemma live_allocation_reasons_None [simp]: "live_allocation_reasons scope intent None now \<noteq> []"
  by (simp add: live_allocation_reasons_def)

lemma live_allocation_valid: "live_allocation_reasons scope intent (Some a) now = [] \<Longrightarrow> allocation_error a = None"
  by (simp add: live_allocation_reasons_def)

lemma verify_inputs_Nil: "verify_inputs core x raw review venue allocation mode now = (v, []) \<Longrightarrow> v \<noteq> None"
  by (auto simp: verify_inputs_def split: option.splits sum.splits if_split_asm)

lemma evaluate_live_approvedE:
  assumes "live_seal_keeps core" "evaluate_live core x raw raw_inputs source_id review venue allocation now mode = Inr ev"
    and "rd_approved (le_decision ev)"
  obtains review' venue' v i a b z where
    "0 \<le> now" "lc_review core review = Inr review'" "lc_venue core venue = Inr venue'"
    "check_live_venue (lx_scope x) review' venue' = Inr ()"
    "verify_inputs core x raw_inputs review' venue' allocation mode now = (Some i, [])"
    "verify_account core x raw source_id = (Some v, [])" "allocation = Some a" "allocation_error a = None"
    "lx_require_rules x \<longrightarrow> vn_instrument_rules i \<noteq> None"
    "admission_gates (lx_scope x) (lx_limits x) review' venue' (Some a) (Some v) now mode = []"
    "entry_or_reject (cr_intent review') (worst_entry_price (cr_intent review') venue') (vn_instrument_rules i) = Inr []"
    "budget_and_size (lx_limits x) (cr_intent review') venue' (Some a) (Some v)
       (worst_entry_price (cr_intent review') venue') (vn_instrument_rules i) [] = Inr (b, z, [])"
    "le_verified ev = Some v" "le_inputs ev = Some i"
    "\<exists>j t. le_decision ev = (live_decision (lx_scope x) review' venue' now
       (worst_entry_price (cr_intent review') venue') b z [])\<lparr>rd_decision_id := j, rd_trade_id := t\<rparr>"
proof -
  obtain review' venue' where e: "0 \<le> now" "lc_review core review = Inr review'" "lc_venue core venue = Inr venue'"
    "check_live_venue (lx_scope x) review' venue' = Inr ()"
    "evaluate_checked core x raw raw_inputs source_id review' venue' allocation now mode = Inr ev"
    using assms(2) by (auto simp: evaluate_live_def split: if_split_asm sum.splits)
  obtain iv ir where vi: "verify_inputs core x raw_inputs review' venue' allocation mode now = (iv, ir)" by force
  obtain av ar where va: "verify_account core x raw source_id = (av, ar)" by force
  let ?px = "worst_entry_price (cr_intent review') venue'"
  let ?rules = "case iv of None \<Rightarrow> None | Some v \<Rightarrow> vn_instrument_rules v"
  let ?gates = "ir @ reason_if (lx_require_rules x \<and> ?rules = None) ''instrument_rules_missing'' @ ar @
    admission_gates (lx_scope x) (lx_limits x) review' venue' allocation av now mode"
  obtain er b z rs d where c: "entry_or_reject (cr_intent review') ?px ?rules = Inr er"
    "budget_and_size (lx_limits x) (cr_intent review') venue' allocation av ?px ?rules (?gates @ er) = Inr (b, z, rs)"
    "lc_decision core (live_decision (lx_scope x) review' venue' now ?px b z rs) = Inr d"
    "le_decision ev = d" "le_verified ev = av" "le_inputs ev = iv"
    using e(5) unfolding evaluate_checked_def Let_def vi va
    by (simp split: sum.splits prod.splits) (metis (no_types, lifting) live_evaluation.select_convs(1,4,6))
  obtain j t where d: "d = (live_decision (lx_scope x) review' venue' now ?px b z rs)\<lparr>rd_decision_id := j, rd_trade_id := t\<rparr>"
    using assms(1) c(3) unfolding live_seal_keeps_def by blast
  have rs: "rs = []" using assms(3) c(4) d by (simp add: live_decision_def Let_def)
  have g: "?gates @ er = []" using budget_and_size_gates [OF c(2) rs] .
  then have nil: "ir = []" "ar = []" "er = []" "\<not> (lx_require_rules x \<and> ?rules = None)"
    "admission_gates (lx_scope x) (lx_limits x) review' venue' allocation av now mode = []"
    unfolding append_is_Nil_conv reason_if_Nil by blast+
  obtain i where i: "iv = Some i" using verify_inputs_Nil vi nil(1) by blast
  obtain v where v: "av = Some v" using nil(5) by (cases av) (auto simp: admission_gates_def)
  obtain a where a: "allocation = Some a" using nil(5) by (cases allocation) (auto simp: admission_gates_def)
  have valid: "allocation_error a = None"
    using nil(5) live_allocation_valid unfolding a admission_gates_def by blast
  show ?thesis
  proof (rule that [OF e(1-4)])
    show "verify_inputs core x raw_inputs review' venue' allocation mode now = (Some i, [])" using vi nil(1) i by simp
    show "verify_account core x raw source_id = (Some v, [])" using va nil(2) v by simp
    show "allocation = Some a" "allocation_error a = None" by (rule a, rule valid)
    show "lx_require_rules x \<longrightarrow> vn_instrument_rules i \<noteq> None" using nil(4) by (simp add: i)
    show "admission_gates (lx_scope x) (lx_limits x) review' venue' (Some a) (Some v) now mode = []"
      using nil(5) by (simp only: a v)
    show "entry_or_reject (cr_intent review') ?px (vn_instrument_rules i) = Inr []"
      using c(1) nil(3) by (simp add: i)
    show "budget_and_size (lx_limits x) (cr_intent review') venue' (Some a) (Some v) ?px (vn_instrument_rules i) [] =
        Inr (b, z, [])"
      using c(2) unfolding g rs by (simp only: i v a option.case)
    show "le_verified ev = Some v" "le_inputs ev = Some i" using c(5,6) by (simp_all only: i v)
    show "\<exists>j t. le_decision ev = (live_decision (lx_scope x) review' venue' now ?px b z [])
        \<lparr>rd_decision_id := j, rd_trade_id := t\<rparr>"
      using c(4) d unfolding rs by blast
  qed
qed

lemma mk_verified_account_Inr:
  assumes "mk_verified_account v = Inr v'"
  shows "v' = v \<and> a2_trading_mode (va_account v) = LIVE \<and> a2_evedex_profile (va_account v) = evedex_profile.PROD \<and>
    a2_reconciled (va_account v) \<and> 0 < a2_reconciliation_seq (va_account v) \<and>
    a2_captured_at_ms (va_account v) = va_as_of_ms v \<and>
    \<not> va_aggregate_open_risk_usd v < a2_total_open_risk_usd (va_account v) \<and>
    minimum_adverse_loss (va_account v) \<le> float_d (va_daily_adverse_loss_usd v)"
  using assms by (simp add: mk_verified_account_def Let_def split: if_split_asm sum.splits)

lemma verify_accountE:
  assumes "verify_account core x raw source_id = (Some v, rs)"
  obtains verifier v0 where "map_of (lx_account_verifiers x) source_id = Some verifier"
    "verifier raw source_id (lx_scope x) = Inr v0" "revalidate_account core v0 = Inr v"
    "va_source_id v = source_id" "va_scope_sha256 v = scope_sha256 core (lx_scope x)"
    "a2_account_id (va_account v) = ls_account_id (lx_scope x)"
  using assms by (auto simp: verify_account_def split: option.splits sum.splits if_split_asm)

lemma verify_inputs_bound:
  "verify_inputs core x raw review venue allocation mode now = (Some i, rs) \<Longrightarrow>
     lx_input_verifier x \<noteq> None \<and> raw \<noteq> None \<and> inputs_bound core (lx_scope x) review venue allocation mode now i"
  by (auto simp: verify_inputs_def split: option.splits sum.splits if_split_asm)

lemma revalidated:
  "revalidate_account core v0 = Inr v \<Longrightarrow>
     a2_trading_mode (va_account v) = LIVE \<and> a2_evedex_profile (va_account v) = evedex_profile.PROD \<and>
     a2_reconciled (va_account v) \<and> 0 < a2_reconciliation_seq (va_account v) \<and>
     a2_captured_at_ms (va_account v) = va_as_of_ms v"
  by (auto simp: revalidate_account_def split: sum.splits dest!: mk_verified_account_Inr)

text \<open>Review, measurement, account and allocation of an admissible LIVE candidate.\<close>

definition review_live :: "live_scope \<Rightarrow> candidate_review \<Rightarrow> int \<Rightarrow> system_mode \<Rightarrow> bool" where
  "review_live scope review now mode \<longleftrightarrow>
     (let intent = cr_intent review in
      rt_intent (cr_route review) = intent \<and> in_strategy_id intent = ls_strategy_id scope \<and>
      in_strategy_revision intent = ls_strategy_revision scope \<and> cr_decision review = ALLOW \<and> mode = NORMAL \<and>
      cr_reviewed_at_ms review \<le> now \<and> in_entry_eligible_ts_ms intent \<le> now \<and> now \<le> in_entry_expires_ts_ms intent)"

definition venue_live :: "live_scope \<Rightarrow> candidate_review \<Rightarrow> venue_quality \<Rightarrow> int \<Rightarrow> bool" where
  "venue_live scope review venue now \<longleftrightarrow>
     vq_profile venue = evedex_profile.PROD \<and>
     venue_symbol_for scope (in_symbol (cr_intent review)) = Some (vq_symbol venue) \<and> vq_entry_allowed venue \<and>
     (\<forall>t \<in> {vq_observed_at_ms venue, vq_book_timestamp_ms venue, vq_reference_timestamp_ms venue}.
        t \<le> now \<and> now \<le> t + 2000) \<and> now \<le> vq_expires_at_ms venue"

definition account_live :: "live_scope \<Rightarrow> live_limits \<Rightarrow> venue_quality \<Rightarrow> verified_account \<Rightarrow> int \<Rightarrow> bool" where
  "account_live scope l venue v now \<longleftrightarrow>
     (let a = va_account v in
      a2_trading_mode a = LIVE \<and> a2_evedex_profile a = evedex_profile.PROD \<and> a2_account_id a = ls_account_id scope \<and>
      a2_reconciled a \<and> 0 < a2_reconciliation_seq a \<and> a2_captured_at_ms a \<le> now \<and>
      now \<le> a2_captured_at_ms a + 5000 \<and> \<not> ll_max_account_equity_usd l < a2_equity_usd a \<and>
      (\<forall>k \<in> set (map p2_lineage (a2_positions a) @ map o2_lineage (a2_open_orders a)).
         ln_venue_symbol k \<noteq> vq_symbol venue) \<and>
      \<not> va_strategy_open_notional_usd v < strategy_snapshot_notional (ls_strategy_id scope) a)"

definition allocation_live :: "live_scope \<Rightarrow> side \<Rightarrow> strategic_allocation \<Rightarrow> int \<Rightarrow> bool" where
  "allocation_live scope sd a now \<longleftrightarrow>
     allocation_error a = None \<and> is_aware (sa_produced_at a) \<and> timestamp_ms (sa_produced_at a) \<le> now \<and>
     now \<le> timestamp_ms (sa_produced_at a) + 93600000 \<and>
     (\<exists>w. map_of (sa_strategy_weights a) (ls_strategy_id scope) = Some w \<and> \<not> w \<le> Fin 0) \<and>
     sa_regime a \<noteq> CHOP \<and> \<not> (sa_regime a = BEAR \<and> sd = LONG) \<and> \<not> (sa_regime a = BULL \<and> sd = SHORT) \<and>
     \<not> sa_max_gross_leverage a < Fin 1"

definition geometry_live :: "side \<Rightarrow> pyfloat \<Rightarrow> exit_plan \<Rightarrow> bool" where
  "geometry_live sd px plan \<longleftrightarrow>
     (sd = LONG \<longrightarrow> xp_stop_price plan < px \<and> px < xp_target_price plan) \<and>
     (sd = SHORT \<longrightarrow> xp_target_price plan < px \<and> px < xp_stop_price plan)"

lemma review_gate_clear: "live_review_reasons scope review now mode = [] \<Longrightarrow> review_live scope review now mode"
  by (auto simp: live_review_reasons_def review_live_def Let_def split: if_split_asm)

lemma venue_gate_clear:
  "live_venue_reasons venue now = [] \<Longrightarrow> check_live_venue scope review venue = Inr () \<Longrightarrow>
     venue_live scope review venue now"
  by (auto simp: live_venue_reasons_def venue_live_def check_live_venue_def MAX_VENUE_AGE_MS_def
      split: if_split_asm option.splits)

lemma live_account_gate_clear:
  "live_account_reasons scope l venue (Some v) now = [] \<Longrightarrow> revalidate_account core v0 = Inr v \<Longrightarrow>
     account_live scope l venue v now"
  by (auto simp: live_account_reasons_def account_live_def Let_def MAX_ACCOUNT_AGE_MS_def dest!: revalidated)

lemma regime_gate_clear:
  "live_regime_reasons regime sd = [] \<longleftrightarrow>
     regime \<noteq> CHOP \<and> \<not> (regime = BEAR \<and> sd = LONG) \<and> \<not> (regime = BULL \<and> sd = SHORT)"
  by (auto simp: live_regime_reasons_def)

lemma live_allocation_gate_clear:
  "live_allocation_reasons scope intent (Some a) now = [] \<Longrightarrow> allocation_live scope (in_side intent) a now"
  by (auto simp: live_allocation_reasons_def allocation_live_def regime_gate_clear MAX_ALLOCATION_AGE_MS_def
      split: if_split_asm option.splits)

lemma live_geometry_clear:
  "geometry_reasons intent venue = [] \<Longrightarrow>
     geometry_live (in_side intent) (worst_entry_price intent venue) (in_exit_plan intent)"
  by (auto simp: geometry_reasons_def geometry_live_def Let_def split: if_split_asm)



section \<open>An approved size stays inside every limit\<close>

lemma correction_loop_Inr:
  "correction_loop n t rules lot budget_usd cap q = Inr z \<Longrightarrow>
     z = no_size \<or> (\<exists>p > 0. size_pass t rules lot p = Inr z \<and> \<not> violates t budget_usd cap p z)"
  by (induction n arbitrary: q) (force split: if_split_asm sum.splits)+

lemma size_passE:
  assumes "size_pass t rules lot q = Inr z"
  obtains "lower_float q = Inr (sz_quantity z)" "representable_lot rules lot (sz_quantity z) q = Inr ()"
    "upper_float (max (notional_of t q) (rnd28 (float_d (sz_quantity z) * ut_entry t))) = Inr (sz_notional z)"
    "upper_float (fees_of t q) = Inr (sz_fees z)" "upper_float (slippage_of t q) = Inr (sz_slippage z)"
    "isfinite (sz_fees z)" "isfinite (sz_slippage z)"
    "upper_float (max (loss_of t q) (rnd28 (rnd28 (rnd28 (float_d (sz_quantity z) * stop_distance t) +
       float_d (sz_fees z)) + float_d (sz_slippage z)))) = Inr (sz_worst_loss z)"
  using assms by (auto simp: size_pass_def Let_def split: sum.splits if_split_asm)

lemma representable_lot_Some:
  "representable_lot (Some r) lot x q = Inr () \<Longrightarrow>
     float_d x = q \<and> on_grid (float_d x) lot = Inr True \<and> float_d x \<le> vi_max_quantity r"
  by (auto simp: representable_lot_def Let_def split: if_split_asm sum.splits bool.splits)

lemma not_exceeds: "\<not> exceeds x limit \<longleftrightarrow> isfinite x \<and> float_d x \<le> limit"
  by (auto simp: exceeds_def)

text \<open>
  The size published for a position: a quantity not above the exact one, notional, fees,
  slippage and worst loss not below the exact ones nor below what the published quantity costs,
  and the worst loss and notional not above the budget and the cap.
\<close>

definition conservative_size :: "unit_terms \<Rightarrow> rat \<Rightarrow> rat \<Rightarrow> sizing_result \<Rightarrow> rat \<Rightarrow> bool" where
  "conservative_size t budget_usd cap z q \<longleftrightarrow>
     float_d (sz_quantity z) \<le> q \<and>
     list_all isfinite [sz_quantity z, sz_notional z, sz_fees z, sz_slippage z, sz_worst_loss z] \<and>
     notional_of t q \<le> float_d (sz_notional z) \<and> rnd28 (float_d (sz_quantity z) * ut_entry t) \<le> float_d (sz_notional z) \<and>
     fees_of t q \<le> float_d (sz_fees z) \<and> slippage_of t q \<le> float_d (sz_slippage z) \<and>
     loss_of t q \<le> float_d (sz_worst_loss z) \<and>
     rnd28 (rnd28 (rnd28 (float_d (sz_quantity z) * stop_distance t) + float_d (sz_fees z)) + float_d (sz_slippage z))
       \<le> float_d (sz_worst_loss z) \<and>
     float_d (sz_worst_loss z) \<le> budget_usd \<and> float_d (sz_notional z) \<le> cap"

lemma size_pass_conservative:
  assumes "size_pass t rules lot q = Inr z" "0 < q" "\<not> violates t budget_usd cap q z"
  shows "conservative_size t budget_usd cap z q"
  using assms(1)
proof (rule size_passE)
  assume s: "lower_float q = Inr (sz_quantity z)"
    "upper_float (max (notional_of t q) (rnd28 (float_d (sz_quantity z) * ut_entry t))) = Inr (sz_notional z)"
    "upper_float (fees_of t q) = Inr (sz_fees z)" "upper_float (slippage_of t q) = Inr (sz_slippage z)"
    "isfinite (sz_fees z)" "isfinite (sz_slippage z)"
    "upper_float (max (loss_of t q) (rnd28 (rnd28 (rnd28 (float_d (sz_quantity z) * stop_distance t) +
       float_d (sz_fees z)) + float_d (sz_slippage z)))) = Inr (sz_worst_loss z)"
  have v: "isfinite (sz_worst_loss z)" "float_d (sz_worst_loss z) \<le> budget_usd"
    "isfinite (sz_notional z)" "float_d (sz_notional z) \<le> cap"
    using assms(3) by (auto simp: violates_def not_exceeds)
  show ?thesis
    using lower_float_Inr [OF s(1)] assms(2) v s(5,6) upper_float_Inr [OF s(2) v(3)] upper_float_Inr [OF s(3,5)]
      upper_float_Inr [OF s(4,6)] upper_float_Inr [OF s(7) v(1)]
    by (simp add: conservative_size_def)
qed

lemma live_size_Inr:
  assumes "live_size l intent venue a acct x b px rules = Inr z" "\<not> sz_quantity z \<le> Fin 0"
  obtains cap q where "live_notional_cap l intent venue a acct x rules = Inr cap" "0 < q"
    "conservative_size (terms_of intent venue px) (float_d b) cap z q"
    "\<And>r. rules = Some r \<Longrightarrow> on_grid (float_d (sz_quantity z)) (vi_quantity_increment r) = Inr True \<and>
       float_d (sz_quantity z) \<le> vi_max_quantity r"
proof -
  let ?t = "terms_of intent venue px"
  let ?lot = "case rules of Some r \<Rightarrow> vi_quantity_increment r | None \<Rightarrow> QUANTITY_QUANTUM"
  have n: "z \<noteq> no_size" using assms(2) by (auto simp: no_size_def)
  obtain cap q where c: "live_notional_cap l intent venue a acct x rules = Inr cap"
    "correction_loop 3 ?t rules ?lot (float_d b) cap q = Inr z"
    using assms(1) n by (auto simp: live_size_def Let_def split: if_split_asm sum.splits)
  obtain p where p: "0 < p" "size_pass ?t rules ?lot p = Inr z" "\<not> violates ?t (float_d b) cap p z"
    using correction_loop_Inr [OF c(2)] n by blast
  have "representable_lot rules ?lot (sz_quantity z) p = Inr ()" using p(2) by (rule size_passE)
  then show ?thesis
    using that [OF c(1) p(1) size_pass_conservative [OF p(2,1,3)]] representable_lot_Some by force
qed


lemma live_notional_cap_Inr:
  assumes "live_notional_cap l intent venue a acct x rules = Inr cap"
  obtains w where "map_of (sa_strategy_weights a) (in_strategy_id intent) = Some w"
    "cap \<le> float_d (ll_max_position_notional_usd l)"
    "cap \<le> room (float_d (ll_aggregate_dollar_cap_usd l)) (oe_open_notional x) (oe_reserved_notional x)"
    "cap \<le> float_d (vq_assessed_notional_usd venue)" "cap \<le> float_d (vq_depth_usd venue)"
    "cap \<le> max 0 (rnd28 (float_d (a2_available_balance_usd acct) - float_d (oe_reserved_notional x)))"
    "cap \<le> room (rnd28 (rnd28 (float_d (a2_equity_usd acct) * rnd28 (1 - float_d (sa_stable_reserve_pct a))) *
        min 1 (float_d (sa_max_gross_leverage a)))) (oe_open_notional x) (oe_reserved_notional x)"
    "cap \<le> room (rnd28 (float_d (a2_equity_usd acct) * float_d w)) (oe_strategy_notional x) (oe_strategy_reserved_notional x)"
    "\<And>r m. rules = Some r \<Longrightarrow> vi_max_notional_usd r = Some m \<Longrightarrow> cap \<le> m"
proof -
  obtain w where w: "map_of (sa_strategy_weights a) (in_strategy_id intent) = Some w"
    using assms by (auto simp: live_notional_cap_def Let_def split: option.splits)
  have below: "cap \<le> y" if "y \<in> set
     ([float_d (ll_max_position_notional_usd l),
       room (float_d (ll_aggregate_dollar_cap_usd l)) (oe_open_notional x) (oe_reserved_notional x),
       float_d (vq_assessed_notional_usd venue), float_d (vq_depth_usd venue),
       max 0 (rnd28 (float_d (a2_available_balance_usd acct) - float_d (oe_reserved_notional x))),
       room (rnd28 (rnd28 (float_d (a2_equity_usd acct) * rnd28 (1 - float_d (sa_stable_reserve_pct a))) *
         min 1 (float_d (sa_max_gross_leverage a)))) (oe_open_notional x) (oe_reserved_notional x),
       room (rnd28 (float_d (a2_equity_usd acct) * float_d w)) (oe_strategy_notional x) (oe_strategy_reserved_notional x)] @
      (case rules of Some r \<Rightarrow> (case vi_max_notional_usd r of Some m \<Rightarrow> [m] | None \<Rightarrow> []) | None \<Rightarrow> []))" for y
    using assms Min_le [OF finite_set that] unfolding live_notional_cap_def Let_def w option.case by blast
  show ?thesis by (rule that [OF w]) (auto intro!: below)
qed

lemma live_loss_budget_le:
  "live_loss_budget l v \<le> rnd28 (float_d (a2_equity_usd (va_account v)) * float_d (ll_per_trade_risk_fraction l))"
  "live_loss_budget l v \<le> float_d (ll_per_trade_dollar_cap_usd l)"
  "live_loss_budget l v \<le> room (rnd28 (float_d (a2_equity_usd (va_account v)) *
     float_d (ll_aggregate_open_risk_fraction l))) (va_aggregate_open_risk_usd v) (va_reserved_open_risk_usd v)"
  "live_loss_budget l v \<le> room (rnd28 (float_d (ll_daily_loss_cap_usd l) - float_d (va_daily_adverse_loss_usd v)))
     (va_aggregate_open_risk_usd v) (va_reserved_open_risk_usd v)"
  by (simp_all add: live_loss_budget_def Let_def)

lemma size_reasons_Nil:
  "size_reasons l rules px z = [] \<Longrightarrow>
     \<not> sz_quantity z \<le> Fin 0 \<and> float_d (ll_min_notional_usd l) \<le> float_d (sz_notional z)"
  by (auto simp: size_reasons_def split: if_split_asm)

lemma size_reasons_rules:
  "size_reasons l (Some r) px z = [] \<Longrightarrow> Fin 0 < sz_quantity z \<Longrightarrow>
     vi_min_quantity r \<le> float_d (sz_quantity z) \<and>
     vi_min_notional_usd r \<le> rnd28 (float_d (sz_quantity z) * float_d px)"
  by (auto simp: size_reasons_def split: if_split_asm)

lemma lower_float_budget:
  assumes "lower_float v = Inr b" "\<not> b \<le> Fin 0"
  shows "0 < v \<and> isfinite b \<and> float_d b \<le> v"
proof -
  have "0 < v" using lower_float_nonpos [OF assms(1)] assms(2) by (force simp: not_le)
  then show ?thesis using lower_float_Inr [OF assms(1)] by simp
qed

text \<open>The limits of a LIVE position: what it may lose, and what it may be worth.\<close>

definition live_risk_within :: "live_limits \<Rightarrow> verified_account \<Rightarrow> risk_decision \<Rightarrow> bool" where
  "live_risk_within l v d \<longleftrightarrow>
     (let equity = float_d (a2_equity_usd (va_account v)); budget_usd = float_d (rd_loss_budget_usd d);
          entry = float_d (rd_worst_entry_price d); stop = float_d (xp_stop_price (rd_exit_plan d)) in
      rnd28 (rnd28 (rnd28 (float_d (rd_quantity d) * \<bar>rnd28 (entry - stop)\<bar>) + float_d (rd_estimated_fees_usd d)) +
        float_d (rd_estimated_slippage_usd d)) \<le> float_d (rd_worst_case_loss_usd d) \<and>
      float_d (rd_worst_case_loss_usd d) \<le> budget_usd \<and>
      budget_usd \<le> rnd28 (equity * float_d (ll_per_trade_risk_fraction l)) \<and>
      budget_usd \<le> float_d (ll_per_trade_dollar_cap_usd l) \<and>
      budget_usd \<le> room (rnd28 (equity * float_d (ll_aggregate_open_risk_fraction l)))
        (va_aggregate_open_risk_usd v) (va_reserved_open_risk_usd v) \<and>
      budget_usd \<le> room (rnd28 (float_d (ll_daily_loss_cap_usd l) - float_d (va_daily_adverse_loss_usd v)))
        (va_aggregate_open_risk_usd v) (va_reserved_open_risk_usd v))"

definition live_notional_within :: "live_limits \<Rightarrow> verified_account \<Rightarrow> strategic_allocation \<Rightarrow> risk_decision \<Rightarrow> bool" where
  "live_notional_within l v a d \<longleftrightarrow>
     (let acct = va_account v; equity = float_d (a2_equity_usd acct); notional = float_d (rd_notional_usd d) in
      rnd28 (float_d (rd_quantity d) * float_d (rd_worst_entry_price d)) \<le> notional \<and>
      float_d (ll_min_notional_usd l) \<le> notional \<and> notional \<le> float_d (ll_max_position_notional_usd l) \<and>
      notional \<le> room (float_d (ll_aggregate_dollar_cap_usd l))
        (va_aggregate_open_notional_usd v) (va_reserved_open_notional_usd v) \<and>
      notional \<le> float_d (vq_assessed_notional_usd (rd_venue_quality d)) \<and>
      notional \<le> float_d (vq_depth_usd (rd_venue_quality d)) \<and>
      notional \<le> max 0 (rnd28 (float_d (a2_available_balance_usd acct) - float_d (va_reserved_open_notional_usd v))) \<and>
      notional \<le> room (rnd28 (rnd28 (equity * rnd28 (1 - float_d (sa_stable_reserve_pct a))) *
        min 1 (float_d (sa_max_gross_leverage a)))) (va_aggregate_open_notional_usd v) (va_reserved_open_notional_usd v) \<and>
      (\<exists>w. map_of (sa_strategy_weights a) (in_strategy_id (rd_intent d)) = Some w \<and>
         notional \<le> room (rnd28 (equity * float_d w)) (va_strategy_open_notional_usd v) (va_strategy_reserved_notional_usd v)))"

definition on_instrument :: "verified_rules \<Rightarrow> risk_decision \<Rightarrow> bool" where
  "on_instrument r d \<longleftrightarrow>
     (let q = float_d (rd_quantity d) in
      on_grid q (vi_quantity_increment r) = Inr True \<and> vi_min_quantity r \<le> q \<and> q \<le> vi_max_quantity r \<and>
      vi_min_notional_usd r \<le> rnd28 (q * float_d (rd_worst_entry_price d)) \<and>
      (case vi_max_notional_usd r of None \<Rightarrow> True | Some m \<Rightarrow> float_d (rd_notional_usd d) \<le> m))"


lemma finite_positive: "isfinite x \<Longrightarrow> \<not> x \<le> Fin 0 \<Longrightarrow> Fin 0 < x"
  by (cases x) auto

text \<open>What a sized LIVE candidate's decision is within.\<close>

lemma sized_risk_within:
  assumes "conservative_size (terms_of (cr_intent review) venue (worst_entry_price (cr_intent review) venue)) (float_d b) cap z q"
    and "float_d b \<le> live_loss_budget l v"
  shows "live_risk_within l v ((live_decision scope review venue now (worst_entry_price (cr_intent review) venue) b z [])
    \<lparr>rd_decision_id := j, rd_trade_id := t\<rparr>)"
  using assms(1) order_trans [OF assms(2) live_loss_budget_le(1)] order_trans [OF assms(2) live_loss_budget_le(2)]
    order_trans [OF assms(2) live_loss_budget_le(3)] order_trans [OF assms(2) live_loss_budget_le(4)]
  by (simp add: live_risk_within_def live_decision_def Let_def conservative_size_def terms_of_def stop_distance_def)

lemma sized_notional_within:
  assumes "conservative_size (terms_of (cr_intent review) venue (worst_entry_price (cr_intent review) venue)) (float_d b) cap z q"
    and "live_notional_cap l (cr_intent review) venue a (va_account v) (exposure_of v) rules = Inr cap"
    and "float_d (ll_min_notional_usd l) \<le> float_d (sz_notional z)"
  shows "live_notional_within l v a
      ((live_decision scope review venue now (worst_entry_price (cr_intent review) venue) b z [])
        \<lparr>rd_decision_id := j, rd_trade_id := t\<rparr>) \<and>
    (\<forall>r m. rules = Some r \<longrightarrow> vi_max_notional_usd r = Some m \<longrightarrow> cap \<le> m)"
proof -
  have f: "float_d (sz_notional z) \<le> cap" using assms(1) by (simp add: conservative_size_def)
  obtain w where w: "map_of (sa_strategy_weights a) (in_strategy_id (cr_intent review)) = Some w"
    "cap \<le> float_d (ll_max_position_notional_usd l)"
    "cap \<le> room (float_d (ll_aggregate_dollar_cap_usd l)) (va_aggregate_open_notional_usd v) (va_reserved_open_notional_usd v)"
    "cap \<le> float_d (vq_assessed_notional_usd venue)" "cap \<le> float_d (vq_depth_usd venue)"
    "cap \<le> max 0 (rnd28 (float_d (a2_available_balance_usd (va_account v)) - float_d (va_reserved_open_notional_usd v)))"
    "cap \<le> room (rnd28 (rnd28 (float_d (a2_equity_usd (va_account v)) * rnd28 (1 - float_d (sa_stable_reserve_pct a))) *
        min 1 (float_d (sa_max_gross_leverage a)))) (va_aggregate_open_notional_usd v) (va_reserved_open_notional_usd v)"
    "cap \<le> room (rnd28 (float_d (a2_equity_usd (va_account v)) * float_d w))
       (va_strategy_open_notional_usd v) (va_strategy_reserved_notional_usd v)"
    "\<And>r m. rules = Some r \<Longrightarrow> vi_max_notional_usd r = Some m \<Longrightarrow> cap \<le> m"
    using live_notional_cap_Inr [OF assms(2)] unfolding exposure_of_def open_exposure.select_convs by metis
  show ?thesis
    using assms(1,3) w(1,9) w(2-8) [THEN order_trans [OF f]]
    by (simp add: live_notional_within_def live_decision_def Let_def conservative_size_def terms_of_def)
qed

text \<open>
  C6. An approved LIVE trade stays inside every limit. Its quantity and its budget are positive
  and finite; the stop loss of the published quantity with the published fees and slippage is at
  most the published worst loss, that at most the budget, and the budget at most the per-trade
  fraction of equity, the per-trade dollar cap, and what open and reserved risk leave of the
  aggregate fraction and of the daily loss cap. The position's value at the worst entry is at most
  the published notional, which lies between the minimum and every notional cap: the limits', the
  market's, the account's, the allocation's. With instrument rules the quantity is a multiple of
  the increment and inside the instrument's bounds.
\<close>

theorem approved_live_trade_within_limits:
  assumes "live_seal_keeps core"
    and "evaluate_live core x raw raw_inputs source_id review venue allocation now mode = Inr ev"
    and "rd_approved (le_decision ev)"
  shows "\<exists>v i a. let d = le_decision ev in
    le_verified ev = Some v \<and> le_inputs ev = Some i \<and> allocation = Some a \<and>
    Fin 0 < rd_quantity d \<and> isfinite (rd_quantity d) \<and> Fin 0 < rd_loss_budget_usd d \<and> isfinite (rd_loss_budget_usd d) \<and>
    live_risk_within (lx_limits x) v d \<and> live_notional_within (lx_limits x) v a d \<and>
    (\<forall>r. vn_instrument_rules i = Some r \<longrightarrow> on_instrument r d)"
  using assms
proof (rule evaluate_live_approvedE)
  fix review' :: candidate_review and venue' :: venue_quality and v :: verified_account and i :: verified_inputs
    and a b z
  let ?l = "lx_limits x" and ?intent = "cr_intent review'" and ?rules = "vn_instrument_rules i"
  let ?px = "worst_entry_price ?intent venue'"
  let ?t = "terms_of ?intent venue' ?px"
  assume *: "allocation = Some a" "allocation_error a = None"
    "budget_and_size ?l ?intent venue' (Some a) (Some v) ?px ?rules [] = Inr (b, z, [])"
    "le_verified ev = Some v" "le_inputs ev = Some i"
    "\<exists>j t. le_decision ev = (live_decision (lx_scope x) review' venue' now ?px b z [])\<lparr>rd_decision_id := j, rd_trade_id := t\<rparr>"
  obtain j t where d: "le_decision ev = (live_decision (lx_scope x) review' venue' now ?px b z [])
    \<lparr>rd_decision_id := j, rd_trade_id := t\<rparr>" using *(6) by blast
  have s: "lower_float (live_loss_budget ?l v) = Inr b" "\<not> b \<le> Fin 0" "size_reasons ?l ?rules ?px z = []"
    "live_size ?l ?intent venue' a (va_account v) (exposure_of v) b ?px ?rules = Inr z"
    using budget_and_size_Nil [OF *(3,2)] by auto
  have bu: "isfinite b" "float_d b \<le> live_loss_budget ?l v" using lower_float_budget [OF s(1,2)] by auto
  have z: "\<not> sz_quantity z \<le> Fin 0" "float_d (ll_min_notional_usd ?l) \<le> float_d (sz_notional z)"
    using size_reasons_Nil [OF s(3)] by auto
  obtain cap q where c: "live_notional_cap ?l ?intent venue' a (va_account v) (exposure_of v) ?rules = Inr cap"
    "conservative_size ?t (float_d b) cap z q"
    "\<And>r. ?rules = Some r \<Longrightarrow> on_grid (float_d (sz_quantity z)) (vi_quantity_increment r) = Inr True \<and>
       float_d (sz_quantity z) \<le> vi_max_quantity r"
    using live_size_Inr [OF s(4) z(1)] by metis
  have f: "isfinite (sz_quantity z)" "float_d (sz_notional z) \<le> cap" "float_d (sz_worst_loss z) \<le> float_d b"
    using c(2) by (simp_all add: conservative_size_def)
  have q: "Fin 0 < sz_quantity z" using f(1) z(1) by (rule finite_positive)
  have risk: "live_risk_within ?l v (le_decision ev)" unfolding d by (rule sized_risk_within [OF c(2) bu(2)])
  have notional: "live_notional_within ?l v a (le_decision ev)" and rule_cap: "\<And>r m. ?rules = Some r \<Longrightarrow> vi_max_notional_usd r = Some m \<Longrightarrow> cap \<le> m"
    unfolding d using sized_notional_within [OF c(2,1) z(2)] by blast+
  have "on_instrument r (le_decision ev)" if r: "?rules = Some r" for r
    using c(3) [OF r] size_reasons_rules [OF s(3) [unfolded r] q] rule_cap [OF r] f(2)
    by (force simp: d on_instrument_def live_decision_def Let_def split: option.splits)
  then show ?thesis
    using *(1,4,5) risk notional q f(1) bu(1) finite_positive [OF bu(1) s(2)]
    by (intro exI [of _ v] exI [of _ i] exI [of _ a]) (simp add: d live_decision_def Let_def)
qed


section \<open>What an evaluation raises\<close>

lemma arithmetic_is_value_or_arithmetic: "value_or_arithmetic e \<longleftrightarrow> arithmetic_or_value e"
  by (cases e) (auto simp: value_or_arithmetic_def)

lemmas decimal_errors =
  dec_context_errors [unfolded arithmetic_is_value_or_arithmetic] dec_div_errors [unfolded arithmetic_is_value_or_arithmetic]

lemma on_grid_errors: "on_grid x s = Inl e \<Longrightarrow> arithmetic_or_value e"
  by (auto simp: on_grid_def dec_mod_def Let_def dest: decimal_errors split: sum.splits if_split_asm)

lemma check_exit_prices_errors: "check_exit_prices rules ps = Inl e \<Longrightarrow> arithmetic_or_value e"
  by (induction ps) (auto simp: Let_def dest: on_grid_errors split: if_split_asm sum.splits bool.splits)

lemma check_entry_price_errors: "check_entry_price intent px rules = Inl e \<Longrightarrow> arithmetic_or_value e"
  by (auto simp: check_entry_price_def Let_def dest: on_grid_errors split: if_split_asm sum.splits bool.splits)

lemma instrument_entry_errors: "instrument_entry intent px rules = Inl e \<Longrightarrow> arithmetic_or_value e"
  by (auto simp: instrument_entry_def Let_def simp del: check_exit_prices.simps dest: check_exit_prices_errors check_entry_price_errors
      split: sum.splits)

lemma entry_or_reject_returns: "entry_or_reject intent px rules \<noteq> Inl e"
  by (auto simp: entry_or_reject_def dest: instrument_entry_errors split: option.splits sum.splits)

lemma float_errors:
  "lower_float v = Inl e \<Longrightarrow> arithmetic_or_value e" "upper_float v = Inl e \<Longrightarrow> arithmetic_or_value e"
  by (auto simp: lower_float_def upper_float_def split: pyfloat.splits)

lemma representable_lot_errors: "representable_lot rules lot x q = Inl e \<Longrightarrow> arithmetic_or_value e"
  by (auto simp: representable_lot_def Let_def dest: on_grid_errors split: option.splits if_split_asm sum.splits bool.splits)

lemma size_pass_errors: "size_pass t rules lot q = Inl e \<Longrightarrow> arithmetic_or_value e"
  by (auto simp: size_pass_def Let_def dest: float_errors representable_lot_errors split: if_split_asm sum.splits)

lemma correction_loop_errors: "correction_loop n t rules lot budget_usd cap q = Inl e \<Longrightarrow> arithmetic_or_value e"
  by (induction n arbitrary: q) (auto dest: size_pass_errors split: if_split_asm sum.splits)

lemma live_size_errors:
  assumes "live_size l intent venue a acct x b px rules = Inl e"
    and "map_of (sa_strategy_weights a) (in_strategy_id intent) = Some w"
  shows "arithmetic_or_value e"
  using assms
  by (auto simp: live_size_def live_notional_cap_def unrounded_quantity_def first_quantity_def Let_def
      dest: decimal_errors correction_loop_errors split: if_split_asm sum.splits)

text \<open>A double of nonnegative finite value.\<close>

definition cash_float :: "pyfloat \<Rightarrow> bool" where
  "cash_float x \<longleftrightarrow> is_b64 x \<and> nonnegative_float x"

lemma positive_float_cash: "positive_float x \<Longrightarrow> is_b64 x \<Longrightarrow> cash_float x"
  by (cases x) (auto simp: cash_float_def positive_float_def nonnegative_float_def)

text \<open>A budget is a number from 0 up to the dollar cap, unless the equity is not a nonnegative float.\<close>

lemma cash_float_d: "cash_float x \<Longrightarrow> 0 \<le> float_d x \<and> \<bar>rnd64 (float_d x)\<bar> < 2 ^ 1024"
proof (cases x)
  case (Fin q)
  assume *: "cash_float x"
  then have q: "rnd64 q = q" "\<bar>q\<bar> < 2 ^ 1024" "0 \<le> q" by (auto simp: Fin cash_float_def nonnegative_float_def)
  have r: "rnd64 (float_d x) = q" unfolding Fin using q(1,2) by (rule float_d_back)
  have "0 \<le> float_d x"
  proof (rule ccontr)
    assume n: "\<not> 0 \<le> float_d x"
    then have "q = 0" using r q(3) b64.rnd_nonpos [of "float_d x"] by simp
    then show False using n by (simp add: Fin)
  qed
  then show ?thesis using r q(2) by simp
qed (auto simp: cash_float_def nonnegative_float_def)

lemma live_loss_budget_returns:
  assumes "cash_float (a2_equity_usd (va_account v))" "mk_live_limits l = Inr l" "is_b64 (ll_per_trade_dollar_cap_usd l)"
    "is_b64 (ll_per_trade_risk_fraction l)"
  shows "lower_float (live_loss_budget l v) \<noteq> Inl e"
proof -
  have "limits_fields_ok l" using assms(2) by (auto simp: mk_live_limits_def split: if_split_asm)
  then have cash: "cash_float (ll_per_trade_dollar_cap_usd l)" "cash_float (ll_per_trade_risk_fraction l)"
    using assms(3,4) by (auto simp: limits_fields_ok_def intro: positive_float_cash)
  have "0 \<le> live_loss_budget l v"
    using cash [THEN cash_float_d] cash_float_d [OF assms(1)]
    by (simp add: live_loss_budget_def Let_def room_def d28.rnd_nonneg)
  moreover have "rnd64 (live_loss_budget l v) \<le> rnd64 (float_d (ll_per_trade_dollar_cap_usd l))"
    by (rule b64.rnd_mono) (rule live_loss_budget_le)
  ultimately have "\<bar>rnd64 (live_loss_budget l v)\<bar> < 2 ^ 1024"
    using cash_float_d [OF cash(1)] b64.rnd_nonneg [of "live_loss_budget l v"] by simp
  then show ?thesis by (auto simp: lower_float_def to_float_def Let_def split: pyfloat.splits if_split_asm)
qed


lemma budget_and_size_errors:
  assumes "budget_and_size l intent venue allocation verified px rules reasons = Inl e"
  obtains (budget) v where "verified = Some v" "lower_float (live_loss_budget l v) = Inl e"
  | (key) a where "allocation = Some a" "reasons = []" "map_of (sa_strategy_weights a) (in_strategy_id intent) = None"
proof (cases verified)
  case None
  then show ?thesis using assms by (simp add: budget_and_size_def)
next
  case (Some v)
  show ?thesis
  proof (cases allocation)
    case None
    then show ?thesis using assms Some by (simp add: budget_and_size_def)
  next
    case a: (Some a)
    show ?thesis
    proof (cases "lower_float (live_loss_budget l v)")
      case (Inl e')
      then have "e' = e" using assms by (simp add: budget_and_size_def Some a split: if_split_asm)
      then show ?thesis using budget [OF Some] Inl by blast
    next
      case (Inr b)
      let ?size = "live_size l intent venue a (va_account v) (exposure_of v) b px rules"
      have s: "reasons = []" "size_or_reject l rules px ?size = Inl e"
        using assms
        by (auto simp: budget_and_size_def Some a Inr Let_def split: if_split_asm sum.splits prod.splits)
      then have "?size = Inl e \<and> \<not> arithmetic_or_value e"
        by (auto simp: size_or_reject_def split: sum.splits if_split_asm)
      then have "map_of (sa_strategy_weights a) (in_strategy_id intent) = None"
        using live_size_errors by fastforce
      then show ?thesis using key [OF a s(1)] by blast
    qed
  qed
qed

lemma gates_have_weight:
  assumes "admission_gates scope l review venue (Some a) verified now mode = []"
  shows "map_of (sa_strategy_weights a) (in_strategy_id (cr_intent review)) \<noteq> None"
proof -
  have "review_live scope review now mode" "allocation_live scope (in_side (cr_intent review)) a now"
    using assms review_gate_clear live_allocation_gate_clear
    by (simp_all only: admission_gates_def append_is_Nil_conv)
  then show ?thesis by (auto simp: review_live_def allocation_live_def Let_def)
qed

lemma evaluate_checked_errors:
  assumes "evaluate_checked core x raw raw_inputs source_id review venue allocation now mode = Inl e"
    and "mk_live_limits (lx_limits x) = Inr (lx_limits x)"
    and "is_b64 (ll_per_trade_dollar_cap_usd (lx_limits x))" "is_b64 (ll_per_trade_risk_fraction (lx_limits x))"
  shows "(\<exists>px b z rs. lc_decision core (live_decision (lx_scope x) review venue now px b z rs) = Inl e) \<or>
    (\<exists>v rs. verify_account core x raw source_id = (Some v, rs) \<and> \<not> cash_float (a2_equity_usd (va_account v)))"
proof -
  obtain iv ir where vi: "verify_inputs core x raw_inputs review venue allocation mode now = (iv, ir)" by force
  obtain av ar where va: "verify_account core x raw source_id = (av, ar)" by force
  let ?px = "worst_entry_price (cr_intent review) venue"
  let ?rules = "case iv of None \<Rightarrow> None | Some v \<Rightarrow> vn_instrument_rules v"
  let ?gates = "ir @ reason_if (lx_require_rules x \<and> ?rules = None) ''instrument_rules_missing'' @ ar @
    admission_gates (lx_scope x) (lx_limits x) review venue allocation av now mode"
  obtain er where er: "entry_or_reject (cr_intent review) ?px ?rules = Inr er"
    using entry_or_reject_returns by (cases "entry_or_reject (cr_intent review) ?px ?rules") auto
  let ?sized = "budget_and_size (lx_limits x) (cr_intent review) venue allocation av ?px ?rules (?gates @ er)"
  show ?thesis
  proof (cases ?sized)
    case (Inr bzr)
    obtain b z rs where "bzr = (b, z, rs)" by (cases bzr)
    then have "lc_decision core (live_decision (lx_scope x) review venue now ?px b z rs) = Inl e"
      using assms(1) er Inr unfolding evaluate_checked_def Let_def vi va by (simp split: sum.splits)
    then show ?thesis by blast
  next
    case (Inl e')
    then have "?sized = Inl e" using assms(1) er unfolding evaluate_checked_def Let_def vi va by simp
    then show ?thesis
    proof (cases rule: budget_and_size_errors)
      case (budget v)
      then show ?thesis using va live_loss_budget_returns [OF _ assms(2-4)] by blast
    next
      case (key a)
      then show ?thesis using gates_have_weight unfolding append_is_Nil_conv by blast
    qed
  qed
qed


end
