(* ===== verification/Capital_Budget.thy ===== *)
theory Capital_Budget
  imports Live
begin

text \<open>
  Capital-budget proposals (\<open>capital_budget_proposal.py\<close> and
  \<open>LiveRiskEvaluator.propose_capital_budget\<close>): from a verified account, the scope and limits
  in force, a policy of risk fractions and the venue's minimum notionals to a set of limits that
  nothing adopts by itself. Every operation on two decimals rounds to 28 digits;
  \<open>quantize\<close> raises when the cents do not fit into 28 digits. A dataclass that was altered after
  its construction is checked again, so its fields carry any decimal here.
\<close>

section \<open>Numbers\<close>

text \<open>A numeric argument; \<open>OtherArg\<close> stands for a bool or a value of another type.\<close>

datatype numeric_arg = IntArg int | FloatArg pyfloat | DecimalArg pydecimal | OtherArg

text \<open>\<open>str\<close> of an int refuses more than 4300 digits.\<close>

fun decimal_of_arg :: "numeric_arg \<Rightarrow> pydecimal option" where
  "decimal_of_arg (IntArg n) = (if 4300 \<le> ilog 10 \<bar>n\<bar> then None else Some (Decimal n 0))"
| "decimal_of_arg (FloatArg x) = (if isfinite x then Some (decimal_of_float x) else None)"
| "decimal_of_arg (DecimalArg d) = Some d"
| "decimal_of_arg OtherArg = None"

definition budget_decimal :: "string \<Rightarrow> bool \<Rightarrow> numeric_arg \<Rightarrow> pydecimal res" where
  "budget_decimal name strictly v =
     (case decimal_of_arg v of
        None \<Rightarrow> Inl (ValueError (name @ '' must be a finite numeric value''))
      | Some d \<Rightarrow>
          if \<not> dec_finite d \<or> dval d < 0 \<or> strictly \<and> dval d = 0
          then Inl (ValueError (name @ (if strictly then '' must be finite and positive'' else '' must be finite and non-negative'')))
          else Inr d)"

definition usd_floor :: "rat \<Rightarrow> rat res" where
  "usd_floor v =
     (let cents = dec_truncate (v * 100) in
      if 10 ^ 28 \<le> \<bar>cents\<bar> then Inl (ArithmeticError ''InvalidOperation'') else Inr (of_int cents / 100))"

text \<open>\<open>normalize\<close> rounds to the context before it strips the trailing zeros.\<close>

fun canonical_text :: "pydecimal \<Rightarrow> string res" where
  "canonical_text (Decimal c e) =
     (case dec_fix c e of
        Inr (Decimal c' e') \<Rightarrow> (case normal_form c' e' of (n, k) \<Rightarrow> Inr (format_f n k))
      | Inr _ \<Rightarrow> Inl (ArithmeticError ''InvalidOperation'')
      | Inl err \<Rightarrow> Inl err)"
| "canonical_text _ = Inl (ArithmeticError ''InvalidOperation'')"

section \<open>Policy and venue metadata\<close>

definition PER_TRADE_CEILING :: rat where "PER_TRADE_CEILING = 25 / 10000"

definition AGGREGATE_CEILING :: rat where "AGGREGATE_CEILING = 1 / 100"

definition DAILY_CEILING :: rat where "DAILY_CEILING = 1 / 100"

record budget_policy =
  bp_per_trade_risk_fraction :: pydecimal
  bp_aggregate_open_risk_fraction :: pydecimal
  bp_daily_loss_fraction :: pydecimal

definition policy_fraction :: "string \<Rightarrow> rat \<Rightarrow> numeric_arg \<Rightarrow> pydecimal res" where
  "policy_fraction name limit v =
     (case budget_decimal name True v of
        Inl e \<Rightarrow> Inl e
      | Inr d \<Rightarrow> if limit < dval d then Inl (ValueError (name @ '' exceeds its hard policy ceiling'')) else Inr d)"

definition mk_budget_policy :: "numeric_arg \<Rightarrow> numeric_arg \<Rightarrow> numeric_arg \<Rightarrow> budget_policy res" where
  "mk_budget_policy per_trade aggregate daily =
     (case policy_fraction ''per_trade_risk_fraction'' PER_TRADE_CEILING per_trade of
        Inl e \<Rightarrow> Inl e
      | Inr p \<Rightarrow>
     (case policy_fraction ''aggregate_open_risk_fraction'' AGGREGATE_CEILING aggregate of
        Inl e \<Rightarrow> Inl e
      | Inr a \<Rightarrow>
     (case policy_fraction ''daily_loss_fraction'' DAILY_CEILING daily of
        Inl e \<Rightarrow> Inl e
      | Inr d \<Rightarrow>
          Inr \<lparr>bp_per_trade_risk_fraction = p, bp_aggregate_open_risk_fraction = a, bp_daily_loss_fraction = d\<rparr>)))"

definition policy_sha256 :: "live_core \<Rightarrow> budget_policy \<Rightarrow> string res" where
  "policy_sha256 core p =
     (case canonical_text (bp_per_trade_risk_fraction p) of
        Inl e \<Rightarrow> Inl e
      | Inr per_trade \<Rightarrow>
     (case canonical_text (bp_aggregate_open_risk_fraction p) of
        Inl e \<Rightarrow> Inl e
      | Inr aggregate \<Rightarrow>
     (case canonical_text (bp_daily_loss_fraction p) of
        Inl e \<Rightarrow> Inl e
      | Inr daily \<Rightarrow>
          Inr (lc_digest core (DFields
            [(''version'', FText ''kairos.capital-budget-policy.v1''),
             (''per_trade_risk_fraction'', FText per_trade), (''aggregate_open_risk_fraction'', FText aggregate),
             (''daily_loss_fraction'', FText daily), (''max_leverage'', FText ''1''),
             (''currency_quantum_usd'', FText ''0.01'')])))))"

record venue_minimum =
  vm_venue_symbol :: string
  vm_source_id :: string
  vm_observed_at_ms :: int
  vm_evidence_sha256 :: string
  vm_min_notional_usd :: pydecimal

definition mk_venue_minimum :: "string \<Rightarrow> string \<Rightarrow> int \<Rightarrow> string \<Rightarrow> numeric_arg \<Rightarrow> venue_minimum res" where
  "mk_venue_minimum symbol source observed evidence minimum =
     (if py_strip symbol = [] then Inl (ValueError ''venue metadata requires an exact venue symbol'')
      else if symbol \<noteq> py_upper (py_strip symbol) then Inl (ValueError ''venue metadata symbol must be normalized uppercase'')
      else if py_strip source = [] then Inl (ValueError ''venue metadata requires an identified source'')
      else if source \<noteq> py_strip source then Inl (ValueError ''venue metadata source must be normalized'')
      else if observed < 0 then Inl (ValueError ''venue metadata requires its original non-negative observation time'')
      else if \<not> hex64 evidence then Inl (ValueError ''venue metadata requires its original SHA-256 evidence digest'')
      else
        (case budget_decimal ''venue min_notional_usd'' True minimum of
           Inl e \<Rightarrow> Inl e
         | Inr d \<Rightarrow>
             Inr \<lparr>vm_venue_symbol = symbol, vm_source_id = source, vm_observed_at_ms = observed,
                  vm_evidence_sha256 = evidence, vm_min_notional_usd = d\<rparr>))"

section \<open>The proposal\<close>

record budget_proposal =
  bb_status :: string
  bb_authority :: bool
  bb_account_id :: string
  bb_source_id :: string
  bb_account_evidence_sha256 :: string
  bb_scope_sha256 :: string
  bb_current_risk_limits_sha256 :: string
  bb_proposed_risk_limits_sha256 :: string
  bb_policy_sha256 :: string
  bb_baseline_sha256 :: string
  bb_account_as_of_ms :: int
  bb_valid_until_ms :: int
  bb_observed_equity_usd :: rat
  bb_initial_budget_ceiling_usd :: rat
  bb_capital_basis_usd :: rat
  bb_proposed_max_total_notional_usd :: rat
  bb_venue_min_notional_usd :: rat
  bb_proposed_limits :: live_limits
  bb_warnings :: "string list"
  bb_requires_new_scope_and_fresh_reverification :: bool

record budget_inputs =
  bi_account :: verified_account
  bi_scope :: live_scope
  bi_limits :: live_limits
  bi_policy :: budget_policy
  bi_minimums :: "venue_minimum list"

text \<open>All inputs once more through their constructors; whatever fails, the message is one.\<close>

fun revalidate_minimums :: "venue_minimum list \<Rightarrow> venue_minimum list res" where
  "revalidate_minimums [] = Inr []"
| "revalidate_minimums (m # ms) =
     (case mk_venue_minimum (vm_venue_symbol m) (vm_source_id m) (vm_observed_at_ms m) (vm_evidence_sha256 m)
         (DecimalArg (vm_min_notional_usd m)) of
        Inl e \<Rightarrow> Inl e
      | Inr m' \<Rightarrow> (case revalidate_minimums ms of Inl e \<Rightarrow> Inl e | Inr ms' \<Rightarrow> Inr (m' # ms')))"

definition revalidate_inputs :: "live_core \<Rightarrow> budget_inputs \<Rightarrow> (rat \<times> budget_inputs) res" where
  "revalidate_inputs core i =
     (case budget_decimal ''verified account equity'' True (FloatArg (a2_equity_usd (va_account (bi_account i)))) of
        Inl e \<Rightarrow> Inl e
      | Inr equity \<Rightarrow>
     (case revalidate_account core (bi_account i) of
        Inl e \<Rightarrow> Inl e
      | Inr account \<Rightarrow>
     (case mk_live_scope (bi_scope i) of
        Inl e \<Rightarrow> Inl e
      | Inr scope \<Rightarrow>
     (case mk_live_limits (bi_limits i) of
        Inl e \<Rightarrow> Inl e
      | Inr l \<Rightarrow>
     (let p = bi_policy i in
      case mk_budget_policy (DecimalArg (bp_per_trade_risk_fraction p)) (DecimalArg (bp_aggregate_open_risk_fraction p))
          (DecimalArg (bp_daily_loss_fraction p)) of
        Inl e \<Rightarrow> Inl e
      | Inr policy \<Rightarrow>
          if bi_minimums i = [] then Inl (ValueError ''actual venue minimum-notional metadata is required'')
          else (case revalidate_minimums (bi_minimums i) of
              Inl e \<Rightarrow> Inl e
            | Inr minimums \<Rightarrow>
                Inr (dval equity,
                  \<lparr>bi_account = account, bi_scope = scope, bi_limits = l, bi_policy = policy, bi_minimums = minimums\<rparr>)))))))"

text \<open>A fresh, reconciled account of the scope, and metadata for exactly the scope's markets.\<close>

definition check_bindings :: "live_core \<Rightarrow> budget_inputs \<Rightarrow> int \<Rightarrow> unit res" where
  "check_bindings core i now =
     (let v = bi_account i; scope = bi_scope i; a = va_account v in
      if ls_risk_limits_sha256 scope \<noteq> lc_digest core (DLimits (bi_limits i))
      then Inl (ValueError ''expected scope does not bind the supplied current risk limits'')
      else if va_scope_sha256 v \<noteq> scope_sha256 core scope
      then Inl (ValueError ''verified account evidence is not bound to the exact expected scope'')
      else if a2_account_id a \<noteq> ls_account_id scope
      then Inl (ValueError ''verified account identity differs from the expected scope'')
      else if \<not> a2_reconciled a \<or> a2_reconciliation_seq a \<le> 0
      then Inl (ValueError ''verified account must have a completed reconciliation'')
      else if a2_trading_mode a \<noteq> LIVE \<or> a2_evedex_profile a \<noteq> evedex_profile.PROD
      then Inl (ValueError ''capital proposal requires verified LIVE/PROD account evidence'')
      else if va_as_of_ms v \<noteq> a2_captured_at_ms a
      then Inl (ValueError ''account evidence time differs from its original snapshot time'')
      else if now < va_as_of_ms v \<or> MAX_ACCOUNT_AGE_MS < now - va_as_of_ms v
      then Inl (ValueError ''verified account evidence is future-dated or stale'')
      else Inr ())"

definition check_minimums :: "live_scope \<Rightarrow> venue_minimum list \<Rightarrow> int \<Rightarrow> unit res" where
  "check_minimums scope ms now =
     (if \<not> distinct (map vm_venue_symbol ms) \<or> set (map vm_venue_symbol ms) \<noteq> set (map snd (ls_symbols scope))
      then Inl (ValueError ''venue metadata must exactly cover the approved PROD symbol scope'')
      else if \<exists>m \<in> set ms. now < vm_observed_at_ms m \<or> MAX_ACCOUNT_AGE_MS < now - vm_observed_at_ms m
      then Inl (ValueError ''venue minimum-notional metadata is future-dated or stale'')
      else Inr ())"

definition limit_decimal :: "string \<Rightarrow> pyfloat \<Rightarrow> rat res" where
  "limit_decimal name x = (case budget_decimal name True (FloatArg x) of Inl e \<Rightarrow> Inl e | Inr d \<Rightarrow> Inr (dval d))"

definition capital_share :: "rat \<Rightarrow> pydecimal \<Rightarrow> rat res" where
  "capital_share basis fraction = dec_context (basis * dval fraction)"

text \<open>A dollar cap: the current cap and the capital's share, down to whole cents.\<close>

definition fraction_cap :: "string \<Rightarrow> pyfloat \<Rightarrow> rat \<Rightarrow> pydecimal \<Rightarrow> rat res" where
  "fraction_cap name current basis fraction =
     (case limit_decimal name current of
        Inl e \<Rightarrow> Inl e
      | Inr c \<Rightarrow> (case capital_share basis fraction of Inl e \<Rightarrow> Inl e | Inr share \<Rightarrow> usd_floor (min c share)))"

definition capital_notional_cap :: "string \<Rightarrow> pyfloat \<Rightarrow> rat \<Rightarrow> rat res" where
  "capital_notional_cap name current basis =
     (case limit_decimal name current of Inl e \<Rightarrow> Inl e | Inr c \<Rightarrow> usd_floor (min basis c))"

record budget_caps =
  bk_per_trade :: rat
  bk_daily :: rat
  bk_aggregate_notional :: rat
  bk_total_notional :: rat

definition budget_caps_of :: "live_limits \<Rightarrow> budget_policy \<Rightarrow> rat \<Rightarrow> budget_caps res" where
  "budget_caps_of l p basis =
     (case fraction_cap ''current per-trade cap'' (ll_per_trade_dollar_cap_usd l) basis (bp_per_trade_risk_fraction p) of
        Inl e \<Rightarrow> Inl e
      | Inr per_trade \<Rightarrow>
     (case fraction_cap ''current daily cap'' (ll_daily_loss_cap_usd l) basis (bp_daily_loss_fraction p) of
        Inl e \<Rightarrow> Inl e
      | Inr daily \<Rightarrow>
     (case capital_notional_cap ''current aggregate notional cap'' (ll_aggregate_dollar_cap_usd l) basis of
        Inl e \<Rightarrow> Inl e
      | Inr aggregate \<Rightarrow>
     (case capital_notional_cap ''current position cap'' (ll_max_position_notional_usd l) aggregate of
        Inl e \<Rightarrow> Inl e
      | Inr overall \<Rightarrow>
          if min (min per_trade daily) overall \<le> 0
          then Inl (ValueError ''verified capital is too small for positive cent-quantized limits'')
          else Inr \<lparr>bk_per_trade = per_trade, bk_daily = daily, bk_aggregate_notional = aggregate,
                    bk_total_notional = overall\<rparr>))))"

definition check_fractions :: "live_limits \<Rightarrow> budget_policy \<Rightarrow> unit res" where
  "check_fractions l p =
     (if float_d (ll_per_trade_risk_fraction l) < dval (bp_per_trade_risk_fraction p)
      then Inl (ValueError ''proposed per-trade fraction cannot exceed the current scoped fraction'')
      else if float_d (ll_aggregate_open_risk_fraction l) < dval (bp_aggregate_open_risk_fraction p)
      then Inl (ValueError ''proposed aggregate fraction cannot exceed the current scoped fraction'')
      else Inr ())"

text \<open>The proposed limits are floats again: caps down, the minimum up.\<close>

fun lower_floats :: "rat list \<Rightarrow> pyfloat list res" where
  "lower_floats [] = Inr []"
| "lower_floats (v # vs) =
     (case lower_float v of
        Inl e \<Rightarrow> Inl e
      | Inr x \<Rightarrow> (case lower_floats vs of Inl e \<Rightarrow> Inl e | Inr xs \<Rightarrow> Inr (x # xs)))"

definition proposed_limits :: "budget_policy \<Rightarrow> budget_caps \<Rightarrow> rat \<Rightarrow> rat \<Rightarrow> live_limits res" where
  "proposed_limits p caps baseline minimum =
     (case lower_floats [dval (bp_per_trade_risk_fraction p), dval (bp_aggregate_open_risk_fraction p),
         bk_per_trade caps, bk_aggregate_notional caps, bk_daily caps, baseline, bk_total_notional caps] of
        Inr [f1, f2, per_trade, aggregate, daily, equity, overall] \<Rightarrow>
          (case upper_float minimum of
             Inl e \<Rightarrow> Inl e
           | Inr least \<Rightarrow>
               mk_live_limits
                 \<lparr>ll_per_trade_risk_fraction = f1, ll_aggregate_open_risk_fraction = f2, ll_max_leverage = Fin 1,
                  ll_per_trade_dollar_cap_usd = per_trade, ll_aggregate_dollar_cap_usd = aggregate,
                  ll_daily_loss_cap_usd = daily, ll_max_account_equity_usd = equity,
                  ll_max_position_notional_usd = overall, ll_min_notional_usd = least\<rparr>)
      | Inr _ \<Rightarrow> Inl (RuntimeError ''unreachable'')
      | Inl e \<Rightarrow> Inl e)"

definition baseline_sha256 :: "live_core \<Rightarrow> live_scope \<Rightarrow> pydecimal \<Rightarrow> string res" where
  "baseline_sha256 core scope baseline =
     (case canonical_text baseline of
        Inl e \<Rightarrow> Inl e
      | Inr text \<Rightarrow>
          Inr (lc_digest core (DFields
            [(''version'', FText ''kairos.capital-budget-baseline.v1''), (''account_id'', FText (ls_account_id scope)),
             (''scope_sha256'', FText (scope_sha256 core scope)), (''recorded_start_ceiling_usd'', FText text),
             (''record_source'', FText ''current_scoped_max_account_equity_usd'')])))"

fun metadata_items :: "venue_minimum list \<Rightarrow> live_document list res" where
  "metadata_items [] = Inr []"
| "metadata_items (m # ms) =
     (case canonical_text (vm_min_notional_usd m) of
        Inl e \<Rightarrow> Inl e
      | Inr text \<Rightarrow>
     (case metadata_items ms of
        Inl e \<Rightarrow> Inl e
      | Inr docs \<Rightarrow>
          Inr (DFields
            [(''venue_symbol'', FText (vm_venue_symbol m)), (''source_id'', FText (vm_source_id m)),
             (''observed_at_ms'', FInt (vm_observed_at_ms m)), (''evidence_sha256'', FText (vm_evidence_sha256 m)),
             (''min_notional_usd'', FText text)] # docs)))"

text \<open>The policy's digest is bound to the venue floors of this proposal.\<close>

definition combined_policy_sha256 :: "live_core \<Rightarrow> budget_policy \<Rightarrow> venue_minimum list \<Rightarrow> string res" where
  "combined_policy_sha256 core p ms =
     (case policy_sha256 core p of
        Inl e \<Rightarrow> Inl e
      | Inr policy \<Rightarrow>
     (case metadata_items (sort_key vm_venue_symbol ms) of
        Inl e \<Rightarrow> Inl e
      | Inr docs \<Rightarrow>
          Inr (lc_digest core (DFields
            [(''budget_policy_sha256'', FText policy),
             (''venue_metadata_sha256'', FText (lc_digest core (DFields [(''items'', FItems docs)])))]))))"

definition proposal_of ::
    "live_core \<Rightarrow> budget_inputs \<Rightarrow> rat \<Rightarrow> pydecimal \<Rightarrow> budget_caps \<Rightarrow> live_limits \<Rightarrow> string \<Rightarrow> string \<Rightarrow> budget_proposal" where
  "proposal_of core i equity baseline caps l policy_digest baseline_digest =
     (let scope = bi_scope i; v = bi_account i in
      \<lparr>bb_status = ''NON_AUTHORITY_PROPOSAL'', bb_authority = False, bb_account_id = ls_account_id scope,
       bb_source_id = va_source_id v, bb_account_evidence_sha256 = va_evidence_sha256 v,
       bb_scope_sha256 = scope_sha256 core scope,
       bb_current_risk_limits_sha256 = lc_digest core (DLimits (bi_limits i)),
       bb_proposed_risk_limits_sha256 = lc_digest core (DLimits l), bb_policy_sha256 = policy_digest,
       bb_baseline_sha256 = baseline_digest, bb_account_as_of_ms = va_as_of_ms v,
       bb_valid_until_ms = va_as_of_ms v + MAX_ACCOUNT_AGE_MS, bb_observed_equity_usd = equity,
       bb_initial_budget_ceiling_usd = dval baseline, bb_capital_basis_usd = min equity (dval baseline),
       bb_proposed_max_total_notional_usd = bk_aggregate_notional caps,
       bb_venue_min_notional_usd = Max (set (map (dval \<circ> vm_min_notional_usd) (bi_minimums i))),
       bb_proposed_limits = l,
       bb_warnings = (if dval baseline < equity then [''ACCOUNT_EQUITY_ABOVE_RECORDED_START_CEILING''] else []),
       bb_requires_new_scope_and_fresh_reverification = True\<rparr>)"

definition propose_checked :: "live_core \<Rightarrow> budget_inputs \<Rightarrow> rat \<Rightarrow> budget_proposal res" where
  "propose_checked core i equity =
     (let l = bi_limits i; p = bi_policy i in
      case budget_decimal ''recorded initial budget ceiling'' True (FloatArg (ll_max_account_equity_usd l)) of
        Inl e \<Rightarrow> Inl e
      | Inr baseline \<Rightarrow>
     (case limit_decimal ''current min_notional_usd'' (ll_min_notional_usd l) of
        Inl e \<Rightarrow> Inl e
      | Inr current_minimum \<Rightarrow>
     (let minimum = max (Max (set (map (dval \<circ> vm_min_notional_usd) (bi_minimums i)))) current_minimum in
      case check_fractions l p of
        Inl e \<Rightarrow> Inl e
      | Inr _ \<Rightarrow>
     (case budget_caps_of l p (min equity (dval baseline)) of
        Inl e \<Rightarrow> Inl e
      | Inr caps \<Rightarrow>
          if bk_total_notional caps < minimum
          then Inl (ValueError ''verified capital is below the supplied actual venue minimum notional'')
          else
     (case proposed_limits p caps (dval baseline) minimum of
        Inl e \<Rightarrow> Inl e
      | Inr proposed \<Rightarrow>
     (case combined_policy_sha256 core p (bi_minimums i) of
        Inl e \<Rightarrow> Inl e
      | Inr policy_digest \<Rightarrow>
     (case baseline_sha256 core (bi_scope i) baseline of
        Inl e \<Rightarrow> Inl e
      | Inr baseline_digest \<Rightarrow>
          Inr (proposal_of core i equity baseline caps proposed policy_digest baseline_digest))))))))"

definition propose_capital_budget :: "live_core \<Rightarrow> budget_inputs \<Rightarrow> int \<Rightarrow> budget_proposal res" where
  "propose_capital_budget core given now =
     (if now < 0 then Inl (ValueError ''now_ms must be an explicit non-negative integer'')
      else case revalidate_inputs core given of
        Inl _ \<Rightarrow> Inl (ValueError ''supplied capital-proposal inputs failed independent revalidation'')
      | Inr (equity, i) \<Rightarrow>
     (case check_bindings core i now of
        Inl e \<Rightarrow> Inl e
      | Inr _ \<Rightarrow>
     (case check_minimums (bi_scope i) (bi_minimums i) now of
        Inl e \<Rightarrow> Inl e
      | Inr _ \<Rightarrow> propose_checked core i equity)))"

text \<open>The evaluator's method lets only a registered verifier's account in.\<close>

definition evaluator_proposal ::
    "live_core \<Rightarrow> 'raw live_evaluator \<Rightarrow> 'raw \<Rightarrow> string \<Rightarrow> budget_policy \<Rightarrow> venue_minimum list \<Rightarrow> int \<Rightarrow> budget_proposal res" where
  "evaluator_proposal core x raw source_id policy minimums now =
     (case map_of (lx_account_verifiers x) source_id of
        None \<Rightarrow> Inl (ValueError ''capital proposal requires a registered account source'')
      | Some verifier \<Rightarrow>
         (case verifier raw source_id (lx_scope x) of
            Inl _ \<Rightarrow> Inl (ValueError ''capital proposal account verification failed'')
          | Inr v \<Rightarrow>
              if va_source_id v \<noteq> source_id then Inl (ValueError ''capital proposal account verification failed'')
              else propose_capital_budget core
                \<lparr>bi_account = v, bi_scope = lx_scope x, bi_limits = lx_limits x, bi_policy = policy,
                 bi_minimums = minimums\<rparr> now))"


section \<open>A proposal only tightens the limits\<close>

lemma budget_decimal_Inr:
  "budget_decimal name True v = Inr d \<Longrightarrow> decimal_of_arg v = Some d \<and> 0 < dval d"
  by (auto simp: budget_decimal_def split: option.splits if_split_asm)

lemma limit_decimal_Inr: "limit_decimal name x = Inr q \<Longrightarrow> q = float_d x \<and> 0 < q"
  by (auto simp: limit_decimal_def float_d_def dest!: budget_decimal_Inr split: sum.splits if_split_asm)

lemma policy_fraction_Inr:
  "policy_fraction name c (DecimalArg d) = Inr d' \<Longrightarrow> d' = d \<and> 0 < dval d \<and> dval d \<le> c"
  by (auto simp: policy_fraction_def dest!: budget_decimal_Inr split: sum.splits if_split_asm)

definition policy_within :: "budget_policy \<Rightarrow> bool" where
  "policy_within p \<longleftrightarrow>
     0 < dval (bp_per_trade_risk_fraction p) \<and> dval (bp_per_trade_risk_fraction p) \<le> 25 / 10000 \<and>
     0 < dval (bp_aggregate_open_risk_fraction p) \<and> dval (bp_aggregate_open_risk_fraction p) \<le> 1 / 100 \<and>
     0 < dval (bp_daily_loss_fraction p) \<and> dval (bp_daily_loss_fraction p) \<le> 1 / 100"

lemma mk_budget_policy_again:
  "mk_budget_policy (DecimalArg (bp_per_trade_risk_fraction p)) (DecimalArg (bp_aggregate_open_risk_fraction p))
     (DecimalArg (bp_daily_loss_fraction p)) = Inr p' \<Longrightarrow> p' = p \<and> policy_within p"
  by (auto simp: mk_budget_policy_def policy_within_def PER_TRADE_CEILING_def AGGREGATE_CEILING_def DAILY_CEILING_def
      dest!: policy_fraction_Inr split: sum.splits)

lemma mk_live_limits_Inr: "mk_live_limits l = Inr l' \<Longrightarrow> l' = l \<and> limits_fields_ok l"
  by (auto simp: mk_live_limits_def split: if_split_asm)

lemma revalidate_minimums_Inr: "revalidate_minimums ms = Inr ms' \<Longrightarrow> ms' = ms"
  by (induction ms arbitrary: ms')
    (auto simp: mk_venue_minimum_def dest!: budget_decimal_Inr split: sum.splits if_split_asm)

lemma revalidate_inputs_Inr:
  assumes "revalidate_inputs core g = Inr (equity, i)"
  shows "equity = float_d (a2_equity_usd (va_account (bi_account g))) \<and> 0 < equity \<and>
    revalidate_account core (bi_account g) = Inr (bi_account i) \<and> mk_live_scope (bi_scope g) = Inr (bi_scope i) \<and>
    mk_live_limits (bi_limits g) = Inr (bi_limits g) \<and> bi_limits i = bi_limits g \<and>
    bi_policy i = bi_policy g \<and> policy_within (bi_policy g) \<and> bi_minimums i = bi_minimums g"
  using assms
  by (auto simp: revalidate_inputs_def Let_def float_d_def
      dest!: budget_decimal_Inr mk_budget_policy_again revalidate_minimums_Inr
      dest: mk_live_limits_Inr split: sum.splits if_split_asm)

lemma usd_floor_Inr:
  assumes "usd_floor v = Inr c" "0 \<le> v"
  shows "0 \<le> c \<and> c \<le> v \<and> v < c + 1 / 100 \<and> (\<exists>n. c = of_int n / 100)"
proof -
  have c: "c = of_int \<lfloor>v * 100\<rfloor> / 100"
    using assms by (auto simp: usd_floor_def dec_truncate_def Let_def split: if_split_asm)
  have "of_int \<lfloor>v * 100\<rfloor> \<le> v * 100" "v * 100 < of_int \<lfloor>v * 100\<rfloor> + 1" by linarith+
  then show ?thesis using assms(2) by (auto simp: c)
qed

lemma fraction_cap_Inr:
  assumes "fraction_cap name x basis d = Inr c" "0 \<le> basis" "0 \<le> dval d"
  shows "c \<le> float_d x \<and> c \<le> rnd28 (basis * dval d)"
proof -
  have "0 \<le> rnd28 (basis * dval d)" using assms(2,3) by (simp add: d28.rnd_nonneg)
  then show ?thesis
    using assms(1)
    by (auto simp: fraction_cap_def capital_share_def dest!: limit_decimal_Inr dec_context_Inr usd_floor_Inr
        split: sum.splits)
qed

lemma capital_notional_cap_Inr:
  "capital_notional_cap name x basis = Inr c \<Longrightarrow> 0 \<le> basis \<Longrightarrow> c \<le> float_d x \<and> c \<le> basis \<and> 0 \<le> c"
  by (auto simp: capital_notional_cap_def dest!: limit_decimal_Inr usd_floor_Inr split: sum.splits)

definition caps_within :: "live_limits \<Rightarrow> budget_policy \<Rightarrow> rat \<Rightarrow> budget_caps \<Rightarrow> bool" where
  "caps_within l p basis k \<longleftrightarrow>
     0 < bk_per_trade k \<and> bk_per_trade k \<le> float_d (ll_per_trade_dollar_cap_usd l) \<and>
     bk_per_trade k \<le> rnd28 (basis * dval (bp_per_trade_risk_fraction p)) \<and>
     0 < bk_daily k \<and> bk_daily k \<le> float_d (ll_daily_loss_cap_usd l) \<and>
     bk_daily k \<le> rnd28 (basis * dval (bp_daily_loss_fraction p)) \<and>
     bk_aggregate_notional k \<le> basis \<and> bk_aggregate_notional k \<le> float_d (ll_aggregate_dollar_cap_usd l) \<and>
     0 < bk_total_notional k \<and> bk_total_notional k \<le> bk_aggregate_notional k \<and>
     bk_total_notional k \<le> float_d (ll_max_position_notional_usd l)"

lemma budget_caps_of_Inr:
  assumes "budget_caps_of l p basis = Inr k" "0 \<le> basis" "policy_within p"
  shows "caps_within l p basis k"
  using assms
  by (auto simp: budget_caps_of_def caps_within_def policy_within_def not_le
      dest!: fraction_cap_Inr capital_notional_cap_Inr split: sum.splits if_split_asm)

lemma proposed_limits_Inr:
  assumes "proposed_limits p k baseline minimum = Inr n"
  shows "mk_live_limits n = Inr n \<and> ll_max_leverage n = Fin 1 \<and> upper_float minimum = Inr (ll_min_notional_usd n) \<and>
    lower_float (dval (bp_per_trade_risk_fraction p)) = Inr (ll_per_trade_risk_fraction n) \<and>
    lower_float (dval (bp_aggregate_open_risk_fraction p)) = Inr (ll_aggregate_open_risk_fraction n) \<and>
    lower_float (bk_per_trade k) = Inr (ll_per_trade_dollar_cap_usd n) \<and>
    lower_float (bk_aggregate_notional k) = Inr (ll_aggregate_dollar_cap_usd n) \<and>
    lower_float (bk_daily k) = Inr (ll_daily_loss_cap_usd n) \<and>
    lower_float baseline = Inr (ll_max_account_equity_usd n) \<and>
    lower_float (bk_total_notional k) = Inr (ll_max_position_notional_usd n)"
proof -
  have "\<exists>m. mk_live_limits m = Inr n" using assms by (auto simp: proposed_limits_def split: sum.splits if_split_asm)
  then have "mk_live_limits n = Inr n" using mk_live_limits_Inr by blast
  then show ?thesis
    using assms by (auto simp: proposed_limits_def split: sum.splits if_split_asm dest!: mk_live_limits_Inr)
qed


text \<open>What it means that limits \<open>n\<close> are within \<open>l\<close>, the policy and the capital.\<close>

definition limits_tightened :: "live_limits \<Rightarrow> budget_policy \<Rightarrow> rat \<Rightarrow> live_limits \<Rightarrow> bool" where
  "limits_tightened l p basis n \<longleftrightarrow>
     float_d (ll_per_trade_risk_fraction n) \<le> dval (bp_per_trade_risk_fraction p) \<and>
     dval (bp_per_trade_risk_fraction p) \<le> float_d (ll_per_trade_risk_fraction l) \<and>
     float_d (ll_aggregate_open_risk_fraction n) \<le> dval (bp_aggregate_open_risk_fraction p) \<and>
     dval (bp_aggregate_open_risk_fraction p) \<le> float_d (ll_aggregate_open_risk_fraction l) \<and>
     ll_max_leverage n = Fin 1 \<and>
     float_d (ll_per_trade_dollar_cap_usd n) \<le> float_d (ll_per_trade_dollar_cap_usd l) \<and>
     float_d (ll_per_trade_dollar_cap_usd n) \<le> rnd28 (basis * dval (bp_per_trade_risk_fraction p)) \<and>
     float_d (ll_daily_loss_cap_usd n) \<le> float_d (ll_daily_loss_cap_usd l) \<and>
     float_d (ll_daily_loss_cap_usd n) \<le> rnd28 (basis * dval (bp_daily_loss_fraction p)) \<and>
     float_d (ll_aggregate_dollar_cap_usd n) \<le> basis \<and>
     float_d (ll_aggregate_dollar_cap_usd n) \<le> float_d (ll_aggregate_dollar_cap_usd l) \<and>
     float_d (ll_max_position_notional_usd n) \<le> basis \<and>
     float_d (ll_max_position_notional_usd n) \<le> float_d (ll_max_position_notional_usd l) \<and>
     float_d (ll_max_account_equity_usd n) \<le> float_d (ll_max_account_equity_usd l) \<and>
     float_d (ll_min_notional_usd l) \<le> float_d (ll_min_notional_usd n)"

lemma check_bindings_Inr:
  "check_bindings core i now = Inr u \<Longrightarrow>
     ls_risk_limits_sha256 (bi_scope i) = lc_digest core (DLimits (bi_limits i)) \<and>
     va_scope_sha256 (bi_account i) = scope_sha256 core (bi_scope i) \<and>
     a2_account_id (va_account (bi_account i)) = ls_account_id (bi_scope i) \<and>
     va_as_of_ms (bi_account i) \<le> now \<and> now \<le> va_as_of_ms (bi_account i) + 5000"
  by (auto simp: check_bindings_def Let_def MAX_ACCOUNT_AGE_MS_def split: if_split_asm)

lemma check_minimums_Inr:
  "check_minimums scope ms now = Inr u \<Longrightarrow>
     set (map vm_venue_symbol ms) = set (map snd (ls_symbols scope)) \<and>
     (\<forall>m \<in> set ms. vm_observed_at_ms m \<le> now \<and> now \<le> vm_observed_at_ms m + 5000)"
  by (force simp: check_minimums_def MAX_ACCOUNT_AGE_MS_def split: if_split_asm)

lemma propose_checkedE:
  assumes "propose_checked core i equity = Inr b"
  obtains baseline caps n d1 d2 where
    "dval baseline = float_d (ll_max_account_equity_usd (bi_limits i))" "0 < dval baseline"
    "check_fractions (bi_limits i) (bi_policy i) = Inr ()"
    "budget_caps_of (bi_limits i) (bi_policy i) (min equity (dval baseline)) = Inr caps"
    "proposed_limits (bi_policy i) caps (dval baseline)
       (max (Max (set (map (dval \<circ> vm_min_notional_usd) (bi_minimums i)))) (float_d (ll_min_notional_usd (bi_limits i)))) = Inr n"
    "b = proposal_of core i equity baseline caps n d1 d2"
  using assms
  by (auto simp: propose_checked_def Let_def float_d_def dest!: budget_decimal_Inr limit_decimal_Inr
      split: sum.splits if_split_asm)

lemma check_fractions_Inr:
  "check_fractions l p = Inr u \<Longrightarrow>
     dval (bp_per_trade_risk_fraction p) \<le> float_d (ll_per_trade_risk_fraction l) \<and>
     dval (bp_aggregate_open_risk_fraction p) \<le> float_d (ll_aggregate_open_risk_fraction l)"
  by (auto simp: check_fractions_def split: if_split_asm)

lemma proposed_limits_tightened:
  assumes "proposed_limits p k baseline minimum = Inr n" "caps_within l p basis k" "policy_within p"
    and "check_fractions l p = Inr ()" "0 < baseline" "baseline = float_d (ll_max_account_equity_usd l)"
    and "float_d (ll_min_notional_usd l) \<le> minimum"
  shows "limits_tightened l p basis n \<and> minimum \<le> float_d (ll_min_notional_usd n)"
proof -
  note n = proposed_limits_Inr [OF assms(1)]
  have down: "lower_float v = Inr x \<Longrightarrow> 0 \<le> v \<Longrightarrow> float_d x \<le> v" for v x using lower_float_Inr by blast
  have "limits_fields_ok n" using n mk_live_limits_Inr by blast
  then have "isfinite (ll_min_notional_usd n)" by (auto simp: limits_fields_ok_def positive_float_def)
  then have least: "minimum \<le> float_d (ll_min_notional_usd n)" using n upper_float_Inr by blast
  have k: "0 \<le> bk_per_trade k" "0 \<le> bk_daily k" "0 \<le> bk_total_notional k" "0 \<le> bk_aggregate_notional k"
    using assms(2) by (auto simp: caps_within_def)
  have p: "0 \<le> dval (bp_per_trade_risk_fraction p)" "0 \<le> dval (bp_aggregate_open_risk_fraction p)"
    using assms(3) by (auto simp: policy_within_def)
  have "float_d (ll_per_trade_risk_fraction n) \<le> dval (bp_per_trade_risk_fraction p)"
    "float_d (ll_aggregate_open_risk_fraction n) \<le> dval (bp_aggregate_open_risk_fraction p)"
    "float_d (ll_per_trade_dollar_cap_usd n) \<le> bk_per_trade k" "float_d (ll_aggregate_dollar_cap_usd n) \<le> bk_aggregate_notional k"
    "float_d (ll_daily_loss_cap_usd n) \<le> bk_daily k" "float_d (ll_max_account_equity_usd n) \<le> baseline"
    "float_d (ll_max_position_notional_usd n) \<le> bk_total_notional k"
    using n down k p assms(5) by (simp_all add: order_less_imp_le)
  then show ?thesis
    using n least assms(2,6,7) check_fractions_Inr [OF assms(4)] unfolding limits_tightened_def caps_within_def by linarith
qed

text \<open>
  C21. A capital-budget proposal is no authority and only tightens. It exists only for an account
  record that passes every check again, is bound to the scope and at most five seconds old, and
  for venue minimums of exactly the scope's markets, as fresh. The capital basis is at most the
  observed equity and the recorded ceiling; each proposed fraction is at most the policy's, which
  is at most the current one and its hard ceiling; each proposed cap is at most the current cap and
  at most the basis or its share of it; leverage is one; the proposed minimum is at least the
  current one and every venue's; and the proposed limits are valid limits again.
\<close>

theorem capital_proposal_only_tightens:
  assumes "propose_capital_budget core given now = Inr b"
  shows "\<exists>v scope. revalidate_account core (bi_account given) = Inr v \<and> mk_live_scope (bi_scope given) = Inr scope \<and>
    ls_risk_limits_sha256 scope = lc_digest core (DLimits (bi_limits given)) \<and>
    va_scope_sha256 v = scope_sha256 core scope \<and> a2_account_id (va_account v) = ls_account_id scope \<and>
    va_as_of_ms v \<le> now \<and> now \<le> va_as_of_ms v + 5000 \<and> bb_valid_until_ms b = va_as_of_ms v + 5000 \<and>
    set (map vm_venue_symbol (bi_minimums given)) = set (map snd (ls_symbols scope)) \<and>
    (\<forall>m \<in> set (bi_minimums given). vm_observed_at_ms m \<le> now \<and> now \<le> vm_observed_at_ms m + 5000 \<and>
       dval (vm_min_notional_usd m) \<le> float_d (ll_min_notional_usd (bb_proposed_limits b))) \<and>
    bb_observed_equity_usd b = float_d (a2_equity_usd (va_account (bi_account given))) \<and> 0 < bb_capital_basis_usd b \<and>
    bb_capital_basis_usd b \<le> bb_observed_equity_usd b \<and>
    bb_capital_basis_usd b \<le> float_d (ll_max_account_equity_usd (bi_limits given)) \<and>
    policy_within (bi_policy given) \<and> mk_live_limits (bb_proposed_limits b) = Inr (bb_proposed_limits b) \<and>
    limits_tightened (bi_limits given) (bi_policy given) (bb_capital_basis_usd b) (bb_proposed_limits b) \<and>
    \<not> bb_authority b \<and> bb_requires_new_scope_and_fresh_reverification b"
proof -
  obtain equity i u where r: "revalidate_inputs core given = Inr (equity, i)" "check_bindings core i now = Inr u"
    "check_minimums (bi_scope i) (bi_minimums i) now = Inr u" "propose_checked core i equity = Inr b"
    using assms by (auto simp: propose_capital_budget_def split: if_split_asm sum.splits prod.splits)
  note i = revalidate_inputs_Inr [OF r(1)]
  obtain baseline k n d1 d2 where p: "dval baseline = float_d (ll_max_account_equity_usd (bi_limits i))" "0 < dval baseline"
    "check_fractions (bi_limits i) (bi_policy i) = Inr ()"
    "budget_caps_of (bi_limits i) (bi_policy i) (min equity (dval baseline)) = Inr k"
    "proposed_limits (bi_policy i) k (dval baseline)
       (max (Max (set (map (dval \<circ> vm_min_notional_usd) (bi_minimums i)))) (float_d (ll_min_notional_usd (bi_limits i)))) = Inr n"
    "b = proposal_of core i equity baseline k n d1 d2"
    by (rule propose_checkedE [OF r(4)])
  let ?basis = "min equity (dval baseline)"
  have basis: "0 < ?basis" using i p(2) by simp
  have caps: "caps_within (bi_limits i) (bi_policy i) ?basis k"
    using budget_caps_of_Inr [OF p(4)] basis i by simp
  have n: "limits_tightened (bi_limits i) (bi_policy i) ?basis n"
    "max (Max (set (map (dval \<circ> vm_min_notional_usd) (bi_minimums i)))) (float_d (ll_min_notional_usd (bi_limits i)))
       \<le> float_d (ll_min_notional_usd n)"
    using proposed_limits_tightened [OF p(5) caps _ p(3,2,1)] i by simp_all
  have least: "dval (vm_min_notional_usd m) \<le> float_d (ll_min_notional_usd n)" if "m \<in> set (bi_minimums i)" for m
  proof -
    have "dval (vm_min_notional_usd m) \<le> Max (set (map (dval \<circ> vm_min_notional_usd) (bi_minimums i)))"
      using that by (intro Max_ge) auto
    then show ?thesis using n(2) by simp
  qed
  show ?thesis
    using i n(1) basis least check_bindings_Inr [OF r(2)] check_minimums_Inr [OF r(3)] proposed_limits_Inr [OF p(5)] p(1)
    by (intro exI [of _ "bi_account i"] exI [of _ "bi_scope i"])
      (simp add: p(6) proposal_of_def Let_def MAX_ACCOUNT_AGE_MS_def)
qed

end
