(* ===== verification/Live_Case.thy ===== *)
theory Live_Case
  imports Capital_Budget
begin

text \<open>
  A LIVE candidate that is approved, one that raises, and a capital-budget proposal: the theorems of
  \<open>Live\<close> and \<open>Capital_Budget\<close> applied to them.
\<close>

section \<open>A concrete LIVE case\<close>

definition zeros :: string where "zeros = replicate 64 (CHR ''0'')"

definition flat_core :: live_core where
  "flat_core = \<lparr>lc_digest = (\<lambda>_. zeros), lc_review = Inr, lc_venue = Inr, lc_account = Inr, lc_decision = naming_seal\<rparr>"

definition prod_scope :: live_scope where
  "prod_scope =
     \<lparr>ls_context_sha256 = zeros, ls_source_set_sha256 = zeros, ls_policy_sha256 = zeros, ls_risk_limits_sha256 = zeros,
      ls_account_id = ''acc'', ls_strategy_id = ''alpha'', ls_strategy_revision = ''1'',
      ls_symbols = [(''BTCUSDT'', ''BTCUSD'')]\<rparr>"

definition small_limits :: live_limits where
  "small_limits =
     \<lparr>ll_per_trade_risk_fraction = Fin (1 / 512), ll_aggregate_open_risk_fraction = Fin (1 / 128), ll_max_leverage = Fin 1,
      ll_per_trade_dollar_cap_usd = Fin 10, ll_aggregate_dollar_cap_usd = Fin 1000, ll_daily_loss_cap_usd = Fin 100,
      ll_max_account_equity_usd = Fin 100000, ll_max_position_notional_usd = Fin 500, ll_min_notional_usd = Fin 5\<rparr>"

definition prod_account :: verified_account where
  "prod_account =
     \<lparr>va_source_id = ''venue'', va_scope_sha256 = zeros, va_evidence_sha256 = zeros, va_as_of_ms = 2000,
      va_account = (clean_account 7 2000)\<lparr>a2_trading_mode := LIVE, a2_evedex_profile := evedex_profile.PROD\<rparr>,
      va_aggregate_open_risk_usd = Fin 0, va_aggregate_open_notional_usd = Fin 0, va_reserved_open_risk_usd = Fin 0,
      va_reserved_open_notional_usd = Fin 0, va_strategy_open_notional_usd = Fin 0,
      va_strategy_reserved_notional_usd = Fin 0, va_daily_adverse_loss_usd = Fin 0\<rparr>"

definition prod_rules :: verified_rules where
  "prod_rules =
     \<lparr>vi_source_id = ''venue'', vi_scope_sha256 = zeros, vi_evidence_sha256 = zeros, vi_venue_symbol = ''BTCUSD'',
      vi_profile = evedex_profile.PROD, vi_observed_at_ms = 2000, vi_rules_updated_at_ms = None,
      vi_price_increment = 1 / 10, vi_quantity_increment = 1 / 100, vi_min_price = 1, vi_max_price = 1000,
      vi_min_quantity = 1 / 100, vi_max_quantity = 50, vi_min_notional_usd = 5, vi_max_notional_usd = None,
      vi_lot_size = 1, vi_multiplier = 1\<rparr>"

definition prod_inputs :: verified_inputs where
  "prod_inputs =
     \<lparr>vn_source_id = ''venue'', vn_scope_sha256 = zeros, vn_evidence_sha256 = zeros, vn_review_sha256 = zeros,
      vn_venue_sha256 = zeros, vn_allocation_sha256 = Some zeros, vn_system_mode = NORMAL, vn_observed_at_ms = 2500,
      vn_instrument_rules = Some prod_rules\<rparr>"

definition prod_venue :: venue_quality where
  "prod_venue = btc_venue\<lparr>vq_symbol := ''BTCUSD'', vq_profile := evedex_profile.PROD\<rparr>"

definition prod_evaluator :: "unit live_evaluator" where
  "prod_evaluator =
     \<lparr>lx_scope = prod_scope, lx_limits = small_limits, lx_account_verifiers = [(''venue'', \<lambda>_ _ _. Inr prod_account)],
      lx_input_verifier = Some (\<lambda>_. Inr prod_inputs), lx_require_rules = True\<rparr>"

definition prod_evaluation :: "venue_quality \<Rightarrow> live_evaluation res" where
  "prod_evaluation venue =
     evaluate_live flat_core prod_evaluator () (Some ()) ''venue'' (alpha_review ''i1'') venue (Some alpha_allocation) 3000 NORMAL"

lemma flat_core_keeps: "live_seal_keeps flat_core"
  by (auto simp: live_seal_keeps_def flat_core_def naming_seal_def)

lemma prod_evaluation_approved:
  "case prod_evaluation prod_venue of
     Inr ev \<Rightarrow> rd_approved (le_decision ev) \<and> rd_quantity (le_decision ev) = Fin (5 / 2) | Inl _ \<Rightarrow> False"
  by code_simp

lemma prod_evaluationE:
  obtains ev where "prod_evaluation prod_venue = Inr ev" "rd_approved (le_decision ev)" "rd_quantity (le_decision ev) = Fin (5 / 2)"
  using prod_evaluation_approved by (auto split: sum.splits)


theorem approved_live_trade_within_limits_witness:
  "\<exists>ev v. prod_evaluation prod_venue = Inr ev \<and> rd_quantity (le_decision ev) = Fin (5 / 2) \<and>
     live_risk_within small_limits v (le_decision ev)"
proof -
  obtain ev where ev: "prod_evaluation prod_venue = Inr ev" "rd_approved (le_decision ev)"
    "rd_quantity (le_decision ev) = Fin (5 / 2)" by (rule prod_evaluationE)
  have l: "lx_limits prod_evaluator = small_limits" by (simp add: prod_evaluator_def)
  show ?thesis
    using approved_live_trade_within_limits [OF flat_core_keeps ev(1) [unfolded prod_evaluation_def] ev(2)] ev(1,3)
    unfolding Let_def l by blast
qed



section \<open>A proposal\<close>

definition btc_minimum :: venue_minimum where
  "btc_minimum =
     \<lparr>vm_venue_symbol = ''BTCUSD'', vm_source_id = ''venue'', vm_observed_at_ms = 2500, vm_evidence_sha256 = zeros,
      vm_min_notional_usd = Decimal 8 0\<rparr>"

definition budget_case :: budget_inputs where
  "budget_case =
     \<lparr>bi_account = prod_account, bi_scope = prod_scope, bi_limits = small_limits,
      bi_policy = \<lparr>bp_per_trade_risk_fraction = Decimal 1 (-3), bp_aggregate_open_risk_fraction = Decimal 5 (-3),
        bp_daily_loss_fraction = Decimal 1 (-2)\<rparr>, bi_minimums = [btc_minimum]\<rparr>"

lemma budget_case_proposed:
  "case propose_capital_budget flat_core budget_case 3000 of
     Inr b \<Rightarrow> ll_min_notional_usd (bb_proposed_limits b) = Fin 8 | Inl _ \<Rightarrow> False"
  by code_simp

theorem capital_proposal_only_tightens_witness:
  "\<exists>b. propose_capital_budget flat_core budget_case 3000 = Inr b \<and>
     ll_min_notional_usd (bb_proposed_limits b) = Fin 8 \<and>
     bb_capital_basis_usd b \<le> float_d (ll_max_account_equity_usd small_limits) \<and> \<not> bb_authority b"
proof -
  obtain b where b: "propose_capital_budget flat_core budget_case 3000 = Inr b"
    "ll_min_notional_usd (bb_proposed_limits b) = Fin 8"
    using budget_case_proposed by (auto split: sum.splits)
  moreover have "bi_limits budget_case = small_limits" by (simp add: budget_case_def)
  ultimately show ?thesis using capital_proposal_only_tightens [OF b(1)] by auto
qed

end
