(* ===== verification/Spec2Isabelle.thy ===== *)
theory Spec2Isabelle
  imports Service Paper_Ledger Paper_Service Simulation Canary_Runner Paper_Recovery Live_Case
begin

text \<open>
  Verification library of the Kairos risk manager (\<open>src/kairos_risk\<close>): the process that stands
  between the trading strategies and the executor and lets an order through only inside its limits.

  \<^bold>\<open>The program.\<close> One \<open>RiskService\<close> (\<open>service.py\<close>) runs a set of consume loops over a message bus.
  The legacy route turns a tactical command into a risk-adjusted order: the account and the strategic
  allocation arrive as versioned messages, health events move the circuit breakers of the language
  models and so the system mode, and \<open>RiskPipeline\<close> (\<open>pipeline.py\<close>) refuses, sizes or flattens. The
  PAPER route decides reviewed candidates: \<open>PaperRiskCoordinator\<close> (\<open>paper_runtime.py\<close>) keeps the
  latest account, venue and regime messages, the reservations of earlier approvals and a decision
  cache; \<open>PaperRiskPipeline\<close> (\<open>paper.py\<close>) decides one candidate; the service adds the operator's
  authority (\<open>operator_control.py\<close>) and, for a manually armed technical canary, the consumption of
  its single-use arm (\<open>canary_authorization.py\<close>). Commands outside the service prepare and arm that
  canary (\<open>canary.py\<close>, \<open>canary_runner.py\<close>, \<open>canary_instrument.py\<close>). Two evaluators stand alone: the
  opt-in LIVE evaluator (\<open>live.py\<close>, proposals of its budget in \<open>capital_budget_proposal.py\<close>) and the
  admission policy of the market simulator (\<open>simulation.py\<close>).

  \<^bold>\<open>Shared ground.\<close> \<open>Rounding\<close> has correct rounding of rationals to a floating format, as a locale
  interpreted for Python's \<open>float\<close> (binary64) and for \<open>decimal\<close> with 28 digits. \<open>Prelude\<close> has
  exceptions as values (\<open>pyerr\<close>, \<open>'a res\<close>), \<open>pyfloat\<close> with its infinities and NaN, and list and text
  helpers. \<open>Contracts\<close> has the messages of \<open>kairos_core\<close> as records, a field per field the program
  reads or writes. \<open>Decimals\<close> has decimals with coefficient and exponent where the code looks at them.
  \<open>Timestamps\<close> has the exactness of a time stamp's milliseconds. \<open>Versioned\<close> is the locale of a view
  that only a newer version can install; the account and the allocation of the legacy service and
  the account and each venue measurement of the coordinator are its interpretations.

  \<^bold>\<open>Legacy route.\<close> \<open>Account\<close>: \<open>account.py\<close>, the derived view and the drawdown. \<open>Config\<close>:
  \<open>config.py\<close>, every validator, the strategy allowlist and the regime policy. \<open>Sizing\<close>:
  \<open>validators.py\<close>, \<open>sizing.py\<close>, \<open>strategy.py\<close>. \<open>Pipeline\<close>: \<open>pipeline.py\<close> and the policy matrix of
  \<open>evaluation.py\<close>. \<open>Circuit_Breaker\<close> and \<open>Health\<close>: \<open>circuit_breaker.py\<close> and the health handler.
  \<open>Service\<close>: the account, allocation and command handlers with their loops and \<open>service_reachable\<close>.
  Shown: an approved entry passed every gate and is inside every limit up to one rounding step, rests
  on fresh views, and a revoked view or a tripped model comes back only by a newer message or an
  attributed success, over every sequence of events.

  \<^bold>\<open>PAPER route.\<close> \<open>Paper\<close>: \<open>paper.py\<close>, gates in the code's order, sizing, economics, the decision
  and the reservation view. \<open>Paper_Runtime\<close>: every method of the coordinator, with its step relation
  \<open>paper_reachable\<close>. \<open>Paper_Ledger\<close>: what a run keeps, that is one reservation per instrument, replay,
  release by reconciliation, newer versions, waiting. \<open>Operator_Control\<close>, \<open>Canary_Authorization\<close>:
  authority. \<open>Paper_Service\<close>: the review handler with its retries, the consume loops, recovery and
  \<open>paper_service_reachable\<close>; it refines the coordinator, so the ledger's invariants hold in the
  service, and a published approval is authorized. \<open>Paper_Recovery\<close>: recovery with its query over the
  audit log; a restart reserves every open approval again.

  \<^bold>\<open>Canary.\<close> \<open>Canary_Instrument\<close>: the venue's rule and its minimum, bound to the intent's metadata.
  \<open>Canary\<close>: plan, preflight, intent, review, allocation, session and command. \<open>Canary_Source\<close>: the
  durable facts selected from the audit log. \<open>Canary_Runner\<close>: the bounded session controller. Shown:
  what is prepared passes the check made at consumption, a session arms at most once, on the newest
  and fresh facts, for the next free slot.

  \<^bold>\<open>LIVE and simulation.\<close> \<open>Live\<close>, \<open>Live_Case\<close>, \<open>Capital_Budget\<close>, \<open>Simulation\<close>. Shown: an approval
  rests on verified evidence, its exact worst loss and notional are within every limit although the
  decision carries floats, the complete lists of what may raise, and that a budget proposal only
  tightens.

  \<^bold>\<open>Conventions.\<close> A function that may raise returns \<open>pyerr + 'a\<close>; error texts are shortened. An
  operation on state returns the new state. Methods that hold the coordinator's lock are atomic
  steps; what other tasks do while one awaits is a list of events, so a theorem over all lists covers
  every interleaving. Calls to repositories and the bus are outcomes the model is given and calls it
  records. Loops that wait (\<open>wait_for_inputs\<close>, the review handler) run over the list of rounds or
  passes they see and return \<open>None\<close> when the list ends first, so a theorem that they return says for
  which rounds; the correction loop of LIVE sizing is bounded by three passes in the code. Shortest
  float digits are searched from 1 to 17, which is enough for binary64. Integers are Python's, except
  that turning text of more than 4300 digits into one raises.

  \<^bold>\<open>Parameters and hypotheses.\<close> \<open>kairos_core\<close>'s validators, digests and the databases are arguments.
  \<open>seal_keeps\<close>, \<open>live_seal_keeps\<close> and \<open>lawful_core\<close> say that a contract's constructor keeps the fields
  it is given and fills in the identities; each is met by the concrete cases the witnesses run.

  \<^bold>\<open>Not modelled.\<close> Logging, command line parsing and printing (\<open>main\<close>, \<open>_parser\<close>), the HTTP transport
  of the instrument rule (its outcome is an argument), the database server (the queries of the canary
  and of recovery are definitions over a list of rows), the package's re-exports, and \<open>Protocol\<close> classes, which have no
  behaviour.
\<close>

end
